(* ===== verification/GoPrelude.thy ===== *)
theory GoPrelude
  imports Main "HOL-Library.Word" "HOL-Library.AList" "HOL-Library.Code_Target_Numeral"
begin

text \<open>
  Shared vocabulary of the development: Go's machine integers, errors as values, Go maps, and the
  combinator that every \<open>withDefaults\<close> method of the API types repeats.

  A Go map is an association list with distinct keys. The list order stands for the order in which
  one \<open>range\<close> loop visits the map (Go leaves it unspecified); all the other operations read the list
  through \<^const>\<open>map_of\<close>. A map that may be \<open>nil\<close> is an \<open>option\<close>.

  The collection \<open>go_simps\<close> gathers the unfolding rules of small accessors, \<open>frame\<close> the facts
  that an operation leaves a field alone.
\<close>

named_theorems go_simps \<open>unfolding rules for small accessors of the model\<close>
named_theorems frame \<open>an operation leaves this part of the state unchanged\<close>

type_synonym int32 = "32 word"
type_synonym int64 = "64 word"

text \<open>
  Errors. \<open>NotFound\<close> is the API error \<open>errors.IsNotFound\<close> recognises, \<open>GoErr\<close> any other error
  value with its text. \<open>GoPanic\<close> is not an error value of the source: it marks the points at which
  the source would panic (nil dereference, write to a nil map).
\<close>

datatype go_error = NotFound | GoErr string | GoPanic string

definition IsNotFound :: "go_error \<Rightarrow> bool" where
  "IsNotFound e \<longleftrightarrow> e = NotFound"

definition err_text :: "go_error \<Rightarrow> string" where
  "err_text e = (case e of NotFound \<Rightarrow> ''not found'' | GoErr s \<Rightarrow> s | GoPanic s \<Rightarrow> s)"

lemma IsNotFound_simps [simp]:
  "IsNotFound NotFound" "\<not> IsNotFound (GoErr s)" "\<not> IsNotFound (GoPanic s)"
  by (simp_all add: IsNotFound_def)

section \<open>Go maps\<close>

type_synonym go_map = "(string \<times> string) list"

definition gm_get :: "go_map option \<Rightarrow> string \<Rightarrow> string option" where
  "gm_get m k = (case m of None \<Rightarrow> None | Some l \<Rightarrow> map_of l k)"

definition gm_range :: "go_map option \<Rightarrow> go_map" where
  "gm_range m = (case m of None \<Rightarrow> [] | Some l \<Rightarrow> l)"

text \<open>\<open>m[k] = v\<close> on a map that is not nil.\<close>

definition gm_put :: "string \<Rightarrow> string \<Rightarrow> go_map \<Rightarrow> go_map" where
  "gm_put k v l = AList.update k v l"

definition gm_wf :: "go_map option \<Rightarrow> bool" where
  "gm_wf m \<longleftrightarrow> distinct (map fst (gm_range m))"

lemma gm_get_simps [simp]: "gm_get None k = None" "gm_get (Some l) k = map_of l k"
  by (simp_all add: gm_get_def)

lemma gm_range_simps [simp]: "gm_range None = []" "gm_range (Some l) = l"
  by (simp_all add: gm_range_def)

lemma map_of_gm_range [simp]: "map_of (gm_range m) = gm_get m"
  by (cases m) (simp_all add: fun_eq_iff)

lemma map_of_gm_put [simp]: "map_of (gm_put k v l) = (map_of l)(k \<mapsto> v)"
  by (simp add: gm_put_def update_conv')

lemma distinct_gm_put [simp]: "distinct (map fst l) \<Longrightarrow> distinct (map fst (gm_put k v l))"
  by (simp add: gm_put_def distinct_update)

lemma gm_put_same: "map_of l k = Some v \<Longrightarrow> distinct (map fst l) \<Longrightarrow> gm_put k v l = l"
proof (induction l)
  case (Cons a l)
  then show ?case
    by (cases a) (auto simp: gm_put_def split: if_splits)
qed (simp add: gm_put_def)

lemma gm_put_nonempty [simp]: "gm_put k v l \<noteq> []"
  by (cases l) (auto simp: gm_put_def)

text \<open>
  The loop \<open>for k, v := range m { res[k] = v }\<close> that copies one map over another. On maps with
  distinct keys its result does not depend on the order of the iteration.
\<close>

fun gm_overlay :: "go_map \<Rightarrow> go_map \<Rightarrow> go_map" where
  "gm_overlay res [] = res"
| "gm_overlay res ((k, v) # m) = gm_overlay (gm_put k v res) m"

lemma map_of_gm_overlay:
  "distinct (map fst m) \<Longrightarrow> map_of (gm_overlay res m) = map_of res ++ map_of m"
proof (induction res m rule: gm_overlay.induct)
  case (2 res k v m)
  then have "map_of m k = None" by (simp add: map_of_eq_None_iff)
  with 2 show ?case by (auto simp: fun_eq_iff map_add_def split: option.splits)
qed simp

lemma distinct_gm_overlay [simp]:
  "distinct (map fst res) \<Longrightarrow> distinct (map fst (gm_overlay res m))"
  by (induction res m rule: gm_overlay.induct) auto

section \<open>Defaulting a field\<close>

text \<open>
  \<open>if empty(x.f) { x.f = v; changed = true }\<close>, the statement every \<open>withDefaults\<close> method repeats.
  The state is the object with the flag \<open>changed\<close>; \<open>v\<close> may read the object.
\<close>

definition set_default ::
  "('b \<Rightarrow> bool) \<Rightarrow> ('a \<Rightarrow> 'b) \<Rightarrow> (('b \<Rightarrow> 'b) \<Rightarrow> 'a \<Rightarrow> 'a) \<Rightarrow> ('a \<Rightarrow> 'b) \<Rightarrow> 'a \<times> bool \<Rightarrow> 'a \<times> bool" where
  "set_default is_zero get upd v p =
     (if is_zero (get (fst p)) then (upd (\<lambda>_. v (fst p)) (fst p), True) else p)"

lemma set_default_snd:
  "snd (set_default z g u v p) \<longleftrightarrow> z (g (fst p)) \<or> snd p"
  by (simp add: set_default_def)

lemma set_default_this:
  "(\<And>f x. g (u f x) = f (g x)) \<Longrightarrow>
     g (fst (set_default z g u v p)) = (if z (g (fst p)) then v (fst p) else g (fst p))"
  by (simp add: set_default_def)

lemma set_default_other:
  "(\<And>f x. sel (u f x) = sel x) \<Longrightarrow> sel (fst (set_default z g u v p)) = sel (fst p)"
  by (simp add: set_default_def)

lemma set_default_unchanged:
  "\<not> snd (set_default z g u v p) \<Longrightarrow> set_default z g u v p = p \<and> \<not> snd p"
  by (auto simp: set_default_def split: if_splits)

lemma set_default_keep: "\<not> z (g (fst p)) \<Longrightarrow> set_default z g u v p = p"
  by (simp add: set_default_def)

text \<open>
  What a \<open>withDefaults\<close> method promises: a second call neither reports nor makes a change. The
  extension adds that a call that reports no change made none.
\<close>

locale defaulter =
  fixes wd :: "'a \<Rightarrow> 'a \<times> bool" and ok :: "'a \<Rightarrow> bool"
  assumes settled: "ok x \<Longrightarrow> wd (fst (wd x)) = (fst (wd x), False)"
begin

lemma stable_twice: "ok x \<Longrightarrow> fst (wd (fst (wd x))) = fst (wd x)"
  by (simp add: settled)

lemma quiet_after: "ok x \<Longrightarrow> \<not> snd (wd (fst (wd x)))"
  by (simp add: settled)

lemma iterate:
  assumes "ok x" and "0 < n"
  shows "((fst \<circ> wd) ^^ n) x = fst (wd x)"
  using assms(2)
proof (induction n)
  case (Suc n)
  then show ?case
    by (cases "n = 0") (simp_all add: stable_twice [OF assms(1)])
qed simp

end

locale exact_defaulter = defaulter +
  assumes exact: "\<not> snd (wd x) \<Longrightarrow> fst (wd x) = x"
begin

lemma changed_if_different: "fst (wd x) \<noteq> x \<Longrightarrow> snd (wd x)"
  using exact by blast

lemma fixpoint_iff: "ok x \<Longrightarrow> \<not> snd (wd x) \<longleftrightarrow> wd x = (x, False)"
  by (metis exact prod.collapse snd_conv)

end

section \<open>Stores keyed by a part of their entries\<close>

text \<open>
  The contract of a collection whose entries carry their own key: a \<open>put\<close> replaces or adds the
  entry of one key, merging it with the old one, and leaves every other key alone.
\<close>

locale keyed_store =
  fixes lookup :: "'s \<Rightarrow> 'k \<Rightarrow> 'v option"
    and put :: "'v \<Rightarrow> 's \<Rightarrow> 's"
    and key :: "'v \<Rightarrow> 'k"
    and merge :: "'v option \<Rightarrow> 'v \<Rightarrow> 'v"
    and invar :: "'s \<Rightarrow> bool"
  assumes lookup_put: "lookup (put v s) k = (if k = key v then Some (merge (lookup s k) v) else lookup s k)"
    and invar_put: "invar s \<Longrightarrow> invar (put v s)"
begin

lemma lookup_put_same: "lookup (put v s) (key v) = Some (merge (lookup s (key v)) v)"
  by (simp add: lookup_put)

lemma lookup_put_other: "k \<noteq> key v \<Longrightarrow> lookup (put v s) k = lookup s k"
  by (simp add: lookup_put)

lemma abs_put: "lookup (put v s) = (lookup s)(key v \<mapsto> merge (lookup s (key v)) v)"
  by (rule ext) (simp add: lookup_put)

lemma put_commute:
  "key v \<noteq> key u \<Longrightarrow> lookup (put v (put u s)) = lookup (put u (put v s))"
  by (rule ext) (simp add: lookup_put)

lemma dom_put: "dom (lookup (put v s)) = insert (key v) (dom (lookup s))"
  by (simp add: abs_put)

lemma dom_fold_put: "dom (lookup (fold put vs s)) = key ` set vs \<union> dom (lookup s)"
  by (induction vs arbitrary: s) (auto simp: dom_put)

lemma invar_fold_put: "invar s \<Longrightarrow> invar (fold put vs s)"
  by (induction vs arbitrary: s) (auto simp: invar_put)

end

end
