(* ===== verification/GoStrings.thy ===== *)
theory GoStrings
  imports GoPrelude
begin

text \<open>
  The parts of Go's \<open>strconv\<close> and \<open>strings\<close> packages the operator uses: \<open>Itoa\<close>, \<open>Atoi\<close>,
  \<open>FormatBool\<close>, \<open>Split\<close>, \<open>HasSuffix\<close>, \<open>TrimSpace\<close>, \<open>EqualFold\<close> and \<open>LastIndexAny\<close>. Strings are
  byte lists. \<open>TrimSpace\<close> and \<open>EqualFold\<close> are the ASCII parts of the Go functions, which is exact
  for the ASCII arguments the operator gives them (DNS names, namespaces, \<open>"ephemeral"\<close>).
\<close>

definition nl :: string where
  "nl = [CHR 0x0A]"

section \<open>Decimal digits\<close>

definition digit_char :: "nat \<Rightarrow> char" where
  "digit_char d = char_of (48 + d)"

definition is_digit :: "char \<Rightarrow> bool" where
  "is_digit c \<longleftrightarrow> 48 \<le> (of_char c :: nat) \<and> (of_char c :: nat) \<le> 57"

definition digit_val :: "char \<Rightarrow> nat" where
  "digit_val c = of_char c - 48"

lemma digit_char_props [simp]:
  assumes "d < 10"
  shows "is_digit (digit_char d)" "digit_val (digit_char d) = d"
  using assms by (simp_all add: is_digit_def digit_val_def digit_char_def of_char_of)

lemma digit_char_neq [simp]:
  assumes "d < 10" and "\<not> is_digit c"
  shows "digit_char d \<noteq> c"
  using assms by auto

fun utoa :: "nat \<Rightarrow> string" where
  "utoa n = (if n < 10 then [digit_char n] else utoa (n div 10) @ [digit_char (n mod 10)])"

declare utoa.simps [simp del]

lemma utoa_digits: "\<forall>c \<in> set (utoa n). is_digit c"
proof (induction n rule: utoa.induct)
  case (1 n)
  then show ?case by (subst utoa.simps) (auto split: if_splits)
qed

lemma utoa_nonempty [simp]: "utoa n \<noteq> []"
  by (subst utoa.simps) simp

text \<open>\<open>strconv.Itoa\<close> (and \<open>fmt\<close>'s \<open>%d\<close> and \<open>fmt.Sprint\<close> of an integer).\<close>

definition Itoa :: "int \<Rightarrow> string" where
  "Itoa i = (if i < 0 then CHR ''-'' # utoa (nat (- i)) else utoa (nat i))"

definition FormatBool :: "bool \<Rightarrow> string" where
  "FormatBool b = (if b then ''true'' else ''false'')"

section \<open>Atoi\<close>

text \<open>
  \<open>strconv.ParseUint(s, 10, 64)\<close> scans from the left and stops at the first character that is not
  a digit or at the first digit that makes the value exceed 64 bits, whichever comes first.
\<close>

datatype num_result = NumOk nat | NumSyntax | NumRange

fun parse_uint :: "nat \<Rightarrow> string \<Rightarrow> num_result" where
  "parse_uint n [] = NumOk n"
| "parse_uint n (c # cs) =
     (if \<not> is_digit c then NumSyntax
      else if 2 ^ 64 \<le> n * 10 + digit_val c then NumRange
      else parse_uint (n * 10 + digit_val c) cs)"

definition strip_sign :: "string \<Rightarrow> bool \<times> string" where
  "strip_sign s = (case s of [] \<Rightarrow> (False, [])
     | c # cs \<Rightarrow> if c = CHR ''-'' then (True, cs) else if c = CHR ''+'' then (False, cs) else (False, s))"

text \<open>
  The value \<open>Atoi\<close> returns beside its error: 0 for a syntax error, the nearest bound for a value
  out of range. \<open>int\<close> is 64 bits wide.
\<close>

definition Atoi :: "string \<Rightarrow> int \<times> go_error option" where
  "Atoi s =
     (let syn = (0, Some (GoErr ''invalid syntax''));
          (neg, ds) = strip_sign s;
          top = (if neg then - (2 ^ 63) else 2 ^ 63 - 1 :: int);
          rng = (top, Some (GoErr ''value out of range''))
      in if ds = [] then syn
         else case parse_uint 0 ds of
             NumSyntax \<Rightarrow> syn
           | NumRange \<Rightarrow> rng
           | NumOk n \<Rightarrow>
               if \<not> neg \<and> 2 ^ 63 \<le> n \<or> neg \<and> 2 ^ 63 < n then rng
               else (if neg then - int n else int n, None))"

fun dec_value :: "nat \<Rightarrow> string \<Rightarrow> nat" where
  "dec_value n [] = n"
| "dec_value n (c # cs) = dec_value (n * 10 + digit_val c) cs"

lemma dec_value_ge: "n \<le> dec_value n cs"
proof (induction n cs rule: dec_value.induct)
  case (2 n c cs)
  have "n \<le> n * 10 + digit_val c" by simp
  with 2 show ?case by (metis dec_value.simps(2) order_trans)
qed simp

lemma dec_value_snoc: "dec_value n (cs @ [c]) = dec_value n cs * 10 + digit_val c"
  by (induction n cs rule: dec_value.induct) auto

lemma dec_value_utoa: "dec_value 0 (utoa n) = n"
proof (induction n rule: utoa.induct)
  case (1 n)
  then show ?case by (subst utoa.simps) (simp add: dec_value_snoc)
qed

lemma parse_uint_ok:
  "\<forall>c \<in> set cs. is_digit c \<Longrightarrow> dec_value n cs < 2 ^ 64 \<Longrightarrow> parse_uint n cs = NumOk (dec_value n cs)"
proof (induction n cs rule: parse_uint.induct)
  case (2 n c cs)
  have "n * 10 + digit_val c \<le> dec_value n (c # cs)"
    using dec_value_ge [of "n * 10 + digit_val c" cs] by simp
  with 2 show ?case by simp
qed simp

lemma parse_uint_utoa: "n < 2 ^ 64 \<Longrightarrow> parse_uint 0 (utoa n) = NumOk n"
  using parse_uint_ok [of "utoa n" 0] utoa_digits [of n] by (simp add: dec_value_utoa)

lemma strip_sign_digit:
  assumes "\<forall>c \<in> set s. is_digit c"
  shows "strip_sign s = (False, s)"
proof (cases s)
  case (Cons c cs)
  with assms have "c \<noteq> CHR ''-''" "c \<noteq> CHR ''+''" by (auto simp: is_digit_def)
  with Cons show ?thesis by (simp add: strip_sign_def)
qed (simp add: strip_sign_def)

lemma Atoi_Itoa:
  assumes "- (2 ^ 63) \<le> i" and "i < 2 ^ 63"
  shows "Atoi (Itoa i) = (i, None)"
proof (cases "i < 0")
  case True
  have "strip_sign (Itoa i) = (True, utoa (nat (- i)))"
    using True by (simp add: Itoa_def strip_sign_def)
  moreover have "parse_uint 0 (utoa (nat (- i))) = NumOk (nat (- i))"
    using assms True by (intro parse_uint_utoa) auto
  moreover have "nat (- i) \<le> 2 ^ 63" using assms by auto
  ultimately show ?thesis using True by (simp add: Atoi_def)
next
  case False
  then have "strip_sign (Itoa i) = (False, utoa (nat i))"
    by (simp add: Itoa_def strip_sign_digit utoa_digits)
  moreover have "parse_uint 0 (utoa (nat i)) = NumOk (nat i)"
    using assms by (intro parse_uint_utoa) auto
  moreover have "nat i < 2 ^ 63" using assms by (auto simp: nat_less_iff)
  ultimately show ?thesis using False by (simp add: Atoi_def)
qed

text \<open>\<open>Atoi\<close> only ever returns values of its 64-bit type.\<close>

lemma Atoi_bounds: "- (2 ^ 63) \<le> fst (Atoi s) \<and> fst (Atoi s) < 2 ^ 63"
  by (auto simp: Atoi_def Let_def split: prod.splits num_result.splits)

lemma Atoi_empty [simp]: "Atoi [] = (0, Some (GoErr ''invalid syntax''))"
  by (simp add: Atoi_def strip_sign_def)

lemma Itoa_nonempty [simp]: "Itoa i \<noteq> []"
  by (simp add: Itoa_def)

lemma Itoa_inj: "- (2 ^ 63) \<le> i \<Longrightarrow> i < 2 ^ 63 \<Longrightarrow> - (2 ^ 63) \<le> j \<Longrightarrow> j < 2 ^ 63
    \<Longrightarrow> Itoa i = Itoa j \<longleftrightarrow> i = j"
  by (metis Atoi_Itoa fst_conv)

lemma Itoa_chars: "c \<in> set (Itoa i) \<Longrightarrow> is_digit c \<or> c = CHR ''-''"
  using utoa_digits by (auto simp: Itoa_def split: if_splits)

section \<open>strings\<close>

definition HasSuffix :: "string \<Rightarrow> string \<Rightarrow> bool" where
  "HasSuffix s suf \<longleftrightarrow> length suf \<le> length s \<and> drop (length s - length suf) s = suf"

definition is_space :: "char \<Rightarrow> bool" where
  "is_space c \<longleftrightarrow> c = CHR 0x20 \<or> (9 \<le> (of_char c :: nat) \<and> (of_char c :: nat) \<le> 13)"

definition TrimSpace :: "string \<Rightarrow> string" where
  "TrimSpace s = rev (dropWhile is_space (rev (dropWhile is_space s)))"

definition lower :: "char \<Rightarrow> char" where
  "lower c = (if 65 \<le> (of_char c :: nat) \<and> (of_char c :: nat) \<le> 90 then char_of (of_char c + 32 :: nat) else c)"

definition EqualFold :: "string \<Rightarrow> string \<Rightarrow> bool" where
  "EqualFold s t \<longleftrightarrow> map lower s = map lower t"

text \<open>\<open>strings.Split\<close> on a one-character separator: never empty, \<open>[""]\<close> for the empty string.\<close>

fun split_at :: "char \<Rightarrow> string \<Rightarrow> string list" where
  "split_at sep [] = [[]]"
| "split_at sep (c # cs) =
     (if c = sep then [] # split_at sep cs
      else case split_at sep cs of [] \<Rightarrow> [[c]] | w # ws \<Rightarrow> (c # w) # ws)"

fun join_with :: "char \<Rightarrow> string list \<Rightarrow> string" where
  "join_with sep [] = []"
| "join_with sep [w] = w"
| "join_with sep (w # ws) = w @ sep # join_with sep ws"

lemma split_at_nonempty [simp]: "split_at sep s \<noteq> []"
  by (cases s) (auto split: list.splits)

lemma split_at_word: "sep \<notin> set w \<Longrightarrow> split_at sep w = [w]"
  by (induction w) auto

lemma split_at_append: "sep \<notin> set w \<Longrightarrow> split_at sep (w @ sep # s) = w # split_at sep s"
  by (induction w) auto

lemma split_join:
  "ws \<noteq> [] \<Longrightarrow> \<forall>w \<in> set ws. sep \<notin> set w \<Longrightarrow> split_at sep (join_with sep ws) = ws"
  by (induction sep ws rule: join_with.induct) (auto simp: split_at_word split_at_append)

lemma join_split: "join_with sep (split_at sep s) = s"
proof (induction s)
  case (Cons c s)
  show ?case
  proof (cases "split_at sep s")
    case (Cons w ws)
    with \<open>join_with sep (split_at sep s) = s\<close> show ?thesis
      by (cases ws) auto
  qed simp
qed simp

lemma split_at_words: "w \<in> set (split_at sep s) \<Longrightarrow> sep \<notin> set w"
  by (induction s arbitrary: w) (auto split: list.splits if_splits)

text \<open>\<open>strings.LastIndexAny(s, "c")\<close> for one character: -1 when it does not occur.\<close>

fun LastIndexAny :: "string \<Rightarrow> char \<Rightarrow> int" where
  "LastIndexAny [] c = -1"
| "LastIndexAny (x # xs) c =
     (let i = LastIndexAny xs c in if i \<noteq> -1 then i + 1 else if x = c then 0 else -1)"

lemma LastIndexAny_ge: "-1 \<le> LastIndexAny s c"
  by (induction s) (auto simp: Let_def)

lemma LastIndexAny_absent: "LastIndexAny s c = -1 \<longleftrightarrow> c \<notin> set s"
proof (induction s)
  case (Cons x s)
  then show ?case using LastIndexAny_ge [of s c] by (auto simp: Let_def)
qed simp

lemma LastIndexAny_last: "c \<notin> set t \<Longrightarrow> LastIndexAny (s @ c # t) c = int (length s)"
proof (induction s)
  case Nil
  then show ?case by (simp add: LastIndexAny_absent)
next
  case (Cons x s)
  then show ?case by (simp add: Let_def)
qed

lemma is_digit_nonchars [simp]:
  "\<not> is_digit (CHR ''-'')" "\<not> is_digit (CHR ''/'')" "\<not> is_digit (CHR 0x0A)" "\<not> is_digit (CHR ''='')"
  "\<not> is_digit (CHR '':'')" "\<not> is_digit (CHR ''T'')" "\<not> is_digit (CHR ''Z'')" "\<not> is_digit (CHR ''.'')"
  by (simp_all add: is_digit_def)

lemma utoa_no_nondigit: "\<not> is_digit c \<Longrightarrow> c \<notin> set (utoa n)"
  using utoa_digits by blast

end
