(* ===== verification/GoTime.thy ===== *)
theory GoTime
  imports GoStrings "HOL-Library.Monad_Syntax"
begin

text \<open>
  The part of Go's \<open>time\<close> package the operator uses: \<open>Format(time.RFC3339)\<close>, \<open>Format(time.RFC850)\<close>,
  \<open>Parse(time.RFC3339, s)\<close>, \<open>Add\<close> and \<open>After\<close>. An instant is a number of nanoseconds since the Unix
  epoch. Formatting is in UTC (the time zone of the operator's container) and for instants from 1970
  on; parsing also accepts a fraction and a numeric zone offset, as Go does.
\<close>

type_synonym instant = int  \<comment> \<open>nanoseconds since 1970-01-01T00:00:00Z\<close>

definition second :: int where "second = 1000000000"
definition minute :: int where "minute = 60 * second"

text \<open>Go's zero \<open>Time\<close>: 0001-01-01T00:00:00Z.\<close>

definition zero_time :: instant where
  "zero_time = - 62135596800 * second"

definition After :: "instant \<Rightarrow> instant \<Rightarrow> bool" where
  "After t u \<longleftrightarrow> u < t"

section \<open>The calendar\<close>

definition leap :: "nat \<Rightarrow> bool" where
  "leap y \<longleftrightarrow> y mod 4 = 0 \<and> (y mod 100 \<noteq> 0 \<or> y mod 400 = 0)"

definition year_days :: "nat \<Rightarrow> nat" where
  "year_days y = (if leap y then 366 else 365)"

definition month_days :: "nat \<Rightarrow> nat list" where
  "month_days y = [31, if leap y then 29 else 28, 31, 30, 31, 30, 31, 31, 30, 31, 30, 31]"

lemma year_days_pos [simp]: "0 < year_days y"
  by (simp add: year_days_def)

lemma sum_month_days: "sum_list (month_days y) = year_days y"
  by (simp add: month_days_def year_days_def)

function year_of :: "nat \<Rightarrow> nat \<Rightarrow> nat \<times> nat" where
  "year_of y d = (if d < year_days y then (y, d) else year_of (Suc y) (d - year_days y))"
  by pat_completeness auto
termination
  by (relation "measure (\<lambda>(y, d). d)") (auto simp: year_days_def split: if_splits)

declare year_of.simps [simp del]

fun month_of :: "nat \<Rightarrow> nat list \<Rightarrow> nat \<Rightarrow> nat \<times> nat" where
  "month_of m [] d = (m, d)"
| "month_of m (l # ls) d = (if d < l then (m, d) else month_of (Suc m) ls (d - l))"

text \<open>Days since the epoch to year, month (from 1) and day (from 1), and back.\<close>

definition civil_of_days :: "nat \<Rightarrow> nat \<times> nat \<times> nat" where
  "civil_of_days d =
     (let (y, r) = year_of 1970 d; (m, q) = month_of 1 (month_days y) r in (y, m, q + 1))"

text \<open>Days from the start of year 0 to the start of year \<open>y\<close>: 365 a year and the leap days.\<close>

definition days_before_year :: "nat \<Rightarrow> nat" where
  "days_before_year y = 365 * y + ((y + 3) div 4 + (y + 399) div 400 - (y + 99) div 100)"

definition days_of_civil :: "nat \<Rightarrow> nat \<Rightarrow> nat \<Rightarrow> int" where
  "days_of_civil y m d =
     int (days_before_year y) - 719528 + int (sum_list (take (m - 1) (month_days y))) + int d - 1"

lemma div_round_up:
  assumes "0 < (k::nat)"
  shows "(y + (k - 1)) div k = y div k + (if y mod k = 0 then 0 else 1)"
proof -
  have "y + (k - 1) = y mod k + (k - 1) + k * (y div k)" by simp
  then have "(y + (k - 1)) div k = (y mod k + (k - 1)) div k + y div k"
    using assms by (metis add.commute div_mult_self2 less_not_refl3)
  moreover have "(y mod k + (k - 1)) div k = (if y mod k = 0 then 0 else 1)"
    using assms mod_less_divisor [OF assms, of y] by (auto simp: div_nat_eqI)
  ultimately show ?thesis by simp
qed

lemma div_round_up_Suc:
  assumes "0 < (k::nat)"
  shows "(Suc y + (k - 1)) div k = (y + (k - 1)) div k + (if y mod k = 0 then 1 else 0)"
proof -
  have "Suc y + (k - 1) = y + k" using assms by simp
  moreover have "(y + k) div k = y div k + 1"
    using assms div_add_self2 [of k y] by simp
  ultimately have "(Suc y + (k - 1)) div k = y div k + 1" by simp
  then show ?thesis by (simp only: div_round_up [OF assms]) simp
qed

lemma days_before_year_Suc: "days_before_year (Suc y) = days_before_year y + year_days y"
proof -
  have le: "(y + 99) div 100 \<le> (y + 3) div 4" by linarith
  have m: "y mod 100 = 0 \<Longrightarrow> y mod 4 = 0" "y mod 400 = 0 \<Longrightarrow> y mod 100 = 0"
    using dvd_trans [of 4 100 y] dvd_trans [of 100 400 y] by (simp_all add: mod_eq_0_iff_dvd)
  have e: "(Suc y + 3) div 4 = (y + 3) div 4 + (if y mod 4 = 0 then 1 else 0)"
    "(Suc y + 99) div 100 = (y + 99) div 100 + (if y mod 100 = 0 then 1 else 0)"
    "(Suc y + 399) div 400 = (y + 399) div 400 + (if y mod 400 = 0 then 1 else 0)"
    using div_round_up_Suc [of 4 y] div_round_up_Suc [of 100 y] div_round_up_Suc [of 400 y] by simp_all
  have shift: "365 * Suc y + (a + (if p then 1 else 0) + (c + (if r then 1 else 0)) - (b + (if q then 1 else 0)))
      = 365 * y + (a + c - b) + (if p \<and> (\<not> q \<or> r) then 366 else 365)"
    if "b \<le> a" "q \<Longrightarrow> p" "r \<Longrightarrow> q" for a b c p q r
    using that by (cases p; cases q; cases r) auto
  show ?thesis
    unfolding days_before_year_def e year_days_def leap_def
    by (rule trans [OF shift [OF le m]]) simp_all
qed

lemma year_of_correct:
  "year_of y d = (y', r) \<Longrightarrow>
     days_before_year y' + r = days_before_year y + d \<and> r < year_days y' \<and> y \<le> y'"
proof (induction y d rule: year_of.induct)
  case (1 y d)
  show ?case
  proof (cases "d < year_days y")
    case True
    with 1(2) show ?thesis by (simp add: year_of.simps [of y d])
  next
    case False
    with 1(2) have "year_of (Suc y) (d - year_days y) = (y', r)"
      by (simp add: year_of.simps [of y d])
    with 1(1) False show ?thesis by (fastforce simp: days_before_year_Suc)
  qed
qed

lemma month_of_correct:
  "month_of m ls d = (m', q) \<Longrightarrow> d < sum_list ls \<Longrightarrow>
     m \<le> m' \<and> m' - m < length ls \<and> q < ls ! (m' - m) \<and> sum_list (take (m' - m) ls) + q = d"
proof (induction m ls d rule: month_of.induct)
  case (2 m l ls d)
  show ?case
  proof (cases "d < l")
    case False
    with 2 have "Suc m \<le> m' \<and> m' - Suc m < length ls \<and> q < ls ! (m' - Suc m) \<and>
        sum_list (take (m' - Suc m) ls) + q = d - l" by auto
    moreover from this have "m' - m = Suc (m' - Suc m)" by arith
    ultimately show ?thesis using False by auto
  qed (use 2 in auto)
qed simp

lemma days_before_1970: "days_before_year 1970 = 719528"
  by (simp add: days_before_year_def)

lemma civil_of_days_correct:
  assumes "civil_of_days n = (y, m, d)"
  shows "days_of_civil y m d = int n" and "1970 \<le> y" and "1 \<le> m" and "m \<le> 12"
    and "1 \<le> d" and "d \<le> month_days y ! (m - 1)"
proof -
  obtain r where yr: "year_of 1970 n = (y, r)" and mq: "month_of 1 (month_days y) r = (m, d - 1)"
    and d: "1 \<le> d"
    using assms by (auto simp: civil_of_days_def split: prod.splits)
  note Y = year_of_correct [OF yr]
  note M = month_of_correct [OF mq]
  show "1970 \<le> y" using Y by simp
  have M': "1 \<le> m \<and> m - 1 < 12 \<and> d - 1 < month_days y ! (m - 1) \<and>
      sum_list (take (m - 1) (month_days y)) + (d - 1) = r"
    using M Y by (simp add: sum_month_days) (simp add: month_days_def)
  then show "1 \<le> m" "m \<le> 12" "1 \<le> d" "d \<le> month_days y ! (m - 1)" using d by auto
  have "days_before_year y + r = 719528 + n" using Y by (simp add: days_before_1970)
  then have "int (days_before_year y) + int (sum_list (take (m - 1) (month_days y)) + (d - 1)) = 719528 + int n"
    using M' by linarith
  then show "days_of_civil y m d = int n" using d by (simp add: days_of_civil_def of_nat_diff)
qed

section \<open>Numbers of fixed width\<close>

text \<open>\<open>padded w n\<close>: the last \<open>w\<close> decimal digits of \<open>n\<close>, with leading zeros.\<close>

fun padded :: "nat \<Rightarrow> nat \<Rightarrow> string" where
  "padded 0 n = []"
| "padded (Suc w) n = padded w (n div 10) @ [digit_char (n mod 10)]"

text \<open>\<open>take_num w s\<close> reads exactly \<open>w\<close> digits, \<open>expect c s\<close> the character \<open>c\<close>.\<close>

definition take_num :: "nat \<Rightarrow> string \<Rightarrow> (nat \<times> string) option" where
  "take_num w s =
     (if length (take w s) = w \<and> list_all is_digit (take w s) then Some (dec_value 0 (take w s), drop w s)
      else None)"

definition expect :: "char \<Rightarrow> string \<Rightarrow> string option" where
  "expect c s = (case s of [] \<Rightarrow> None | x # xs \<Rightarrow> if x = c then Some xs else None)"

lemma length_padded [simp]: "length (padded w n) = w"
  by (induction w arbitrary: n) auto

lemma padded_digits: "list_all is_digit (padded w n)"
  by (induction w arbitrary: n) auto

lemma dec_value_padded: "n < 10 ^ w \<Longrightarrow> dec_value 0 (padded w n) = n"
proof (induction w arbitrary: n)
  case (Suc w)
  then have "n div 10 < 10 ^ w" by (simp add: less_mult_imp_div_less mult.commute)
  with Suc.IH show ?case by (simp add: dec_value_snoc)
qed simp

lemma take_num_padded: "n < 10 ^ w \<Longrightarrow> take_num w (padded w n @ s) = Some (n, s)"
  by (simp add: take_num_def padded_digits dec_value_padded)

lemma expect_Cons [simp]: "expect c (c # s) = Some s"
  by (simp add: expect_def)

section \<open>RFC 3339\<close>

definition FormatRFC3339 :: "instant \<Rightarrow> string" where
  "FormatRFC3339 t =
     (let s = nat (t div second); (y, mo, d) = civil_of_days (s div 86400); r = s mod 86400
      in padded 4 y @ ''-'' @ padded 2 mo @ ''-'' @ padded 2 d @ ''T'' @
         padded 2 (r div 3600) @ '':'' @ padded 2 (r div 60 mod 60) @ '':'' @ padded 2 (r mod 60) @ ''Z'')"

text \<open>An optional fraction: a dot or comma and digits, of which the first nine count.\<close>

definition parse_fraction :: "string \<Rightarrow> int \<times> string" where
  "parse_fraction s =
     (case s of c # d # _ \<Rightarrow>
        if (c = CHR ''.'' \<or> c = CHR '','') \<and> is_digit d
        then let ds = takeWhile is_digit (tl s); nine = take 9 (ds @ replicate 9 (CHR ''0''))
             in (int (dec_value 0 nine), dropWhile is_digit (tl s))
        else (0, s)
      | _ \<Rightarrow> (0, s))"

text \<open>The zone: \<open>Z\<close>, or a sign with hours and minutes, in seconds east of UTC.\<close>

definition parse_zone :: "string \<Rightarrow> int option" where
  "parse_zone s =
     (if s = ''Z'' then Some 0
      else case s of [] \<Rightarrow> None
        | c # cs \<Rightarrow>
            if c \<noteq> CHR ''+'' \<and> c \<noteq> CHR ''-'' then None
            else do { (h, s1) \<leftarrow> take_num 2 cs; s2 \<leftarrow> expect (CHR '':'') s1; (m, s3) \<leftarrow> take_num 2 s2;
                      if s3 = [] \<and> h \<le> 24 \<and> m < 60
                      then Some ((if c = CHR ''-'' then -1 else 1) * (int h * 3600 + int m * 60)) else None })"

definition ParseRFC3339 :: "string \<Rightarrow> instant option" where
  "ParseRFC3339 s = do {
     (y, s1) \<leftarrow> take_num 4 s; s2 \<leftarrow> expect (CHR ''-'') s1;
     (mo, s3) \<leftarrow> take_num 2 s2; s4 \<leftarrow> expect (CHR ''-'') s3;
     (d, s5) \<leftarrow> take_num 2 s4; s6 \<leftarrow> expect (CHR ''T'') s5;
     (h, s7) \<leftarrow> take_num 2 s6; s8 \<leftarrow> expect (CHR '':'') s7;
     (mi, s9) \<leftarrow> take_num 2 s8; s10 \<leftarrow> expect (CHR '':'') s9;
     (sec, s11) \<leftarrow> take_num 2 s10;
     let (ns, s12) = parse_fraction s11;
     off \<leftarrow> parse_zone s12;
     if 1 \<le> mo \<and> mo \<le> 12 \<and> 1 \<le> d \<and> d \<le> month_days y ! (mo - 1) \<and> h < 24 \<and> mi < 60 \<and> sec < 60
     then Some ((days_of_civil y mo d * 86400 + int h * 3600 + int mi * 60 + int sec - off) * second + ns)
     else None }"

lemma civil_of_days_year_bound:
  assumes "civil_of_days n = (y, m, d)" and "n < 2932897"
  shows "y < 10000"
proof (rule ccontr)
  assume "\<not> y < 10000"
  then have le: "10000 \<le> y" by simp
  have mono: "days_before_year 10000 \<le> days_before_year y"
    using le by (induction y rule: nat_induct_at_least) (simp_all add: days_before_year_Suc)
  obtain r where "year_of 1970 n = (y, r)"
    using assms(1) by (auto simp: civil_of_days_def split: prod.splits)
  from year_of_correct [OF this] have "days_before_year y \<le> 719528 + n"
    by (simp add: days_before_1970)
  with mono assms(2) show False by (simp add: days_before_year_def)
qed

text \<open>
  Formatting and parsing are inverse up to the fraction of a second, for every instant of the years
  1970 to 9999.
\<close>

lemma month_days_le: "1 \<le> m \<Longrightarrow> m \<le> 12 \<Longrightarrow> month_days y ! (m - 1) \<le> 31"
proof -
  assume "1 \<le> m" "m \<le> 12"
  then have "month_days y ! (m - 1) \<in> set (month_days y)"
    by (intro nth_mem) (simp add: month_days_def)
  then show ?thesis by (auto simp: month_days_def split: if_splits)
qed

lemma ParseRFC3339_FormatRFC3339:
  assumes "0 \<le> t" and "t < 253402300800 * second"
  shows "ParseRFC3339 (FormatRFC3339 t) = Some (t div second * second)"
proof -
  define s where "s = nat (t div second)"
  have s: "int s = t div second" using assms by (simp add: s_def second_def)
  have "s < 253402300800" using assms by (simp add: s_def second_def nat_less_iff)
  then have nd: "s div 86400 < 2932897" by (simp add: less_mult_imp_div_less)
  obtain y m d where c: "civil_of_days (s div 86400) = (y, m, d)"
    by (metis prod.exhaust)
  note C = civil_of_days_correct [OF c]
  have y: "y < 10 ^ 4" using civil_of_days_year_bound [OF c nd] by simp
  have d: "d < 10 ^ 2" and m: "m < 10 ^ 2" using C month_days_le [of m y] by auto
  let ?r = "s mod 86400"
  have r: "?r div 3600 < 24" "?r div 60 mod 60 < 60" "?r mod 60 < 60" "?r div 3600 < 10 ^ 2"
      "?r div 60 mod 60 < 10 ^ 2" "?r mod 60 < 10 ^ 2"
    using less_mult_imp_div_less [of ?r 24 3600] mod_less_divisor [of 60 "?r div 60"]
      mod_less_divisor [of 60 ?r] mod_less_divisor [of 86400 s] by simp_all
  have sum: "s div 86400 * 86400 + ?r div 3600 * 3600 + ?r div 60 mod 60 * 60 + ?r mod 60 = s"
  proof -
    have "?r div 60 = ?r div 3600 * 60 + ?r div 60 mod 60"
      using div_mult_mod_eq [of "?r div 60" 60] by (simp add: div_mult2_eq [symmetric])
    moreover have "?r = ?r div 60 * 60 + ?r mod 60" by simp
    moreover have "s = s div 86400 * 86400 + ?r" by simp
    ultimately show ?thesis by linarith
  qed
  have fmt: "FormatRFC3339 t = padded 4 y @ ''-'' @ padded 2 m @ ''-'' @ padded 2 d @ ''T'' @
      padded 2 (?r div 3600) @ '':'' @ padded 2 (?r div 60 mod 60) @ '':'' @ padded 2 (?r mod 60) @ ''Z''"
    using c by (simp add: FormatRFC3339_def s_def Let_def)
  have tot: "int (s div 86400) * 86400 + int (?r div 3600) * 3600 + int (?r div 60 mod 60) * 60 + int (?r mod 60)
      = t div second"
    using arg_cong [OF sum, of int] s by simp
  have frac: "parse_fraction ''Z'' = (0, ''Z'')" by (simp add: parse_fraction_def)
  have zone: "parse_zone ''Z'' = Some 0" by (simp add: parse_zone_def)
  show ?thesis
    unfolding fmt ParseRFC3339_def using C(3-6) y d m r tot
    by (simp only: take_num_padded append.simps expect_Cons frac zone C(1) bind.bind_lunit prod.case Let_def
        if_True simp_thms) simp
qed

section \<open>RFC 850\<close>

definition weekday_name :: "nat \<Rightarrow> string" where
  "weekday_name d = [''Thursday'', ''Friday'', ''Saturday'', ''Sunday'', ''Monday'', ''Tuesday'', ''Wednesday''] ! (d mod 7)"

definition month_name :: "nat \<Rightarrow> string" where
  "month_name m = [''Jan'', ''Feb'', ''Mar'', ''Apr'', ''May'', ''Jun'', ''Jul'', ''Aug'', ''Sep'', ''Oct'', ''Nov'', ''Dec''] ! (m - 1)"

definition FormatRFC850 :: "instant \<Rightarrow> string" where
  "FormatRFC850 t =
     (let s = nat (t div second); (y, mo, d) = civil_of_days (s div 86400); r = s mod 86400
      in weekday_name (s div 86400) @ '', '' @ padded 2 d @ ''-'' @ month_name mo @ ''-'' @ padded 2 y @ '' '' @
         padded 2 (r div 3600) @ '':'' @ padded 2 (r div 60 mod 60) @ '':'' @ padded 2 (r mod 60) @ '' UTC'')"

end
