(* ===== verification/ClusterStatus.thy ===== *)
theory ClusterStatus
  imports GoTime
begin

text \<open>
  \<open>api/v1beta1/status.go\<close>: the status of a cluster, its list of conditions and the operations on
  them. A pointer result that may be \<open>nil\<close> is an \<open>option\<close>; the pointer \<open>GetClusterCondition\<close>
  returns is to a copy of the list element, hence a value here. The reading of the clock in
  \<open>setClusterCondition\<close> is the argument \<open>now\<close>.
\<close>

record ClusterCondition =
  CondType :: string
  CondStatus :: string
  CondReason :: string
  CondMessage :: string
  LastUpdateTime :: string
  LastTransitionTime :: string

record MembersStatus =
  ReadyMembers :: "string list"
  UnreadyMembers :: "string list"

record ZookeeperClusterStatus =
  Members :: MembersStatus
  StatusReplicas :: int32
  ReadyReplicas :: int32
  InternalClientEndpoint :: string
  ExternalClientEndpoint :: string
  MetaRootCreated :: bool
  CurrentVersion :: string
  TargetVersion :: string
  Conditions :: "ClusterCondition list"

definition ClusterConditionPodsReady :: string where "ClusterConditionPodsReady = ''PodsReady''"
definition ClusterConditionUpgrading :: string where "ClusterConditionUpgrading = ''Upgrading''"
definition ClusterConditionError :: string where "ClusterConditionError = ''Error''"
definition UpdatingZookeeperReason :: string where "UpdatingZookeeperReason = ''Updating Zookeeper''"

definition ConditionTrue :: string where "ConditionTrue = ''True''"
definition ConditionFalse :: string where "ConditionFalse = ''False''"

lemmas condition_consts = ClusterConditionPodsReady_def ClusterConditionUpgrading_def
  ClusterConditionError_def ConditionTrue_def ConditionFalse_def

lemma condition_types_distinct [simp]:
  "ClusterConditionPodsReady \<noteq> ClusterConditionUpgrading"
  "ClusterConditionPodsReady \<noteq> ClusterConditionError"
  "ClusterConditionUpgrading \<noteq> ClusterConditionError"
  "ClusterConditionUpgrading \<noteq> ClusterConditionPodsReady"
  "ClusterConditionError \<noteq> ClusterConditionPodsReady"
  "ClusterConditionError \<noteq> ClusterConditionUpgrading"
  "ConditionTrue \<noteq> ConditionFalse" "ConditionFalse \<noteq> ConditionTrue"
  by (simp_all add: condition_consts)

section \<open>Operations\<close>

definition newClusterCondition :: "string \<Rightarrow> string \<Rightarrow> string \<Rightarrow> string \<Rightarrow> ClusterCondition" where
  "newClusterCondition condType status reason message =
     \<lparr>CondType = condType, CondStatus = status, CondReason = reason, CondMessage = message,
      LastUpdateTime = [], LastTransitionTime = []\<rparr>"

fun find_condition :: "int \<Rightarrow> ClusterCondition list \<Rightarrow> string \<Rightarrow> int \<times> ClusterCondition option" where
  "find_condition i [] t = (-1, None)"
| "find_condition i (c # cs) t = (if t = CondType c then (i, Some c) else find_condition (i + 1) cs t)"

definition GetClusterCondition :: "ZookeeperClusterStatus \<Rightarrow> string \<Rightarrow> int \<times> ClusterCondition option" where
  "GetClusterCondition zs t = find_condition 0 (Conditions zs) t"

definition setClusterCondition ::
  "instant \<Rightarrow> ClusterCondition \<Rightarrow> ZookeeperClusterStatus \<Rightarrow> ZookeeperClusterStatus" where
  "setClusterCondition now new zs =
     (let t = FormatRFC3339 now; (position, existing) = GetClusterCondition zs (CondType new)
      in case existing of
           None \<Rightarrow> zs\<lparr>Conditions := Conditions zs @ [new]\<rparr>
         | Some e \<Rightarrow>
             let e1 = (if CondStatus e \<noteq> CondStatus new
                       then e\<lparr>CondStatus := CondStatus new, LastTransitionTime := t, LastUpdateTime := t\<rparr>
                       else e);
                 e2 = (if CondReason e1 \<noteq> CondReason new \<or> CondMessage e1 \<noteq> CondMessage new
                       then e1\<lparr>CondReason := CondReason new, CondMessage := CondMessage new, LastUpdateTime := t\<rparr>
                       else e1)
             in zs\<lparr>Conditions := (Conditions zs)[nat position := e2]\<rparr>)"

definition init_condition :: "instant \<Rightarrow> string \<Rightarrow> ZookeeperClusterStatus \<Rightarrow> ZookeeperClusterStatus" where
  "init_condition now t zs =
     (case snd (GetClusterCondition zs t) of
        None \<Rightarrow> setClusterCondition now (newClusterCondition t ConditionFalse [] []) zs
      | Some _ \<Rightarrow> zs)"

definition Status_Init :: "instant \<Rightarrow> ZookeeperClusterStatus \<Rightarrow> ZookeeperClusterStatus" where
  "Status_Init now zs =
     fold (init_condition now) [ClusterConditionPodsReady, ClusterConditionUpgrading, ClusterConditionError] zs"

definition SetPodsReadyConditionTrue :: "instant \<Rightarrow> ZookeeperClusterStatus \<Rightarrow> ZookeeperClusterStatus" where
  "SetPodsReadyConditionTrue now =
     setClusterCondition now (newClusterCondition ClusterConditionPodsReady ConditionTrue [] [])"

definition SetPodsReadyConditionFalse :: "instant \<Rightarrow> ZookeeperClusterStatus \<Rightarrow> ZookeeperClusterStatus" where
  "SetPodsReadyConditionFalse now =
     setClusterCondition now (newClusterCondition ClusterConditionPodsReady ConditionFalse [] [])"

definition SetUpgradingConditionTrue ::
  "instant \<Rightarrow> string \<Rightarrow> string \<Rightarrow> ZookeeperClusterStatus \<Rightarrow> ZookeeperClusterStatus" where
  "SetUpgradingConditionTrue now reason message =
     setClusterCondition now (newClusterCondition ClusterConditionUpgrading ConditionTrue reason message)"

definition SetUpgradingConditionFalse :: "instant \<Rightarrow> ZookeeperClusterStatus \<Rightarrow> ZookeeperClusterStatus" where
  "SetUpgradingConditionFalse now =
     setClusterCondition now (newClusterCondition ClusterConditionUpgrading ConditionFalse [] [])"

definition SetErrorConditionTrue ::
  "instant \<Rightarrow> string \<Rightarrow> string \<Rightarrow> ZookeeperClusterStatus \<Rightarrow> ZookeeperClusterStatus" where
  "SetErrorConditionTrue now reason message =
     setClusterCondition now (newClusterCondition ClusterConditionError ConditionTrue reason message)"

definition SetErrorConditionFalse :: "instant \<Rightarrow> ZookeeperClusterStatus \<Rightarrow> ZookeeperClusterStatus" where
  "SetErrorConditionFalse now =
     setClusterCondition now (newClusterCondition ClusterConditionError ConditionFalse [] [])"

definition IsClusterInUpgradeFailedState :: "ZookeeperClusterStatus \<Rightarrow> bool" where
  "IsClusterInUpgradeFailedState zs =
     (case snd (GetClusterCondition zs ClusterConditionError) of
        None \<Rightarrow> False
      | Some c \<Rightarrow> CondStatus c = ConditionTrue \<and> CondReason c = ''UpgradeFailed'')"

definition IsClusterInUpgradingState :: "ZookeeperClusterStatus \<Rightarrow> bool" where
  "IsClusterInUpgradingState zs =
     (case snd (GetClusterCondition zs ClusterConditionUpgrading) of
        None \<Rightarrow> False | Some c \<Rightarrow> CondStatus c = ConditionTrue)"

definition IsClusterInReadyState :: "ZookeeperClusterStatus \<Rightarrow> bool" where
  "IsClusterInReadyState zs =
     (case snd (GetClusterCondition zs ClusterConditionPodsReady) of
        None \<Rightarrow> False | Some c \<Rightarrow> CondStatus c = ConditionTrue)"

definition UpdateProgress ::
  "instant \<Rightarrow> string \<Rightarrow> string \<Rightarrow> ZookeeperClusterStatus \<Rightarrow> ZookeeperClusterStatus" where
  "UpdateProgress now reason updatedReplicas zs =
     (if IsClusterInUpgradingState zs then SetUpgradingConditionTrue now reason updatedReplicas zs else zs)"

definition GetLastCondition :: "ZookeeperClusterStatus \<Rightarrow> ClusterCondition option" where
  "GetLastCondition zs =
     (if IsClusterInUpgradingState zs then snd (GetClusterCondition zs ClusterConditionUpgrading) else None)"

section \<open>The list of conditions as a map\<close>

text \<open>
  What the list stands for: a map from condition type to condition. Of several entries of one type
  only the first counts, and the operations never create a second one.
\<close>

definition cond :: "ZookeeperClusterStatus \<Rightarrow> string \<Rightarrow> ClusterCondition option" where
  "cond zs t = List.find (\<lambda>c. t = CondType c) (Conditions zs)"

definition conditions_wf :: "ZookeeperClusterStatus \<Rightarrow> bool" where
  "conditions_wf zs \<longleftrightarrow> distinct (map CondType (Conditions zs))"

text \<open>What \<open>setClusterCondition\<close> stores for the new condition, given what was there.\<close>

definition merged_condition ::
  "instant \<Rightarrow> ClusterCondition option \<Rightarrow> ClusterCondition \<Rightarrow> ClusterCondition" where
  "merged_condition now old new =
     (case old of
        None \<Rightarrow> new
      | Some e \<Rightarrow>
          new\<lparr>LastTransitionTime := (if CondStatus e = CondStatus new then LastTransitionTime e else FormatRFC3339 now),
              LastUpdateTime := (if CondStatus e = CondStatus new \<and> CondReason e = CondReason new \<and> CondMessage e = CondMessage new
                                 then LastUpdateTime e else FormatRFC3339 now)\<rparr>)"

lemma find_condition_snd: "snd (find_condition i cs t) = List.find (\<lambda>c. t = CondType c) cs"
  by (induction i cs t rule: find_condition.induct) auto

lemma snd_GetClusterCondition [simp]: "snd (GetClusterCondition zs t) = cond zs t"
  by (simp add: GetClusterCondition_def cond_def find_condition_snd)

lemma find_condition_None: "find_condition i cs t = (p, None) \<longleftrightarrow> p = -1 \<and> t \<notin> CondType ` set cs"
  by (induction i cs t rule: find_condition.induct) auto

lemma find_condition_Some:
  "find_condition (int i) cs t = (p, Some c) \<Longrightarrow>
     \<exists>k. p = int (i + k) \<and> k < length cs \<and> cs ! k = c \<and> CondType c = t \<and> (\<forall>j < k. CondType (cs ! j) \<noteq> t)"
proof (induction cs arbitrary: i)
  case (Cons d cs)
  show ?case
  proof (cases "t = CondType d")
    case False
    with Cons.prems have "find_condition (int (Suc i)) cs t = (p, Some c)"
      by (simp add: add.commute)
    from Cons.IH [OF this] obtain k where k: "p = int (Suc i + k)" "k < length cs" "cs ! k = c"
      "CondType c = t" "\<forall>j < k. CondType (cs ! j) \<noteq> t" by blast
    with False show ?thesis by (intro exI [of _ "Suc k"]) (auto simp: less_Suc_eq_0_disj)
  qed (use Cons in \<open>auto intro!: exI [of _ 0]\<close>)
qed simp

lemma cond_Some_type: "cond zs t = Some c \<Longrightarrow> CondType c = t"
  by (auto simp: cond_def find_Some_iff)

lemma GetClusterCondition_cases:
  obtains (absent) "GetClusterCondition zs t = (-1, None)" and "cond zs t = None"
      and "t \<notin> CondType ` set (Conditions zs)"
  | (present) k c where "GetClusterCondition zs t = (int k, Some c)" and "cond zs t = Some c"
      and "k < length (Conditions zs)" and "Conditions zs ! k = c" and "CondType c = t"
      and "\<forall>j < k. CondType (Conditions zs ! j) \<noteq> t"
proof -
  obtain p c where g: "GetClusterCondition zs t = (p, c)" by (metis prod.exhaust)
  then have c: "cond zs t = c" by (metis snd_GetClusterCondition snd_conv)
  show thesis
  proof (cases c)
    case None
    with g c show ?thesis by (intro absent) (auto simp: GetClusterCondition_def find_condition_None)
  next
    case (Some d)
    with g have "find_condition (int 0) (Conditions zs) t = (p, Some d)"
      by (simp add: GetClusterCondition_def)
    from find_condition_Some [OF this] g c Some show ?thesis by (auto intro: present)
  qed
qed

lemma find_list_update:
  assumes "k < length cs" and "P (cs ! k)" and "\<forall>j < k. \<not> P (cs ! j)" and "P x"
  shows "List.find P (cs[k := x]) = Some x"
  using assms by (auto simp: find_Some_iff intro!: exI [of _ k])

lemma find_list_update_other:
  assumes "k < length cs" and "\<not> P (cs ! k)" and "\<not> P x"
  shows "List.find P (cs[k := x]) = List.find P cs"
  using assms
proof (induction cs arbitrary: k)
  case (Cons c cs)
  then show ?case by (cases k) auto
qed simp

lemma merged_condition_sel [simp]:
  "CondType (merged_condition now old new) = CondType new"
  "CondStatus (merged_condition now old new) = CondStatus new"
  "CondReason (merged_condition now old new) = CondReason new"
  "CondMessage (merged_condition now old new) = CondMessage new"
  by (simp_all add: merged_condition_def split: option.splits)

lemma merged_condition_steps:
  assumes "CondType e = CondType new"
  shows "(let e1 = (if CondStatus e \<noteq> CondStatus new
                    then e\<lparr>CondStatus := CondStatus new, LastTransitionTime := FormatRFC3339 now, LastUpdateTime := FormatRFC3339 now\<rparr>
                    else e)
          in if CondReason e1 \<noteq> CondReason new \<or> CondMessage e1 \<noteq> CondMessage new
             then e1\<lparr>CondReason := CondReason new, CondMessage := CondMessage new, LastUpdateTime := FormatRFC3339 now\<rparr>
             else e1) = merged_condition now (Some e) new"
  using assms by (cases e; cases new) (simp add: merged_condition_def)

lemma find_append_split:
  "List.find P (xs @ ys) = (case List.find P xs of None \<Rightarrow> List.find P ys | Some x \<Rightarrow> Some x)"
  by (induction xs) auto

text \<open>The list operation in one equation: append the new condition or replace the one found.\<close>

lemma setClusterCondition_absent:
  "cond zs (CondType new) = None \<Longrightarrow>
     setClusterCondition now new zs = zs\<lparr>Conditions := Conditions zs @ [new]\<rparr>"
  by (cases rule: GetClusterCondition_cases [of zs "CondType new"]) (auto simp: setClusterCondition_def)

lemma setClusterCondition_present:
  assumes "cond zs (CondType new) = Some e"
  obtains k where "k < length (Conditions zs)" and "Conditions zs ! k = e" and "CondType e = CondType new"
    and "\<forall>j < k. CondType (Conditions zs ! j) \<noteq> CondType new"
    and "setClusterCondition now new zs =
           zs\<lparr>Conditions := (Conditions zs)[k := merged_condition now (Some e) new]\<rparr>"
proof (cases rule: GetClusterCondition_cases [of zs "CondType new"])
  case absent
  with assms show ?thesis by simp
next
  case (present k c)
  with assms have c: "c = e" by simp
  have "setClusterCondition now new zs =
      zs\<lparr>Conditions := (Conditions zs)[k := merged_condition now (Some e) new]\<rparr>"
    using present c merged_condition_steps [of e new now]
    by (simp add: setClusterCondition_def Let_def)
  with present c show ?thesis by (intro that [of k]) auto
qed

lemma cond_setClusterCondition:
  "cond (setClusterCondition now new zs) t =
     (if t = CondType new then Some (merged_condition now (cond zs t) new) else cond zs t)"
proof (cases "cond zs (CondType new)")
  case None
  then have "\<not> (\<exists>c \<in> set (Conditions zs). CondType new = CondType c)"
    by (auto simp: cond_def find_None_iff)
  with None show ?thesis
    by (auto simp: setClusterCondition_absent cond_def merged_condition_def find_append_split split: option.splits)
next
  case (Some e)
  then obtain k where k: "k < length (Conditions zs)" "Conditions zs ! k = e" "CondType e = CondType new"
    "\<forall>j < k. CondType (Conditions zs ! j) \<noteq> CondType new"
    "setClusterCondition now new zs = zs\<lparr>Conditions := (Conditions zs)[k := merged_condition now (Some e) new]\<rparr>"
    by (rule setClusterCondition_present)
  show ?thesis
  proof (cases "t = CondType new")
    case True
    with k Some show ?thesis
      by (simp add: cond_def) (rule find_list_update, auto)
  next
    case False
    with k show ?thesis
      by (simp add: cond_def) (rule find_list_update_other, auto)
  qed
qed

lemma types_setClusterCondition:
  "map CondType (Conditions (setClusterCondition now new zs)) =
     (if CondType new \<in> CondType ` set (Conditions zs) then map CondType (Conditions zs)
      else map CondType (Conditions zs) @ [CondType new])"
proof (cases "cond zs (CondType new)")
  case None
  then have "CondType new \<notin> CondType ` set (Conditions zs)"
    by (auto simp: cond_def find_None_iff)
  with None show ?thesis by (simp add: setClusterCondition_absent)
next
  case (Some e)
  then obtain k where k: "k < length (Conditions zs)" "Conditions zs ! k = e" "CondType e = CondType new"
    "setClusterCondition now new zs = zs\<lparr>Conditions := (Conditions zs)[k := merged_condition now (Some e) new]\<rparr>"
    by (rule setClusterCondition_present)
  moreover from k have "CondType new \<in> CondType ` set (Conditions zs)"
    by (metis image_eqI nth_mem)
  moreover have "(map CondType (Conditions zs))[k := CondType new] = map CondType (Conditions zs)"
    using k by (metis list_update_id map_update)
  ultimately show ?thesis by (simp add: map_update)
qed

lemma setClusterCondition_wf: "conditions_wf zs \<Longrightarrow> conditions_wf (setClusterCondition now new zs)"
  by (simp add: conditions_wf_def types_setClusterCondition)

lemma setClusterCondition_frame [frame, simp]:
  "Members (setClusterCondition now new zs) = Members zs"
  "StatusReplicas (setClusterCondition now new zs) = StatusReplicas zs"
  "ReadyReplicas (setClusterCondition now new zs) = ReadyReplicas zs"
  "InternalClientEndpoint (setClusterCondition now new zs) = InternalClientEndpoint zs"
  "ExternalClientEndpoint (setClusterCondition now new zs) = ExternalClientEndpoint zs"
  "MetaRootCreated (setClusterCondition now new zs) = MetaRootCreated zs"
  "CurrentVersion (setClusterCondition now new zs) = CurrentVersion zs"
  "TargetVersion (setClusterCondition now new zs) = TargetVersion zs"
  by (simp_all add: setClusterCondition_def Let_def split: prod.splits option.splits)

interpretation conds: keyed_store cond "setClusterCondition now" CondType "merged_condition now" conditions_wf
  for now :: instant
  by unfold_locales (simp_all add: cond_setClusterCondition setClusterCondition_wf)

lemmas condition_setters = SetPodsReadyConditionTrue_def SetPodsReadyConditionFalse_def
  SetUpgradingConditionTrue_def SetUpgradingConditionFalse_def
  SetErrorConditionTrue_def SetErrorConditionFalse_def

lemma newClusterCondition_sel [simp]:
  "CondType (newClusterCondition t s r m) = t" "CondStatus (newClusterCondition t s r m) = s"
  "CondReason (newClusterCondition t s r m) = r" "CondMessage (newClusterCondition t s r m) = m"
  "LastUpdateTime (newClusterCondition t s r m) = []" "LastTransitionTime (newClusterCondition t s r m) = []"
  by (simp_all add: newClusterCondition_def)

lemma init_condition_cond:
  "cond (init_condition now t zs) u =
     (if u = t \<and> cond zs t = None then Some (newClusterCondition t ConditionFalse [] []) else cond zs u)"
  by (auto simp: init_condition_def conds.lookup_put merged_condition_def split: option.splits)

lemma Status_Init_cond:
  "cond (Status_Init now zs) u =
     (if u \<in> {ClusterConditionPodsReady, ClusterConditionUpgrading, ClusterConditionError} \<and> cond zs u = None
      then Some (newClusterCondition u ConditionFalse [] []) else cond zs u)"
  by (auto simp: Status_Init_def init_condition_cond)

lemma init_condition_wf: "conditions_wf zs \<Longrightarrow> conditions_wf (init_condition now t zs)"
  by (simp add: init_condition_def conds.invar_put split: option.splits)

lemma Status_Init_wf: "conditions_wf zs \<Longrightarrow> conditions_wf (Status_Init now zs)"
  by (simp add: Status_Init_def init_condition_wf)

lemma init_condition_frame [frame]:
  "Members (init_condition now t zs) = Members zs"
  "StatusReplicas (init_condition now t zs) = StatusReplicas zs"
  "ReadyReplicas (init_condition now t zs) = ReadyReplicas zs"
  "MetaRootCreated (init_condition now t zs) = MetaRootCreated zs"
  "CurrentVersion (init_condition now t zs) = CurrentVersion zs"
  "TargetVersion (init_condition now t zs) = TargetVersion zs"
  by (simp_all add: init_condition_def split: option.splits)

lemma Status_Init_frame [frame, simp]:
  "Members (Status_Init now zs) = Members zs"
  "StatusReplicas (Status_Init now zs) = StatusReplicas zs"
  "ReadyReplicas (Status_Init now zs) = ReadyReplicas zs"
  "MetaRootCreated (Status_Init now zs) = MetaRootCreated zs"
  "CurrentVersion (Status_Init now zs) = CurrentVersion zs"
  "TargetVersion (Status_Init now zs) = TargetVersion zs"
  by (simp_all add: Status_Init_def init_condition_frame)

text \<open>The three predicates in terms of the map.\<close>

lemma status_predicates:
  "IsClusterInUpgradingState zs \<longleftrightarrow> (\<exists>c. cond zs ClusterConditionUpgrading = Some c \<and> CondStatus c = ConditionTrue)"
  "IsClusterInReadyState zs \<longleftrightarrow> (\<exists>c. cond zs ClusterConditionPodsReady = Some c \<and> CondStatus c = ConditionTrue)"
  "IsClusterInUpgradeFailedState zs \<longleftrightarrow>
     (\<exists>c. cond zs ClusterConditionError = Some c \<and> CondStatus c = ConditionTrue \<and> CondReason c = ''UpgradeFailed'')"
  by (auto simp: IsClusterInUpgradingState_def IsClusterInReadyState_def IsClusterInUpgradeFailedState_def
      split: option.splits)


text \<open>C13. Recording a condition is an update of a map from condition type to condition: the entry of the
  new condition's type gets its status, reason and message, every other entry and every other field
  stays, and the list keeps one entry per type in the order of first recording. The transition time of
  an existing entry moves exactly when the status changes, the update time exactly when status, reason
  or message change; a first entry has no times.\<close>

theorem setClusterCondition_is_map_update:
  "cond (setClusterCondition now new zs) = (cond zs)(CondType new \<mapsto> (case cond zs (CondType new) of
      None \<Rightarrow> new
    | Some e \<Rightarrow> new
       \<lparr>LastTransitionTime := (if CondStatus e = CondStatus new then LastTransitionTime e else FormatRFC3339 now),
        LastUpdateTime := (if CondStatus e = CondStatus new \<and> CondReason e = CondReason new \<and> CondMessage e = CondMessage new
                           then LastUpdateTime e else FormatRFC3339 now)\<rparr>)) \<and>
   map CondType (Conditions (setClusterCondition now new zs)) =
     (if CondType new \<in> set (map CondType (Conditions zs)) then map CondType (Conditions zs)
      else map CondType (Conditions zs) @ [CondType new]) \<and>
   (setClusterCondition now new zs)\<lparr>Conditions := Conditions zs\<rparr> = zs"
proof -
  have "(setClusterCondition now new zs)\<lparr>Conditions := Conditions zs\<rparr> = zs"
    by (intro ZookeeperClusterStatus.equality) simp_all
  then show ?thesis
    by (simp add: conds.abs_put merged_condition_def types_setClusterCondition)
qed

lemma merged_again: "merged_condition now' (Some (merged_condition now e new)) new = merged_condition now e new"
  by (simp add: merged_condition_def split: option.splits)

text \<open>C14. A repeated report is no news: recording a condition a second time, however much later, changes
  nothing, not even a time stamp; and so does a second \<open>Init\<close>, which itself only adds the missing ones
  of the three conditions, with status \<open>False\<close>.\<close>

theorem repeated_report_is_silent:
  "setClusterCondition now' new (setClusterCondition now new zs) = setClusterCondition now new zs \<and>
   Status_Init now' (Status_Init now zs) = Status_Init now zs \<and>
   cond (Status_Init now zs) u =
     (if u \<in> {ClusterConditionPodsReady, ClusterConditionUpgrading, ClusterConditionError} \<and> cond zs u = None
      then Some (newClusterCondition u ConditionFalse [] []) else cond zs u)"
proof -
  let ?s = "setClusterCondition now new zs"
  have c: "cond ?s (CondType new) = Some (merged_condition now (cond zs (CondType new)) new)"
    by (rule conds.lookup_put_same)
  obtain k where k: "k < length (Conditions ?s)" "Conditions ?s ! k = merged_condition now (cond zs (CondType new)) new"
    "setClusterCondition now' new ?s = ?s\<lparr>Conditions := (Conditions ?s)
       [k := merged_condition now' (Some (merged_condition now (cond zs (CondType new)) new)) new]\<rparr>"
    using setClusterCondition_present [OF c] by metis
  have again: "setClusterCondition now' new ?s = ?s"
    unfolding k(3) merged_again using k(1,2) by (metis list_update_id ZookeeperClusterStatus.surjective ZookeeperClusterStatus.update_convs(9))
  have noop: "init_condition now' t s = s" if "cond s t \<noteq> None" for t s
    using that by (auto simp: init_condition_def split: option.splits)
  have "cond (Status_Init now zs) t \<noteq> None"
    if "t \<in> {ClusterConditionPodsReady, ClusterConditionUpgrading, ClusterConditionError}" for t
    using that by (auto simp: Status_Init_cond)
  then have "Status_Init now' (Status_Init now zs) = Status_Init now zs"
    unfolding Status_Init_def [of now'] by (simp add: noop)
  with again show ?thesis by (simp add: Status_Init_cond)
qed

end
