(* ===== verification/ApiTypes.thy ===== *)
theory ApiTypes
  imports ClusterStatus
begin

text \<open>
  \<open>api/v1beta1/zookeepercluster_types.go\<close>: the \<open>ZookeeperCluster\<close> resource, its defaulting and its
  accessors. Values of the Kubernetes API that the operator only passes through (tolerations, the
  source of a user's volume, ...) are kept as their serialised text, type \<open>raw\<close>, where the empty text
  stands for the Go zero value; of the other API structs the record keeps the fields the operator
  reads or writes and one \<open>raw\<close> field for the rest. A quantity is its value in base units.
\<close>

type_synonym raw = string
type_synonym Quantity = int
type_synonym ResourceList = "(string \<times> Quantity) list"

section \<open>Kubernetes values inside the cluster specification\<close>

record ResourceRequirements =
  Limits :: "ResourceList option"
  Requests :: "ResourceList option"
  ResourcesRest :: raw

record ContainerPort =
  PortName :: string
  PortNumber :: int32
  PortRest :: raw

record EnvVar =
  EnvName :: string
  EnvFieldPath :: "string option"
  EnvRest :: raw

record VolumeMount =
  MountName :: string
  MountPath :: string
  MountRest :: raw

datatype VolumeSource = EmptyDir raw | ConfigMapVolume string | OtherVolume raw

record Volume =
  VolumeName :: string
  VolumeSrc :: VolumeSource

record CoreProbe =
  CoreInitialDelaySeconds :: int32
  CorePeriodSeconds :: int32
  CoreTimeoutSeconds :: int32
  CoreFailureThreshold :: int32
  CoreSuccessThreshold :: int32
  CoreExecCommand :: "string list"

record Container =
  ContainerName :: string
  ContainerImageName :: string
  ContainerPorts :: "ContainerPort list option"
  ContainerEnv :: "EnvVar list"
  ContainerPullPolicy :: string
  ContainerReadiness :: "CoreProbe option"
  ContainerLiveness :: "CoreProbe option"
  ContainerMounts :: "VolumeMount list"
  ContainerPreStop :: "string list option"
  ContainerCommand :: "string list"
  ContainerResources :: ResourceRequirements
  ContainerRest :: raw

record PodSecurityContext =
  RunAsNonRoot :: "bool option"
  RunAsUser :: "int64 option"
  RunAsGroup :: "int64 option"
  FSGroup :: "int64 option"
  FSGroupChangePolicy :: "string option"
  SecurityRest :: raw

record LabelSelectorRequirement =
  SelectorKey :: string
  SelectorOperator :: string
  SelectorValues :: "string list"

record WeightedPodAffinityTerm =
  AffinityWeight :: int32
  AffinityTopologyKey :: string
  AffinityExpressions :: "LabelSelectorRequirement list"

record Affinity =
  PreferredAntiAffinity :: "WeightedPodAffinityTerm list"
  AffinityRest :: raw

record PersistentVolumeClaimSpec =
  AccessModes :: "string list"
  ClaimResources :: ResourceRequirements
  ClaimRest :: raw

record OwnerReference =
  OwnerKind :: string
  OwnerName :: string
  OwnerUID :: string

record ObjectMeta =
  MetaName :: string
  MetaGenerateName :: string
  MetaNamespace :: string
  MetaUID :: string
  ResourceVersion :: string
  MetaLabels :: "go_map option"
  MetaAnnotations :: "go_map option"
  Finalizers :: "string list"
  OwnerReferences :: "OwnerReference list"
  DeletionTimestamp :: "instant option"

definition empty_meta :: ObjectMeta where
  "empty_meta = \<lparr>MetaName = [], MetaGenerateName = [], MetaNamespace = [], MetaUID = [], ResourceVersion = [],
     MetaLabels = None, MetaAnnotations = None, Finalizers = [], OwnerReferences = [], DeletionTimestamp = None\<rparr>"

text \<open>\<open>metav1.Time.IsZero\<close> on a pointer: true for \<open>nil\<close> and for the zero time.\<close>

definition Time_IsZero :: "instant option \<Rightarrow> bool" where
  "Time_IsZero t = (case t of None \<Rightarrow> True | Some i \<Rightarrow> i = zero_time)"

section \<open>The specification of a cluster\<close>

record ContainerImage =
  Repository :: string
  Tag :: string
  PullPolicy :: string

record Probe =
  InitialDelaySeconds :: int32
  PeriodSeconds :: int32
  FailureThreshold :: int32
  SuccessThreshold :: int32
  TimeoutSeconds :: int32

record Probes =
  ReadinessProbe :: "Probe option"
  LivenessProbe :: "Probe option"

record PodPolicy =
  PodLabels :: "go_map option"
  NodeSelector :: "go_map option"
  PodAffinity :: "Affinity option"
  TopologySpreadConstraints :: "raw list"
  PodResources :: ResourceRequirements
  Tolerations :: "raw list"
  PodEnv :: "EnvVar list"
  PodAnnotations :: "go_map option"
  SecurityContext :: "PodSecurityContext option"
  TerminationGracePeriodSeconds :: int64
  ServiceAccountName :: string
  ImagePullSecrets :: "string list"

record AdminServerServicePolicy =
  AdminAnnotations :: "go_map option"
  AdminExternal :: bool

record ClientServicePolicy =
  ClientAnnotations :: "go_map option"

record HeadlessServicePolicy =
  HeadlessAnnotations :: "go_map option"

record ZookeeperConfig =
  InitLimit :: int64
  TickTime :: int64
  SyncLimit :: int64
  GlobalOutstandingLimit :: int64
  PreAllocSize :: int64
  SnapCount :: int64
  CommitLogCount :: int64
  SnapSizeLimitInKb :: int64
  MaxCnxns :: int64
  MaxClientCnxns :: int64
  MinSessionTimeout :: int64
  MaxSessionTimeout :: int64
  AutoPurgeSnapRetainCount :: int64
  AutoPurgePurgeInterval :: int64
  QuorumListenOnAllIPs :: bool
  AdditionalConfig :: "go_map option"

record Persistence =
  VolumeReclaimPolicy :: string
  ClaimSpec :: PersistentVolumeClaimSpec
  PersistenceAnnotations :: "go_map option"

record Ephemeral =
  EmptyDirVolumeSource :: raw

record ZookeeperClusterSpec =
  Image :: ContainerImage
  Labels :: "go_map option"
  Replicas :: int32
  SpecPorts :: "ContainerPort list option"
  Pod :: PodPolicy
  AdminServerService :: AdminServerServicePolicy
  ClientService :: ClientServicePolicy
  TriggerRollingRestart :: bool
  HeadlessService :: HeadlessServicePolicy
  StorageType :: string
  SpecPersistence :: "Persistence option"
  SpecEphemeral :: "Ephemeral option"
  Conf :: ZookeeperConfig
  DomainName :: string
  KubernetesClusterDomain :: string
  SpecContainers :: "Container list"
  SpecInitContainers :: "Container list option"
  SpecVolumes :: "Volume list"
  SpecVolumeMounts :: "VolumeMount list"
  SpecProbes :: "Probes option"
  MaxUnavailableReplicas :: int32

record ZookeeperCluster =
  Meta :: ObjectMeta
  Spec :: ZookeeperClusterSpec
  Status :: ZookeeperClusterStatus

record Ports =
  ClientPort :: int32
  QuorumPort :: int32
  LeaderPort :: int32
  MetricsPort :: int32
  AdminServerPort :: int32

end
