(* ===== verification/Defaults.thy ===== *)
theory Defaults
  imports ApiTypes
begin

text \<open>
  The \<open>withDefaults\<close> methods and the accessors of \<open>api/v1beta1/zookeepercluster_types.go\<close>. A method
  on a pointer takes the value and returns the new value with the flag \<open>changed\<close>. Each
  \<open>if empty { set; changed = true }\<close> is one \<^const>\<open>set_default\<close>, in the order of the source.
\<close>

definition DefaultZkContainerRepository :: string where
  "DefaultZkContainerRepository = ''ghcr.io/infonl/zookeeper''"
definition DefaultZkContainerVersion :: string where "DefaultZkContainerVersion = ''0.2.16''"
definition DefaultZkContainerPolicy :: string where "DefaultZkContainerPolicy = ''Always''"
definition DefaultTerminationGracePeriod :: int64 where "DefaultTerminationGracePeriod = 30"
text \<open>\<open>resource.MustParse(DefaultZookeeperCacheVolumeSize)\<close>: the quantity 20Gi.\<close>
definition DefaultZookeeperCacheVolumeSize :: Quantity where
  "DefaultZookeeperCacheVolumeSize = 20 * 2 ^ 30"

definition VolumeReclaimPolicyRetain :: string where "VolumeReclaimPolicyRetain = ''Retain''"
definition VolumeReclaimPolicyDelete :: string where "VolumeReclaimPolicyDelete = ''Delete''"

abbreviation is_empty_text :: "string \<Rightarrow> bool" where "is_empty_text s \<equiv> s = []"
abbreviation is_zero_word :: "'a::len word \<Rightarrow> bool" where "is_zero_word w \<equiv> w = 0"
abbreviation is_nil :: "'a option \<Rightarrow> bool" where "is_nil x \<equiv> x = None"

section \<open>Defaulting\<close>

definition ContainerImage_withDefaults :: "ContainerImage \<Rightarrow> ContainerImage \<times> bool" where
  "ContainerImage_withDefaults c =
     set_default is_empty_text PullPolicy PullPolicy_update (\<lambda>_. DefaultZkContainerPolicy)
    (set_default is_empty_text Tag Tag_update (\<lambda>_. DefaultZkContainerVersion)
    (set_default is_empty_text Repository Repository_update (\<lambda>_. DefaultZkContainerRepository) (c, False)))"

definition ToString :: "ContainerImage \<Rightarrow> string" where
  "ToString c = Repository c @ '':'' @ Tag c"

definition ZookeeperConfig_withDefaults :: "ZookeeperConfig \<Rightarrow> ZookeeperConfig \<times> bool" where
  "ZookeeperConfig_withDefaults c0 =
     (let c1 = set_default is_zero_word InitLimit InitLimit_update (\<lambda>_. 10) (c0, False);
          c2 = set_default is_zero_word TickTime TickTime_update (\<lambda>_. 2000) c1;
          c3 = set_default is_zero_word SyncLimit SyncLimit_update (\<lambda>_. 2) c2;
          c4 = set_default is_zero_word GlobalOutstandingLimit GlobalOutstandingLimit_update (\<lambda>_. 1000) c3;
          c5 = set_default is_zero_word PreAllocSize PreAllocSize_update (\<lambda>_. 65536) c4;
          c6 = set_default is_zero_word SnapCount SnapCount_update (\<lambda>_. 10000) c5;
          c7 = set_default is_zero_word CommitLogCount CommitLogCount_update (\<lambda>_. 500) c6;
          c8 = set_default is_zero_word SnapSizeLimitInKb SnapSizeLimitInKb_update (\<lambda>_. 4194304) c7;
          c9 = set_default is_zero_word MaxClientCnxns MaxClientCnxns_update (\<lambda>_. 60) c8;
          c10 = set_default is_zero_word MinSessionTimeout MinSessionTimeout_update (\<lambda>c. 2 * TickTime c) c9;
          c11 = set_default is_zero_word MaxSessionTimeout MaxSessionTimeout_update (\<lambda>c. 20 * TickTime c) c10;
          c12 = set_default is_zero_word AutoPurgeSnapRetainCount AutoPurgeSnapRetainCount_update (\<lambda>_. 3) c11
      in set_default is_zero_word AutoPurgePurgeInterval AutoPurgePurgeInterval_update (\<lambda>_. 1) c12)"

definition default_readiness_probe :: Probe where
  "default_readiness_probe = \<lparr>InitialDelaySeconds = 10, PeriodSeconds = 10, FailureThreshold = 3,
     SuccessThreshold = 1, TimeoutSeconds = 10\<rparr>"

definition default_liveness_probe :: Probe where
  "default_liveness_probe = \<lparr>InitialDelaySeconds = 10, PeriodSeconds = 10, FailureThreshold = 3,
     SuccessThreshold = 0, TimeoutSeconds = 10\<rparr>"

definition Probes_withDefaults :: "Probes \<Rightarrow> Probes \<times> bool" where
  "Probes_withDefaults s =
     set_default is_nil LivenessProbe LivenessProbe_update (\<lambda>_. Some default_liveness_probe)
    (set_default is_nil ReadinessProbe ReadinessProbe_update (\<lambda>_. Some default_readiness_probe) (s, False))"

definition isValid :: "string \<Rightarrow> bool" where
  "isValid v = (if v \<noteq> VolumeReclaimPolicyDelete \<and> v \<noteq> VolumeReclaimPolicyRetain then False else True)"

definition storage_request :: "Persistence \<Rightarrow> Quantity" where
  "storage_request p =
     (case Requests (ClaimResources (ClaimSpec p)) of None \<Rightarrow> 0
      | Some rl \<Rightarrow> (case map_of rl ''storage'' of None \<Rightarrow> 0 | Some q \<Rightarrow> q))"

definition Persistence_withDefaults :: "Persistence \<Rightarrow> Persistence \<times> bool" where
  "Persistence_withDefaults p0 =
     (let (p1, changed) = set_default (\<lambda>v. \<not> isValid v) VolumeReclaimPolicy VolumeReclaimPolicy_update
                            (\<lambda>_. VolumeReclaimPolicyRetain) (p0, False);
          p2 = p1\<lparr>ClaimSpec := (ClaimSpec p1)\<lparr>AccessModes := [''ReadWriteOnce'']\<rparr>\<rparr>
      in if storage_request p2 = 0
         then (p2\<lparr>ClaimSpec := (ClaimSpec p2)\<lparr>ClaimResources :=
                 (ClaimResources (ClaimSpec p2))\<lparr>Requests := Some [(''storage'', DefaultZookeeperCacheVolumeSize)]\<rparr>\<rparr>\<rparr>, True)
         else (p2, changed))"

definition default_affinity :: "string \<Rightarrow> Affinity" where
  "default_affinity name =
     \<lparr>PreferredAntiAffinity =
        [\<lparr>AffinityWeight = 20, AffinityTopologyKey = ''kubernetes.io/hostname'',
          AffinityExpressions = [\<lparr>SelectorKey = ''app'', SelectorOperator = ''In'', SelectorValues = [name]\<rparr>]\<rparr>],
      AffinityRest = []\<rparr>"

text \<open>\<open>if _, ok := m[k]; !ok { m[k] = v; changed = true }\<close> on a map that is not nil.\<close>

definition default_key ::
  "string \<Rightarrow> string \<Rightarrow> ('a \<Rightarrow> go_map option) \<Rightarrow> ((go_map option \<Rightarrow> go_map option) \<Rightarrow> 'a \<Rightarrow> 'a) \<Rightarrow> 'a \<times> bool \<Rightarrow> 'a \<times> bool" where
  "default_key k v get upd =
     set_default (\<lambda>m. gm_get m k = None) get upd (\<lambda>x. Some (gm_put k v (gm_range (get x))))"

text \<open>
  The method reads \<open>z.Spec.Pod.Labels\<close>, which is \<open>p.Labels\<close> itself: its only caller passes
  \<open>p = &z.Spec.Pod\<close>. Of \<open>z\<close> it otherwise needs the name.
\<close>

definition PodPolicy_withDefaults :: "string \<Rightarrow> PodPolicy \<Rightarrow> PodPolicy \<times> bool" where
  "PodPolicy_withDefaults name p0 =
     (let p1 = set_default is_nil PodLabels PodLabels_update (\<lambda>_. Some []) (p0, False);
          p2 = set_default is_zero_word TerminationGracePeriodSeconds TerminationGracePeriodSeconds_update
                 (\<lambda>_. DefaultTerminationGracePeriod) p1;
          p3 = set_default is_empty_text ServiceAccountName ServiceAccountName_update (\<lambda>_. ''default'') p2;
          p4 = set_default is_nil PodLabels PodLabels_update (\<lambda>_. Some []) p3;
          p5 = default_key ''app'' name PodLabels PodLabels_update p4;
          p6 = default_key ''release'' name PodLabels PodLabels_update p5
      in set_default is_nil PodAffinity PodAffinity_update (\<lambda>_. Some (default_affinity name)) p6)"

text \<open>The scan of the user's ports for the five names the operator needs.\<close>

record found_ports =
  foundClient :: bool
  foundQuorum :: bool
  foundLeader :: bool
  foundMetrics :: bool
  foundAdmin :: bool

definition none_found :: found_ports where
  "none_found = \<lparr>foundClient = False, foundQuorum = False, foundLeader = False, foundMetrics = False, foundAdmin = False\<rparr>"

fun scan_ports :: "ContainerPort list \<Rightarrow> found_ports \<Rightarrow> found_ports" where
  "scan_ports [] f = f"
| "scan_ports (p # ps) f = scan_ports ps
     (if PortName p = ''client'' then f\<lparr>foundClient := True\<rparr>
      else if PortName p = ''quorum'' then f\<lparr>foundQuorum := True\<rparr>
      else if PortName p = ''leader-election'' then f\<lparr>foundLeader := True\<rparr>
      else if PortName p = ''metrics'' then f\<lparr>foundMetrics := True\<rparr>
      else if PortName p = ''admin-server'' then f\<lparr>foundAdmin := True\<rparr>
      else f)"

definition mk_port :: "string \<Rightarrow> int32 \<Rightarrow> ContainerPort" where
  "mk_port name n = \<lparr>PortName = name, PortNumber = n, PortRest = []\<rparr>"

definition default_ports :: "ContainerPort list" where
  "default_ports = [mk_port ''client'' 2181, mk_port ''quorum'' 2888, mk_port ''leader-election'' 3888,
     mk_port ''metrics'' 7000, mk_port ''admin-server'' 8080]"

definition add_missing :: "bool \<Rightarrow> ContainerPort \<Rightarrow> ContainerPort list \<times> bool \<Rightarrow> ContainerPort list \<times> bool" where
  "add_missing found port p = (if \<not> found then (fst p @ [port], True) else p)"

definition ports_withDefaults :: "ContainerPort list option \<Rightarrow> ContainerPort list \<times> bool" where
  "ports_withDefaults ports =
     (case ports of
        None \<Rightarrow> (default_ports, True)
      | Some ps \<Rightarrow>
          (let f = scan_ports ps none_found;
               p1 = add_missing (foundClient f) (mk_port ''client'' 2181) (ps, False);
               p2 = add_missing (foundQuorum f) (mk_port ''quorum'' 2888) p1;
               p3 = add_missing (foundLeader f) (mk_port ''leader-election'' 3888) p2;
               p4 = add_missing (foundMetrics f) (mk_port ''metrics'' 7000) p3
           in add_missing (foundAdmin f) (mk_port ''admin-server'' 8080) p4))"

definition storage_withDefaults :: "ZookeeperClusterSpec \<times> bool \<Rightarrow> ZookeeperClusterSpec \<times> bool" where
  "storage_withDefaults p =
     (let (s, changed) = p
      in if EqualFold (StorageType s) ''ephemeral''
         then set_default is_nil SpecEphemeral SpecEphemeral_update (\<lambda>_. Some \<lparr>EmptyDirVolumeSource = []\<rparr>) (s, changed)
         else
           (let (s1, changed1) =
                  (if SpecPersistence s = None
                   then (s\<lparr>StorageType := ''persistence'', SpecPersistence := Some
                          \<lparr>VolumeReclaimPolicy = [], ClaimSpec = \<lparr>AccessModes = [], ClaimResources =
                             \<lparr>Limits = None, Requests = None, ResourcesRest = []\<rparr>, ClaimRest = []\<rparr>,
                           PersistenceAnnotations = None\<rparr>\<rparr>, True)
                   else (s, changed));
                (pers, ch) = Persistence_withDefaults (the (SpecPersistence s1));
                s2 = s1\<lparr>SpecPersistence := Some pers\<rparr>
            in if ch then (s2\<lparr>StorageType := ''persistence''\<rparr>, True) else (s2, changed1)))"

text \<open>Runs a nested \<open>withDefaults\<close> on one field: \<open>if s.f.withDefaults() { changed = true }\<close>.\<close>

definition default_part ::
  "('b \<Rightarrow> 'b \<times> bool) \<Rightarrow> ('a \<Rightarrow> 'b) \<Rightarrow> (('b \<Rightarrow> 'b) \<Rightarrow> 'a \<Rightarrow> 'a) \<Rightarrow> 'a \<times> bool \<Rightarrow> 'a \<times> bool" where
  "default_part wd get upd p =
     (let (v, ch) = wd (get (fst p)) in (upd (\<lambda>_. v) (fst p), ch \<or> snd p))"

definition Spec_withDefaults :: "string \<Rightarrow> ZookeeperClusterSpec \<Rightarrow> ZookeeperClusterSpec \<times> bool" where
  "Spec_withDefaults name s0 =
     (let p1 = default_part ContainerImage_withDefaults Image Image_update (s0, False);
          p2 = default_part ZookeeperConfig_withDefaults Conf Conf_update p1;
          p3 = set_default is_zero_word Replicas Replicas_update (\<lambda>_. 3) p2;
          p4 = set_default is_nil SpecProbes SpecProbes_update
                 (\<lambda>_. Some \<lparr>ReadinessProbe = None, LivenessProbe = None\<rparr>) p3;
          p5 = default_part (\<lambda>x. apfst Some (Probes_withDefaults (the x))) SpecProbes SpecProbes_update p4;
          p6 = default_part (\<lambda>x. apfst Some (ports_withDefaults x)) SpecPorts SpecPorts_update p5;
          p7 = set_default is_nil Labels Labels_update (\<lambda>_. Some []) p6;
          p8 = default_key ''app'' name Labels Labels_update p7;
          p9 = default_key ''release'' name Labels Labels_update p8;
          p10 = default_part (PodPolicy_withDefaults name) Pod Pod_update p9;
          p11 = storage_withDefaults p10
      in set_default (\<lambda>n. sint n < 1) MaxUnavailableReplicas MaxUnavailableReplicas_update (\<lambda>_. 1) p11)"

definition WithDefaults :: "ZookeeperCluster \<Rightarrow> ZookeeperCluster \<times> bool" where
  "WithDefaults z = default_part (Spec_withDefaults (MetaName (Meta z))) Spec Spec_update (z, False)"

section \<open>Accessors\<close>

definition GetName :: "ZookeeperCluster \<Rightarrow> string" where "GetName z = MetaName (Meta z)"
definition GetNamespace :: "ZookeeperCluster \<Rightarrow> string" where "GetNamespace z = MetaNamespace (Meta z)"

definition ConfigMapName :: "ZookeeperCluster \<Rightarrow> string" where
  "ConfigMapName z = GetName z @ ''-configmap''"

definition GetKubernetesClusterDomain :: "ZookeeperCluster \<Rightarrow> string" where
  "GetKubernetesClusterDomain z =
     (if KubernetesClusterDomain (Spec z) = [] then ''cluster.local'' else KubernetesClusterDomain (Spec z))"

fun port_struct :: "ContainerPort list \<Rightarrow> Ports \<Rightarrow> Ports" where
  "port_struct [] r = r"
| "port_struct (p # ps) r = port_struct ps
     (if PortName p = ''client'' then r\<lparr>ClientPort := PortNumber p\<rparr>
      else if PortName p = ''quorum'' then r\<lparr>QuorumPort := PortNumber p\<rparr>
      else if PortName p = ''leader-election'' then r\<lparr>LeaderPort := PortNumber p\<rparr>
      else if PortName p = ''metrics'' then r\<lparr>MetricsPort := PortNumber p\<rparr>
      else if PortName p = ''admin-server'' then r\<lparr>AdminServerPort := PortNumber p\<rparr>
      else r)"

definition ports_of :: "ContainerPort list option \<Rightarrow> ContainerPort list" where
  "ports_of ps = (case ps of None \<Rightarrow> [] | Some l \<Rightarrow> l)"

definition ZookeeperPorts :: "ZookeeperCluster \<Rightarrow> Ports" where
  "ZookeeperPorts z = port_struct (ports_of (SpecPorts (Spec z)))
     \<lparr>ClientPort = 0, QuorumPort = 0, LeaderPort = 0, MetricsPort = 0, AdminServerPort = 0\<rparr>"

definition GetClientServiceName :: "ZookeeperCluster \<Rightarrow> string" where
  "GetClientServiceName z = GetName z @ ''-client''"

definition GetAdminServerServiceName :: "ZookeeperCluster \<Rightarrow> string" where
  "GetAdminServerServiceName z = GetName z @ ''-admin-server''"

definition GetTriggerRollingRestart :: "ZookeeperCluster \<Rightarrow> bool" where
  "GetTriggerRollingRestart z = TriggerRollingRestart (Spec z)"

definition SetTriggerRollingRestart :: "bool \<Rightarrow> ZookeeperCluster \<Rightarrow> ZookeeperCluster" where
  "SetTriggerRollingRestart val z = z\<lparr>Spec := (Spec z)\<lparr>TriggerRollingRestart := val\<rparr>\<rparr>"

section \<open>What defaulting achieves\<close>

text \<open>
  For each type a predicate says that nothing is left to default. Three facts carry the proofs: a
  complete value is left alone, the flag is raised exactly on incomplete values, and the result is
  complete.
\<close>

lemma default_key_snd: "snd (default_key k v g u p) \<longleftrightarrow> gm_get (g (fst p)) k = None \<or> snd p"
  by (simp add: default_key_def set_default_snd)

lemma default_key_this:
  "(\<And>f x. g (u f x) = f (g x)) \<Longrightarrow>
     g (fst (default_key k v g u p)) =
       (if gm_get (g (fst p)) k = None then Some (gm_put k v (gm_range (g (fst p)))) else g (fst p))"
  by (simp add: default_key_def set_default_this)

lemma default_key_other:
  "(\<And>f x. sel (u f x) = sel x) \<Longrightarrow> sel (fst (default_key k v g u p)) = sel (fst p)"
  by (simp add: default_key_def set_default_other)

lemma default_key_keep: "gm_get (g (fst p)) k \<noteq> None \<Longrightarrow> default_key k v g u p = p"
  by (simp add: default_key_def set_default_keep)

lemmas set_default_rules = set_default_snd set_default_this set_default_other default_key_snd
  default_key_this default_key_other
lemmas set_default_stops = set_default_keep default_key_keep

lemma gm_get_put [simp]:
  "gm_get (Some (gm_put k v (gm_range m))) j = (if j = k then Some v else gm_get m j)"
  by (cases m) simp_all

definition ContainerImage_complete :: "ContainerImage \<Rightarrow> bool" where
  "ContainerImage_complete c \<longleftrightarrow> Repository c \<noteq> [] \<and> Tag c \<noteq> [] \<and> PullPolicy c \<noteq> []"

lemma ContainerImage_keep: "ContainerImage_complete c \<Longrightarrow> ContainerImage_withDefaults c = (c, False)"
  by (simp add: ContainerImage_complete_def ContainerImage_withDefaults_def set_default_stops)

lemma ContainerImage_changed: "snd (ContainerImage_withDefaults c) \<longleftrightarrow> \<not> ContainerImage_complete c"
  by (auto simp: ContainerImage_complete_def ContainerImage_withDefaults_def set_default_rules)

lemma ContainerImage_result: "ContainerImage_complete (fst (ContainerImage_withDefaults c))"
  by (simp add: ContainerImage_complete_def ContainerImage_withDefaults_def set_default_rules
      DefaultZkContainerPolicy_def DefaultZkContainerVersion_def DefaultZkContainerRepository_def)

definition ZookeeperConfig_complete :: "ZookeeperConfig \<Rightarrow> bool" where
  "ZookeeperConfig_complete c \<longleftrightarrow> InitLimit c \<noteq> 0 \<and> TickTime c \<noteq> 0 \<and> SyncLimit c \<noteq> 0 \<and>
     GlobalOutstandingLimit c \<noteq> 0 \<and> PreAllocSize c \<noteq> 0 \<and> SnapCount c \<noteq> 0 \<and> CommitLogCount c \<noteq> 0 \<and>
     SnapSizeLimitInKb c \<noteq> 0 \<and> MaxClientCnxns c \<noteq> 0 \<and> MinSessionTimeout c \<noteq> 0 \<and> MaxSessionTimeout c \<noteq> 0 \<and>
     AutoPurgeSnapRetainCount c \<noteq> 0 \<and> AutoPurgePurgeInterval c \<noteq> 0"

text \<open>
  The session timeouts default to multiples of the tick time, in 64-bit arithmetic that may wrap
  around to 0. The tick times for which it does not:
\<close>

definition timeouts_default :: "ZookeeperConfig \<Rightarrow> bool" where
  "timeouts_default c \<longleftrightarrow>
     (let tick = (if TickTime c = 0 then 2000 else TickTime c)
      in (MinSessionTimeout c \<noteq> 0 \<or> 2 * tick \<noteq> 0) \<and> (MaxSessionTimeout c \<noteq> 0 \<or> 20 * tick \<noteq> 0))"

lemma ZookeeperConfig_keep: "ZookeeperConfig_complete c \<Longrightarrow> ZookeeperConfig_withDefaults c = (c, False)"
  by (simp add: ZookeeperConfig_complete_def ZookeeperConfig_withDefaults_def set_default_stops)

lemma ZookeeperConfig_changed: "snd (ZookeeperConfig_withDefaults c) \<longleftrightarrow> \<not> ZookeeperConfig_complete c"
  unfolding ZookeeperConfig_complete_def ZookeeperConfig_withDefaults_def Let_def
  by (simp add: set_default_rules) argo

lemma ZookeeperConfig_sel:
  "InitLimit (fst (ZookeeperConfig_withDefaults c)) = (if InitLimit c = 0 then 10 else InitLimit c)"
  "TickTime (fst (ZookeeperConfig_withDefaults c)) = (if TickTime c = 0 then 2000 else TickTime c)"
  "MinSessionTimeout (fst (ZookeeperConfig_withDefaults c)) =
     (if MinSessionTimeout c = 0 then 2 * (if TickTime c = 0 then 2000 else TickTime c) else MinSessionTimeout c)"
  "MaxSessionTimeout (fst (ZookeeperConfig_withDefaults c)) =
     (if MaxSessionTimeout c = 0 then 20 * (if TickTime c = 0 then 2000 else TickTime c) else MaxSessionTimeout c)"
  "QuorumListenOnAllIPs (fst (ZookeeperConfig_withDefaults c)) = QuorumListenOnAllIPs c"
  "AdditionalConfig (fst (ZookeeperConfig_withDefaults c)) = AdditionalConfig c"
  "MaxCnxns (fst (ZookeeperConfig_withDefaults c)) = MaxCnxns c"
  by (simp_all add: ZookeeperConfig_withDefaults_def set_default_rules)

lemma ZookeeperConfig_result:
  "ZookeeperConfig_complete (fst (ZookeeperConfig_withDefaults c)) \<longleftrightarrow> timeouts_default c"
  unfolding ZookeeperConfig_complete_def ZookeeperConfig_sel
  by (simp add: ZookeeperConfig_withDefaults_def set_default_rules timeouts_default_def Let_def)

definition Probes_complete :: "Probes \<Rightarrow> bool" where
  "Probes_complete p \<longleftrightarrow> ReadinessProbe p \<noteq> None \<and> LivenessProbe p \<noteq> None"

lemma Probes_keep: "Probes_complete p \<Longrightarrow> Probes_withDefaults p = (p, False)"
  by (simp add: Probes_complete_def Probes_withDefaults_def set_default_stops)

lemma Probes_changed: "snd (Probes_withDefaults p) \<longleftrightarrow> \<not> Probes_complete p"
  by (auto simp: Probes_complete_def Probes_withDefaults_def set_default_rules)

lemma Probes_result: "Probes_complete (fst (Probes_withDefaults p))"
  by (simp add: Probes_complete_def Probes_withDefaults_def set_default_rules)

definition PodPolicy_complete :: "PodPolicy \<Rightarrow> bool" where
  "PodPolicy_complete p \<longleftrightarrow> PodLabels p \<noteq> None \<and> TerminationGracePeriodSeconds p \<noteq> 0 \<and> ServiceAccountName p \<noteq> [] \<and>
     gm_get (PodLabels p) ''app'' \<noteq> None \<and> gm_get (PodLabels p) ''release'' \<noteq> None \<and> PodAffinity p \<noteq> None"

lemma PodPolicy_keep: "PodPolicy_complete p \<Longrightarrow> PodPolicy_withDefaults name p = (p, False)"
  by (simp add: PodPolicy_complete_def PodPolicy_withDefaults_def set_default_stops)

lemma PodPolicy_changed: "snd (PodPolicy_withDefaults name p) \<longleftrightarrow> \<not> PodPolicy_complete p"
  by (auto simp: PodPolicy_complete_def PodPolicy_withDefaults_def set_default_rules)

lemma PodPolicy_result: "PodPolicy_complete (fst (PodPolicy_withDefaults name p))"
  by (simp add: PodPolicy_complete_def PodPolicy_withDefaults_def set_default_rules DefaultTerminationGracePeriod_def)

text \<open>
  Persistence is the exception: the access modes are overwritten without raising the flag.
\<close>

definition Persistence_complete :: "Persistence \<Rightarrow> bool" where
  "Persistence_complete p \<longleftrightarrow> isValid (VolumeReclaimPolicy p) \<and> storage_request p \<noteq> 0"

lemma Persistence_keep:
  "Persistence_complete p \<Longrightarrow> Persistence_withDefaults p =
     (p\<lparr>ClaimSpec := (ClaimSpec p)\<lparr>AccessModes := [''ReadWriteOnce'']\<rparr>\<rparr>, False)"
  by (simp add: Persistence_complete_def Persistence_withDefaults_def set_default_stops storage_request_def)

lemma Persistence_changed: "snd (Persistence_withDefaults p) \<longleftrightarrow> \<not> Persistence_complete p"
  by (simp add: Persistence_complete_def Persistence_withDefaults_def set_default_def storage_request_def Let_def)

lemma Persistence_result:
  "Persistence_complete (fst (Persistence_withDefaults p)) \<and>
   AccessModes (ClaimSpec (fst (Persistence_withDefaults p))) = [''ReadWriteOnce'']"
  by (simp add: Persistence_complete_def Persistence_withDefaults_def set_default_def storage_request_def
      isValid_def VolumeReclaimPolicyRetain_def VolumeReclaimPolicyDelete_def DefaultZookeeperCacheVolumeSize_def Let_def)

interpretation image: exact_defaulter ContainerImage_withDefaults "\<lambda>_. True"
  by unfold_locales (auto simp: ContainerImage_keep ContainerImage_result ContainerImage_changed)

interpretation config: exact_defaulter ZookeeperConfig_withDefaults timeouts_default
  by unfold_locales (auto simp: ZookeeperConfig_keep ZookeeperConfig_result ZookeeperConfig_changed)

interpretation probes: exact_defaulter Probes_withDefaults "\<lambda>_. True"
  by unfold_locales (auto simp: Probes_keep Probes_result Probes_changed)

interpretation pod: exact_defaulter "PodPolicy_withDefaults name" "\<lambda>_. True" for name :: string
  by unfold_locales (auto simp: PodPolicy_keep PodPolicy_result PodPolicy_changed)

interpretation persistence: defaulter Persistence_withDefaults "\<lambda>_. True"
proof
  fix p :: Persistence
  let ?q = "fst (Persistence_withDefaults p)"
  have "?q\<lparr>ClaimSpec := (ClaimSpec ?q)\<lparr>AccessModes := [''ReadWriteOnce'']\<rparr>\<rparr> = ?q"
    using Persistence_result [of p] by (cases ?q) (cases "ClaimSpec ?q", simp)
  then show "Persistence_withDefaults ?q = (?q, False)"
    using Persistence_result [of p] Persistence_keep [of ?q] by simp
qed

subsection \<open>Ports\<close>

definition port_names :: "string list" where
  "port_names = [''client'', ''quorum'', ''leader-election'', ''metrics'', ''admin-server'']"

definition ports_complete :: "ContainerPort list \<Rightarrow> bool" where
  "ports_complete ps \<longleftrightarrow> list_all (\<lambda>n. list_ex (\<lambda>p. PortName p = n) ps) port_names"

definition has_port :: "string \<Rightarrow> ContainerPort list \<Rightarrow> bool" where
  "has_port n ps \<longleftrightarrow> list_ex (\<lambda>p. PortName p = n) ps"

lemma has_port_simps [simp]:
  "\<not> has_port n []" "has_port n (p # ps) \<longleftrightarrow> PortName p = n \<or> has_port n ps"
  "has_port n (ps @ qs) \<longleftrightarrow> has_port n ps \<or> has_port n qs"
  by (auto simp: has_port_def)

lemma has_port_mk [simp]: "PortName (mk_port n k) = n" "PortNumber (mk_port n k) = k"
  by (simp_all add: mk_port_def)

lemma ports_complete_iff:
  "ports_complete ps \<longleftrightarrow> has_port ''client'' ps \<and> has_port ''quorum'' ps \<and> has_port ''leader-election'' ps \<and>
     has_port ''metrics'' ps \<and> has_port ''admin-server'' ps"
  by (simp add: ports_complete_def port_names_def has_port_def)

lemma scan_ports_found:
  "foundClient (scan_ports ps f) \<longleftrightarrow> foundClient f \<or> has_port ''client'' ps"
  "foundQuorum (scan_ports ps f) \<longleftrightarrow> foundQuorum f \<or> has_port ''quorum'' ps"
  "foundLeader (scan_ports ps f) \<longleftrightarrow> foundLeader f \<or> has_port ''leader-election'' ps"
  "foundMetrics (scan_ports ps f) \<longleftrightarrow> foundMetrics f \<or> has_port ''metrics'' ps"
  "foundAdmin (scan_ports ps f) \<longleftrightarrow> foundAdmin f \<or> has_port ''admin-server'' ps"
  by (induction ps f rule: scan_ports.induct) auto

lemmas ports_rules = ports_withDefaults_def scan_ports_found none_found_def add_missing_def

lemma ports_keep: "ports_complete ps \<Longrightarrow> ports_withDefaults (Some ps) = (ps, False)"
  by (simp add: ports_rules ports_complete_iff)

lemma ports_changed: "snd (ports_withDefaults ps) \<longleftrightarrow> \<not> (\<exists>l. ps = Some l \<and> ports_complete l)"
  by (cases ps) (auto simp: ports_rules ports_complete_iff Let_def)

lemma ports_result: "ports_complete (fst (ports_withDefaults ps))"
  by (cases ps) (simp_all add: ports_rules ports_complete_iff default_ports_def Let_def)

text \<open>The user's own ports are kept, in order, in front of the added ones.\<close>

lemma ports_prefix: "\<exists>added. fst (ports_withDefaults (Some ps)) = ps @ added"
  by (simp add: ports_rules Let_def)

subsection \<open>Storage and the whole specification\<close>

definition storage_complete :: "ZookeeperClusterSpec \<Rightarrow> bool" where
  "storage_complete s \<longleftrightarrow>
     (if EqualFold (StorageType s) ''ephemeral'' then SpecEphemeral s \<noteq> None
      else case SpecPersistence s of None \<Rightarrow> False | Some p \<Rightarrow> Persistence_complete p)"

text \<open>The one silent change: the access modes of a persistent claim.\<close>

definition force_access_modes :: "Persistence \<Rightarrow> Persistence" where
  "force_access_modes p = p\<lparr>ClaimSpec := (ClaimSpec p)\<lparr>AccessModes := [''ReadWriteOnce'']\<rparr>\<rparr>"

definition normal_storage :: "ZookeeperClusterSpec \<Rightarrow> ZookeeperClusterSpec" where
  "normal_storage s =
     (if EqualFold (StorageType s) ''ephemeral'' then s
      else s\<lparr>SpecPersistence := map_option force_access_modes (SpecPersistence s)\<rparr>)"

lemma EqualFold_persistence [simp]: "\<not> EqualFold ''persistence'' ''ephemeral''"
  by (simp add: EqualFold_def)

definition no_persistence :: Persistence where
  "no_persistence = \<lparr>VolumeReclaimPolicy = [], ClaimSpec = \<lparr>AccessModes = [], ClaimResources =
     \<lparr>Limits = None, Requests = None, ResourcesRest = []\<rparr>, ClaimRest = []\<rparr>, PersistenceAnnotations = None\<rparr>"

lemma storage_ephemeral:
  "EqualFold (StorageType s) ''ephemeral'' \<Longrightarrow> storage_withDefaults (s, b) =
     set_default is_nil SpecEphemeral SpecEphemeral_update (\<lambda>_. Some \<lparr>EmptyDirVolumeSource = []\<rparr>) (s, b)"
  by (simp add: storage_withDefaults_def)

lemma storage_persistent:
  assumes "\<not> EqualFold (StorageType s) ''ephemeral''"
  defines "p \<equiv> (case SpecPersistence s of None \<Rightarrow> no_persistence | Some p \<Rightarrow> p)"
  shows "storage_withDefaults (s, b) =
     (s\<lparr>SpecPersistence := Some (fst (Persistence_withDefaults p)),
        StorageType := (if \<not> Persistence_complete p then ''persistence'' else StorageType s)\<rparr>,
      \<not> Persistence_complete p \<or> b)"
proof -
  have inc: "\<not> Persistence_complete no_persistence"
    by (simp add: Persistence_complete_def no_persistence_def isValid_def VolumeReclaimPolicyRetain_def
        VolumeReclaimPolicyDelete_def)
  have id: "s\<lparr>SpecPersistence := x\<rparr> = s\<lparr>SpecPersistence := x, StorageType := StorageType s\<rparr>" for x
    by (cases s) simp
  obtain q ch where q: "Persistence_withDefaults p = (q, ch)" by (metis prod.exhaust)
  then have ch: "ch \<longleftrightarrow> \<not> Persistence_complete p" using Persistence_changed [of p] by simp
  show ?thesis
  proof (cases "SpecPersistence s")
    case None
    then have "p = no_persistence" by (simp add: p_def)
    with q ch inc None assms(1) show ?thesis
      by (simp add: storage_withDefaults_def Let_def no_persistence_def)
  next
    case (Some p')
    then have "p = p'" by (simp add: p_def)
    with q ch Some assms(1) id show ?thesis
      by (simp add: storage_withDefaults_def Let_def)
  qed
qed

lemma storage_keep: "storage_complete s \<Longrightarrow> storage_withDefaults (s, b) = (normal_storage s, b)"
  by (cases s) (auto simp: storage_complete_def normal_storage_def storage_ephemeral storage_persistent
      set_default_keep Persistence_keep force_access_modes_def split: option.splits if_splits)

lemma storage_changed: "snd (storage_withDefaults p) \<longleftrightarrow> \<not> storage_complete (fst p) \<or> snd p"
proof -
  have inc: "\<not> Persistence_complete no_persistence"
    by (simp add: Persistence_complete_def no_persistence_def isValid_def VolumeReclaimPolicyRetain_def
        VolumeReclaimPolicyDelete_def)
  show ?thesis
    by (cases p; cases "EqualFold (StorageType (fst p)) ''ephemeral''")
       (auto simp: storage_complete_def storage_ephemeral storage_persistent set_default_snd inc split: option.splits)
qed

lemma force_access_modes_result:
  "force_access_modes (fst (Persistence_withDefaults q)) = fst (Persistence_withDefaults q)"
  using Persistence_result [of q]
  by (cases "fst (Persistence_withDefaults q)"; cases "ClaimSpec (fst (Persistence_withDefaults q))")
     (simp add: force_access_modes_def)

lemma storage_result:
  "storage_complete (fst (storage_withDefaults p)) \<and>
   normal_storage (fst (storage_withDefaults p)) = fst (storage_withDefaults p)"
  by (cases p; cases "EqualFold (StorageType (fst p)) ''ephemeral''")
     (auto simp: storage_complete_def normal_storage_def storage_ephemeral storage_persistent set_default_def
       Persistence_result force_access_modes_result)

lemma storage_frame [frame]:
  assumes "\<And>f x. sel (StorageType_update f x) = sel x" and "\<And>f x. sel (SpecPersistence_update f x) = sel x"
    and "\<And>f x. sel (SpecEphemeral_update f x) = sel x"
  shows "sel (fst (storage_withDefaults p)) = sel (fst p)"
  by (cases p; cases "EqualFold (StorageType (fst p)) ''ephemeral''")
     (simp_all add: assms storage_ephemeral storage_persistent set_default_def)

lemma default_part_snd: "snd (default_part wd g u p) \<longleftrightarrow> snd (wd (g (fst p))) \<or> snd p"
  by (simp add: default_part_def split: prod.splits)

lemma default_part_this:
  "(\<And>f x. g (u f x) = f (g x)) \<Longrightarrow> g (fst (default_part wd g u p)) = fst (wd (g (fst p)))"
  by (simp add: default_part_def split: prod.splits)

lemma default_part_other:
  "(\<And>f x. sel (u f x) = sel x) \<Longrightarrow> sel (fst (default_part wd g u p)) = sel (fst p)"
  by (simp add: default_part_def split: prod.splits)

lemma default_part_keep:
  "wd (g (fst p)) = (g (fst p), False) \<Longrightarrow> u (\<lambda>_. g (fst p)) (fst p) = fst p \<Longrightarrow> default_part wd g u p = p"
  by (simp add: default_part_def)

lemmas spec_rules = set_default_rules default_part_snd default_part_this default_part_other storage_frame

definition Spec_complete :: "ZookeeperClusterSpec \<Rightarrow> bool" where
  "Spec_complete s \<longleftrightarrow> ContainerImage_complete (Image s) \<and> ZookeeperConfig_complete (Conf s) \<and> Replicas s \<noteq> 0 \<and>
     (\<exists>p. SpecProbes s = Some p \<and> Probes_complete p) \<and> (\<exists>ps. SpecPorts s = Some ps \<and> ports_complete ps) \<and>
     Labels s \<noteq> None \<and> gm_get (Labels s) ''app'' \<noteq> None \<and> gm_get (Labels s) ''release'' \<noteq> None \<and>
     PodPolicy_complete (Pod s) \<and> storage_complete s \<and> 1 \<le> sint (MaxUnavailableReplicas s)"

lemma spec_updates_id:
  "s\<lparr>Image := Image s\<rparr> = s" "s\<lparr>Conf := Conf s\<rparr> = s" "s\<lparr>SpecProbes := SpecProbes s\<rparr> = s"
  "s\<lparr>SpecPorts := SpecPorts s\<rparr> = s" "s\<lparr>Pod := Pod s\<rparr> = s"
  by simp_all

lemma Spec_keep: "Spec_complete s \<Longrightarrow> Spec_withDefaults name s = (normal_storage s, False)"
proof -
  assume c: "Spec_complete s"
  then obtain p ps where p: "SpecProbes s = Some p" "Probes_complete p" "SpecPorts s = Some ps" "ports_complete ps"
    by (auto simp: Spec_complete_def)
  have part: "default_part (\<lambda>x. apfst Some (Probes_withDefaults (the x))) SpecProbes SpecProbes_update (s, False) = (s, False)"
    "default_part (\<lambda>x. apfst Some (ports_withDefaults x)) SpecPorts SpecPorts_update (s, False) = (s, False)"
    using p by (auto intro!: default_part_keep simp: Probes_keep ports_keep spec_updates_id(3,4) [of s, simplified p])
  have max: "MaxUnavailableReplicas (normal_storage s) = MaxUnavailableReplicas s"
    by (simp add: normal_storage_def)
  from c part p max show ?thesis
    by (simp add: Spec_withDefaults_def Spec_complete_def set_default_stops default_part_keep ContainerImage_keep
        ZookeeperConfig_keep PodPolicy_keep storage_keep spec_updates_id)
qed

lemma storage_complete_cong:
  "StorageType s = StorageType t \<Longrightarrow> SpecEphemeral s = SpecEphemeral t \<Longrightarrow> SpecPersistence s = SpecPersistence t
     \<Longrightarrow> storage_complete s = storage_complete t"
  by (simp add: storage_complete_def)

lemma max_update_storage:
  "storage_complete (MaxUnavailableReplicas_update f s) = storage_complete s"
  "normal_storage (MaxUnavailableReplicas_update f s) = MaxUnavailableReplicas_update f (normal_storage s)"
  by (simp_all add: storage_complete_def normal_storage_def)

lemma Spec_changed: "snd (Spec_withDefaults name s) \<longleftrightarrow> \<not> Spec_complete s"
proof -
  define p10 where "p10 = default_part (PodPolicy_withDefaults name) Pod Pod_update
    (default_key ''release'' name Labels Labels_update (default_key ''app'' name Labels Labels_update
    (set_default is_nil Labels Labels_update (\<lambda>_. Some [])
    (default_part (\<lambda>x. apfst Some (ports_withDefaults x)) SpecPorts SpecPorts_update
    (default_part (\<lambda>x. apfst Some (Probes_withDefaults (the x))) SpecProbes SpecProbes_update
    (set_default is_nil SpecProbes SpecProbes_update (\<lambda>_. Some \<lparr>ReadinessProbe = None, LivenessProbe = None\<rparr>)
    (set_default is_zero_word Replicas Replicas_update (\<lambda>_. 3)
    (default_part ZookeeperConfig_withDefaults Conf Conf_update
    (default_part ContainerImage_withDefaults Image Image_update (s, False))))))))))"
  have st: "storage_complete (fst p10) = storage_complete s"
    by (rule storage_complete_cong) (simp_all add: p10_def spec_rules)
  have "snd (Spec_withDefaults name s) \<longleftrightarrow>
      sint (MaxUnavailableReplicas (fst (storage_withDefaults p10))) < 1 \<or> \<not> storage_complete s \<or> snd p10"
    by (simp add: Spec_withDefaults_def Let_def p10_def [symmetric] set_default_snd storage_changed st)
  moreover have "MaxUnavailableReplicas (fst (storage_withDefaults p10)) = MaxUnavailableReplicas s"
    by (simp add: p10_def spec_rules)
  moreover have "snd p10 \<longleftrightarrow> \<not> (ContainerImage_complete (Image s) \<and> ZookeeperConfig_complete (Conf s) \<and> Replicas s \<noteq> 0 \<and>
     (\<exists>p. SpecProbes s = Some p \<and> Probes_complete p) \<and> (\<exists>ps. SpecPorts s = Some ps \<and> ports_complete ps) \<and>
     Labels s \<noteq> None \<and> gm_get (Labels s) ''app'' \<noteq> None \<and> gm_get (Labels s) ''release'' \<noteq> None \<and>
     PodPolicy_complete (Pod s))"
    by (cases "Labels s"; cases "SpecProbes s")
       (auto simp: p10_def spec_rules ContainerImage_changed ZookeeperConfig_changed Probes_changed
         ports_changed PodPolicy_changed Probes_complete_def)
  ultimately show ?thesis by (auto simp: Spec_complete_def)
qed

lemma Spec_result:
  assumes "timeouts_default (Conf s)"
  shows "Spec_complete (fst (Spec_withDefaults name s))"
    and "normal_storage (fst (Spec_withDefaults name s)) = fst (Spec_withDefaults name s)"
proof -
  let ?r = "fst (Spec_withDefaults name s)"
  obtain q where q: "?r = fst (set_default (\<lambda>n. sint n < 1) MaxUnavailableReplicas MaxUnavailableReplicas_update
      (\<lambda>_. 1) (storage_withDefaults q))"
    by (simp add: Spec_withDefaults_def Let_def)
  have "storage_complete ?r \<and> normal_storage ?r = ?r"
    unfolding q using storage_result [of q]
    by (simp add: set_default_def max_update_storage)
  moreover have "ContainerImage_complete (Image ?r)" "ZookeeperConfig_complete (Conf ?r)" "PodPolicy_complete (Pod ?r)"
    using assms by (simp_all add: Spec_withDefaults_def Let_def spec_rules ContainerImage_result
        ZookeeperConfig_result PodPolicy_result)
  moreover have "Replicas ?r \<noteq> 0" "1 \<le> sint (MaxUnavailableReplicas ?r)" "Labels ?r \<noteq> None"
    "gm_get (Labels ?r) ''app'' \<noteq> None" "gm_get (Labels ?r) ''release'' \<noteq> None"
    by (simp_all add: Spec_withDefaults_def Let_def spec_rules)
  moreover have "\<exists>p. SpecProbes ?r = Some p \<and> Probes_complete p" "\<exists>ps. SpecPorts ?r = Some ps \<and> ports_complete ps"
    by (simp_all add: Spec_withDefaults_def Let_def spec_rules Probes_result ports_result)
  ultimately show "Spec_complete ?r" "normal_storage ?r = ?r" by (auto simp: Spec_complete_def)
qed

interpretation spec: defaulter "Spec_withDefaults name" "\<lambda>s. timeouts_default (Conf s)" for name :: string
proof
  fix s :: ZookeeperClusterSpec
  assume ok: "timeouts_default (Conf s)"
  show "Spec_withDefaults name (fst (Spec_withDefaults name s)) = (fst (Spec_withDefaults name s), False)"
    using Spec_keep [OF Spec_result(1) [OF ok]] Spec_result(2) [OF ok] by simp
qed

lemma WithDefaults_eq:
  "WithDefaults z = (z\<lparr>Spec := fst (Spec_withDefaults (MetaName (Meta z)) (Spec z))\<rparr>, \<not> Spec_complete (Spec z))"
  using Spec_changed [of "MetaName (Meta z)" "Spec z"] by (auto simp: WithDefaults_def default_part_def split: prod.splits)

lemma WithDefaults_sel [simp]:
  "Meta (fst (WithDefaults z)) = Meta z" "Status (fst (WithDefaults z)) = Status z"
  "Spec (fst (WithDefaults z)) = fst (Spec_withDefaults (MetaName (Meta z)) (Spec z))"
  by (simp_all add: WithDefaults_eq)

interpretation cluster: defaulter WithDefaults "\<lambda>z. timeouts_default (Conf (Spec z))"
proof
  fix z :: ZookeeperCluster
  assume ok: "timeouts_default (Conf (Spec z))"
  have "fst (Spec_withDefaults (MetaName (Meta z)) (fst (Spec_withDefaults (MetaName (Meta z)) (Spec z))))
      = fst (Spec_withDefaults (MetaName (Meta z)) (Spec z))"
    using ok by (simp add: spec.stable_twice)
  then show "WithDefaults (fst (WithDefaults z)) = (fst (WithDefaults z), False)"
    using Spec_result(1) [OF ok] by (simp add: WithDefaults_eq)
qed

end
