(* ===== verification/SampleCluster.thy ===== *)
theory SampleCluster
  imports Defaults
begin

text \<open>
  A concrete cluster for evaluating the model: what a user writes who names the cluster, asks for
  three replicas and leaves the rest to the defaults (\<open>config/samples\<close>), and the same cluster after
  \<open>WithDefaults\<close>.
\<close>

definition empty_status :: ZookeeperClusterStatus where
  "empty_status = \<lparr>Members = \<lparr>ReadyMembers = [], UnreadyMembers = []\<rparr>, StatusReplicas = 0, ReadyReplicas = 0,
     InternalClientEndpoint = [], ExternalClientEndpoint = [], MetaRootCreated = False, CurrentVersion = [],
     TargetVersion = [], Conditions = []\<rparr>"

definition bare_spec :: ZookeeperClusterSpec where
  "bare_spec = \<lparr>Image = \<lparr>Repository = [], Tag = [], PullPolicy = []\<rparr>, Labels = None, Replicas = 3, SpecPorts = None,
     Pod = \<lparr>PodLabels = None, NodeSelector = None, PodAffinity = None, TopologySpreadConstraints = [],
       PodResources = \<lparr>Limits = None, Requests = None, ResourcesRest = []\<rparr>, Tolerations = [], PodEnv = [],
       PodAnnotations = None, SecurityContext = None, TerminationGracePeriodSeconds = 0,
       ServiceAccountName = [], ImagePullSecrets = []\<rparr>,
     AdminServerService = \<lparr>AdminAnnotations = None, AdminExternal = False\<rparr>,
     ClientService = \<lparr>ClientAnnotations = None\<rparr>, TriggerRollingRestart = False,
     HeadlessService = \<lparr>HeadlessAnnotations = None\<rparr>, StorageType = [], SpecPersistence = None,
     SpecEphemeral = None,
     Conf = \<lparr>InitLimit = 0, TickTime = 0, SyncLimit = 0, GlobalOutstandingLimit = 0, PreAllocSize = 0,
       SnapCount = 0, CommitLogCount = 0, SnapSizeLimitInKb = 0, MaxCnxns = 0, MaxClientCnxns = 0,
       MinSessionTimeout = 0, MaxSessionTimeout = 0, AutoPurgeSnapRetainCount = 0, AutoPurgePurgeInterval = 0,
       QuorumListenOnAllIPs = False, AdditionalConfig = None\<rparr>,
     DomainName = [], KubernetesClusterDomain = [], SpecContainers = [], SpecInitContainers = None,
     SpecVolumes = [], SpecVolumeMounts = [], SpecProbes = None, MaxUnavailableReplicas = 0\<rparr>"

definition bare_cluster :: ZookeeperCluster where
  "bare_cluster = \<lparr>Meta = empty_meta\<lparr>MetaName := ''zk'', MetaNamespace := ''default'', MetaUID := ''u1'',
     ResourceVersion := ''7''\<rparr>, Spec = bare_spec, Status = empty_status\<rparr>"

definition sample_cluster :: ZookeeperCluster where
  "sample_cluster = fst (WithDefaults bare_cluster)"

lemma bare_timeouts: "timeouts_default (Conf (Spec bare_cluster))"
  by (simp add: timeouts_default_def bare_cluster_def bare_spec_def)

lemma sample_complete: "Spec_complete (Spec sample_cluster)"
  using Spec_result(1) [OF bare_timeouts] by (simp add: sample_cluster_def)

lemma sample_name [simp]: "GetName sample_cluster = ''zk''"
  by (simp add: sample_cluster_def GetName_def bare_cluster_def empty_meta_def)

lemma sample_key [simp]: "GetNamespace sample_cluster = ''default''" "ConfigMapName sample_cluster = ''zk-configmap''"
  by (simp_all add: GetNamespace_def ConfigMapName_def) (simp add: sample_cluster_def bare_cluster_def empty_meta_def)

text \<open>C4. Defaulting settles after one pass: a second \<open>WithDefaults\<close> reports no change and makes none,
  so \<open>Reconcile\<close> (which writes the object and requeues whenever defaulting reports a change) does not
  loop. The hypothesis excludes only tick times whose multiple, the default of a session timeout the
  user left out, wraps around to 0 in 64 bits.\<close>

theorem WithDefaults_settles:
  assumes "timeouts_default (Conf (Spec z))"
  shows "WithDefaults (fst (WithDefaults z)) = (fst (WithDefaults z), False)"
  by (rule cluster.settled [OF assms])

theorem WithDefaults_settles_witness:
  "timeouts_default (Conf (Spec bare_cluster)) \<and>
   WithDefaults (fst (WithDefaults bare_cluster)) = (fst (WithDefaults bare_cluster), False)"
  using WithDefaults_settles [OF bare_timeouts] bare_timeouts by simp

text \<open>C40. The excluded tick times are a real defect: with \<open>tickTime\<close> \<open>2^62\<close> and no
  \<open>maxSessionTimeout\<close>, every pass of the defaulting reports a change and leaves the timeout at 0, so
  the reconciliation of such a cluster writes and requeues for ever and never reaches its handlers.\<close>

theorem WithDefaults_livelock:
  fixes z :: ZookeeperCluster
  assumes "TickTime (Conf (Spec z)) = 4611686018427387904" and "MaxSessionTimeout (Conf (Spec z)) = 0"
  shows "snd (WithDefaults (((fst \<circ> WithDefaults) ^^ n) z)) \<and>
     MaxSessionTimeout (Conf (Spec (((fst \<circ> WithDefaults) ^^ n) z))) = 0"
proof -
  let ?it = "((fst \<circ> WithDefaults) ^^ n) z"
  have "TickTime (Conf (Spec ?it)) = 4611686018427387904 \<and> MaxSessionTimeout (Conf (Spec ?it)) = 0"
  proof (induction n)
    case 0
    show ?case using assms by simp
  next
    case (Suc n)
    then show ?case
      by (simp add: Spec_withDefaults_def Let_def spec_rules ZookeeperConfig_sel)
  qed
  then show ?thesis
    by (simp add: WithDefaults_eq Spec_complete_def ZookeeperConfig_complete_def)
qed

theorem WithDefaults_livelock_witness:
  "\<exists>z. TickTime (Conf (Spec z)) = 4611686018427387904 \<and> MaxSessionTimeout (Conf (Spec z)) = 0 \<and>
     snd (WithDefaults (((fst \<circ> WithDefaults) ^^ 5) z))"
proof -
  let ?z = "bare_cluster\<lparr>Spec := bare_spec\<lparr>Conf := (Conf bare_spec)\<lparr>TickTime := 4611686018427387904\<rparr>\<rparr>\<rparr>"
  have t: "TickTime (Conf (Spec ?z)) = 4611686018427387904" "MaxSessionTimeout (Conf (Spec ?z)) = 0"
    by (simp_all add: bare_spec_def)
  from WithDefaults_livelock [OF t, of 5] t show ?thesis by blast
qed

text \<open>C3. \<open>WithDefaults\<close> reports a change exactly when a field was missing, and afterwards nothing is
  missing: image, configuration, replicas, probes, all five named ports, the \<open>app\<close> and \<open>release\<close>
  labels, the pod policy, the storage section and the disruption budget. The name, the namespace and
  the status are not touched.\<close>

theorem WithDefaults_completes:
  assumes "timeouts_default (Conf (Spec z))"
  shows "Spec_complete (Spec (fst (WithDefaults z))) \<and>
    (snd (WithDefaults z) \<longleftrightarrow> \<not> Spec_complete (Spec z)) \<and>
    Meta (fst (WithDefaults z)) = Meta z \<and> Status (fst (WithDefaults z)) = Status z"
  using Spec_result(1) [OF assms] by (simp_all add: WithDefaults_eq)

theorem WithDefaults_completes_witness:
  "\<not> Spec_complete (Spec bare_cluster) \<and> Spec_complete (Spec (fst (WithDefaults bare_cluster))) \<and>
   snd (WithDefaults bare_cluster)"
proof -
  have "\<not> Spec_complete (Spec bare_cluster)"
    by (simp add: Spec_complete_def bare_cluster_def bare_spec_def)
  then show ?thesis using WithDefaults_completes [OF bare_timeouts] by simp
qed

text \<open>A call that reports no change still overwrites the access modes of a persistent claim: they
  are forced to \<open>ReadWriteOnce\<close> in memory on every reconciliation, whatever the user wrote, and the
  stored object is not updated. This is the only change \<open>WithDefaults\<close> makes without reporting it.\<close>

lemma silent_change_is_access_modes:
  assumes "\<not> snd (WithDefaults z)"
  shows "fst (WithDefaults z) = z\<lparr>Spec := normal_storage (Spec z)\<rparr>"
  using assms Spec_keep [of "Spec z" "MetaName (Meta z)"] by (simp add: WithDefaults_eq)

lemma silent_change_is_access_modes_example:
  "\<not> snd (WithDefaults sample_cluster) \<and>
   fst (WithDefaults sample_cluster) = sample_cluster\<lparr>Spec := normal_storage (Spec sample_cluster)\<rparr>"
proof -
  have "\<not> snd (WithDefaults sample_cluster)" using sample_complete by (simp add: WithDefaults_eq)
  then show ?thesis using silent_change_is_access_modes [of sample_cluster] by blast
qed

end
