(* ===== verification/Utils.thy ===== *)
theory Utils
  imports SampleCluster
begin

text \<open>
  \<open>pkg/utils\<close> without the leader election: the helpers of \<open>finalizer_utils.go\<close>,
  \<open>zookeeper_util.go\<close> and \<open>test_utils.go\<close>.
\<close>

section \<open>finalizer\_utils.go\<close>

definition ZkFinalizer :: string where "ZkFinalizer = ''cleanUpZookeeperPVC''"

fun ContainsString :: "string list \<Rightarrow> string \<Rightarrow> bool" where
  "ContainsString [] str = False"
| "ContainsString (item # items) str = (if item = str then True else ContainsString items str)"

fun RemoveString_loop :: "string list \<Rightarrow> string \<Rightarrow> string list \<Rightarrow> string list" where
  "RemoveString_loop [] str result = result"
| "RemoveString_loop (item # items) str result =
     (if item = str then RemoveString_loop items str result
      else RemoveString_loop items str (result @ [item]))"

definition RemoveString :: "string list \<Rightarrow> string \<Rightarrow> string list" where
  "RemoveString items str = RemoveString_loop items str []"

text \<open>\<open>int32(ordinal)\<close> keeps the low 32 bits of Go's 64-bit \<open>int\<close>.\<close>

definition to_int32 :: "int \<Rightarrow> int32" where
  "to_int32 i = word_of_int i"

definition IsPVCOrphan :: "string \<Rightarrow> int32 \<Rightarrow> bool" where
  "IsPVCOrphan zkPvcName replicas =
     (let index = LastIndexAny zkPvcName (CHR ''-'')
      in if index = -1 then False
         else case Atoi (drop (nat (index + 1)) zkPvcName) of
             (ordinal, Some err) \<Rightarrow> False
           | (ordinal, None) \<Rightarrow> sint replicas \<le> sint (to_int32 ordinal))"

lemma ContainsString_iff [simp]: "ContainsString items str \<longleftrightarrow> str \<in> set items"
  by (induction items) auto

lemma RemoveString_loop_filter: "RemoveString_loop items str result = result @ filter (\<lambda>x. x \<noteq> str) items"
  by (induction items str result rule: RemoveString_loop.induct) auto

lemma RemoveString_filter: "RemoveString items str = filter (\<lambda>x. x \<noteq> str) items"
  by (simp add: RemoveString_def RemoveString_loop_filter)

text \<open>The PVC a StatefulSet makes from the claim template \<open>t\<close> for pod number \<open>i\<close> of \<open>name\<close>.\<close>

definition pvc_name :: "string \<Rightarrow> string \<Rightarrow> nat \<Rightarrow> string" where
  "pvc_name t name i = t @ ''-'' @ name @ ''-'' @ utoa i"

lemma sint_to_int32: "- (2 ^ 31) \<le> i \<Longrightarrow> i < 2 ^ 31 \<Longrightarrow> sint (to_int32 i) = i"
  by (simp add: to_int32_def sint_sbintrunc' signed_take_bit_int_eq_self)

lemma sint_to_int32_wrap: "sint (to_int32 i) = (i + 2 ^ 31) mod 2 ^ 32 - 2 ^ 31"
  by (simp add: to_int32_def sint_sbintrunc' signed_take_bit_eq_take_bit_shift take_bit_eq_mod)

lemma IsPVCOrphan_suffix:
  assumes "i < 2 ^ 63"
  shows "IsPVCOrphan (s @ ''-'' @ utoa i) replicas \<longleftrightarrow> sint replicas \<le> sint (to_int32 (int i))"
proof -
  have d: "CHR ''-'' \<notin> set (utoa i)" by (simp add: utoa_no_nondigit)
  have l: "LastIndexAny (s @ ''-'' @ utoa i) (CHR ''-'') = int (length s)"
    using LastIndexAny_last [OF d, of s] by simp
  have "int i < 2 ^ 63" using assms by (metis of_nat_less_iff of_nat_numeral of_nat_power)
  then have a: "Atoi (utoa i) = (int i, None)"
    using Atoi_Itoa [of "int i"] by (simp add: Itoa_def)
  have "nat (int (length s) + 1) = Suc (length s)" by simp
  with l a show ?thesis by (simp add: IsPVCOrphan_def Let_def)
qed

lemma IsPVCOrphan_ordinal:
  assumes "i < 2 ^ 31"
  shows "IsPVCOrphan (pvc_name t name i) replicas \<longleftrightarrow> sint replicas \<le> int i"
proof -
  have "int i < 2 ^ 31" using assms by (metis of_nat_less_iff of_nat_numeral of_nat_power)
  then have s: "sint (to_int32 (int i)) = int i" by (intro sint_to_int32) auto
  have "i < 2 ^ 63" using assms by simp
  from IsPVCOrphan_suffix [OF this, of "t @ ''-'' @ name" replicas] s
  show ?thesis by (simp add: pvc_name_def)
qed

text \<open>C7. \<open>IsPVCOrphan\<close> decides by the ordinal at the end of a claim's name, whatever dashes the template
  and the cluster name contain: the claim of pod \<open>i\<close> is an orphan exactly when \<open>i\<close>, reduced to a signed
  32-bit number by the conversion of the source, is at least the number of replicas. Below \<open>2^31\<close> the
  conversion changes nothing.\<close>

theorem IsPVCOrphan_decides_ordinal:
  assumes "i < 2 ^ 63"
  shows "(IsPVCOrphan (pvc_name t name i) replicas \<longleftrightarrow> sint replicas \<le> (int i + 2 ^ 31) mod 2 ^ 32 - 2 ^ 31) \<and>
    (i < 2 ^ 31 \<longrightarrow> (IsPVCOrphan (pvc_name t name i) replicas \<longleftrightarrow> sint replicas \<le> int i))"
  using IsPVCOrphan_suffix [OF assms, of "t @ ''-'' @ name" replicas] IsPVCOrphan_ordinal [of i t name replicas]
  unfolding sint_to_int32_wrap by (simp add: pvc_name_def)

theorem IsPVCOrphan_decides_ordinal_witness:
  "IsPVCOrphan (pvc_name ''data'' ''my-zk'' 3) 3 \<and> \<not> IsPVCOrphan (pvc_name ''data'' ''my-zk'' 2) 3 \<and>
   \<not> IsPVCOrphan (pvc_name ''data'' ''my-zk'' 4294967297) 3"
  using IsPVCOrphan_decides_ordinal [of 3 "''data''" "''my-zk''" 3]
    IsPVCOrphan_decides_ordinal [of 2 "''data''" "''my-zk''" 3]
    IsPVCOrphan_decides_ordinal [of 4294967297 "''data''" "''my-zk''" 3]
  by simp

text \<open>A name that does not end in a dash and a number in range is never an orphan.\<close>

lemma IsPVCOrphan_no_dash: "CHR ''-'' \<notin> set s \<Longrightarrow> \<not> IsPVCOrphan s replicas"
  by (simp add: IsPVCOrphan_def LastIndexAny_absent Let_def)

section \<open>zookeeper\_util.go and test\_utils.go\<close>

definition ZKMetaRoot :: string where "ZKMetaRoot = ''/zookeeper-operator''"

text \<open>The zero port comes with the error when no port has the name.\<close>

fun ContainerPortByName :: "ContainerPort list \<Rightarrow> string \<Rightarrow> int32 \<times> go_error option" where
  "ContainerPortByName [] name = (0, Some (GoErr ''port not found''))"
| "ContainerPortByName (port # ports) name =
     (if PortName port = name then (PortNumber port, None) else ContainerPortByName ports name)"

definition GetZkServiceUri :: "ZookeeperCluster \<Rightarrow> string" where
  "GetZkServiceUri zoo =
     (let (zkClientPort, _) = ContainerPortByName (ports_of (SpecPorts (Spec zoo))) ''client''
      in GetClientServiceName zoo @ ''.'' @ GetNamespace zoo @ ''.svc.'' @ GetKubernetesClusterDomain zoo @ '':'' @
         Itoa (sint zkClientPort))"

definition GetMetaPath :: "ZookeeperCluster \<Rightarrow> string" where
  "GetMetaPath zoo = ZKMetaRoot @ ''/'' @ MetaName (Meta zoo)"

record ServicePort =
  SvcPortName :: string
  SvcPortNumber :: int32

fun ServicePortByName :: "ServicePort list \<Rightarrow> string \<Rightarrow> ServicePort \<times> go_error option" where
  "ServicePortByName [] name = (\<lparr>SvcPortName = [], SvcPortNumber = 0\<rparr>, Some (GoErr ''port not found''))"
| "ServicePortByName (port # ports) name =
     (if SvcPortName port = name then (port, None) else ServicePortByName ports name)"

text \<open>
  Two readings of one port name: \<open>ContainerPortByName\<close> returns the first port of that name,
  \<open>ZookeeperPorts\<close> the last. They agree when the name occurs once.
\<close>

lemma ContainerPortByName_absent:
  "\<not> has_port name ps \<Longrightarrow> ContainerPortByName ps name = (0, Some (GoErr ''port not found''))"
  by (induction ps) auto

lemma ContainerPortByName_first:
  "\<not> has_port name ps \<Longrightarrow> ContainerPortByName (ps @ mk # qs) name =
     (if PortName mk = name then (PortNumber mk, None) else ContainerPortByName qs name)"
  by (induction ps) auto

lemma port_struct_client_absent: "\<not> has_port ''client'' ps \<Longrightarrow> ClientPort (port_struct ps r) = ClientPort r"
  by (induction ps r rule: port_struct.induct) auto

lemma port_struct_append: "port_struct (ps @ qs) r = port_struct qs (port_struct ps r)"
  by (induction ps r rule: port_struct.induct) auto

lemma port_struct_client_last:
  "PortName p = ''client'' \<Longrightarrow> \<not> has_port ''client'' qs \<Longrightarrow> ClientPort (port_struct (ps @ p # qs) r) = PortNumber p"
  by (simp add: port_struct_append port_struct_client_absent)

lemma client_port_once:
  assumes "ports_of (SpecPorts (Spec z)) = ps @ p # qs" and "PortName p = ''client''"
    and "\<not> has_port ''client'' ps" and "\<not> has_port ''client'' qs"
  shows "fst (ContainerPortByName (ports_of (SpecPorts (Spec z))) ''client'') = ClientPort (ZookeeperPorts z)"
  using assms by (simp add: ContainerPortByName_first ZookeeperPorts_def port_struct_client_last)

end
