(* ===== verification/Generators.thy ===== *)
theory Generators
  imports Utils
begin

text \<open>
  \<open>pkg/zk/generators.go\<close>: the Kubernetes objects the operator wants for a cluster. A generator that
  dereferences a pointer of the specification returns an \<open>option\<close>, with \<open>None\<close> for the panic on a
  nil pointer. The map \<open>AdditionalConfig\<close> is the one map whose iteration order can be observed; the
  generators that walk it take the sequence of entries the loop visits as the argument \<open>visit\<close>.
\<close>

section \<open>The generated objects\<close>

record TypeMeta =
  Kind :: string
  APIVersion :: string

record PersistentVolumeClaim =
  PvcMeta :: ObjectMeta
  PvcSpec :: PersistentVolumeClaimSpec

record PodSpec =
  PsContainers :: "Container list"
  PsInitContainers :: "Container list option"
  PsAffinity :: "Affinity option"
  PsTopologySpreadConstraints :: "raw list"
  PsVolumes :: "Volume list"
  PsSecurityContext :: "PodSecurityContext option"
  PsNodeSelector :: "go_map option"
  PsTolerations :: "raw list"
  PsTerminationGracePeriodSeconds :: "int64 option"
  PsServiceAccountName :: string

record PodTemplateSpec =
  TplMeta :: ObjectMeta
  TplSpec :: PodSpec

record StatefulSetSpec =
  SsServiceName :: string
  SsReplicas :: "int32 option"
  SsSelector :: go_map
  SsUpdateStrategy :: string
  SsPodManagementPolicy :: string
  SsTemplate :: PodTemplateSpec
  SsVolumeClaimTemplates :: "PersistentVolumeClaim list"

record StatefulSetStatus =
  SsStatusReplicas :: int32
  SsReadyReplicas :: int32
  SsUpdatedReplicas :: int32
  CurrentRevision :: string
  UpdateRevision :: string

record StatefulSet =
  SsType :: TypeMeta
  SsMeta :: ObjectMeta
  SsSpec :: StatefulSetSpec
  SsStatus :: StatefulSetStatus

record ServiceSpec =
  SvcPorts :: "ServicePort list"
  SvcSelector :: go_map
  SvcType :: string
  SvcClusterIP :: string

record Service =
  SvcTypeMeta :: TypeMeta
  SvcMeta :: ObjectMeta
  SvcSpec :: ServiceSpec
  SvcIngressIPs :: "string list"

record ConfigMap =
  CmType :: TypeMeta
  CmMeta :: ObjectMeta
  CmData :: "go_map option"
  CmBinaryData :: "go_map option"

record PodDisruptionBudget =
  PdbType :: TypeMeta
  PdbMeta :: ObjectMeta
  PdbMaxUnavailable :: int32
  PdbSelector :: go_map

record ServiceAccount =
  SaMeta :: ObjectMeta
  SaImagePullSecrets :: "string list"

section \<open>Helpers\<close>

definition externalDNSAnnotationKey :: string where
  "externalDNSAnnotationKey = ''external-dns.alpha.kubernetes.io/hostname''"

definition mergeLabels :: "go_map option list \<Rightarrow> go_map" where
  "mergeLabels ls = foldl (\<lambda>res m. gm_overlay res (gm_range m)) [] ls"

definition copyMap :: "go_map option \<Rightarrow> go_map" where
  "copyMap s = gm_overlay [] (gm_range s)"

definition headlessSvcName :: "ZookeeperCluster \<Rightarrow> string" where
  "headlessSvcName z = GetName z @ ''-headless''"

definition headlessDomain :: "ZookeeperCluster \<Rightarrow> string" where
  "headlessDomain z =
     headlessSvcName z @ ''.'' @ GetNamespace z @ ''.svc.'' @ GetKubernetesClusterDomain z"

definition zkDataVolume :: string where "zkDataVolume = ''data''"

definition zookeeperUID :: int64 where "zookeeperUID = 1000"

definition DefaultPodSecurityContext :: PodSecurityContext where
  "DefaultPodSecurityContext = \<lparr>RunAsNonRoot = Some True, RunAsUser = Some zookeeperUID,
     RunAsGroup = Some zookeeperUID, FSGroup = Some zookeeperUID,
     FSGroupChangePolicy = Some ''OnRootMismatch'', SecurityRest = []\<rparr>"

definition empty_security_context :: PodSecurityContext where
  "empty_security_context = \<lparr>RunAsNonRoot = None, RunAsUser = None, RunAsGroup = None, FSGroup = None,
     FSGroupChangePolicy = None, SecurityRest = []\<rparr>"

section \<open>The StatefulSet\<close>

definition no_resources :: ResourceRequirements where
  "no_resources = \<lparr>Limits = None, Requests = None, ResourcesRest = []\<rparr>"

definition makeZkPodSpec :: "ZookeeperCluster \<Rightarrow> Volume list \<Rightarrow> PodSpec option" where
  "makeZkPodSpec z volumes = do {
     probes \<leftarrow> SpecProbes (Spec z);
     ready \<leftarrow> ReadinessProbe probes;
     live \<leftarrow> LivenessProbe probes;
     let zkContainer0 =
       \<lparr>ContainerName = ''zookeeper'',
        ContainerImageName = ToString (Image (Spec z)),
        ContainerPorts = SpecPorts (Spec z),
        ContainerEnv = [\<lparr>EnvName = ''ENVOY_SIDECAR_STATUS'',
          EnvFieldPath = Some (''metadata.annotations['' @ [CHR 0x27] @ ''sidecar.istio.io/status'' @ [CHR 0x27] @ '']''),
          EnvRest = []\<rparr>],
        ContainerPullPolicy = PullPolicy (Image (Spec z)),
        ContainerReadiness = Some
          \<lparr>CoreInitialDelaySeconds = InitialDelaySeconds ready, CorePeriodSeconds = PeriodSeconds ready,
           CoreTimeoutSeconds = TimeoutSeconds ready, CoreFailureThreshold = FailureThreshold ready,
           CoreSuccessThreshold = SuccessThreshold ready, CoreExecCommand = [''zookeeperReady.sh'']\<rparr>,
        ContainerLiveness = Some
          \<lparr>CoreInitialDelaySeconds = InitialDelaySeconds live, CorePeriodSeconds = PeriodSeconds live,
           CoreTimeoutSeconds = TimeoutSeconds live, CoreFailureThreshold = FailureThreshold live,
           CoreSuccessThreshold = 0, CoreExecCommand = [''zookeeperLive.sh'']\<rparr>,
        ContainerMounts = SpecVolumeMounts (Spec z) @
          [\<lparr>MountName = ''data'', MountPath = ''/data'', MountRest = []\<rparr>,
           \<lparr>MountName = ''conf'', MountPath = ''/conf'', MountRest = []\<rparr>],
        ContainerPreStop = Some [''zookeeperTeardown.sh''],
        ContainerCommand = [''/usr/local/bin/zookeeperStart.sh''],
        ContainerResources = no_resources,
        ContainerRest = []\<rparr>;
     let res = PodResources (Pod (Spec z));
     let zkContainer1 = (if Limits res \<noteq> None \<or> Requests res \<noteq> None
                         then zkContainer0\<lparr>ContainerResources := res\<rparr> else zkContainer0);
     let volumes1 = volumes @ [\<lparr>VolumeName = ''conf'', VolumeSrc = ConfigMapVolume (ConfigMapName z)\<rparr>];
     let zkContainer = zkContainer1\<lparr>ContainerEnv := ContainerEnv zkContainer1 @ PodEnv (Pod (Spec z))\<rparr>;
     let sc = SecurityContext (Pod (Spec z));
     Some
       \<lparr>PsContainers = SpecContainers (Spec z) @ [zkContainer],
        PsInitContainers = SpecInitContainers (Spec z),
        PsAffinity = PodAffinity (Pod (Spec z)),
        PsTopologySpreadConstraints = TopologySpreadConstraints (Pod (Spec z)),
        PsVolumes = SpecVolumes (Spec z) @ volumes1,
        PsSecurityContext = (if sc \<noteq> None \<and> sc \<noteq> Some empty_security_context then sc
                             else Some DefaultPodSecurityContext),
        PsNodeSelector = NodeSelector (Pod (Spec z)),
        PsTolerations = Tolerations (Pod (Spec z)),
        PsTerminationGracePeriodSeconds = Some (TerminationGracePeriodSeconds (Pod (Spec z))),
        PsServiceAccountName = ServiceAccountName (Pod (Spec z))\<rparr> }"

text \<open>The volumes and claim templates of the first branch of \<open>MakeStatefulSet\<close>.\<close>

definition data_storage :: "ZookeeperCluster \<Rightarrow> (Volume list \<times> PersistentVolumeClaim list) option" where
  "data_storage z =
     (if EqualFold (StorageType (Spec z)) ''ephemeral''
      then (case SpecEphemeral (Spec z) of None \<Rightarrow> None
            | Some e \<Rightarrow> Some ([\<lparr>VolumeName = zkDataVolume, VolumeSrc = EmptyDir (EmptyDirVolumeSource e)\<rparr>], []))
      else (case SpecPersistence (Spec z) of None \<Rightarrow> None
            | Some p \<Rightarrow> Some ([],
                [\<lparr>PvcMeta = empty_meta\<lparr>MetaName := zkDataVolume,
                    MetaLabels := Some (mergeLabels [Labels (Spec z),
                       Some [(''app'', GetName z), (''uid'', MetaUID (Meta z))]]),
                    MetaAnnotations := PersistenceAnnotations p\<rparr>,
                  PvcSpec = ClaimSpec p\<rparr>])))"

definition no_sts_status :: StatefulSetStatus where
  "no_sts_status = \<lparr>SsStatusReplicas = 0, SsReadyReplicas = 0, SsUpdatedReplicas = 0,
     CurrentRevision = [], UpdateRevision = []\<rparr>"

definition MakeStatefulSet :: "ZookeeperCluster \<Rightarrow> StatefulSet option" where
  "MakeStatefulSet z = do {
     (extraVolumes, pvcs) \<leftarrow> data_storage z;
     podSpec \<leftarrow> makeZkPodSpec z extraVolumes;
     Some
       \<lparr>SsType = \<lparr>Kind = ''StatefulSet'', APIVersion = ''apps/v1''\<rparr>,
        SsMeta = empty_meta\<lparr>MetaName := GetName z, MetaNamespace := MetaNamespace (Meta z),
                   MetaLabels := Labels (Spec z)\<rparr>,
        SsSpec =
          \<lparr>SsServiceName = headlessSvcName z,
           SsReplicas = Some (Replicas (Spec z)),
           SsSelector = [(''app'', GetName z)],
           SsUpdateStrategy = ''RollingUpdate'',
           SsPodManagementPolicy = ''OrderedReady'',
           SsTemplate =
             \<lparr>TplMeta = empty_meta\<lparr>MetaGenerateName := GetName z,
                 MetaLabels := Some (mergeLabels [Labels (Spec z), PodLabels (Pod (Spec z)),
                   Some [(''app'', GetName z), (''kind'', ''ZookeeperMember'')]]),
                 MetaAnnotations := PodAnnotations (Pod (Spec z))\<rparr>,
              TplSpec = podSpec\<rparr>,
           SsVolumeClaimTemplates = pvcs\<rparr>,
        SsStatus = no_sts_status\<rparr> }"

section \<open>Services\<close>

definition makeService ::
  "string \<Rightarrow> ServicePort list \<Rightarrow> bool \<Rightarrow> bool \<Rightarrow> go_map option \<Rightarrow> ZookeeperCluster \<Rightarrow> Service" where
  "makeService name ports clusterIP external annotations z =
     (let annotationMap0 = copyMap annotations;
          annotationMap =
            (if \<not> clusterIP \<and> DomainName (Spec z) \<noteq> []
             then (let domainName = TrimSpace (DomainName (Spec z));
                       dnsName = (if HasSuffix domainName ''.'' then name @ ''.'' @ domainName
                                  else name @ ''.'' @ domainName @ ''.'')
                   in gm_put externalDNSAnnotationKey dnsName annotationMap0)
             else annotationMap0)
      in \<lparr>SvcTypeMeta = \<lparr>Kind = ''Service'', APIVersion = ''v1''\<rparr>,
          SvcMeta = empty_meta\<lparr>MetaName := name, MetaNamespace := MetaNamespace (Meta z),
            MetaLabels := Some (mergeLabels [Labels (Spec z),
              Some [(''app'', GetName z), (''headless'', FormatBool (\<not> clusterIP))]]),
            MetaAnnotations := Some annotationMap\<rparr>,
          SvcSpec = \<lparr>SvcPorts = ports, SvcSelector = [(''app'', GetName z)],
            SvcType = (if external then ''LoadBalancer'' else []),
            SvcClusterIP = (if \<not> clusterIP then ''None'' else [])\<rparr>,
          SvcIngressIPs = []\<rparr>)"

definition MakeClientService :: "ZookeeperCluster \<Rightarrow> Service" where
  "MakeClientService z =
     (let ports = ZookeeperPorts z;
          svcPorts = [\<lparr>SvcPortName = ''tcp-client'', SvcPortNumber = ClientPort ports\<rparr>]
      in makeService (GetClientServiceName z) svcPorts True False (ClientAnnotations (ClientService (Spec z))) z)"

definition MakeAdminServerService :: "ZookeeperCluster \<Rightarrow> Service" where
  "MakeAdminServerService z =
     (let ports = ZookeeperPorts z;
          svcPorts = [\<lparr>SvcPortName = ''tcp-admin-server'', SvcPortNumber = AdminServerPort ports\<rparr>];
          external = AdminExternal (AdminServerService (Spec z));
          annotations = AdminAnnotations (AdminServerService (Spec z))
      in makeService (GetAdminServerServiceName z) svcPorts True external annotations z)"

definition MakeHeadlessService :: "ZookeeperCluster \<Rightarrow> Service" where
  "MakeHeadlessService z =
     (let ports = ZookeeperPorts z;
          svcPorts =
            [\<lparr>SvcPortName = ''tcp-client'', SvcPortNumber = ClientPort ports\<rparr>,
             \<lparr>SvcPortName = ''tcp-quorum'', SvcPortNumber = QuorumPort ports\<rparr>,
             \<lparr>SvcPortName = ''tcp-leader-election'', SvcPortNumber = LeaderPort ports\<rparr>,
             \<lparr>SvcPortName = ''tcp-metrics'', SvcPortNumber = MetricsPort ports\<rparr>,
             \<lparr>SvcPortName = ''tcp-admin-server'', SvcPortNumber = AdminServerPort ports\<rparr>]
      in makeService (headlessSvcName z) svcPorts False False (HeadlessAnnotations (HeadlessService (Spec z))) z)"

section \<open>The configuration files\<close>

text \<open>One line \<open>key=value\<close> with its newline.\<close>

definition kv :: "string \<Rightarrow> string \<Rightarrow> string" where
  "kv key val = key @ ''='' @ val @ nl"

text \<open>Go's \<open>int\<close> fields and the 32-bit ports, printed by \<open>strconv.Itoa\<close>.\<close>

definition Itoa64 :: "int64 \<Rightarrow> string" where "Itoa64 w = Itoa (sint w)"
definition Itoa32 :: "int32 \<Rightarrow> string" where "Itoa32 w = Itoa (sint w)"

definition zk_settings :: "ZookeeperCluster \<Rightarrow> (string \<times> string) list" where
  "zk_settings z = (let ports = ZookeeperPorts z; c = Conf (Spec z) in
     [(''4lw.commands.whitelist'', ''cons, envi, conf, crst, srvr, stat, mntr, ruok''),
      (''dataDir'', ''/data''),
      (''standaloneEnabled'', ''false''),
      (''reconfigEnabled'', ''true''),
      (''skipACL'', ''yes''),
      (''metricsProvider.className'', ''org.apache.zookeeper.metrics.prometheus.PrometheusMetricsProvider''),
      (''metricsProvider.httpPort'', Itoa32 (MetricsPort ports)),
      (''metricsProvider.exportJvmInfo'', ''true''),
      (''initLimit'', Itoa64 (InitLimit c)),
      (''syncLimit'', Itoa64 (SyncLimit c)),
      (''tickTime'', Itoa64 (TickTime c)),
      (''globalOutstandingLimit'', Itoa64 (GlobalOutstandingLimit c)),
      (''preAllocSize'', Itoa64 (PreAllocSize c)),
      (''snapCount'', Itoa64 (SnapCount c)),
      (''commitLogCount'', Itoa64 (CommitLogCount c)),
      (''snapSizeLimitInKb'', Itoa64 (SnapSizeLimitInKb c)),
      (''maxCnxns'', Itoa64 (MaxCnxns c)),
      (''maxClientCnxns'', Itoa64 (MaxClientCnxns c)),
      (''minSessionTimeout'', Itoa64 (MinSessionTimeout c)),
      (''maxSessionTimeout'', Itoa64 (MaxSessionTimeout c)),
      (''autopurge.snapRetainCount'', Itoa64 (AutoPurgeSnapRetainCount c)),
      (''autopurge.purgeInterval'', Itoa64 (AutoPurgePurgeInterval c)),
      (''quorumListenOnAllIPs'', FormatBool (QuorumListenOnAllIPs c)),
      (''admin.serverPort'', Itoa32 (AdminServerPort ports)),
      (''dynamicConfigFile'', ''/data/zoo.cfg.dynamic'')])"

definition kv_lines :: "(string \<times> string) list \<Rightarrow> string" where
  "kv_lines kvs = concat (map (\<lambda>(k, v). kv k v) kvs)"

fun additional_config :: "string \<Rightarrow> go_map \<Rightarrow> string" where
  "additional_config zkConfig [] = zkConfig"
| "additional_config zkConfig ((key, val) # rest) =
     additional_config (zkConfig @ key @ ''='' @ val @ nl) rest"

definition makeZkConfigString :: "go_map \<Rightarrow> ZookeeperCluster \<Rightarrow> string" where
  "makeZkConfigString visit z = additional_config [] visit @ kv_lines (zk_settings z)"

definition makeZkLog4JQuietConfigString :: string where
  "makeZkLog4JQuietConfigString = kv_lines
     [(''log4j.rootLogger'', ''ERROR, CONSOLE''),
      (''log4j.appender.CONSOLE'', ''org.apache.log4j.ConsoleAppender''),
      (''log4j.appender.CONSOLE.Threshold'', ''ERROR''),
      (''log4j.appender.CONSOLE.layout'', ''org.apache.log4j.PatternLayout''),
      (''log4j.appender.CONSOLE.layout.ConversionPattern'', ''%d{ISO8601} [myid:%X{myid}] - %-5p [%t:%C{1}@%L] - %m%n'')]"

definition makeZkLog4JConfigString :: string where
  "makeZkLog4JConfigString = kv_lines
     [(''zookeeper.root.logger'', ''CONSOLE''),
      (''zookeeper.console.threshold'', ''INFO''),
      (''log4j.rootLogger'', ''${zookeeper.root.logger}''),
      (''log4j.appender.CONSOLE'', ''org.apache.log4j.ConsoleAppender''),
      (''log4j.appender.CONSOLE.Threshold'', ''${zookeeper.console.threshold}''),
      (''log4j.appender.CONSOLE.layout'', ''org.apache.log4j.PatternLayout''),
      (''log4j.appender.CONSOLE.layout.ConversionPattern'', ''%d{ISO8601} [myid:%X{myid}] - %-5p [%t:%C{1}@%L] - %m%n'')]"

definition env_settings :: "ZookeeperCluster \<Rightarrow> (string \<times> string) list" where
  "env_settings z = (let ports = ZookeeperPorts z in
     [(''DOMAIN'', headlessDomain z),
      (''QUORUM_PORT'', Itoa32 (QuorumPort ports)),
      (''LEADER_PORT'', Itoa32 (LeaderPort ports)),
      (''CLIENT_HOST'', GetClientServiceName z),
      (''CLIENT_PORT'', Itoa32 (ClientPort ports)),
      (''ADMIN_SERVER_HOST'', GetAdminServerServiceName z),
      (''ADMIN_SERVER_PORT'', Itoa32 (AdminServerPort ports)),
      (''CLUSTER_NAME'', GetName z),
      (''CLUSTER_SIZE'', Itoa32 (Replicas (Spec z)))])"

definition makeZkEnvConfigString :: "ZookeeperCluster \<Rightarrow> string" where
  "makeZkEnvConfigString z = ''#!/usr/bin/env bash'' @ nl @ nl @ kv_lines (env_settings z)"

definition MakeConfigMap :: "go_map \<Rightarrow> ZookeeperCluster \<Rightarrow> ConfigMap" where
  "MakeConfigMap visit z =
     \<lparr>CmType = \<lparr>Kind = ''ConfigMap'', APIVersion = ''v1''\<rparr>,
      CmMeta = empty_meta\<lparr>MetaName := ConfigMapName z, MetaNamespace := MetaNamespace (Meta z),
        MetaLabels := Labels (Spec z)\<rparr>,
      CmData = Some [(''zoo.cfg'', makeZkConfigString visit z),
        (''log4j.properties'', makeZkLog4JConfigString),
        (''log4j-quiet.properties'', makeZkLog4JQuietConfigString),
        (''env.sh'', makeZkEnvConfigString z)],
      CmBinaryData = None\<rparr>"

section \<open>Disruption budget and service account\<close>

definition MakePodDisruptionBudget :: "ZookeeperCluster \<Rightarrow> PodDisruptionBudget" where
  "MakePodDisruptionBudget z =
     \<lparr>PdbType = \<lparr>Kind = ''PodDisruptionBudget'', APIVersion = ''policy/v1''\<rparr>,
      PdbMeta = empty_meta\<lparr>MetaName := GetName z, MetaNamespace := MetaNamespace (Meta z),
        MetaLabels := Labels (Spec z)\<rparr>,
      PdbMaxUnavailable = MaxUnavailableReplicas (Spec z),
      PdbSelector = [(''app'', GetName z)]\<rparr>"

definition MakeServiceAccount :: "ZookeeperCluster \<Rightarrow> ServiceAccount" where
  "MakeServiceAccount z =
     \<lparr>SaMeta = empty_meta\<lparr>MetaName := ServiceAccountName (Pod (Spec z)), MetaNamespace := MetaNamespace (Meta z)\<rparr>,
      SaImagePullSecrets = ImagePullSecrets (Pod (Spec z))\<rparr>"

end
