(* ===== verification/Synchronizers.thy ===== *)
theory Synchronizers
  imports Generators
begin

text \<open>
  \<open>pkg/zk/synchronizers.go\<close>: copying the desired state of an object over the stored one. The locale
  states what a synchroniser is for: the managed part of the result is the desired one, everything
  else is the stored one.
\<close>

definition SyncStatefulSet :: "StatefulSet \<Rightarrow> StatefulSet \<Rightarrow> StatefulSet" where
  "SyncStatefulSet cur next =
     cur\<lparr>SsSpec := (SsSpec cur)\<lparr>SsReplicas := SsReplicas (SsSpec next), SsTemplate := SsTemplate (SsSpec next),
       SsUpdateStrategy := SsUpdateStrategy (SsSpec next)\<rparr>\<rparr>"

definition SyncService :: "Service \<Rightarrow> Service \<Rightarrow> Service" where
  "SyncService cur next =
     cur\<lparr>SvcSpec := (SvcSpec cur)\<lparr>SvcPorts := SvcPorts (SvcSpec next), SvcType := SvcType (SvcSpec next)\<rparr>,
          SvcMeta := (SvcMeta cur)\<lparr>MetaAnnotations := MetaAnnotations (SvcMeta next)\<rparr>\<rparr>"

definition SyncConfigMap :: "ConfigMap \<Rightarrow> ConfigMap \<Rightarrow> ConfigMap" where
  "SyncConfigMap cur next = cur\<lparr>CmData := CmData next, CmBinaryData := CmBinaryData next\<rparr>"

locale synchroniser =
  fixes sync :: "'o \<Rightarrow> 'o \<Rightarrow> 'o"
    and managed :: "'o \<Rightarrow> 'm"
    and unmanaged :: "'o \<Rightarrow> 'u"
  assumes managed_sync: "managed (sync cur next) = managed next"
    and unmanaged_sync: "unmanaged (sync cur next) = unmanaged cur"
    and determined: "managed a = managed b \<Longrightarrow> unmanaged a = unmanaged b \<Longrightarrow> a = b"
begin

lemma sync_self: "sync a a = a"
  by (rule determined) (simp_all add: managed_sync unmanaged_sync)

lemma sync_in_sync: "managed a = managed b \<Longrightarrow> sync a b = a"
  by (rule determined) (simp_all add: managed_sync unmanaged_sync)

lemma sync_again: "sync (sync a b) b = sync a b"
  by (rule sync_in_sync) (simp add: managed_sync)

lemma sync_last_wins: "sync (sync a b) c = sync a c"
  by (rule determined) (simp_all add: managed_sync unmanaged_sync)

lemma sync_iff: "sync a b = a \<longleftrightarrow> managed a = managed b"
  by (metis managed_sync sync_in_sync)

end

definition sts_managed :: "StatefulSet \<Rightarrow> int32 option \<times> PodTemplateSpec \<times> string" where
  "sts_managed s = (SsReplicas (SsSpec s), SsTemplate (SsSpec s), SsUpdateStrategy (SsSpec s))"

definition sts_unmanaged ::
  "StatefulSet \<Rightarrow> TypeMeta \<times> ObjectMeta \<times> StatefulSetStatus \<times> string \<times> go_map \<times> string \<times> PersistentVolumeClaim list" where
  "sts_unmanaged s = (SsType s, SsMeta s, SsStatus s, SsServiceName (SsSpec s), SsSelector (SsSpec s),
     SsPodManagementPolicy (SsSpec s), SsVolumeClaimTemplates (SsSpec s))"

definition svc_managed :: "Service \<Rightarrow> ServicePort list \<times> string \<times> go_map option" where
  "svc_managed s = (SvcPorts (SvcSpec s), SvcType (SvcSpec s), MetaAnnotations (SvcMeta s))"

definition svc_unmanaged :: "Service \<Rightarrow> TypeMeta \<times> ObjectMeta \<times> go_map \<times> string \<times> string list" where
  "svc_unmanaged s = (SvcTypeMeta s, (SvcMeta s)\<lparr>MetaAnnotations := None\<rparr>, SvcSelector (SvcSpec s),
     SvcClusterIP (SvcSpec s), SvcIngressIPs s)"

definition cm_managed :: "ConfigMap \<Rightarrow> go_map option \<times> go_map option" where
  "cm_managed c = (CmData c, CmBinaryData c)"

definition cm_unmanaged :: "ConfigMap \<Rightarrow> TypeMeta \<times> ObjectMeta" where
  "cm_unmanaged c = (CmType c, CmMeta c)"

lemma meta_determined:
  "MetaAnnotations a = MetaAnnotations b \<Longrightarrow>
     a\<lparr>MetaAnnotations := None\<rparr> = b\<lparr>MetaAnnotations := None\<rparr> \<Longrightarrow> a = (b :: ObjectMeta)"
  by (cases a; cases b) simp

interpretation sts_sync: synchroniser SyncStatefulSet sts_managed sts_unmanaged
proof
  fix a b :: StatefulSet
  assume "sts_managed a = sts_managed b" "sts_unmanaged a = sts_unmanaged b"
  then show "a = b"
    by (intro StatefulSet.equality StatefulSetSpec.equality) (simp_all add: sts_managed_def sts_unmanaged_def)
qed (simp_all add: SyncStatefulSet_def sts_managed_def sts_unmanaged_def)

interpretation svc_sync: synchroniser SyncService svc_managed svc_unmanaged
proof
  fix a b :: Service
  assume eq: "svc_managed a = svc_managed b" "svc_unmanaged a = svc_unmanaged b"
  have "SvcMeta a = SvcMeta b"
    by (rule meta_determined) (use eq in \<open>simp_all add: svc_managed_def svc_unmanaged_def\<close>)
  with eq show "a = b"
    by (intro Service.equality ServiceSpec.equality) (simp_all add: svc_managed_def svc_unmanaged_def)
qed (simp_all add: SyncService_def svc_managed_def svc_unmanaged_def)

interpretation cm_sync: synchroniser SyncConfigMap cm_managed cm_unmanaged
proof
  fix a b :: ConfigMap
  assume "cm_managed a = cm_managed b" "cm_unmanaged a = cm_unmanaged b"
  then show "a = b" by (intro ConfigMap.equality) (simp_all add: cm_managed_def cm_unmanaged_def)
qed (simp_all add: SyncConfigMap_def cm_managed_def cm_unmanaged_def)

text \<open>Synchronising a StatefulSet brings exactly replicas, pod template and update strategy to the
  desired values, keeps everything else of the stored object (identity, labels, selector, claim
  templates, status), and is idempotent with the last writer winning.\<close>

lemma SyncStatefulSet_contract:
  "sts_managed (SyncStatefulSet cur next) = sts_managed next \<and>
   sts_unmanaged (SyncStatefulSet cur next) = sts_unmanaged cur \<and>
   SyncStatefulSet (SyncStatefulSet cur next) next = SyncStatefulSet cur next \<and>
   SyncStatefulSet (SyncStatefulSet cur next) other = SyncStatefulSet cur other"
  by (simp add: sts_sync.managed_sync sts_sync.unmanaged_sync sts_sync.sync_again sts_sync.sync_last_wins)

text \<open>The synchronisers keep the metadata by which an object is found.\<close>

lemma sync_identity [simp]:
  "SsMeta (SyncStatefulSet a b) = SsMeta a" "SsStatus (SyncStatefulSet a b) = SsStatus a"
  "SsReplicas (SsSpec (SyncStatefulSet a b)) = SsReplicas (SsSpec b)"
  "MetaName (SvcMeta (SyncService c d)) = MetaName (SvcMeta c)"
  "MetaNamespace (SvcMeta (SyncService c d)) = MetaNamespace (SvcMeta c)"
  "SvcClusterIP (SvcSpec (SyncService c d)) = SvcClusterIP (SvcSpec c)"
  "SvcType (SvcSpec (SyncService c d)) = SvcType (SvcSpec d)"
  "SvcIngressIPs (SyncService c d) = SvcIngressIPs c"
  "CmMeta (SyncConfigMap e f) = CmMeta e"
  by (simp_all add: SyncStatefulSet_def SyncService_def SyncConfigMap_def)

end
