(* ===== verification/ConfigText.thy ===== *)
theory ConfigText
  imports Generators "HOL-Library.Multiset"
begin

text \<open>
  What the readers of the generated files see. ZooKeeper reads \<open>zoo.cfg\<close> and the start script reads
  \<open>env.sh\<close> line by line; of several lines for one key the last one counts. The reader below is the
  specification the generators of \<^theory_text>\<open>Generators\<close> are proved against. It leaves out the escapes of
  the two formats (a backslash at the end of a line joins it with the next one), so the theorems speak
  of files in which no user value makes use of them.
\<close>

section \<open>A line reader\<close>

definition newline :: char where "newline = CHR 0x0A"

definition read_line :: "string \<Rightarrow> string \<times> string" where
  "read_line l = (takeWhile (\<lambda>c. c \<noteq> CHR ''='') l, tl (dropWhile (\<lambda>c. c \<noteq> CHR ''='') l))"

definition config_entries :: "string \<Rightarrow> (string \<times> string) list" where
  "config_entries s = map read_line (split_at newline s)"

definition config_get :: "string \<Rightarrow> string \<Rightarrow> string option" where
  "config_get s key = map_of (rev (config_entries s)) key"

definition plain_entry :: "string \<times> string \<Rightarrow> bool" where
  "plain_entry p \<longleftrightarrow> CHR ''='' \<notin> set (fst p) \<and> newline \<notin> set (fst p) \<and> newline \<notin> set (snd p) \<and> fst p \<noteq> []"

lemma split_at_concat: "split_at sep (s @ sep # t) = split_at sep s @ split_at sep t"
  by (induction s) (auto split: list.splits)

lemma nl_newline: "nl = [newline]"
  by (simp add: nl_def newline_def)

lemma read_line_kv: "CHR ''='' \<notin> set k \<Longrightarrow> read_line (k @ CHR ''='' # v) = (k, v)"
proof -
  assume k: "CHR ''='' \<notin> set k"
  then have "\<forall>c \<in> set k. c \<noteq> CHR ''=''" by blast
  then show ?thesis by (simp add: read_line_def takeWhile_append2 dropWhile_append2)
qed

lemma config_entries_kv_lines:
  "list_all plain_entry kvs \<Longrightarrow> config_entries (kv_lines kvs) = kvs @ [([], [])]"
proof (induction kvs)
  case Nil
  then show ?case by (simp add: config_entries_def kv_lines_def read_line_def)
next
  case (Cons p kvs)
  obtain k v where p: "p = (k, v)" by (cases p)
  have w: "newline \<notin> set (k @ CHR ''='' # v)" and k: "CHR ''='' \<notin> set k"
    using Cons.prems p by (auto simp: plain_entry_def newline_def)
  have "kv_lines (p # kvs) = (k @ CHR ''='' # v) @ newline # kv_lines kvs"
    by (simp add: kv_lines_def kv_def p nl_newline)
  then have "config_entries (kv_lines (p # kvs)) = read_line (k @ CHR ''='' # v) # config_entries (kv_lines kvs)"
    unfolding config_entries_def by (simp only: split_at_append [OF w]) simp
  with Cons k p show ?case by (simp add: read_line_kv)
qed

lemma config_entries_after:
  "list_all plain_entry kvs \<Longrightarrow>
     config_entries (pre @ newline # kv_lines kvs) = config_entries pre @ kvs @ [([], [])]"
  using config_entries_kv_lines [of kvs] by (simp add: config_entries_def split_at_concat)

text \<open>The entries at the end of a file win over everything in front of them.\<close>

lemma config_get_last:
  assumes "config_entries s = pre @ kvs @ [([], [])]" and "distinct (map fst kvs)" and "(k, v) \<in> set kvs" and "k \<noteq> []"
  shows "config_get s k = Some v"
proof -
  have "map_of kvs k = Some v" using assms by simp
  then have "map_of (rev kvs) k = Some v"
    using assms(2) by (metis distinct_rev map_of_eq_Some_iff rev_map set_rev)
  then show ?thesis using assms by (simp add: config_get_def map_add_Some_iff)
qed

section \<open>Generated text\<close>

lemma additional_config_eq: "additional_config acc visit = acc @ kv_lines visit"
  by (induction acc visit rule: additional_config.induct) (auto simp: kv_lines_def kv_def)

lemma kv_lines_append: "kv_lines (xs @ ys) = kv_lines xs @ kv_lines ys"
  by (simp add: kv_lines_def)

lemma kv_lines_ends: "kvs \<noteq> [] \<Longrightarrow> \<exists>pre. kv_lines kvs = pre @ [newline]"
  by (induction kvs rule: rev_induct) (auto simp: kv_lines_def kv_def nl_newline)

lemma Itoa_plain: "newline \<notin> set (Itoa i)"
  using Itoa_chars [of newline i] by (auto simp: newline_def)

lemma FormatBool_plain: "newline \<notin> set (FormatBool b)"
  by (simp add: FormatBool_def newline_def)

lemma zk_settings_plain: "list_all plain_entry (zk_settings z)"
proof -
  have i: "newline \<notin> set (Itoa64 w)" "newline \<notin> set (Itoa32 w')" for w w'
    by (simp_all add: Itoa64_def Itoa32_def Itoa_plain)
  show ?thesis
    unfolding zk_settings_def Let_def
    by (simp add: plain_entry_def i FormatBool_plain) (simp add: newline_def)
qed

lemma zk_settings_distinct: "distinct (map fst (zk_settings z))"
  by (simp add: zk_settings_def Let_def)

lemma makeZkConfigString_entries:
  "\<exists>pre. config_entries (makeZkConfigString visit z) = pre @ zk_settings z @ [([], [])]"
proof (cases "visit = []")
  case True
  then have "config_entries (makeZkConfigString visit z) = [] @ zk_settings z @ [([], [])]"
    using config_entries_kv_lines [OF zk_settings_plain, of z] by (simp add: makeZkConfigString_def)
  then show ?thesis by blast
next
  case False
  then obtain pre where "kv_lines visit = pre @ [newline]" using kv_lines_ends by blast
  then have "makeZkConfigString visit z = pre @ newline # kv_lines (zk_settings z)"
    by (simp add: makeZkConfigString_def additional_config_eq)
  with config_entries_after [OF zk_settings_plain, of pre z] show ?thesis by auto
qed

text \<open>C18. Whatever the user puts into \<open>additionalConfig\<close> (the operator's own keys or line breaks in a value
  included, visited in any order), the line reader finds in the generated \<open>zoo.cfg\<close> the operator's own value for every key the operator
  sets: data directory, limits, ports, session timeouts, the dynamic configuration file.\<close>

theorem operator_settings_win:
  "\<forall>visit. list_all (\<lambda>(k, v). config_get (makeZkConfigString visit z) k = Some v) (zk_settings z)"
proof (intro allI, unfold list_all_iff, clarify)
  fix visit k v
  assume m: "(k, v) \<in> set (zk_settings z)"
  obtain pre where e: "config_entries (makeZkConfigString visit z) = pre @ zk_settings z @ [([], [])]"
    using makeZkConfigString_entries by blast
  have "k \<noteq> []" using m zk_settings_plain [of z] by (auto simp: list_all_iff plain_entry_def)
  then show "config_get (makeZkConfigString visit z) k = Some v"
    by (rule config_get_last [OF e zk_settings_distinct m])
qed

text \<open>
  The readings of one additional entry: the lines of its text as the reader takes them apart. A key may
  contain \<open>=\<close> and either part line breaks, so one entry can yield several readings, and none under its
  own key.
\<close>

definition entry_readings :: "string \<times> string \<Rightarrow> (string \<times> string) list" where
  "entry_readings p = config_entries (fst p @ CHR ''='' # snd p)"

definition readings :: "(string \<times> string) list \<Rightarrow> (string \<times> string) list" where
  "readings visit = concat (map entry_readings visit)"

text \<open>Different readings of one key occur only for keys the operator sets, and for the empty key.\<close>

definition readings_agree :: "ZookeeperCluster \<Rightarrow> (string \<times> string) list \<Rightarrow> bool" where
  "readings_agree z visit \<longleftrightarrow> (\<forall>(k, v) \<in> set (readings visit). \<forall>(k', v') \<in> set (readings visit).
     k = k' \<longrightarrow> v = v' \<or> k \<in> fst ` set (zk_settings z) \<or> k = [])"

lemma config_entries_readings: "config_entries (kv_lines visit) = readings visit @ [([], [])]"
proof (induction visit)
  case Nil
  then show ?case by (simp add: config_entries_def kv_lines_def read_line_def readings_def)
next
  case (Cons p visit)
  have "kv_lines (p # visit) = (fst p @ CHR ''='' # snd p) @ newline # kv_lines visit"
    by (cases p) (simp add: kv_lines_def kv_def nl_newline)
  then have "config_entries (kv_lines (p # visit)) = entry_readings p @ config_entries (kv_lines visit)"
    unfolding config_entries_def entry_readings_def by (simp only: split_at_concat map_append)
  with Cons show ?case by (simp add: readings_def)
qed

lemma entry_readings_plain: "plain_entry p \<Longrightarrow> entry_readings p = [p]"
  using config_entries_kv_lines [of "[p]"] config_entries_readings [of "[p]"] by (simp add: readings_def)

lemma readings_plain: "list_all plain_entry visit \<Longrightarrow> readings visit = visit"
  by (induction visit) (simp_all add: readings_def entry_readings_plain)

lemma config_get_zoo_cfg:
  "config_get (makeZkConfigString visit z) k = map_of (rev (readings visit @ zk_settings z @ [([], [])])) k"
proof -
  have "makeZkConfigString visit z = kv_lines (visit @ zk_settings z)"
    by (simp add: makeZkConfigString_def additional_config_eq kv_lines_append)
  then have "config_entries (makeZkConfigString visit z) = readings (visit @ zk_settings z) @ [([], [])]"
    by (simp only: config_entries_readings)
  moreover have "readings (visit @ zk_settings z) = readings visit @ zk_settings z"
    using readings_plain [OF zk_settings_plain, of z] by (simp add: readings_def)
  ultimately show ?thesis by (simp add: config_get_def)
qed

lemma plain_readings_agree:
  assumes "distinct (map fst visit)" and "list_all plain_entry visit"
  shows "readings_agree z visit"
  using eq_key_imp_eq_value [OF assms(1)] by (auto simp: readings_agree_def readings_plain [OF assms(2)])

lemma map_of_agreeing:
  assumes "set xs = set ys" and "\<forall>v v'. (k, v) \<in> set xs \<and> (k, v') \<in> set xs \<longrightarrow> v = v'"
  shows "map_of xs k = map_of ys k"
proof (cases "map_of xs k")
  case None
  then show ?thesis using assms(1) by (metis map_of_eq_None_iff)
next
  case (Some v)
  then have "(k, v) \<in> set xs" by (rule map_of_SomeD)
  moreover obtain v' where v': "map_of ys k = Some v'"
    using Some assms(1) by (metis map_of_eq_None_iff not_None_eq)
  moreover have "(k, v') \<in> set xs" using map_of_SomeD [OF v'] assms(1) by simp
  ultimately show ?thesis using assms(2) Some by auto
qed

lemma same_readings:
  assumes "mset visit = mset visit'" and "readings_agree z visit"
  shows "config_get (makeZkConfigString visit z) k = config_get (makeZkConfigString visit' z) k"
proof (cases "k \<in> fst ` set (zk_settings z) \<or> k = []")
  case True
  then have "k \<in> fst ` set (rev (zk_settings z @ [([], [])]))" by auto
  then obtain v where "map_of (rev (zk_settings z @ [([], [])])) k = Some v"
    by (metis map_of_eq_None_iff not_None_eq)
  then show ?thesis unfolding config_get_zoo_cfg rev_append map_of_append map_add_def by simp
next
  case False
  have "set visit = set visit'" using assms(1) by (metis set_mset_mset)
  then have "set (rev (readings visit)) = set (rev (readings visit'))" by (simp add: readings_def)
  moreover have "\<forall>v v'. (k, v) \<in> set (rev (readings visit)) \<and> (k, v') \<in> set (rev (readings visit)) \<longrightarrow> v = v'"
    using assms(2) False unfolding readings_agree_def by fastforce
  ultimately have "map_of (rev (readings visit)) k = map_of (rev (readings visit')) k"
    by (rule map_of_agreeing)
  then show ?thesis unfolding config_get_zoo_cfg by (simp add: map_add_def split: option.split)
qed

text \<open>C20. The iteration order of Go's map \<open>additionalConfig\<close> is not observable by the line reader as long as the
  entries do not contradict each other (\<open>readings_agree\<close>): two runs that visit them in different orders
  generate files that read the same, key by key. Entries whose keys and values are plain text never
  contradict each other (\<open>plain_entry\<close>: no \<open>=\<close> in the key, no line break, key not empty; the keys of a map are distinct).
  The condition is needed, since nothing escapes or validates the entries: the keys \<open>a=b\<close> and \<open>a\<close> are
  different in the map and the same to the reader, and then the visit order decides.\<close>

theorem additional_config_order_irrelevant:
  assumes "mset visit = mset visit'"
  shows "(readings_agree z visit \<longrightarrow> config_get (makeZkConfigString visit z) = config_get (makeZkConfigString visit' z)) \<and>
    (distinct (map fst visit) \<and> list_all plain_entry visit \<longrightarrow> readings_agree z visit) \<and>
    config_get (makeZkConfigString [(''a=b'', ''c''), (''a'', ''d'')] z) ''a'' = Some ''d'' \<and>
    config_get (makeZkConfigString [(''a'', ''d''), (''a=b'', ''c'')] z) ''a'' = Some ''b=c''"
proof -
  have e: "entry_readings (''a=b'', ''c'') = [(''a'', ''b=c'')]" "entry_readings (''a'', ''d'') = [(''a'', ''d'')]"
    by (simp_all add: entry_readings_def config_entries_def read_line_def newline_def)
  have "map_of (rev (zk_settings z @ [([], [])])) ''a'' = None"
    by (simp add: zk_settings_def Let_def)
  then have "config_get (makeZkConfigString visit z) ''a'' = map_of (rev (readings visit)) ''a''" for visit
    unfolding config_get_zoo_cfg by (simp add: map_add_def)
  then show ?thesis
    using same_readings [OF assms] plain_readings_agree [of visit z] by (simp add: e readings_def fun_eq_iff)
qed

theorem additional_config_order_irrelevant_witness:
  "config_get (makeZkConfigString [(''a=b'', ''1''), (''b'', ''2'')] sample_cluster) =
   config_get (makeZkConfigString [(''b'', ''2''), (''a=b'', ''1'')] sample_cluster)"
proof -
  have "readings_agree sample_cluster [(''a=b'', ''1''), (''b'', ''2'')]"
    by (simp add: readings_agree_def readings_def entry_readings_def config_entries_def read_line_def newline_def)
  then show ?thesis
    using additional_config_order_irrelevant [of "[(''a=b'', ''1''), (''b'', ''2'')]" "[(''b'', ''2''), (''a=b'', ''1'')]" sample_cluster]
    by simp
qed

text \<open>The text of \<open>zoo.cfg\<close> is not a function of the cluster: with two additional entries it depends on
  the order in which Go happens to visit the map, so that two reconciliations of an unchanged cluster
  can write different data to the same config map.\<close>

theorem zoo_cfg_text_unstable:
  "makeZkConfigString [(''a'', ''1''), (''b'', ''2'')] z \<noteq> makeZkConfigString [(''b'', ''2''), (''a'', ''1'')] z"
  by (simp add: makeZkConfigString_def kv_def)

section \<open>The environment file\<close>

lemma env_settings_distinct: "distinct (map fst (env_settings z))"
  by (simp add: env_settings_def Let_def)

lemma env_settings_plain:
  assumes "newline \<notin> set (GetName z)" "newline \<notin> set (GetNamespace z)" "newline \<notin> set (GetKubernetesClusterDomain z)"
  shows "list_all plain_entry (env_settings z)"
proof -
  have i: "newline \<notin> set (Itoa32 w)" for w by (simp add: Itoa32_def Itoa_plain)
  show ?thesis
    using assms unfolding env_settings_def Let_def
    by (simp add: plain_entry_def i headlessDomain_def headlessSvcName_def GetClientServiceName_def GetAdminServerServiceName_def)
       (simp add: newline_def)
qed

lemma Atoi_Itoa32: "Atoi (Itoa32 w) = (sint w, None)"
proof -
  have "- (2 ^ 31) \<le> sint w \<and> sint w < 2 ^ 31"
    using sint_ge [of w] sint_lt [of w] by simp
  then show ?thesis unfolding Itoa32_def by (intro Atoi_Itoa) auto
qed

text \<open>C19. The start script reads from \<open>env.sh\<close> what the operator meant: for a cluster whose name, namespace
  and domain contain no line break, the line reader finds every setting with its generated value, and
  the text under \<open>CLUSTER_SIZE\<close> parses back to the number of replicas.\<close>

theorem env_file_readable:
  assumes "newline \<notin> set (GetName z)" "newline \<notin> set (GetNamespace z)" "newline \<notin> set (GetKubernetesClusterDomain z)"
  shows "list_all (\<lambda>(k, v). config_get (makeZkEnvConfigString z) k = Some v) (env_settings z) \<and>
    Atoi (the (config_get (makeZkEnvConfigString z) ''CLUSTER_SIZE'')) = (sint (Replicas (Spec z)), None)"
proof -
  have layout: "makeZkEnvConfigString z = (''#!/usr/bin/env bash'' @ nl) @ newline # kv_lines (env_settings z)"
    by (simp add: makeZkEnvConfigString_def nl_newline)
  note e = config_entries_after [OF env_settings_plain [OF assms], of "''#!/usr/bin/env bash'' @ nl", folded layout]
  have get: "config_get (makeZkEnvConfigString z) k = Some v" if "(k, v) \<in> set (env_settings z)" for k v
  proof -
    have "k \<noteq> []" using that env_settings_plain [OF assms] by (auto simp: list_all_iff plain_entry_def)
    then show ?thesis by (rule config_get_last [OF e env_settings_distinct that])
  qed
  have "(''CLUSTER_SIZE'', Itoa32 (Replicas (Spec z))) \<in> set (env_settings z)"
    by (simp add: env_settings_def Let_def)
  from get [OF this] show ?thesis using get by (auto simp: list_all_iff Atoi_Itoa32)
qed

theorem env_file_readable_witness:
  "list_all (\<lambda>(k, v). config_get (makeZkEnvConfigString sample_cluster) k = Some v) (env_settings sample_cluster)"
proof -
  have d: "GetKubernetesClusterDomain sample_cluster = ''cluster.local''" by code_simp
  show ?thesis using env_file_readable [of sample_cluster] by (simp add: d newline_def)
qed

end
