(* ===== verification/Reconciler.thy ===== *)
theory Reconciler
  imports Synchronizers ConfigText
begin

text \<open>
  The reconciler of \<open>controllers/zookeepercluster_controller.go\<close> and its environment, with the
  handlers of the simple objects: config map, services and disruption budget.

  The Kubernetes client, the ZooKeeper client interface, \<open>controllerutil.SetControllerReference\<close>, the
  clock and the iteration order of Go maps are parameters, the fields of the record \<open>Env\<close>. Every
  operation takes the world \<open>'w\<close> (the API server, the ensemble, the passage of time) and returns the
  new one, so it may fail or be interleaved with other writers in any way. \<open>Update\<close> returns the object
  as the server stored it, which the Go client decodes into its argument.
\<close>

record Pod =
  PodName :: string
  PodContainersReady :: "bool list"

record StoredPVC =
  PvcName :: string
  PvcNamespace :: string

record 'w Env =
  GetCluster :: "string \<Rightarrow> string \<Rightarrow> 'w \<Rightarrow> 'w \<times> (go_error + ZookeeperCluster)"
  UpdateCluster :: "ZookeeperCluster \<Rightarrow> 'w \<Rightarrow> 'w \<times> (go_error + ZookeeperCluster)"
  UpdateClusterStatus :: "ZookeeperCluster \<Rightarrow> 'w \<Rightarrow> 'w \<times> (go_error + ZookeeperCluster)"
  GetSts :: "string \<Rightarrow> string \<Rightarrow> 'w \<Rightarrow> 'w \<times> (go_error + StatefulSet)"
  CreateSts :: "StatefulSet \<Rightarrow> 'w \<Rightarrow> 'w \<times> go_error option"
  UpdateSts :: "StatefulSet \<Rightarrow> 'w \<Rightarrow> 'w \<times> (go_error + StatefulSet)"
  GetSvc :: "string \<Rightarrow> string \<Rightarrow> 'w \<Rightarrow> 'w \<times> (go_error + Service)"
  CreateSvc :: "Service \<Rightarrow> 'w \<Rightarrow> 'w \<times> go_error option"
  UpdateSvc :: "Service \<Rightarrow> 'w \<Rightarrow> 'w \<times> (go_error + Service)"
  GetCm :: "string \<Rightarrow> string \<Rightarrow> 'w \<Rightarrow> 'w \<times> (go_error + ConfigMap)"
  CreateCm :: "ConfigMap \<Rightarrow> 'w \<Rightarrow> 'w \<times> go_error option"
  UpdateCm :: "ConfigMap \<Rightarrow> 'w \<Rightarrow> 'w \<times> (go_error + ConfigMap)"
  GetPdb :: "string \<Rightarrow> string \<Rightarrow> 'w \<Rightarrow> 'w \<times> (go_error + PodDisruptionBudget)"
  CreatePdb :: "PodDisruptionBudget \<Rightarrow> 'w \<Rightarrow> 'w \<times> go_error option"
  GetSa :: "string \<Rightarrow> string \<Rightarrow> 'w \<Rightarrow> 'w \<times> (go_error + ServiceAccount)"
  CreateSa :: "ServiceAccount \<Rightarrow> 'w \<Rightarrow> 'w \<times> go_error option"
  UpdateSa :: "ServiceAccount \<Rightarrow> 'w \<Rightarrow> 'w \<times> (go_error + ServiceAccount)"
  ListPods :: "string \<Rightarrow> go_map \<Rightarrow> 'w \<Rightarrow> 'w \<times> (go_error + Pod list)"
  ListPVCs :: "string \<Rightarrow> go_map \<Rightarrow> 'w \<Rightarrow> 'w \<times> (go_error + StoredPVC list)"
  DeletePVC :: "StoredPVC \<Rightarrow> 'w \<Rightarrow> 'w \<times> go_error option"
  SetControllerReference :: "ZookeeperCluster \<Rightarrow> ObjectMeta \<Rightarrow> go_error + ObjectMeta"
  ZkConnect :: "string \<Rightarrow> 'w \<Rightarrow> 'w \<times> go_error option"
  ZkCreateNode :: "ZookeeperCluster \<Rightarrow> string \<Rightarrow> 'w \<Rightarrow> 'w \<times> go_error option"
  ZkNodeExists :: "string \<Rightarrow> 'w \<Rightarrow> 'w \<times> (go_error + int32)"
  ZkUpdateNode :: "string \<Rightarrow> string \<Rightarrow> int32 \<Rightarrow> 'w \<Rightarrow> 'w \<times> go_error option"
  ZkClose :: "'w \<Rightarrow> 'w"
  Now :: "'w \<Rightarrow> instant"
  MapOrder :: "'w \<Rightarrow> go_map \<Rightarrow> go_map"
  DisableFinalizer :: bool

text \<open>A handler changes the world and the in-memory \<open>instance\<close>, and returns an error or \<open>nil\<close>.\<close>

type_synonym 'w state = "'w \<times> ZookeeperCluster"
type_synonym 'w outcome = "'w state \<times> go_error option"

abbreviation done_with :: "'w \<Rightarrow> ZookeeperCluster \<Rightarrow> go_error option \<Rightarrow> 'w outcome" where
  "done_with w z e \<equiv> ((w, z), e)"

section \<open>Handlers\<close>

definition reconcileConfigMap :: "'w Env \<Rightarrow> 'w state \<Rightarrow> 'w outcome" where
  "reconcileConfigMap r s = (case s of (w, instance) \<Rightarrow>
     let cm = MakeConfigMap (MapOrder r w (gm_range (AdditionalConfig (Conf (Spec instance))))) instance
     in case SetControllerReference r instance (CmMeta cm) of
          Inl err \<Rightarrow> done_with w instance (Some err)
        | Inr m \<Rightarrow>
            let cm = cm\<lparr>CmMeta := m\<rparr>
            in case GetCm r (MetaNamespace (CmMeta cm)) (MetaName (CmMeta cm)) w of
                 (w1, Inl err) \<Rightarrow>
                   if IsNotFound err
                   then (case CreateCm r cm w1 of (w2, e) \<Rightarrow> done_with w2 instance e)
                   else done_with w1 instance (Some err)
               | (w1, Inr foundCm) \<Rightarrow>
                   (case UpdateCm r (SyncConfigMap foundCm cm) w1 of
                      (w2, Inl err) \<Rightarrow> done_with w2 instance (Some err)
                    | (w2, Inr foundCm) \<Rightarrow> done_with w2 instance None))"

text \<open>The endpoints the client service writes into the status.\<close>

fun last_ip :: "string list \<Rightarrow> string \<Rightarrow> string \<Rightarrow> string" where
  "last_ip [] port endpoint = endpoint"
| "last_ip (ip # ips) port endpoint = last_ip ips port (if ip \<noteq> [] then ip @ '':'' @ port else endpoint)"

definition set_endpoints :: "ZookeeperCluster \<Rightarrow> Service \<Rightarrow> ZookeeperCluster" where
  "set_endpoints instance foundSvc =
     (let port = Itoa32 (ClientPort (ZookeeperPorts instance));
          st = (Status instance)\<lparr>InternalClientEndpoint := SvcClusterIP (SvcSpec foundSvc) @ '':'' @ port\<rparr>
      in instance\<lparr>Status := st\<lparr>ExternalClientEndpoint :=
           (if SvcType (SvcSpec foundSvc) = ''LoadBalancer''
            then last_ip (SvcIngressIPs foundSvc) port (ExternalClientEndpoint st)
            else ''N/A'')\<rparr>\<rparr>)"

definition reconcileClientService :: "'w Env \<Rightarrow> 'w state \<Rightarrow> 'w outcome" where
  "reconcileClientService r s = (case s of (w, instance) \<Rightarrow>
     let svc = MakeClientService instance
     in case SetControllerReference r instance (SvcMeta svc) of
          Inl err \<Rightarrow> done_with w instance (Some err)
        | Inr m \<Rightarrow>
            let svc = svc\<lparr>SvcMeta := m\<rparr>
            in case GetSvc r (MetaNamespace (SvcMeta svc)) (MetaName (SvcMeta svc)) w of
                 (w1, Inl err) \<Rightarrow>
                   if IsNotFound err
                   then (case CreateSvc r svc w1 of (w2, e) \<Rightarrow> done_with w2 instance e)
                   else done_with w1 instance (Some err)
               | (w1, Inr foundSvc) \<Rightarrow>
                   (case UpdateSvc r (SyncService foundSvc svc) w1 of
                      (w2, Inl err) \<Rightarrow> done_with w2 instance (Some err)
                    | (w2, Inr foundSvc) \<Rightarrow> done_with w2 (set_endpoints instance foundSvc) None))"

definition reconcileHeadlessService :: "'w Env \<Rightarrow> 'w state \<Rightarrow> 'w outcome" where
  "reconcileHeadlessService r s = (case s of (w, instance) \<Rightarrow>
     let svc = MakeHeadlessService instance
     in case SetControllerReference r instance (SvcMeta svc) of
          Inl err \<Rightarrow> done_with w instance (Some err)
        | Inr m \<Rightarrow>
            let svc = svc\<lparr>SvcMeta := m\<rparr>
            in case GetSvc r (MetaNamespace (SvcMeta svc)) (MetaName (SvcMeta svc)) w of
                 (w1, Inl err) \<Rightarrow>
                   if IsNotFound err
                   then (case CreateSvc r svc w1 of (w2, e) \<Rightarrow> done_with w2 instance e)
                   else done_with w1 instance (Some err)
               | (w1, Inr foundSvc) \<Rightarrow>
                   (case UpdateSvc r (SyncService foundSvc svc) w1 of
                      (w2, Inl err) \<Rightarrow> done_with w2 instance (Some err)
                    | (w2, Inr foundSvc) \<Rightarrow> done_with w2 instance None))"

definition reconcileAdminServerService :: "'w Env \<Rightarrow> 'w state \<Rightarrow> 'w outcome" where
  "reconcileAdminServerService r s = (case s of (w, instance) \<Rightarrow>
     let svc = MakeAdminServerService instance
     in case SetControllerReference r instance (SvcMeta svc) of
          Inl err \<Rightarrow> done_with w instance (Some err)
        | Inr m \<Rightarrow>
            let svc = svc\<lparr>SvcMeta := m\<rparr>
            in case GetSvc r (MetaNamespace (SvcMeta svc)) (MetaName (SvcMeta svc)) w of
                 (w1, Inl err) \<Rightarrow>
                   if IsNotFound err
                   then (case CreateSvc r svc w1 of (w2, e) \<Rightarrow> done_with w2 instance e)
                   else done_with w1 instance (Some err)
               | (w1, Inr foundSvc) \<Rightarrow>
                   (case UpdateSvc r (SyncService foundSvc svc) w1 of
                      (w2, Inl err) \<Rightarrow> done_with w2 instance (Some err)
                    | (w2, Inr foundSvc) \<Rightarrow> done_with w2 instance None))"

definition reconcilePodDisruptionBudget :: "'w Env \<Rightarrow> 'w state \<Rightarrow> 'w outcome" where
  "reconcilePodDisruptionBudget r s = (case s of (w, instance) \<Rightarrow>
     let pdb = MakePodDisruptionBudget instance
     in case SetControllerReference r instance (PdbMeta pdb) of
          Inl err \<Rightarrow> done_with w instance (Some err)
        | Inr m \<Rightarrow>
            let pdb = pdb\<lparr>PdbMeta := m\<rparr>
            in case GetPdb r (MetaNamespace (PdbMeta pdb)) (MetaName (PdbMeta pdb)) w of
                 (w1, Inl err) \<Rightarrow>
                   if IsNotFound err
                   then (case CreatePdb r pdb w1 of (w2, e) \<Rightarrow> done_with w2 instance e)
                   else done_with w1 instance (Some err)
               | (w1, Inr foundPdb) \<Rightarrow> done_with w1 instance None)"

end
