(* ===== verification/SampleWorld.thy ===== *)
theory SampleWorld
  imports Reconciler SampleCluster
begin

text \<open>
  A concrete environment: an API server that keeps its objects in lists, an ensemble that is up or
  down, and a clock that stands still. It is one instance of the parameter \<open>Env\<close>, on which the laws
  the theorems assume of the API server are proved and the handlers are evaluated. It models nothing
  of the program.
\<close>

section \<open>Objects in lists\<close>

definition mem_find :: "('o \<Rightarrow> ObjectMeta) \<Rightarrow> 'o list \<Rightarrow> string \<times> string \<Rightarrow> 'o option" where
  "mem_find meta xs k = List.find (\<lambda>x. (MetaNamespace (meta x), MetaName (meta x)) = k) xs"

definition mem_get ::
  "('o \<Rightarrow> ObjectMeta) \<Rightarrow> ('w \<Rightarrow> 'o list) \<Rightarrow> string \<Rightarrow> string \<Rightarrow> 'w \<Rightarrow> 'w \<times> (go_error + 'o)" where
  "mem_get meta objs ns n w =
     (case mem_find meta (objs w) (ns, n) of None \<Rightarrow> (w, Inl NotFound) | Some x \<Rightarrow> (w, Inr x))"

definition mem_create ::
  "('o \<Rightarrow> ObjectMeta) \<Rightarrow> ('w \<Rightarrow> 'o list) \<Rightarrow> (('o list \<Rightarrow> 'o list) \<Rightarrow> 'w \<Rightarrow> 'w) \<Rightarrow> 'o \<Rightarrow> 'w \<Rightarrow> 'w \<times> go_error option" where
  "mem_create meta objs upd x w =
     (case mem_find meta (objs w) (MetaNamespace (meta x), MetaName (meta x)) of
        None \<Rightarrow> (upd (\<lambda>l. x # l) w, None)
      | Some _ \<Rightarrow> (w, Some (GoErr ''already exists'')))"

definition mem_update ::
  "('o \<Rightarrow> ObjectMeta) \<Rightarrow> ('w \<Rightarrow> 'o list) \<Rightarrow> (('o list \<Rightarrow> 'o list) \<Rightarrow> 'w \<Rightarrow> 'w) \<Rightarrow> 'o \<Rightarrow> 'w \<Rightarrow> 'w \<times> (go_error + 'o)" where
  "mem_update meta objs upd x w =
     (case mem_find meta (objs w) (MetaNamespace (meta x), MetaName (meta x)) of
        None \<Rightarrow> (w, Inl NotFound)
      | Some _ \<Rightarrow> (upd (\<lambda>l. x # l) w, Inr x))"

lemma mem_find_key: "mem_find meta xs k = Some x \<Longrightarrow> (MetaNamespace (meta x), MetaName (meta x)) = k"
  by (induction xs) (auto simp: mem_find_def split: if_splits)

lemma mem_find_Cons:
  "mem_find meta (x # xs) k = (if (MetaNamespace (meta x), MetaName (meta x)) = k then Some x else mem_find meta xs k)"
  by (simp add: mem_find_def)

section \<open>The world\<close>

record world =
  w_cluster :: ZookeeperCluster
  w_sts :: "StatefulSet list"
  w_svc :: "Service list"
  w_cm :: "ConfigMap list"
  w_pdb :: "PodDisruptionBudget list"
  w_sa :: "ServiceAccount list"
  w_pods :: "Pod list"
  w_pvcs :: "StoredPVC list"
  w_znodes :: "(string \<times> string) list"
  w_zk_up :: bool
  w_time :: instant

definition mem_env :: "world Env" where
  "mem_env =
     \<lparr>GetCluster = (\<lambda>ns n w. if (MetaNamespace (Meta (w_cluster w)), MetaName (Meta (w_cluster w))) = (ns, n)
        then (w, Inr (w_cluster w)) else (w, Inl NotFound)),
      UpdateCluster = (\<lambda>z w. let z1 = z\<lparr>Status := Status (w_cluster w)\<rparr> in (w\<lparr>w_cluster := z1\<rparr>, Inr z1)),
      UpdateClusterStatus = (\<lambda>z w. let z1 = (w_cluster w)\<lparr>Status := Status z\<rparr> in (w\<lparr>w_cluster := z1\<rparr>, Inr z1)),
      GetSts = mem_get SsMeta w_sts, CreateSts = mem_create SsMeta w_sts w_sts_update,
      UpdateSts = mem_update SsMeta w_sts w_sts_update,
      GetSvc = mem_get SvcMeta w_svc, CreateSvc = mem_create SvcMeta w_svc w_svc_update,
      UpdateSvc = mem_update SvcMeta w_svc w_svc_update,
      GetCm = mem_get CmMeta w_cm, CreateCm = mem_create CmMeta w_cm w_cm_update,
      UpdateCm = mem_update CmMeta w_cm w_cm_update,
      GetPdb = mem_get PdbMeta w_pdb, CreatePdb = mem_create PdbMeta w_pdb w_pdb_update,
      GetSa = mem_get SaMeta w_sa, CreateSa = mem_create SaMeta w_sa w_sa_update,
      UpdateSa = mem_update SaMeta w_sa w_sa_update,
      ListPods = (\<lambda>ns sel w. (w, Inr (w_pods w))),
      ListPVCs = (\<lambda>ns sel w. (w, Inr (filter (\<lambda>p. PvcNamespace p = ns) (w_pvcs w)))),
      DeletePVC = (\<lambda>p w. (w\<lparr>w_pvcs := filter (\<lambda>q. q \<noteq> p) (w_pvcs w)\<rparr>, None)),
      SetControllerReference = (\<lambda>z m. Inr (m\<lparr>OwnerReferences :=
        [\<lparr>OwnerKind = ''ZookeeperCluster'', OwnerName = GetName z, OwnerUID = MetaUID (Meta z)\<rparr>]\<rparr>)),
      ZkConnect = (\<lambda>uri w. (w, if w_zk_up w then None else Some (GoErr ''no connection''))),
      ZkCreateNode = (\<lambda>z path w. (w\<lparr>w_znodes := (path, []) # w_znodes w\<rparr>, None)),
      ZkNodeExists = (\<lambda>path w. (w, case map_of (w_znodes w) path of
        None \<Rightarrow> Inl (GoErr ''no such node'') | Some _ \<Rightarrow> Inr 0)),
      ZkUpdateNode = (\<lambda>path d v w. (w\<lparr>w_znodes := (path, d) # w_znodes w\<rparr>, None)),
      ZkClose = (\<lambda>w. w),
      Now = w_time,
      MapOrder = (\<lambda>w m. m),
      DisableFinalizer = False\<rparr>"

definition sample_world :: world where
  "sample_world = \<lparr>w_cluster = sample_cluster, w_sts = [], w_svc = [], w_cm = [], w_pdb = [], w_sa = [],
     w_pods = [], w_pvcs = [], w_znodes = [], w_zk_up = True, w_time = 1700000000000000000\<rparr>"

lemma mem_env_sel [simp]:
  "GetSts mem_env = mem_get SsMeta w_sts" "CreateSts mem_env = mem_create SsMeta w_sts w_sts_update"
  "UpdateSts mem_env = mem_update SsMeta w_sts w_sts_update"
  "GetSvc mem_env = mem_get SvcMeta w_svc" "CreateSvc mem_env = mem_create SvcMeta w_svc w_svc_update"
  "UpdateSvc mem_env = mem_update SvcMeta w_svc w_svc_update"
  "GetCm mem_env = mem_get CmMeta w_cm" "CreateCm mem_env = mem_create CmMeta w_cm w_cm_update"
  "UpdateCm mem_env = mem_update CmMeta w_cm w_cm_update"
  "GetPdb mem_env = mem_get PdbMeta w_pdb" "CreatePdb mem_env = mem_create PdbMeta w_pdb w_pdb_update"
  "GetSa mem_env = mem_get SaMeta w_sa" "CreateSa mem_env = mem_create SaMeta w_sa w_sa_update"
  "UpdateSa mem_env = mem_update SaMeta w_sa w_sa_update"
  "ListPods mem_env ns sel w = (w, Inr (w_pods w))"
  "ListPVCs mem_env ns sel w = (w, Inr (filter (\<lambda>p. PvcNamespace p = ns) (w_pvcs w)))"
  "DeletePVC mem_env p w = (w\<lparr>w_pvcs := filter (\<lambda>q. q \<noteq> p) (w_pvcs w)\<rparr>, None)"
  "SetControllerReference mem_env z m = Inr (m\<lparr>OwnerReferences :=
     [\<lparr>OwnerKind = ''ZookeeperCluster'', OwnerName = GetName z, OwnerUID = MetaUID (Meta z)\<rparr>]\<rparr>)"
  "ZkConnect mem_env uri w = (w, if w_zk_up w then None else Some (GoErr ''no connection''))"
  "ZkCreateNode mem_env z path w = (w\<lparr>w_znodes := (path, []) # w_znodes w\<rparr>, None)"
  "ZkUpdateNode mem_env path d v w = (w\<lparr>w_znodes := (path, d) # w_znodes w\<rparr>, None)"
  "ZkClose mem_env w = w" "Now mem_env = w_time" "MapOrder mem_env w l = l" "DisableFinalizer mem_env = False"
  "UpdateCluster mem_env z w = (w\<lparr>w_cluster := z\<lparr>Status := Status (w_cluster w)\<rparr>\<rparr>, Inr (z\<lparr>Status := Status (w_cluster w)\<rparr>))"
  "UpdateClusterStatus mem_env z w =
     (w\<lparr>w_cluster := (w_cluster w)\<lparr>Status := Status z\<rparr>\<rparr>, Inr ((w_cluster w)\<lparr>Status := Status z\<rparr>))"
  by (simp_all add: mem_env_def Let_def)

end
