(* ===== verification/EnsureObject.thy ===== *)
theory EnsureObject
  imports SampleWorld
begin

text \<open>
  The shape shared by the handlers of config maps and services: take the desired object, set the
  owner, look the object up, create it if it is not there, else synchronise the stored object and
  write it back. The locale proves once, for every handler of this shape, that a run without error
  leaves the desired state in the API server and that no other object is ever touched.

  What the handlers rely on the API server for is stated by \<open>lawful_store\<close>: an abstract view of the
  stored objects that \<open>Get\<close> reads, and \<open>Create\<close> and \<open>Update\<close> change at one key only. A failed write
  may or may not have taken effect. The server may fill in other fields of what it stores, but not
  those under \<open>goal\<close>. \<open>versioned_store\<close> states when the server is bound to accept a request: it
  uses optimistic concurrency, so an update has to carry the resource version of the stored object, or
  it is answered with a conflict, and it validates what it is sent.
\<close>

definition ensure_object ::
  "(ObjectMeta \<Rightarrow> go_error + ObjectMeta) \<Rightarrow> (string \<Rightarrow> string \<Rightarrow> 'w \<Rightarrow> 'w \<times> (go_error + 'o)) \<Rightarrow>
   ('o \<Rightarrow> 'w \<Rightarrow> 'w \<times> go_error option) \<Rightarrow> ('o \<Rightarrow> 'w \<Rightarrow> 'w \<times> (go_error + 'o)) \<Rightarrow> ('o \<Rightarrow> 'o \<Rightarrow> 'o) \<Rightarrow>
   ('o \<Rightarrow> ObjectMeta) \<Rightarrow> (ObjectMeta \<Rightarrow> 'o \<Rightarrow> 'o) \<Rightarrow> 'o \<Rightarrow> 'w \<Rightarrow> 'w \<times> go_error option" where
  "ensure_object owner get create update sync meta set_meta desired w =
     (case owner (meta desired) of
        Inl err \<Rightarrow> (w, Some err)
      | Inr m \<Rightarrow>
          (let obj = set_meta m desired
           in case get (MetaNamespace m) (MetaName m) w of
                (w1, Inl err) \<Rightarrow> if IsNotFound err then create obj w1 else (w1, Some err)
              | (w1, Inr found) \<Rightarrow>
                  (case update (sync found obj) w1 of
                     (w2, Inl err) \<Rightarrow> (w2, Some err)
                   | (w2, Inr _) \<Rightarrow> (w2, None))))"

definition object_key :: "ObjectMeta \<Rightarrow> string \<times> string" where
  "object_key m = (MetaNamespace m, MetaName m)"

definition lawful_store ::
  "('w \<Rightarrow> string \<times> string \<Rightarrow> 'o option) \<Rightarrow> ('o \<Rightarrow> string \<times> string) \<Rightarrow> ('o \<Rightarrow> 'g) \<Rightarrow>
   (string \<Rightarrow> string \<Rightarrow> 'w \<Rightarrow> 'w \<times> (go_error + 'o)) \<Rightarrow> ('o \<Rightarrow> 'w \<Rightarrow> 'w \<times> go_error option) \<Rightarrow>
   ('o \<Rightarrow> 'w \<Rightarrow> 'w \<times> (go_error + 'o)) \<Rightarrow> bool" where
  "lawful_store view key goal get create update \<longleftrightarrow>
     (\<forall>ns n w w' e. get ns n w = (w', Inl e) \<longrightarrow> view w' = view w \<and> (IsNotFound e \<longrightarrow> view w (ns, n) = None)) \<and>
     (\<forall>ns n w w' x. get ns n w = (w', Inr x) \<longrightarrow> view w' = view w \<and> view w (ns, n) = Some x \<and> key x = (ns, n)) \<and>
     (\<forall>x w w'. create x w = (w', None) \<longrightarrow> (\<exists>y. view w' (key x) = Some y \<and> goal y = goal x)) \<and>
     (\<forall>x w w' e k. create x w = (w', e) \<longrightarrow> k \<noteq> key x \<longrightarrow> view w' k = view w k) \<and>
     (\<forall>x w w' y. update x w = (w', Inr y) \<longrightarrow> view w' (key x) = Some y \<and> goal y = goal x) \<and>
     (\<forall>x w w' r k. update x w = (w', r) \<longrightarrow> k \<noteq> key x \<longrightarrow> view w' k = view w k)"

lemma lawful_storeD:
  assumes "lawful_store view key goal get create update"
  shows "get ns n w = (w', Inl e) \<Longrightarrow> view w' = view w"
    and "get ns n w = (w', Inl e) \<Longrightarrow> IsNotFound e \<Longrightarrow> view w (ns, n) = None"
    and "get ns n w = (w', Inr x) \<Longrightarrow> view w' = view w"
    and "get ns n w = (w', Inr x) \<Longrightarrow> view w (ns, n) = Some x"
    and "get ns n w = (w', Inr x) \<Longrightarrow> key x = (ns, n)"
    and "create x w = (w', None) \<Longrightarrow> \<exists>y. view w' (key x) = Some y \<and> goal y = goal x"
    and "create x w = (w', c) \<Longrightarrow> k \<noteq> key x \<Longrightarrow> view w' k = view w k"
    and "update x w = (w', Inr y) \<Longrightarrow> view w' (key x) = Some y"
    and "update x w = (w', Inr y) \<Longrightarrow> goal y = goal x"
    and "update x w = (w', u) \<Longrightarrow> k \<noteq> key x \<Longrightarrow> view w' k = view w k"
proof -
  note law = assms [unfolded lawful_store_def]
  note get_err = law [THEN conjunct1, rule_format]
    and get_ok = law [THEN conjunct2, THEN conjunct1, rule_format]
    and create_ok = law [THEN conjunct2, THEN conjunct2, THEN conjunct1, rule_format]
    and create_other = law [THEN conjunct2, THEN conjunct2, THEN conjunct2, THEN conjunct1, rule_format]
    and update_ok = law [THEN conjunct2, THEN conjunct2, THEN conjunct2, THEN conjunct2, THEN conjunct1, rule_format]
    and update_other = law [THEN conjunct2, THEN conjunct2, THEN conjunct2, THEN conjunct2, THEN conjunct2, rule_format]
  show "get ns n w = (w', Inl e) \<Longrightarrow> view w' = view w"
    and "get ns n w = (w', Inl e) \<Longrightarrow> IsNotFound e \<Longrightarrow> view w (ns, n) = None" using get_err by blast+
  show "get ns n w = (w', Inr x) \<Longrightarrow> view w' = view w"
    and "get ns n w = (w', Inr x) \<Longrightarrow> view w (ns, n) = Some x"
    and "get ns n w = (w', Inr x) \<Longrightarrow> key x = (ns, n)" using get_ok by blast+
  show "create x w = (w', None) \<Longrightarrow> \<exists>y. view w' (key x) = Some y \<and> goal y = goal x" by (rule create_ok)
  show "create x w = (w', c) \<Longrightarrow> k \<noteq> key x \<Longrightarrow> view w' k = view w k" by (rule create_other)
  show "update x w = (w', Inr y) \<Longrightarrow> view w' (key x) = Some y"
    and "update x w = (w', Inr y) \<Longrightarrow> goal y = goal x" using update_ok by blast+
  show "update x w = (w', u) \<Longrightarrow> k \<noteq> key x \<Longrightarrow> view w' k = view w k" by (rule update_other)
qed

text \<open>
  A lookup fails only for an absent object. An object that is absent may be created if it carries no
  resource version and its content is valid. A stored object may be replaced by one that carries the
  stored resource version, agrees with it in everything outside \<open>content\<close> (immutable fields such as
  the cluster IP are there) and has valid content. Any other request may be refused.
\<close>

definition versioned_store ::
  "('w \<Rightarrow> string \<times> string \<Rightarrow> 'o option) \<Rightarrow> ('o \<Rightarrow> ObjectMeta) \<Rightarrow> ('o \<Rightarrow> 'm) \<Rightarrow> ('o \<Rightarrow> 'u) \<Rightarrow> ('m \<Rightarrow> bool) \<Rightarrow>
   (string \<Rightarrow> string \<Rightarrow> 'w \<Rightarrow> 'w \<times> (go_error + 'o)) \<Rightarrow> ('o \<Rightarrow> 'w \<Rightarrow> 'w \<times> go_error option) \<Rightarrow>
   ('o \<Rightarrow> 'w \<Rightarrow> 'w \<times> (go_error + 'o)) \<Rightarrow> bool" where
  "versioned_store view meta content frame valid get create update \<longleftrightarrow>
     (\<forall>ns n w e. snd (get ns n w) = Inl e \<longrightarrow> IsNotFound e) \<and>
     (\<forall>x w. view w (object_key (meta x)) = None \<and> ResourceVersion (meta x) = [] \<and> valid (content x) \<longrightarrow>
        snd (create x w) = None) \<and>
     (\<forall>x y w. view w (object_key (meta x)) = Some y \<and> ResourceVersion (meta x) = ResourceVersion (meta y) \<and>
        frame x = frame y \<and> valid (content x) \<longrightarrow> \<not> isl (snd (update x w)))"

text \<open>
  \<open>SetControllerReference\<close> refuses an object that has another controller or lives in another namespace;
  an object without owners in the namespace of the cluster it accepts.
\<close>

definition fresh_owner :: "'w Env \<Rightarrow> bool" where
  "fresh_owner r \<longleftrightarrow> (\<forall>z m. OwnerReferences m = [] \<and> MetaNamespace m = MetaNamespace (Meta z) \<longrightarrow>
     \<not> isl (SetControllerReference r z m))"

text \<open>\<open>controllerutil.SetControllerReference\<close> only adds an owner reference.\<close>

definition owner_keeps :: "'w Env \<Rightarrow> bool" where
  "owner_keeps r \<longleftrightarrow> (\<forall>z m m'. SetControllerReference r z m = Inr m' \<longrightarrow>
     (\<exists>refs. m' = m\<lparr>OwnerReferences := refs\<rparr>))"

locale ensured =
  fixes handler :: "'w Env \<Rightarrow> 'w state \<Rightarrow> 'w outcome"
    and get :: "'w Env \<Rightarrow> string \<Rightarrow> string \<Rightarrow> 'w \<Rightarrow> 'w \<times> (go_error + 'o)"
    and create :: "'w Env \<Rightarrow> 'o \<Rightarrow> 'w \<Rightarrow> 'w \<times> go_error option"
    and update :: "'w Env \<Rightarrow> 'o \<Rightarrow> 'w \<Rightarrow> 'w \<times> (go_error + 'o)"
    and sync :: "'o \<Rightarrow> 'o \<Rightarrow> 'o"
    and meta :: "'o \<Rightarrow> ObjectMeta"
    and set_meta :: "ObjectMeta \<Rightarrow> 'o \<Rightarrow> 'o"
    and goal :: "'o \<Rightarrow> 'g"
    and desired :: "'w Env \<Rightarrow> 'w \<Rightarrow> ZookeeperCluster \<Rightarrow> 'o"
  assumes handler_world: "fst (fst (handler r (w, z))) = fst (ensure_object (SetControllerReference r z)
        (get r) (create r) (update r) sync meta set_meta (desired r w z) w)"
    and handler_error: "snd (handler r (w, z)) = snd (ensure_object (SetControllerReference r z)
        (get r) (create r) (update r) sync meta set_meta (desired r w z) w)"
    and goal_sync: "goal (sync a b) = goal b"
    and key_sync: "object_key (meta (sync a b)) = object_key (meta a)"
    and goal_owner: "goal (set_meta (m\<lparr>OwnerReferences := refs\<rparr>) a) = goal (set_meta m a)"
    and meta_set: "meta (set_meta m a) = m"
    and set_own: "set_meta (meta a) a = a"
begin

definition lawful :: "'w Env \<Rightarrow> ('w \<Rightarrow> string \<times> string \<Rightarrow> 'o option) \<Rightarrow> bool" where
  "lawful r view \<longleftrightarrow> owner_keeps r \<and> lawful_store view (object_key \<circ> meta) goal (get r) (create r) (update r)"

lemma owned:
  assumes "owner_keeps r" and "SetControllerReference r z (meta d) = Inr m"
  shows "object_key m = object_key (meta d)" and "goal (set_meta m d) = goal d"
proof -
  obtain refs where "m = (meta d)\<lparr>OwnerReferences := refs\<rparr>"
    using assms unfolding owner_keeps_def by blast
  then show "object_key m = object_key (meta d)" "goal (set_meta m d) = goal d"
    by (simp_all add: object_key_def goal_owner set_own)
qed

text \<open>A run without error leaves an object with the desired state at its key.\<close>

lemma converges:
  assumes law: "lawful r view" and run: "handler r (w, z) = ((w', z'), None)"
  shows "\<exists>y. view w' (object_key (meta (desired r w z))) = Some y \<and> goal y = goal (desired r w z)"
proof -
  let ?d = "desired r w z"
  have ens: "ensure_object (SetControllerReference r z) (get r) (create r) (update r) sync meta set_meta ?d w = (w', None)"
    using handler_world [of r w z] handler_error [of r w z] run by (metis fst_conv snd_conv prod.collapse)
  obtain m where m: "SetControllerReference r z (meta ?d) = Inr m"
    using ens by (auto simp: ensure_object_def split: sum.splits)
  note own = owned [OF law [unfolded lawful_def, THEN conjunct1] m]
  have st: "lawful_store view (object_key \<circ> meta) goal (get r) (create r) (update r)"
    using law by (simp add: lawful_def)
  obtain w1 g where g: "get r (MetaNamespace m) (MetaName m) w = (w1, g)" by (metis prod.exhaust)
  show ?thesis
  proof (cases g)
    case (Inl e)
    with ens m g have "create r (set_meta m ?d) w1 = (w', None)"
      by (auto simp: ensure_object_def split: if_splits)
    then have "\<exists>y. view w' (object_key (meta (set_meta m ?d))) = Some y \<and> goal y = goal (set_meta m ?d)"
      using lawful_storeD(6) [OF st] by fastforce
    then show ?thesis by (simp add: meta_set own)
  next
    case (Inr found)
    obtain w2 u where u: "update r (sync found (set_meta m ?d)) w1 = (w2, u)" by (metis prod.exhaust)
    with ens m g Inr obtain y where y: "u = Inr y" "w2 = w'"
      by (auto simp: ensure_object_def split: sum.splits)
    have "object_key (meta found) = object_key m"
      using lawful_storeD(5) [OF st] g Inr by (fastforce simp: object_key_def [of m])
    then have key: "object_key (meta (sync found (set_meta m ?d))) = object_key (meta ?d)"
      by (simp add: key_sync own(1))
    have "view w' (object_key (meta (sync found (set_meta m ?d)))) = Some y \<and> goal y = goal (sync found (set_meta m ?d))"
      using lawful_storeD(8,9) [OF st] u y by fastforce
    then show ?thesis by (simp add: key goal_sync own)
  qed
qed

text \<open>Whether it fails or not, a run touches no other object.\<close>

lemma touches_only_its_object:
  assumes law: "lawful r view" and run: "handler r (w, z) = ((w', z'), e)"
    and other: "k \<noteq> object_key (meta (desired r w z))"
  shows "view w' k = view w k"
proof -
  let ?d = "desired r w z"
  have ens: "fst (ensure_object (SetControllerReference r z) (get r) (create r) (update r) sync meta set_meta ?d w) = w'"
    using handler_world [of r w z] run by simp
  have st: "lawful_store view (object_key \<circ> meta) goal (get r) (create r) (update r)"
    using law by (simp add: lawful_def)
  show ?thesis
  proof (cases "SetControllerReference r z (meta ?d)")
    case (Inl x)
    with ens show ?thesis by (simp add: ensure_object_def)
  next
    case m: (Inr m)
    note own = owned [OF law [unfolded lawful_def, THEN conjunct1] m]
    obtain w1 g where g: "get r (MetaNamespace m) (MetaName m) w = (w1, g)" by (metis prod.exhaust)
    have w1: "view w1 = view w" using lawful_storeD(1,3) [OF st] g by (cases g) auto
    show ?thesis
    proof (cases g)
      case (Inl x)
      obtain wc ec where c: "create r (set_meta m ?d) w1 = (wc, ec)" by (metis prod.exhaust)
      from lawful_storeD(7) [OF st c] other have "view wc k = view w1 k"
        by (simp add: meta_set own(1))
      with ens m g Inl c w1 show ?thesis by (auto simp: ensure_object_def split: if_splits)
    next
      case (Inr found)
      obtain w2 u where u: "update r (sync found (set_meta m ?d)) w1 = (w2, u)" by (metis prod.exhaust)
      have "object_key (meta found) = object_key m"
        using lawful_storeD(5) [OF st] g Inr by (fastforce simp: object_key_def [of m])
      then have "object_key (meta (sync found (set_meta m ?d))) = object_key (meta ?d)"
        by (simp add: key_sync own(1))
      with lawful_storeD(10) [OF st u] other have "view w2 k = view w1 k" by simp
      with ens m g Inr u w1 show ?thesis by (cases u) (auto simp: ensure_object_def)
    qed
  qed
qed

end

text \<open>
  The handlers' objects under optimistic concurrency: the synchroniser keeps what it does not manage,
  the resource version included, and generated objects have neither a version nor owners.
\<close>

locale versioned =
  ensured handler get create update sync meta set_meta goal desired + synchroniser sync content frame
  for handler :: "'w Env \<Rightarrow> 'w state \<Rightarrow> 'w outcome"
    and get :: "'w Env \<Rightarrow> string \<Rightarrow> string \<Rightarrow> 'w \<Rightarrow> 'w \<times> (go_error + 'o)"
    and create :: "'w Env \<Rightarrow> 'o \<Rightarrow> 'w \<Rightarrow> 'w \<times> go_error option"
    and update :: "'w Env \<Rightarrow> 'o \<Rightarrow> 'w \<Rightarrow> 'w \<times> (go_error + 'o)"
    and sync :: "'o \<Rightarrow> 'o \<Rightarrow> 'o"
    and meta :: "'o \<Rightarrow> ObjectMeta"
    and set_meta :: "ObjectMeta \<Rightarrow> 'o \<Rightarrow> 'o"
    and goal :: "'o \<Rightarrow> 'g"
    and desired :: "'w Env \<Rightarrow> 'w \<Rightarrow> ZookeeperCluster \<Rightarrow> 'o"
    and content :: "'o \<Rightarrow> 'm"
    and frame :: "'o \<Rightarrow> 'u" +
  assumes version_sync: "ResourceVersion (meta (sync a b)) = ResourceVersion (meta a)"
    and content_owner: "content (set_meta (m\<lparr>OwnerReferences := refs\<rparr>) a) = content (set_meta m a)"
    and desired_version: "ResourceVersion (meta (desired r w z)) = []"
    and desired_owners: "OwnerReferences (meta (desired r w z)) = []"
    and desired_namespace: "MetaNamespace (meta (desired r w z)) = MetaNamespace (Meta z)"
begin

text \<open>No request of the handler is one the server may refuse, if the generated content is valid.\<close>

lemma succeeds:
  assumes law: "lawful r view" and fresh: "fresh_owner r" and valid: "valid (content (desired r w z))"
    and ok: "versioned_store view meta content frame valid (get r) (create r) (update r)"
  shows "snd (handler r (w, z)) = None"
proof -
  let ?d = "desired r w z"
  have "\<not> isl (SetControllerReference r z (meta ?d))"
    using fresh desired_owners [of r w z] desired_namespace [of r w z] unfolding fresh_owner_def by blast
  then obtain m where m: "SetControllerReference r z (meta ?d) = Inr m" by (metis isl_def sum.exhaust)
  obtain refs where refs: "m = (meta ?d)\<lparr>OwnerReferences := refs\<rparr>"
    using law m unfolding lawful_def owner_keeps_def by blast
  have d: "content (set_meta m ?d) = content ?d" "ResourceVersion m = []"
    using content_owner [where m = "meta ?d" and refs = refs and a = ?d] desired_version [of r w z] by (simp_all add: refs set_own)
  have st: "lawful_store view (object_key \<circ> meta) goal (get r) (create r) (update r)"
    using law by (simp add: lawful_def)
  note accept = ok [unfolded versioned_store_def]
  obtain w1 g where g: "get r (MetaNamespace m) (MetaName m) w = (w1, g)" by (metis prod.exhaust)
  have w1: "view w1 = view w" using lawful_storeD(1,3) [OF st] g by (cases g) auto
  have "snd (ensure_object (SetControllerReference r z) (get r) (create r) (update r) sync meta set_meta ?d w) = None"
  proof (cases g)
    case (Inl e)
    then have nf: "IsNotFound e" using accept g by (metis snd_conv)
    then have "view w1 (object_key m) = None"
      using lawful_storeD(2) [OF st] g Inl w1 by (simp add: object_key_def)
    then have "snd (create r (set_meta m ?d) w1) = None"
      using accept [THEN conjunct2, THEN conjunct1] d valid by (simp add: meta_set)
    with m g Inl nf show ?thesis by (simp add: ensure_object_def)
  next
    case (Inr found)
    let ?x = "sync found (set_meta m ?d)"
    have "object_key (meta found) = (MetaNamespace m, MetaName m)"
      using lawful_storeD(5) [OF st] g Inr by fastforce
    moreover have "view w (MetaNamespace m, MetaName m) = Some found" using lawful_storeD(4) [OF st] g Inr by simp
    ultimately have "view w1 (object_key (meta ?x)) = Some found" using w1 by (simp add: key_sync)
    moreover have "ResourceVersion (meta ?x) = ResourceVersion (meta found)" "frame ?x = frame found" "valid (content ?x)"
      using version_sync unmanaged_sync managed_sync d valid by simp_all
    ultimately have u: "\<not> isl (snd (update r ?x w1))" using accept [THEN conjunct2, THEN conjunct2] by blast
    obtain w2 y where "update r ?x w1 = (w2, y)" by (metis prod.exhaust)
    with u m g Inr show ?thesis by (cases y) (simp_all add: ensure_object_def)
  qed
  then show ?thesis by (simp add: handler_error)
qed

end

section \<open>The four handlers\<close>

abbreviation set_cm_meta :: "ObjectMeta \<Rightarrow> ConfigMap \<Rightarrow> ConfigMap" where
  "set_cm_meta m c \<equiv> c\<lparr>CmMeta := m\<rparr>"

abbreviation set_svc_meta :: "ObjectMeta \<Rightarrow> Service \<Rightarrow> Service" where
  "set_svc_meta m s \<equiv> s\<lparr>SvcMeta := m\<rparr>"

definition desired_cm :: "'w Env \<Rightarrow> 'w \<Rightarrow> ZookeeperCluster \<Rightarrow> ConfigMap" where
  "desired_cm r w z = MakeConfigMap (MapOrder r w (gm_range (AdditionalConfig (Conf (Spec z))))) z"

text \<open>
  The state of a service the handlers maintain: ports and annotations. An empty map of annotations, which
  the generator makes when there are none, and a nil map, which the server returns for it, are the same
  here. (The third managed field, the type, is \<open>""\<close> for an internal service, which the server replaces
  by \<open>ClusterIP\<close>.)
\<close>

definition svc_goal :: "Service \<Rightarrow> ServicePort list \<times> go_map" where
  "svc_goal s = (SvcPorts (SvcSpec s), gm_range (MetaAnnotations (SvcMeta s)))"

lemmas ensure_shape = ensure_object_def Let_def

lemma generated_meta:
  "ResourceVersion (CmMeta (MakeConfigMap conf z)) = []" "OwnerReferences (CmMeta (MakeConfigMap conf z)) = []"
  "MetaNamespace (CmMeta (MakeConfigMap conf z)) = MetaNamespace (Meta z)"
  "ResourceVersion (SvcMeta (makeService name ports c ext ann z)) = []"
  "OwnerReferences (SvcMeta (makeService name ports c ext ann z)) = []"
  "MetaNamespace (SvcMeta (makeService name ports c ext ann z)) = MetaNamespace (Meta z)"
  by (simp_all add: MakeConfigMap_def makeService_def empty_meta_def Let_def)

lemmas generated_services = MakeClientService_def MakeHeadlessService_def MakeAdminServerService_def

interpretation config_map: versioned reconcileConfigMap GetCm CreateCm UpdateCm SyncConfigMap CmMeta set_cm_meta
  cm_managed desired_cm cm_managed cm_unmanaged
  by unfold_locales
     (simp_all add: reconcileConfigMap_def desired_cm_def ensure_shape SyncConfigMap_def cm_managed_def generated_meta
        split: sum.splits prod.splits)

interpretation headless_service: versioned reconcileHeadlessService GetSvc CreateSvc UpdateSvc SyncService SvcMeta
  set_svc_meta svc_goal "\<lambda>r w. MakeHeadlessService" svc_managed svc_unmanaged
  by unfold_locales
     (simp_all add: reconcileHeadlessService_def ensure_shape SyncService_def svc_goal_def object_key_def svc_managed_def
        generated_services generated_meta split: sum.splits prod.splits)

interpretation admin_service: versioned reconcileAdminServerService GetSvc CreateSvc UpdateSvc SyncService SvcMeta
  set_svc_meta svc_goal "\<lambda>r w. MakeAdminServerService" svc_managed svc_unmanaged
  by unfold_locales
     (simp_all add: reconcileAdminServerService_def ensure_shape SyncService_def svc_goal_def object_key_def svc_managed_def
        generated_services generated_meta split: sum.splits prod.splits)

interpretation client_service: versioned reconcileClientService GetSvc CreateSvc UpdateSvc SyncService SvcMeta
  set_svc_meta svc_goal "\<lambda>r w. MakeClientService" svc_managed svc_unmanaged
  by unfold_locales
     (simp_all add: reconcileClientService_def ensure_shape SyncService_def svc_goal_def object_key_def svc_managed_def
        generated_services generated_meta split: sum.splits prod.splits)


section \<open>What the handlers achieve\<close>

lemma mem_owner: "owner_keeps mem_env"
  by (auto simp: owner_keeps_def)

lemma mem_lawful:
  assumes upd: "\<And>f w. objs (upd f w) = f (objs w)"
  shows "lawful_store (\<lambda>w. mem_find meta (objs w)) (object_key \<circ> meta) goal (mem_get meta objs)
     (mem_create meta objs upd) (mem_update meta objs upd)"
  unfolding lawful_store_def mem_get_def mem_create_def mem_update_def
  by (auto simp: mem_find_Cons object_key_def upd split: option.splits dest: mem_find_key)

lemma mem_versioned:
  "versioned_store (\<lambda>w. mem_find meta (objs w)) meta content frame valid (mem_get meta objs)
     (mem_create meta objs upd) (mem_update meta objs upd)"
  by (auto simp: versioned_store_def mem_get_def mem_create_def mem_update_def object_key_def split: option.splits)

lemma mem_fresh: "fresh_owner mem_env"
  by (simp add: fresh_owner_def)

lemma desired_keys:
  "object_key (CmMeta (desired_cm r w z)) = (GetNamespace z, ConfigMapName z)"
  "object_key (SvcMeta (MakeHeadlessService z)) = (GetNamespace z, headlessSvcName z)"
  "object_key (SvcMeta (MakeAdminServerService z)) = (GetNamespace z, GetAdminServerServiceName z)"
  "object_key (SvcMeta (MakeClientService z)) = (GetNamespace z, GetClientServiceName z)"
  by (simp_all add: object_key_def desired_cm_def MakeConfigMap_def MakeHeadlessService_def
      MakeAdminServerService_def MakeClientService_def makeService_def Let_def GetNamespace_def)


abbreviation lawful_cms :: "'w Env \<Rightarrow> ('w \<Rightarrow> string \<times> string \<Rightarrow> ConfigMap option) \<Rightarrow> bool" where
  "lawful_cms r view \<equiv> lawful_store view (object_key \<circ> CmMeta) cm_managed (GetCm r) (CreateCm r) (UpdateCm r)"

abbreviation lawful_svcs :: "'w Env \<Rightarrow> ('w \<Rightarrow> string \<times> string \<Rightarrow> Service option) \<Rightarrow> bool" where
  "lawful_svcs r view \<equiv> lawful_store view (object_key \<circ> SvcMeta) svc_goal (GetSvc r) (CreateSvc r) (UpdateSvc r)"

abbreviation mem_cms :: "world \<Rightarrow> string \<times> string \<Rightarrow> ConfigMap option" where
  "mem_cms w \<equiv> mem_find CmMeta (w_cm w)"

abbreviation mem_svcs :: "world \<Rightarrow> string \<times> string \<Rightarrow> Service option" where
  "mem_svcs w \<equiv> mem_find SvcMeta (w_svc w)"

lemma mem_lawful_cms: "lawful_cms mem_env mem_cms"
  by (simp add: mem_lawful)

lemma mem_lawful_svcs: "lawful_svcs mem_env mem_svcs"
  by (simp add: mem_lawful)

lemma handlers_keep_instance:
  "snd (fst (reconcileConfigMap r (w, z))) = z"
  "snd (fst (reconcileHeadlessService r (w, z))) = z"
  "snd (fst (reconcileAdminServerService r (w, z))) = z"
  "snd (fst (reconcilePodDisruptionBudget r (w, z))) = z"
  by (simp_all add: reconcileConfigMap_def reconcileHeadlessService_def reconcileAdminServerService_def
      reconcilePodDisruptionBudget_def Let_def split: sum.splits prod.splits)

text \<open>C10. The config map converges. A run of \<open>reconcileConfigMap\<close> that reports no error leaves, under the
  cluster's namespace and \<open><name>-configmap\<close>, a config map whose data are the generated files, whether
  it had to be created or was there with any other content; failing or not, it changes no other config
  map and not the in-memory cluster. Hypotheses: the API server keeps objects under their keys, and
  \<open>SetControllerReference\<close> only touches owner references.\<close>

theorem reconcileConfigMap_converges:
  assumes own: "owner_keeps r" and law: "lawful_cms r view" and run: "reconcileConfigMap r (w, z) = ((w', z'), e)"
  shows "z' = z \<and>
    (e = None \<longrightarrow> (\<exists>c. view w' (GetNamespace z, ConfigMapName z) = Some c \<and>
        cm_managed c = cm_managed (desired_cm r w z))) \<and>
    (\<forall>k. k \<noteq> (GetNamespace z, ConfigMapName z) \<longrightarrow> view w' k = view w k)"
proof -
  have l: "config_map.lawful r view" using own law by (simp add: config_map.lawful_def)
  have "z' = z" using handlers_keep_instance(1) [of r w z] run by simp
  moreover have "\<exists>c. view w' (GetNamespace z, ConfigMapName z) = Some c \<and> cm_managed c = cm_managed (desired_cm r w z)"
    if "e = None" using config_map.converges [OF l, of w z w' z'] run that by (simp add: desired_keys)
  moreover have "view w' k = view w k" if "k \<noteq> (GetNamespace z, ConfigMapName z)" for k
    using config_map.touches_only_its_object [OF l run, of k] that by (simp add: desired_keys)
  ultimately show ?thesis by blast
qed

theorem reconcileConfigMap_converges_witness:
  "\<exists>c. mem_cms (fst (fst (reconcileConfigMap mem_env (sample_world, sample_cluster)))) (''default'', ''zk-configmap'') = Some c \<and>
     cm_managed c = cm_managed (desired_cm mem_env sample_world sample_cluster)"
proof -
  obtain w' z' e where run: "reconcileConfigMap mem_env (sample_world, sample_cluster) = ((w', z'), e)"
    by (metis prod.collapse)
  have "config_map.lawful mem_env mem_cms"
    by (simp add: config_map.lawful_def mem_owner mem_lawful)
  then have "snd (reconcileConfigMap mem_env (sample_world, sample_cluster)) = None"
    by (rule config_map.succeeds [where valid = "\<lambda>_. True"]) (simp_all add: mem_fresh mem_versioned)
  then have "e = None" using run by simp
  then show ?thesis
    using reconcileConfigMap_converges [OF mem_owner mem_lawful_cms run] run
    by simp
qed


text \<open>The client service also sets the endpoints in the status, from the service as the server returned it.\<close>

lemma reconcileClientService_instance:
  assumes law: "lawful_svcs r view" and own: "owner_keeps r" and run: "reconcileClientService r (w, z) = ((w', z'), None)"
  shows "z' = z \<and> view w (GetNamespace z, GetClientServiceName z) = None \<or>
    view w (GetNamespace z, GetClientServiceName z) \<noteq> None \<and>
    (\<exists>s. view w' (GetNamespace z, GetClientServiceName z) = Some s \<and> z' = set_endpoints z s)"
proof -
  let ?d = "MakeClientService z"
  obtain m where m: "SetControllerReference r z (SvcMeta ?d) = Inr m"
    using run by (auto simp: reconcileClientService_def Let_def split: sum.splits)
  have l: "client_service.lawful r view" using own law by (simp add: client_service.lawful_def)
  have key: "(MetaNamespace m, MetaName m) = (GetNamespace z, GetClientServiceName z)"
    using client_service.owned(1) [OF own m] desired_keys(4) [of z] by (simp add: object_key_def)
  obtain w1 g where g: "GetSvc r (MetaNamespace m) (MetaName m) w = (w1, g)" by (metis prod.exhaust)
  show ?thesis
  proof (cases g)
    case (Inl e)
    with run m g have "IsNotFound e" "z' = z"
      by (auto simp: reconcileClientService_def Let_def split: if_splits prod.splits)
    with lawful_storeD(2) [OF law, of "MetaNamespace m" "MetaName m" w w1 e] g Inl key show ?thesis by simp
  next
    case (Inr found)
    obtain w2 u where u: "UpdateSvc r (SyncService found (?d\<lparr>SvcMeta := m\<rparr>)) w1 = (w2, u)" by (metis prod.exhaust)
    with run m g Inr obtain y where y: "u = Inr y" "w2 = w'" "z' = set_endpoints z y"
      by (auto simp: reconcileClientService_def Let_def split: sum.splits)
    have "view w (MetaNamespace m, MetaName m) \<noteq> None"
      using lawful_storeD(4) [OF law] g Inr by fastforce
    moreover have "object_key (SvcMeta found) = (MetaNamespace m, MetaName m)"
      using lawful_storeD(5) [OF law] g Inr by fastforce
    moreover have "view w' (object_key (SvcMeta (SyncService found (?d\<lparr>SvcMeta := m\<rparr>)))) = Some y"
      using lawful_storeD(8) [OF law] u y by fastforce
    ultimately show ?thesis using y key client_service.key_sync by auto
  qed
qed

text \<open>C11. The client service converges as well, and publishes itself: after a run without error the service
  \<open><name>-client\<close> has the generated ports and annotations, and the endpoints in the status are those
  of the stored service, unless the run has just created it; then they stay as they were until the
  next reconciliation. No other service is changed, even by a run that fails.\<close>

theorem reconcileClientService_converges:
  assumes own: "owner_keeps r" and law: "lawful_svcs r view" and run: "reconcileClientService r (w, z) = ((w', z'), e)"
  shows "(e = None \<longrightarrow> (\<exists>s. view w' (GetNamespace z, GetClientServiceName z) = Some s \<and>
        svc_goal s = svc_goal (MakeClientService z) \<and>
        z' = (if view w (GetNamespace z, GetClientServiceName z) = None then z else set_endpoints z s))) \<and>
    (\<forall>k. k \<noteq> (GetNamespace z, GetClientServiceName z) \<longrightarrow> view w' k = view w k)"
proof -
  have l: "client_service.lawful r view" using own law by (simp add: client_service.lawful_def)
  have "\<exists>s. view w' (GetNamespace z, GetClientServiceName z) = Some s \<and> svc_goal s = svc_goal (MakeClientService z) \<and>
      z' = (if view w (GetNamespace z, GetClientServiceName z) = None then z else set_endpoints z s)" if e: "e = None"
    using client_service.converges [OF l, of w z w' z'] reconcileClientService_instance [OF law own, of w z w' z'] run e
    by (auto simp: desired_keys)
  moreover have "view w' k = view w k" if "k \<noteq> (GetNamespace z, GetClientServiceName z)" for k
    using client_service.touches_only_its_object [OF l run, of k] that by (simp add: desired_keys)
  ultimately show ?thesis by blast
qed

theorem reconcileClientService_converges_witness:
  "\<exists>s. mem_svcs (fst (fst (reconcileClientService mem_env (sample_world, sample_cluster)))) (''default'', ''zk-client'') = Some s \<and>
     svc_goal s = svc_goal (MakeClientService sample_cluster)"
proof -
  obtain w' z' e where run: "reconcileClientService mem_env (sample_world, sample_cluster) = ((w', z'), e)"
    by (metis prod.collapse)
  have "client_service.lawful mem_env mem_svcs"
    by (simp add: client_service.lawful_def mem_owner mem_lawful)
  then have "snd (reconcileClientService mem_env (sample_world, sample_cluster)) = None"
    by (rule client_service.succeeds [where valid = "\<lambda>_. True"]) (simp_all add: mem_fresh mem_versioned)
  then have "e = None" using run by simp
  then show ?thesis
    using reconcileClientService_converges [OF mem_owner mem_lawful_svcs run] run
    by (auto simp: GetClientServiceName_def)
qed

abbreviation versioned_cms :: "'w Env \<Rightarrow> ('w \<Rightarrow> string \<times> string \<Rightarrow> ConfigMap option) \<Rightarrow> (go_map option \<times> go_map option \<Rightarrow> bool) \<Rightarrow> bool" where
  "versioned_cms r view valid \<equiv>
     versioned_store view CmMeta cm_managed cm_unmanaged valid (GetCm r) (CreateCm r) (UpdateCm r)"

abbreviation versioned_svcs ::
  "'w Env \<Rightarrow> ('w \<Rightarrow> string \<times> string \<Rightarrow> Service option) \<Rightarrow> (ServicePort list \<times> string \<times> go_map option \<Rightarrow> bool) \<Rightarrow> bool" where
  "versioned_svcs r view valid \<equiv>
     versioned_store view SvcMeta svc_managed svc_unmanaged valid (GetSvc r) (CreateSvc r) (UpdateSvc r)"

text \<open>C12. The handlers of config map and services never send a request the API server may refuse on
  grounds other than the generated content. The server uses optimistic concurrency: an update is only
  sure to be accepted if it carries the resource version of the stored object and changes nothing
  outside the managed fields (the type, ports and annotations of a service, the data of a config map),
  a creation only if it carries no version, and an owner is only sure to be set on an object without
  one in the cluster's own namespace. Whatever the server holds, the four handlers then end without an
  error if what was generated is valid. The law of \<open>Get\<close> includes that no other writer comes
  between the read and the write; one who does leads to a conflict, which the handler returns.\<close>

theorem simple_handlers_succeed:
  assumes own: "owner_keeps r" "fresh_owner r"
    and cms: "lawful_cms r cm_view" "versioned_cms r cm_view cm_valid"
    and svcs: "lawful_svcs r svc_view" "versioned_svcs r svc_view svc_valid"
    and valid: "cm_valid (cm_managed (desired_cm r w z))" "svc_valid (svc_managed (MakeClientService z))"
      "svc_valid (svc_managed (MakeHeadlessService z))" "svc_valid (svc_managed (MakeAdminServerService z))"
  shows "snd (reconcileConfigMap r (w, z)) = None \<and> snd (reconcileClientService r (w, z)) = None \<and>
    snd (reconcileHeadlessService r (w, z)) = None \<and> snd (reconcileAdminServerService r (w, z)) = None"
  using config_map.succeeds [OF _ own(2) _ cms(2)] client_service.succeeds [OF _ own(2) _ svcs(2)]
    headless_service.succeeds [OF _ own(2) _ svcs(2)] admin_service.succeeds [OF _ own(2) _ svcs(2)]
    own(1) cms(1) svcs(1) valid
  by (simp add: config_map.lawful_def client_service.lawful_def headless_service.lawful_def admin_service.lawful_def)

text \<open>
  A server that refuses stale updates, versions on new objects and second owners, and counts the
  version of what it stores up. Two of the objects are there already, at some version.
\<close>

definition checked_create ::
  "('o \<Rightarrow> ObjectMeta) \<Rightarrow> ('w \<Rightarrow> 'o list) \<Rightarrow> (('o list \<Rightarrow> 'o list) \<Rightarrow> 'w \<Rightarrow> 'w) \<Rightarrow> 'o \<Rightarrow> 'w \<Rightarrow> 'w \<times> go_error option" where
  "checked_create meta objs upd x w =
     (if ResourceVersion (meta x) \<noteq> [] then (w, Some (GoErr ''resourceVersion should not be set''))
      else mem_create meta objs upd x w)"

definition checked_update ::
  "('o \<Rightarrow> ObjectMeta) \<Rightarrow> (ObjectMeta \<Rightarrow> 'o \<Rightarrow> 'o) \<Rightarrow> ('w \<Rightarrow> 'o list) \<Rightarrow> (('o list \<Rightarrow> 'o list) \<Rightarrow> 'w \<Rightarrow> 'w) \<Rightarrow>
   'o \<Rightarrow> 'w \<Rightarrow> 'w \<times> (go_error + 'o)" where
  "checked_update meta set_meta objs upd x w =
     (case mem_find meta (objs w) (MetaNamespace (meta x), MetaName (meta x)) of
        None \<Rightarrow> (w, Inl NotFound)
      | Some y \<Rightarrow>
          if ResourceVersion (meta x) \<noteq> ResourceVersion (meta y) then (w, Inl (GoErr ''the object has been modified''))
          else mem_update meta objs upd
            (set_meta ((meta x)\<lparr>ResourceVersion := CHR ''1'' # ResourceVersion (meta y)\<rparr>) x) w)"

definition checked_env :: "world Env" where
  "checked_env = mem_env
     \<lparr>CreateCm := checked_create CmMeta w_cm w_cm_update, UpdateCm := checked_update CmMeta set_cm_meta w_cm w_cm_update,
      CreateSvc := checked_create SvcMeta w_svc w_svc_update, UpdateSvc := checked_update SvcMeta set_svc_meta w_svc w_svc_update,
      SetControllerReference := \<lambda>z m. if OwnerReferences m \<noteq> [] \<or> MetaNamespace m \<noteq> MetaNamespace (Meta z)
        then Inl (GoErr ''cannot set owner'') else SetControllerReference mem_env z m\<rparr>"

definition drifted_world :: world where
  "drifted_world = sample_world
     \<lparr>w_cm := [(desired_cm mem_env sample_world sample_cluster)\<lparr>CmData := None,
        CmMeta := (CmMeta (desired_cm mem_env sample_world sample_cluster))\<lparr>ResourceVersion := ''41''\<rparr>\<rparr>],
      w_svc := [(MakeClientService sample_cluster)\<lparr>SvcMeta := (SvcMeta (MakeClientService sample_cluster))\<lparr>ResourceVersion := ''42''\<rparr>\<rparr>]\<rparr>"

lemma checked_lawful:
  assumes "\<And>f w. objs (upd f w) = f (objs w)" and "\<And>m x. meta (set_meta m x) = m"
    and "\<And>m x v. goal (set_meta ((meta x)\<lparr>ResourceVersion := v\<rparr>) x) = goal x"
  shows "lawful_store (\<lambda>w. mem_find meta (objs w)) (object_key \<circ> meta) goal (mem_get meta objs)
     (checked_create meta objs upd) (checked_update meta set_meta objs upd)"
  unfolding lawful_store_def mem_get_def checked_create_def checked_update_def mem_create_def mem_update_def
  by (auto simp: mem_find_Cons object_key_def assms split: option.splits if_splits dest: mem_find_key)

lemma checked_versioned:
  assumes "\<And>m x. meta (set_meta m x) = m"
  shows "versioned_store (\<lambda>w. mem_find meta (objs w)) meta content frame valid (mem_get meta objs)
     (checked_create meta objs upd) (checked_update meta set_meta objs upd)"
  by (auto simp: versioned_store_def mem_get_def checked_create_def checked_update_def mem_create_def mem_update_def
      object_key_def assms split: option.splits)

theorem simple_handlers_succeed_witness:
  "snd (reconcileConfigMap checked_env (drifted_world, sample_cluster)) = None \<and>
   snd (reconcileClientService checked_env (drifted_world, sample_cluster)) = None \<and>
   snd (reconcileHeadlessService checked_env (drifted_world, sample_cluster)) = None \<and>
   w_cm drifted_world \<noteq> [] \<and> w_svc drifted_world \<noteq> []"
proof -
  have own: "owner_keeps checked_env" "fresh_owner checked_env"
    by (auto simp: owner_keeps_def fresh_owner_def checked_env_def split: if_splits)
  have "lawful_cms checked_env mem_cms" "lawful_svcs checked_env mem_svcs"
    by (simp_all add: checked_env_def checked_lawful cm_managed_def svc_goal_def)
  moreover have "versioned_cms checked_env mem_cms (\<lambda>_. True)" "versioned_svcs checked_env mem_svcs (\<lambda>_. True)"
    by (simp_all add: checked_env_def checked_versioned)
  ultimately show ?thesis
    using simple_handlers_succeed [OF own, of mem_cms "\<lambda>_. True" mem_svcs "\<lambda>_. True" drifted_world sample_cluster]
    by (simp add: drifted_world_def)
qed

end
