(* ===== verification/StatefulSets.thy ===== *)
theory StatefulSets
  imports EnsureObject
begin

text \<open>
  \<open>reconcileStatefulSet\<close> of \<open>controllers/zookeepercluster_controller.go\<close> with everything it calls:
  the comparison of resource versions, the size written to ZooKeeper before scaling, and the upgrade
  state machine kept in the conditions of the status.

  Two aliases of the source are visible and modelled: the labels of a generated StatefulSet are the
  map \<open>instance.Spec.Labels\<close> itself, so that writing \<open>owner-rv\<close> into them changes the instance, and
  \<open>foundSts\<close> is mutated through its pointer by \<open>updateStatefulSet\<close>.
\<close>

section \<open>Resource versions\<close>

definition compareResourceVersion :: "ZookeeperCluster \<Rightarrow> StatefulSet \<Rightarrow> int" where
  "compareResourceVersion zk sts =
     (let (zkResourceVersion, zkErr) = Atoi (ResourceVersion (Meta zk))
      in case gm_get (MetaLabels (SsMeta sts)) ''owner-rv'' of
           None \<Rightarrow> if zkErr \<noteq> None then 0 else 1
         | Some stsVersion \<Rightarrow>
             (let (stsResourceVersion, err) = Atoi stsVersion
              in if err \<noteq> None then (if zkErr \<noteq> None then 0 else 1)
                 else if zkResourceVersion < stsResourceVersion then -1
                 else if stsResourceVersion < zkResourceVersion then 1
                 else 0))"

section \<open>The upgrade\<close>

definition clearUpgradeStatus :: "'w Env \<Rightarrow> 'w state \<Rightarrow> 'w outcome" where
  "clearUpgradeStatus r s = (case s of (w, z) \<Rightarrow>
     let status = (SetUpgradingConditionFalse (Now r w) (Status z))\<lparr>TargetVersion := []\<rparr>;
         z1 = z\<lparr>Status := status\<rparr>
     in case UpdateCluster r z1 w of
          (w1, Inl err) \<Rightarrow> done_with w1 z1 (Some err)
        | (w1, Inr z2) \<Rightarrow> done_with w1 (z2\<lparr>Status := status\<rparr>) None)"

text \<open>A time that does not parse is Go's zero time, since the error is dropped.\<close>

definition checkSyncTimeout ::
  "instant \<Rightarrow> ZookeeperClusterStatus \<Rightarrow> string \<Rightarrow> int32 \<Rightarrow> int \<Rightarrow> go_error option" where
  "checkSyncTimeout now st reason updatedReplicas t =
     (case GetLastCondition st of
        None \<Rightarrow> None
      | Some lastCondition \<Rightarrow>
          if CondReason lastCondition = reason \<and> CondMessage lastCondition = Itoa32 updatedReplicas
          then (let parsedTime = (case ParseRFC3339 (LastUpdateTime lastCondition) of None \<Rightarrow> zero_time | Some p \<Rightarrow> p)
                in if After now (parsedTime + t) then Some (GoErr ''progress deadline exceeded'') else None)
          else None)"

definition status_update :: "'w Env \<Rightarrow> 'w state \<Rightarrow> 'w outcome" where
  "status_update r s = (case s of (w, z) \<Rightarrow>
     case UpdateClusterStatus r z w of
       (w1, Inl err) \<Rightarrow> done_with w1 z (Some err)
     | (w1, Inr z1) \<Rightarrow> done_with w1 z1 None)"

definition start_upgrade :: "instant \<Rightarrow> ZookeeperCluster \<Rightarrow> ZookeeperCluster" where
  "start_upgrade now z =
     z\<lparr>Status := SetUpgradingConditionTrue now [] []
        (SetPodsReadyConditionFalse now ((Status z)\<lparr>TargetVersion := Tag (Image (Spec z))\<rparr>))\<rparr>"

definition upgradeStatefulSet :: "'w Env \<Rightarrow> StatefulSet \<Rightarrow> 'w state \<Rightarrow> 'w outcome" where
  "upgradeStatefulSet r foundSts s = (case s of (w, instance) \<Rightarrow>
     let now = Now r w; sts = SsStatus foundSts
     in case snd (GetClusterCondition (Status instance) ClusterConditionUpgrading) of
          None \<Rightarrow> done_with w (instance\<lparr>Status := SetUpgradingConditionFalse now (Status instance)\<rparr>) None
        | Some upgradeCondition \<Rightarrow>
            let instance1 =
              (if CondStatus upgradeCondition = ConditionFalse \<and> IsClusterInReadyState (Status instance) \<and>
                  CurrentRevision sts \<noteq> UpdateRevision sts \<and>
                  Tag (Image (Spec instance)) \<noteq> CurrentVersion (Status instance)
               then start_upgrade now instance else instance)
            in if CondStatus upgradeCondition = ConditionTrue
               then
                 if TargetVersion (Status instance1) = [] then clearUpgradeStatus r (w, instance1)
                 else if CurrentRevision sts = UpdateRevision sts
                 then clearUpgradeStatus r (w, instance1\<lparr>Status := (Status instance1)
                        \<lparr>CurrentVersion := TargetVersion (Status instance1)\<rparr>\<rparr>)
                 else if Itoa32 (SsUpdatedReplicas sts) \<noteq> CondMessage upgradeCondition
                 then status_update r (w, instance1\<lparr>Status :=
                        UpdateProgress now UpdatingZookeeperReason (Itoa32 (SsUpdatedReplicas sts)) (Status instance1)\<rparr>)
                 else (case checkSyncTimeout now (Status instance1) UpdatingZookeeperReason
                              (SsUpdatedReplicas sts) (10 * minute) of
                         Some err \<Rightarrow> status_update r (w, instance1\<lparr>Status :=
                           SetErrorConditionTrue now ''UpgradeFailed'' (err_text err) (Status instance1)\<rparr>)
                       | None \<Rightarrow> done_with w instance1 None)
               else status_update r (w, instance1))"

section \<open>The handler\<close>

text \<open>The first part: recovery of a failed upgrade. \<open>None\<close> means that the handler goes on.\<close>

definition recover_failed_upgrade :: "'w Env \<Rightarrow> 'w state \<Rightarrow> 'w \<times> 'w outcome option" where
  "recover_failed_upgrade r s = (case s of (w, instance) \<Rightarrow>
     case MakeStatefulSet instance of
       None \<Rightarrow> (w, Some (done_with w instance (Some (GoPanic ''nil pointer dereference''))))
     | Some sts \<Rightarrow>
         (case SetControllerReference r instance (SsMeta sts) of
            Inl err \<Rightarrow> (w, Some (done_with w instance (Some err)))
          | Inr m \<Rightarrow>
              (case GetSts r (MetaNamespace m) (MetaName m) w of
                 (w1, Inl err) \<Rightarrow> (w1, None)
               | (w1, Inr foundSts) \<Rightarrow>
                   (case UpdateSts r foundSts w1 of
                      (w2, Inl err) \<Rightarrow> (w2, Some (done_with w2 instance (Some err)))
                    | (w2, Inr foundSts) \<Rightarrow>
                        if SsStatusReplicas (SsStatus foundSts) = SsReadyReplicas (SsStatus foundSts) \<and>
                           CurrentRevision (SsStatus foundSts) = UpdateRevision (SsStatus foundSts)
                        then (w2, Some (clearUpgradeStatus r (w2, instance\<lparr>Status :=
                                SetErrorConditionFalse (Now r w2)
                                  ((Status instance)\<lparr>CurrentVersion := TargetVersion (Status instance)\<rparr>)\<rparr>)))
                        else (w2, None)))))"

definition ensure_service_account :: "'w Env \<Rightarrow> 'w state \<Rightarrow> 'w \<times> go_error option" where
  "ensure_service_account r s = (case s of (w, instance) \<Rightarrow>
     let serviceAccount = MakeServiceAccount instance
     in case SetControllerReference r instance (SaMeta serviceAccount) of
          Inl err \<Rightarrow> (w, Some err)
        | Inr m \<Rightarrow>
            let serviceAccount = serviceAccount\<lparr>SaMeta := m\<rparr>
            in case GetSa r (MetaNamespace m) (MetaName m) w of
                 (w1, Inl err) \<Rightarrow> if IsNotFound err then CreateSa r serviceAccount w1 else (w1, Some err)
               | (w1, Inr found) \<Rightarrow>
                   (case UpdateSa r (found\<lparr>SaImagePullSecrets := SaImagePullSecrets serviceAccount\<rparr>) w1 of
                      (w2, Inl err) \<Rightarrow> (w2, Some err)
                    | (w2, Inr _) \<Rightarrow> (w2, None)))"

text \<open>\<open>m["owner-rv"] = v\<close>, which panics on a nil map.\<close>

definition put_owner_rv :: "string \<Rightarrow> go_map option \<Rightarrow> go_map option option" where
  "put_owner_rv v m = (case m of None \<Rightarrow> None | Some l \<Rightarrow> Some (Some (gm_put ''owner-rv'' v l)))"

definition cluster_size_data :: "int32 \<Rightarrow> string" where
  "cluster_size_data n = ''CLUSTER_SIZE='' @ Itoa32 n"

text \<open>
  Writing the new size to ZooKeeper. The first component of the result is \<open>Some\<close> of the error with
  which the handler returns; the flag says that \<open>defer r.ZkClient.Close()\<close> was reached.
\<close>

definition store_cluster_size :: "'w Env \<Rightarrow> ZookeeperCluster \<Rightarrow> int32 \<Rightarrow> 'w \<Rightarrow> go_error option \<times> bool \<times> 'w" where
  "store_cluster_size r instance newSTSSize w =
     (case ZkConnect r (GetZkServiceUri instance) w of
        (w1, Some err) \<Rightarrow> (Some (GoErr (''Error storing cluster size '' @ err_text err)), False, w1)
      | (w1, None) \<Rightarrow>
          (let path = GetMetaPath instance
           in case ZkNodeExists r path w1 of
                (w2, Inl err) \<Rightarrow>
                  (Some (GoErr (''Error doing exists check for znode '' @ path @ '': '' @ err_text err)), True, w2)
              | (w2, Inr version) \<Rightarrow>
                  (case ZkUpdateNode r path (cluster_size_data newSTSSize) version w2 of
                     (w3, _) \<Rightarrow> (None, True, w3))))"

definition updateStatefulSet ::
  "'w Env \<Rightarrow> StatefulSet \<Rightarrow> StatefulSet \<Rightarrow> 'w state \<Rightarrow> 'w state \<times> (go_error + StatefulSet)" where
  "updateStatefulSet r foundSts sts s = (case s of (w, instance) \<Rightarrow>
     case UpdateSts r (SyncStatefulSet foundSts sts) w of
       (w1, Inl err) \<Rightarrow> ((w1, instance), Inl err)
     | (w1, Inr foundSts) \<Rightarrow>
         ((w1, instance\<lparr>Status := (Status instance)\<lparr>StatusReplicas := SsStatusReplicas (SsStatus foundSts),
             ReadyReplicas := SsReadyReplicas (SsStatus foundSts)\<rparr>\<rparr>), Inr foundSts))"

definition deferred_close :: "'w Env \<Rightarrow> bool \<Rightarrow> 'w outcome \<Rightarrow> 'w outcome" where
  "deferred_close r connected res = (case res of ((w, z), e) \<Rightarrow> ((if connected then ZkClose r w else w, z), e))"

definition update_and_upgrade :: "'w Env \<Rightarrow> StatefulSet \<Rightarrow> StatefulSet \<Rightarrow> 'w state \<Rightarrow> 'w outcome" where
  "update_and_upgrade r foundSts sts s =
     (case updateStatefulSet r foundSts sts s of
        (s1, Inl err) \<Rightarrow> (s1, Some err)
      | (s1, Inr foundSts) \<Rightarrow> upgradeStatefulSet r foundSts s1)"

text \<open>The branch of an existing StatefulSet.\<close>

definition sync_existing_sts :: "'w Env \<Rightarrow> StatefulSet \<Rightarrow> StatefulSet \<Rightarrow> 'w state \<Rightarrow> 'w outcome" where
  "sync_existing_sts r foundSts sts s = (case s of (w, instance) \<Rightarrow>
     let cmp = compareResourceVersion instance foundSts; rv = ResourceVersion (Meta instance)
     in if cmp < 0
        then done_with w instance (Some (GoErr (''Staleness: cr.ResourceVersion '' @ rv @ '' is smaller than labeledRV '' @
               (case gm_get (MetaLabels (SsMeta foundSts)) ''owner-rv'' of None \<Rightarrow> [] | Some v \<Rightarrow> v))))
        else case (if 0 < cmp then put_owner_rv rv (MetaLabels (SsMeta foundSts)) else Some (MetaLabels (SsMeta foundSts))) of
          None \<Rightarrow> done_with w instance (Some (GoPanic ''assignment to entry in nil map''))
        | Some ls \<Rightarrow>
            let foundSts = foundSts\<lparr>SsMeta := (SsMeta foundSts)\<lparr>MetaLabels := ls\<rparr>\<rparr>
            in case (SsReplicas (SsSpec foundSts), SsReplicas (SsSpec sts)) of
                 (Some foundSTSSize, Some newSTSSize) \<Rightarrow>
                   if newSTSSize \<noteq> foundSTSSize
                   then (case store_cluster_size r instance newSTSSize w of
                           (Some err, connected, w1) \<Rightarrow> deferred_close r connected (done_with w1 instance (Some err))
                         | (None, connected, w1) \<Rightarrow>
                             deferred_close r connected (update_and_upgrade r foundSts sts (w1, instance)))
                   else update_and_upgrade r foundSts sts (w, instance)
               | _ \<Rightarrow> done_with w instance (Some (GoPanic ''nil pointer dereference'')))"

text \<open>The branch that creates it: the label is written through the alias into the instance as well.\<close>

definition create_sts :: "'w Env \<Rightarrow> StatefulSet \<Rightarrow> 'w state \<Rightarrow> 'w outcome" where
  "create_sts r sts s = (case s of (w, instance) \<Rightarrow>
     case put_owner_rv (ResourceVersion (Meta instance)) (MetaLabels (SsMeta sts)) of
       None \<Rightarrow> done_with w instance (Some (GoPanic ''assignment to entry in nil map''))
     | Some ls \<Rightarrow>
         let sts = sts\<lparr>SsMeta := (SsMeta sts)\<lparr>MetaLabels := ls\<rparr>\<rparr>;
             instance = instance\<lparr>Spec := (Spec instance)\<lparr>Labels := ls\<rparr>\<rparr>
         in case CreateSts r sts w of (w1, e) \<Rightarrow> done_with w1 instance e)"

definition ensure_sts :: "'w Env \<Rightarrow> 'w state \<Rightarrow> 'w outcome" where
  "ensure_sts r s = (case s of (w, instance) \<Rightarrow>
     case MakeStatefulSet instance of
       None \<Rightarrow> done_with w instance (Some (GoPanic ''nil pointer dereference''))
     | Some sts \<Rightarrow>
         (case SetControllerReference r instance (SsMeta sts) of
            Inl err \<Rightarrow> done_with w instance (Some err)
          | Inr m \<Rightarrow>
              let sts = sts\<lparr>SsMeta := m\<rparr>
              in case GetSts r (MetaNamespace m) (MetaName m) w of
                   (w1, Inl err) \<Rightarrow>
                     if IsNotFound err then create_sts r sts (w1, instance) else done_with w1 instance (Some err)
                 | (w1, Inr foundSts) \<Rightarrow> sync_existing_sts r foundSts sts (w1, instance)))"

definition reconcileStatefulSet :: "'w Env \<Rightarrow> 'w state \<Rightarrow> 'w outcome" where
  "reconcileStatefulSet r s = (case s of (w, instance) \<Rightarrow>
     case (if IsClusterInUpgradeFailedState (Status instance) then recover_failed_upgrade r (w, instance) else (w, None)) of
       (w1, Some res) \<Rightarrow> res
     | (w1, None) \<Rightarrow>
         if IsClusterInUpgradeFailedState (Status instance) then done_with w1 instance None
         else if ServiceAccountName (Pod (Spec instance)) \<noteq> ''default''
         then (case ensure_service_account r (w1, instance) of
                 (w2, Some err) \<Rightarrow> done_with w2 instance (Some err)
               | (w2, None) \<Rightarrow> ensure_sts r (w2, instance))
         else ensure_sts r (w1, instance))"


section \<open>Staleness\<close>

lemma Atoi_label: "0 \<le> i \<Longrightarrow> i < 2 ^ 63 \<Longrightarrow> Atoi (Itoa i) = (i, None)"
  by (rule Atoi_Itoa) auto

lemma compareResourceVersion_numbers:
  assumes "0 \<le> a" "a < 2 ^ 63" "0 \<le> b" "b < 2 ^ 63"
    and "ResourceVersion (Meta z) = Itoa a" and "gm_get (MetaLabels (SsMeta sts)) ''owner-rv'' = Some (Itoa b)"
  shows "compareResourceVersion z sts = sgn (a - b)"
  using assms by (simp add: compareResourceVersion_def Atoi_label)

definition sample_sts :: "string \<Rightarrow> StatefulSet" where
  "sample_sts rv = (let s = the (MakeStatefulSet sample_cluster)
     in s\<lparr>SsMeta := (SsMeta s)\<lparr>MetaLabels := Some [(''owner-rv'', rv)]\<rparr>\<rparr>)"

lemma sample_sts_label [simp]: "gm_get (MetaLabels (SsMeta (sample_sts rv))) ''owner-rv'' = Some rv"
  by (simp add: sample_sts_def Let_def)

lemma sample_rv [simp]: "ResourceVersion (Meta sample_cluster) = ''7''"
  by code_simp

text \<open>\<open>compareResourceVersion\<close> orders the versions as its comment says whenever both are numbers: the
  result is the sign of the difference (in particular 0 exactly for equal versions), where the version
  of the StatefulSet is its label \<open>owner-rv\<close>; and a StatefulSet without that label counts as older.\<close>

lemma compareResourceVersion_sign:
  assumes "0 \<le> a" "a < 2 ^ 63" and "ResourceVersion (Meta z) = Itoa a"
  shows "(\<forall>b. 0 \<le> b \<and> b < 2 ^ 63 \<and> gm_get (MetaLabels (SsMeta sts)) ''owner-rv'' = Some (Itoa b) \<longrightarrow>
      compareResourceVersion z sts = sgn (a - b)) \<and>
    (gm_get (MetaLabels (SsMeta sts)) ''owner-rv'' = None \<longrightarrow> compareResourceVersion z sts = 1)"
  using assms compareResourceVersion_numbers [OF assms(1,2) _ _ assms(3)]
  by (auto simp: compareResourceVersion_def Atoi_label)

lemma compareResourceVersion_sign_example:
  "compareResourceVersion sample_cluster (sample_sts ''10'') = -1 \<and> compareResourceVersion sample_cluster (sample_sts ''7'') = 0"
proof -
  have i: "Itoa 7 = ''7''" "Itoa 10 = ''10''" by code_simp+
  have r: "ResourceVersion (Meta sample_cluster) = Itoa 7" by (simp add: i)
  have c: "0 \<le> b \<and> b < 2 ^ 63 \<and> Itoa b = s \<Longrightarrow> compareResourceVersion sample_cluster (sample_sts s) = sgn (7 - b)" for b s
    using compareResourceVersion_sign [OF _ _ r, of "sample_sts s"] by auto
  show ?thesis using c [of 10 "''10''"] c [of 7 "''7''"] by (simp add: i)
qed

text \<open>A version that is not a number is not handled as documented (\<open>Cannot decide\<close>, result 0): when the
  label is a positive number and the version of the cluster does not parse, the error is forgotten,
  the version counts as 0 and the cluster as stale.\<close>

theorem compareResourceVersion_unparsable:
  assumes "Atoi (ResourceVersion (Meta z)) = (0, Some err)" and "0 < b" "b < 2 ^ 63"
    and "gm_get (MetaLabels (SsMeta sts)) ''owner-rv'' = Some (Itoa b)"
  shows "compareResourceVersion z sts = -1"
  using assms by (simp add: compareResourceVersion_def Atoi_label)

theorem compareResourceVersion_unparsable_witness:
  "compareResourceVersion (sample_cluster\<lparr>Meta := (Meta sample_cluster)\<lparr>ResourceVersion := ''v7''\<rparr>\<rparr>) (sample_sts ''7'') = -1"
proof -
  have "Itoa 7 = ''7''" by code_simp
  moreover have "Atoi ''v7'' = (0, Some (GoErr ''invalid syntax''))" by code_simp
  ultimately show ?thesis
    using compareResourceVersion_unparsable [of "sample_cluster\<lparr>Meta := (Meta sample_cluster)\<lparr>ResourceVersion := ''v7''\<rparr>\<rparr>" "GoErr ''invalid syntax''" 7 "sample_sts ''7''"]
    by simp
qed


text \<open>A shorter way to say that the generator ran and the owner was set.\<close>

definition wanted_sts :: "'w Env \<Rightarrow> ZookeeperCluster \<Rightarrow> StatefulSet \<Rightarrow> bool" where
  "wanted_sts r z sts \<longleftrightarrow> (\<exists>sts0 m. MakeStatefulSet z = Some sts0 \<and>
     SetControllerReference r z (SsMeta sts0) = Inr m \<and> sts = sts0\<lparr>SsMeta := m\<rparr>)"

lemma ensure_sts_found:
  assumes "wanted_sts r z sts" and "GetSts r (MetaNamespace (SsMeta sts)) (MetaName (SsMeta sts)) w = (w1, Inr found)"
  shows "ensure_sts r (w, z) = sync_existing_sts r found sts (w1, z)"
  using assms by (auto simp: ensure_sts_def wanted_sts_def Let_def)

lemma ensure_sts_absent:
  assumes "wanted_sts r z sts" and "GetSts r (MetaNamespace (SsMeta sts)) (MetaName (SsMeta sts)) w = (w1, Inl NotFound)"
  shows "ensure_sts r (w, z) = create_sts r sts (w1, z)"
  using assms by (auto simp: ensure_sts_def wanted_sts_def Let_def)

lemma ensure_sts_stale:
  assumes "wanted_sts r z sts" and "GetSts r (MetaNamespace (SsMeta sts)) (MetaName (SsMeta sts)) w = (w1, Inr found)"
    and "0 \<le> a" "a < b" "b < 2 ^ 63"
    and "ResourceVersion (Meta z) = Itoa a" and "gm_get (MetaLabels (SsMeta found)) ''owner-rv'' = Some (Itoa b)"
  shows "ensure_sts r (w, z) = ((w1, z),
    Some (GoErr (''Staleness: cr.ResourceVersion '' @ Itoa a @ '' is smaller than labeledRV '' @ Itoa b)))"
proof -
  have "compareResourceVersion z found = -1"
    using assms compareResourceVersion_numbers [of a b z found] by simp
  with assms ensure_sts_found [OF assms(1,2)] show ?thesis
    by (simp add: sync_existing_sts_def Let_def)
qed

text \<open>The service account is another object: a part of the world that its requests do not change is kept.\<close>

lemma ensure_service_account_keeps:
  assumes "\<And>ns n w. obs (fst (GetSa r ns n w)) = obs w" "\<And>x w. obs (fst (CreateSa r x w)) = obs w"
    and "\<And>x w. obs (fst (UpdateSa r x w)) = obs w"
  shows "obs (fst (ensure_service_account r (w, z))) = obs w"
proof -
  have "GetSa r ns n w = (w1, g) \<Longrightarrow> obs w1 = obs w" "CreateSa r x w = (w1, c) \<Longrightarrow> obs w1 = obs w"
    "UpdateSa r x w = (w1, u) \<Longrightarrow> obs w1 = obs w" for ns n x w w1 g c u
    using assms(1) [of ns n w] assms(2,3) [of x w] by simp_all
  then show ?thesis
    by (auto simp: ensure_service_account_def Let_def assms split: sum.split prod.split)
qed

text \<open>The recovery branch reads the StatefulSet and writes it back as read.\<close>

lemma recover_keeps:
  assumes "wanted_sts r z sts" and get: "\<And>ns n w. obs (fst (GetSts r ns n w)) = obs w"
    and writeback: "\<And>ns n w w1 x. GetSts r ns n w = (w1, Inr x) \<Longrightarrow> obs (fst (UpdateSts r x w1)) = obs w1"
    and cluster: "\<And>x w. obs (fst (UpdateCluster r x w)) = obs w"
  shows "obs (fst (recover_failed_upgrade r (w, z))) = obs w"
    and "snd (recover_failed_upgrade r (w, z)) = Some res \<Longrightarrow> obs (fst (fst res)) = obs w"
proof -
  let ?get = "GetSts r (MetaNamespace (SsMeta sts)) (MetaName (SsMeta sts)) w"
  obtain w1 g where g: "?get = (w1, g)" by (metis prod.exhaust)
  obtain w2 u where u: "UpdateSts r (projr g) w1 = (w2, u)" by (metis prod.exhaust)
  have 1: "obs w1 = obs w" using get [of "MetaNamespace (SsMeta sts)" "MetaName (SsMeta sts)" w] g by simp
  have 2: "obs w2 = obs w" if "\<not> isl g"
    using writeback [of "MetaNamespace (SsMeta sts)" "MetaName (SsMeta sts)" w w1 "projr g"] g u 1 that by auto
  have clear: "obs (fst (fst (clearUpgradeStatus r (w', y)))) = obs w'" for w' y
    using cluster [of _ w'] by (auto simp: clearUpgradeStatus_def Let_def split: sum.split prod.split) (metis fst_conv)+
  from assms(1) g u 1 2 show "obs (fst (recover_failed_upgrade r (w, z))) = obs w"
    by (cases g; cases u) (auto simp: recover_failed_upgrade_def wanted_sts_def)
  from assms(1) g u 1 2 show "snd (recover_failed_upgrade r (w, z)) = Some res \<Longrightarrow> obs (fst (fst res)) = obs w"
    by (cases g; cases u) (auto simp: recover_failed_upgrade_def wanted_sts_def clear split: if_splits)
qed

text \<open>C9. A stale view of the cluster never reaches the StatefulSet. Suppose the stored StatefulSet is
  labelled with a newer version than the cluster at hand, and let \<open>obs\<close> be any part of the world
  (such as all StatefulSets and the ensemble) that requests for service accounts and for the cluster
  itself do not change, that reading a StatefulSet and writing it back as it was read does not change,
  and that determines that label. Then no run of \<open>reconcileStatefulSet\<close> changes \<open>obs\<close>, in any state of
  the upgrade. Unless an upgrade has failed, the in-memory cluster is unchanged as well and the run
  ends with an error: that of the service account, which is written before the check, or else the
  staleness error. After a failed upgrade there is no staleness check; the handler then writes the
  StatefulSet back as it read it and may clear the status of the cluster.\<close>

theorem stale_cluster_never_written:
  assumes wanted: "wanted_sts r z sts"
    and sa: "\<And>ns n w. obs (fst (GetSa r ns n w)) = obs w" "\<And>x w. obs (fst (CreateSa r x w)) = obs w"
      "\<And>x w. obs (fst (UpdateSa r x w)) = obs w"
    and get: "\<And>ns n w. obs (fst (GetSts r ns n w)) = obs w"
    and writeback: "\<And>ns n w w1 x. GetSts r ns n w = (w1, Inr x) \<Longrightarrow> obs (fst (UpdateSts r x w1)) = obs w1"
    and cluster: "\<And>x w. obs (fst (UpdateCluster r x w)) = obs w"
    and newer: "\<And>w1. obs w1 = obs w \<Longrightarrow> \<exists>w2 found.
      GetSts r (MetaNamespace (SsMeta sts)) (MetaName (SsMeta sts)) w1 = (w2, Inr found) \<and>
      gm_get (MetaLabels (SsMeta found)) ''owner-rv'' = Some (Itoa b)"
    and stale: "ResourceVersion (Meta z) = Itoa a" "0 \<le> a" "a < b" "b < 2 ^ 63"
  shows "obs (fst (fst (reconcileStatefulSet r (w, z)))) = obs w \<and>
    (\<not> IsClusterInUpgradeFailedState (Status z) \<longrightarrow>
      snd (fst (reconcileStatefulSet r (w, z))) = z \<and>
      snd (reconcileStatefulSet r (w, z)) =
        Some (case (if ServiceAccountName (Pod (Spec z)) = ''default'' then None else snd (ensure_service_account r (w, z))) of
                None \<Rightarrow> GoErr (''Staleness: cr.ResourceVersion '' @ Itoa a @ '' is smaller than labeledRV '' @ Itoa b)
              | Some err \<Rightarrow> err))"
proof (cases "IsClusterInUpgradeFailedState (Status z)")
  case True
  obtain w1 res where rec: "recover_failed_upgrade r (w, z) = (w1, res)" by (metis prod.exhaust)
  have 1: "obs (fst (recover_failed_upgrade r (w, z))) = obs w"
    by (rule recover_keeps(1) [where obs = obs, OF wanted get writeback cluster])
  have 2: "obs (fst (fst x)) = obs w" if "snd (recover_failed_upgrade r (w, z)) = Some x" for x
    by (rule recover_keeps(2) [where obs = obs, OF wanted get writeback cluster that])
  have "obs w1 = obs w" "\<And>x. res = Some x \<Longrightarrow> obs (fst (fst x)) = obs w" using 1 2 rec by auto
  with True rec show ?thesis by (simp add: reconcileStatefulSet_def split: option.split)
next
  case False
  have tail: "obs (fst (fst (ensure_sts r (w1, z)))) = obs w \<and> ensure_sts r (w1, z) = ((fst (fst (ensure_sts r (w1, z))), z),
      Some (GoErr (''Staleness: cr.ResourceVersion '' @ Itoa a @ '' is smaller than labeledRV '' @ Itoa b)))"
    if "obs w1 = obs w" for w1
    using newer [OF that] ensure_sts_stale [OF wanted _ stale(2-4,1)] that
      get [of "MetaNamespace (SsMeta sts)" "MetaName (SsMeta sts)" w1] by fastforce
  obtain w1 e where e: "ensure_service_account r (w, z) = (w1, e)" by (metis prod.exhaust)
  then have "obs w1 = obs w" using ensure_service_account_keeps [of obs r, OF sa, of w z] by simp
  with False e tail [of w1] tail [of w] show ?thesis
    by (cases e) (auto simp: reconcileStatefulSet_def dest: arg_cong [of _ _ snd] arg_cong [of _ _ "snd \<circ> fst"])
qed

definition wanted_sample :: StatefulSet where
  "wanted_sample = (let s = the (MakeStatefulSet sample_cluster) in s\<lparr>SsMeta := (SsMeta s)\<lparr>OwnerReferences :=
     [\<lparr>OwnerKind = ''ZookeeperCluster'', OwnerName = ''zk'', OwnerUID = MetaUID (Meta sample_cluster)\<rparr>]\<rparr>\<rparr>)"

lemma sample_generates: "MakeStatefulSet sample_cluster = Some (the (MakeStatefulSet sample_cluster))"
proof -
  have "MakeStatefulSet sample_cluster \<noteq> None" by code_simp
  then show ?thesis by simp
qed

lemma wanted_sample: "wanted_sts mem_env sample_cluster wanted_sample"
  unfolding wanted_sts_def wanted_sample_def using sample_generates by (auto simp: Let_def)

lemma wanted_key [simp]: "MetaNamespace (SsMeta wanted_sample) = ''default''" "MetaName (SsMeta wanted_sample) = ''zk''"
  by code_simp+

lemma sample_sts_key: "MetaNamespace (SsMeta (sample_sts rv)) = ''default''" "MetaName (SsMeta (sample_sts rv)) = ''zk''"
proof -
  have "MetaNamespace (SsMeta (the (MakeStatefulSet sample_cluster))) = ''default''"
    "MetaName (SsMeta (the (MakeStatefulSet sample_cluster))) = ''zk''" by code_simp+
  then show "MetaNamespace (SsMeta (sample_sts rv)) = ''default''" "MetaName (SsMeta (sample_sts rv)) = ''zk''"
    by (simp_all add: sample_sts_def Let_def)
qed

definition world_with :: "string \<Rightarrow> world" where
  "world_with rv = sample_world\<lparr>w_sts := [sample_sts rv]\<rparr>"

lemma get_sample_sts:
  "GetSts mem_env ''default'' ''zk'' (world_with rv) = (world_with rv, Inr (sample_sts rv))"
  by (simp add: mem_get_def mem_find_def world_with_def sample_sts_key)

text \<open>The operator has the cluster at version 7, and the StatefulSet was made from version 10.\<close>

lemma mem_update_back:
  assumes "mem_get SsMeta w_sts ns n w = (w1, Inr x)"
  shows "mem_find SsMeta (w_sts (fst (UpdateSts mem_env x w1))) = mem_find SsMeta (w_sts w1)"
proof -
  have f: "w1 = w" "mem_find SsMeta (w_sts w) (ns, n) = Some x"
    using assms by (auto simp: mem_get_def split: option.splits)
  moreover have "(ns, n) = (MetaNamespace (SsMeta x), MetaName (SsMeta x))" using mem_find_key [OF f(2)] by simp
  ultimately show ?thesis by (intro ext) (auto simp: mem_update_def mem_find_Cons)
qed

theorem stale_cluster_never_written_witness:
  "mem_find SsMeta (w_sts (fst (fst (reconcileStatefulSet mem_env (world_with ''10'', sample_cluster))))) =
     mem_find SsMeta (w_sts (world_with ''10'')) \<and>
   snd (reconcileStatefulSet mem_env (world_with ''10'', sample_cluster)) =
     Some (GoErr (''Staleness: cr.ResourceVersion 7 is smaller than labeledRV 10''))"
proof -
  have i: "Itoa 7 = ''7''" "Itoa 10 = ''10''" by code_simp+
  let ?obs = "\<lambda>w. mem_find SsMeta (w_sts w)"
  have up: "\<not> IsClusterInUpgradeFailedState (Status sample_cluster)" by code_simp
  have acc: "snd (ensure_service_account mem_env (world_with ''10'', sample_cluster)) = None" by code_simp
  have "\<exists>w2 found. GetSts mem_env (MetaNamespace (SsMeta wanted_sample)) (MetaName (SsMeta wanted_sample)) w1 = (w2, Inr found) \<and>
      gm_get (MetaLabels (SsMeta found)) ''owner-rv'' = Some (Itoa 10)" if "?obs w1 = ?obs (world_with ''10'')" for w1
    using get_sample_sts [of "''10''"] that by (auto simp: mem_get_def i split: option.splits)
  then show ?thesis
    using stale_cluster_never_written [where obs = ?obs and r = mem_env and z = sample_cluster and sts = wanted_sample
        and w = "world_with ''10''" and a = 7 and b = 10] wanted_sample mem_update_back up acc i
    by (auto simp: mem_get_def mem_create_def mem_update_def split: option.splits if_splits)
qed


section \<open>Scaling\<close>

text \<open>C8. Scaling announces the new size first. When the wanted and the stored number of replicas differ,
  the StatefulSet is touched only after the ensemble was reached, the metadata node was found and the
  write of the new size was requested, in this order. If connecting or the lookup fails, the handler
  reports an error and neither the StatefulSet nor the cluster has changed. (The result of the
  write itself, \<open>snd\<close> of \<open>ZkUpdateNode\<close>, is dropped: a failed announcement does not stop the scaling.)
  \<open>obs\<close> is any part of the world the ZooKeeper connection has no access to, such as the stored objects.\<close>

theorem scaling_announces_size:
  fixes obs :: "'w \<Rightarrow> 'x"
  assumes "\<And>uri w. obs (fst (ZkConnect r uri w)) = obs w" and "\<And>p w. obs (fst (ZkNodeExists r p w)) = obs w"
    and "\<And>w. obs (ZkClose r w) = obs w"
    and size: "SsReplicas (SsSpec found) = Some old" "SsReplicas (SsSpec sts) = Some new" "new \<noteq> old"
    and fresh: "0 \<le> compareResourceVersion z found" and lab: "MetaLabels (SsMeta found) \<noteq> None"
  shows "snd (sync_existing_sts r found sts (w, z)) \<noteq> None \<and>
      obs (fst (fst (sync_existing_sts r found sts (w, z)))) = obs w \<and> snd (fst (sync_existing_sts r found sts (w, z))) = z \<or>
    (\<exists>w1 w2 v found'. ZkConnect r (GetZkServiceUri z) w = (w1, None) \<and> ZkNodeExists r (GetMetaPath z) w1 = (w2, Inr v) \<and>
      obs w2 = obs w \<and> SsSpec found' = SsSpec found \<and>
      sync_existing_sts r found sts (w, z) = deferred_close r True (update_and_upgrade r found' sts
        (fst (ZkUpdateNode r (GetMetaPath z) (cluster_size_data new) v w2), z)))"
proof -
  obtain ls where ls: "(if 0 < compareResourceVersion z found then put_owner_rv (ResourceVersion (Meta z)) (MetaLabels (SsMeta found))
      else Some (MetaLabels (SsMeta found))) = Some ls"
    using lab that by (cases "0 < compareResourceVersion z found"; cases "MetaLabels (SsMeta found)")
      (simp_all add: put_owner_rv_def)
  let ?f = "found\<lparr>SsMeta := (SsMeta found)\<lparr>MetaLabels := ls\<rparr>\<rparr>"
  have run: "sync_existing_sts r found sts (w, z) =
      (case store_cluster_size r z new w of
         (Some err, connected, w1) \<Rightarrow> deferred_close r connected (done_with w1 z (Some err))
       | (None, connected, w1) \<Rightarrow> deferred_close r connected (update_and_upgrade r ?f sts (w1, z)))"
    unfolding sync_existing_sts_def Let_def prod.case ls using size fresh by simp
  obtain w1 c where c: "ZkConnect r (GetZkServiceUri z) w = (w1, c)" by (metis prod.exhaust)
  obtain w2 v where v: "ZkNodeExists r (GetMetaPath z) w1 = (w2, v)" by (metis prod.exhaust)
  obtain w3 u where u: "ZkUpdateNode r (GetMetaPath z) (cluster_size_data new) (projr v) w2 = (w3, u)" by (metis prod.exhaust)
  have obs: "obs w1 = obs w" "obs w2 = obs w1"
    using assms(1) [of "GetZkServiceUri z" w] assms(2) [of "GetMetaPath z" w1] c v by simp_all
  show ?thesis
  proof (cases "c = None \<and> \<not> isl v")
    case True
    then obtain n where n: "c = None" "v = Inr n" by (cases v) auto
    with c v u have "store_cluster_size r z new w = (None, True, w3)"
      by (simp add: store_cluster_size_def Let_def)
    with run u n have "sync_existing_sts r found sts (w, z) = deferred_close r True (update_and_upgrade r ?f sts
        (fst (ZkUpdateNode r (GetMetaPath z) (cluster_size_data new) n w2), z))"
      by simp
    then show ?thesis
      using c v n obs by (intro disjI2 exI [of _ w1] exI [of _ w2] exI [of _ n] exI [of _ ?f]) simp
  next
    case False
    then show ?thesis
      using run c v obs assms(3) by (cases c; cases v) (simp_all add: store_cluster_size_def deferred_close_def Let_def)
  qed
qed

definition five_wanted :: StatefulSet where
  "five_wanted = wanted_sample\<lparr>SsSpec := (SsSpec wanted_sample)\<lparr>SsReplicas := Some 5\<rparr>\<rparr>"

theorem scaling_announces_size_witness:
  "let w = (world_with ''7'')\<lparr>w_zk_up := False\<rparr>;
       res = sync_existing_sts mem_env (sample_sts ''7'') five_wanted (w, sample_cluster)
   in snd res \<noteq> None \<and> w_sts (fst (fst res)) = [sample_sts ''7'']"
proof -
  have n: "SsReplicas (SsSpec (sample_sts ''7'')) = Some 3" "SsReplicas (SsSpec five_wanted) = Some 5"
    by code_simp+
  have c: "compareResourceVersion sample_cluster (sample_sts ''7'') = 0" by code_simp
  have l: "MetaLabels (SsMeta (sample_sts ''7'')) \<noteq> None" by (simp add: sample_sts_def Let_def)
  let ?w = "(world_with ''7'')\<lparr>w_zk_up := False\<rparr>"
  have e: "\<And>p w. w_sts (fst (ZkNodeExists mem_env p w)) = w_sts w" by (simp add: mem_env_def)
  show ?thesis
    using scaling_announces_size [of w_sts mem_env "sample_sts ''7''" 3 five_wanted 5 sample_cluster ?w] n c l e
    by (auto simp: Let_def world_with_def)
qed

section \<open>Creation\<close>

lemma labels_of_sts: "MakeStatefulSet z = Some s \<Longrightarrow> MetaLabels (SsMeta s) = Labels (Spec z)"
  by (auto simp: MakeStatefulSet_def split: Option.bind_splits)

lemma service_label:
  assumes "Labels (Spec z) = Some l" "distinct (map fst l)" and "k \<noteq> ''app''" "k \<noteq> ''headless''"
  shows "gm_get (MetaLabels (SvcMeta (makeService name ports c ext ann z))) k = map_of l k"
  using assms by (simp add: makeService_def Let_def mergeLabels_def map_of_gm_overlay map_add_def)

text \<open>C34. The StatefulSet is created with the version of the cluster it was made from: the object sent to
  the API server has the generated specification and compares equal to the cluster. The same write
  also reaches the in-memory cluster, because the labels are one shared Go map, so that the services
  generated later in the same pass carry the label \<open>owner-rv\<close> the user never asked for.\<close>

theorem creation_stamps_version:
  assumes "wanted_sts r z sts" and "owner_keeps r" and "Labels (Spec z) = Some l" "distinct (map fst l)"
    and "0 \<le> a" "a < 2 ^ 63" "ResourceVersion (Meta z) = Itoa a"
  shows "\<exists>created z'. create_sts r sts (w, z) = ((fst (CreateSts r created w), z'), snd (CreateSts r created w)) \<and>
     SsSpec created = SsSpec sts \<and> compareResourceVersion z created = 0 \<and>
     gm_get (MetaLabels (SvcMeta (MakeClientService z'))) ''owner-rv'' = Some (ResourceVersion (Meta z))"
proof -
  have lab: "MetaLabels (SsMeta sts) = Some l"
    using assms(1,2,3) by (auto simp: wanted_sts_def owner_keeps_def dest!: labels_of_sts) fastforce
  let ?l = "gm_put ''owner-rv'' (ResourceVersion (Meta z)) l"
  let ?s = "sts\<lparr>SsMeta := (SsMeta sts)\<lparr>MetaLabels := Some ?l\<rparr>\<rparr>"
  let ?z = "z\<lparr>Spec := (Spec z)\<lparr>Labels := Some ?l\<rparr>\<rparr>"
  have "create_sts r sts (w, z) = ((fst (CreateSts r ?s w), ?z), snd (CreateSts r ?s w))"
    by (simp add: create_sts_def put_owner_rv_def lab Let_def split: prod.splits)
  moreover have "compareResourceVersion z ?s = 0"
    using compareResourceVersion_numbers [OF assms(5,6) assms(5,6,7), of ?s] assms(7) by simp
  moreover have "gm_get (MetaLabels (SvcMeta (MakeClientService ?z))) ''owner-rv'' = Some (ResourceVersion (Meta z))"
    using service_label [of ?z ?l "''owner-rv''"] assms(4) by (simp add: MakeClientService_def Let_def)
  ultimately show ?thesis by fastforce
qed

theorem creation_stamps_version_witness:
  "\<exists>created z'. create_sts mem_env wanted_sample (sample_world, sample_cluster) =
       ((fst (CreateSts mem_env created sample_world), z'), snd (CreateSts mem_env created sample_world)) \<and>
     gm_get (MetaLabels (SvcMeta (MakeClientService z'))) ''owner-rv'' = Some ''7''"
proof -
  have l: "Labels (Spec sample_cluster) = Some [(''app'', ''zk''), (''release'', ''zk'')]" by code_simp
  have i: "Itoa 7 = ''7''" by code_simp
  show ?thesis
    using creation_stamps_version [OF wanted_sample mem_owner l, of 7 sample_world] i by auto
qed


text \<open>The version label is written into the label map of the stored StatefulSet without a check: if that
  map is nil (someone removed all labels of the object), the reconciliation panics on every attempt,
  before anything is written.\<close>

theorem unlabelled_sts_panics:
  assumes "MetaLabels (SsMeta found) = None" and "0 \<le> a" "a < 2 ^ 63" and "ResourceVersion (Meta z) = Itoa a"
  shows "sync_existing_sts r found sts (w, z) = ((w, z), Some (GoPanic ''assignment to entry in nil map''))"
proof -
  have "compareResourceVersion z found = 1" using assms by (simp add: compareResourceVersion_def Atoi_label)
  with assms(1) show ?thesis by (simp add: sync_existing_sts_def put_owner_rv_def Let_def)
qed

theorem unlabelled_sts_panics_witness:
  "snd (sync_existing_sts mem_env ((sample_sts ''7'')\<lparr>SsMeta := empty_meta\<rparr>) wanted_sample (sample_world, sample_cluster)) =
     Some (GoPanic ''assignment to entry in nil map'')"
proof -
  have "Itoa 7 = ''7''" by code_simp
  then show ?thesis
    using unlabelled_sts_panics [of "(sample_sts ''7'')\<lparr>SsMeta := empty_meta\<rparr>" 7 sample_cluster mem_env wanted_sample sample_world]
    by (simp add: empty_meta_def)
qed

end
