(* ===== verification/UpgradeMachine.thy ===== *)
theory UpgradeMachine
  imports StatefulSets
begin

text \<open>
  The upgrade of a cluster as an abstract state machine, and the proof that \<open>upgradeStatefulSet\<close>
  implements it. The machine has one rule per transition the operator is meant to make; its state is
  read off the status by \<open>upgrade_view\<close>.
\<close>

section \<open>The abstract machine\<close>

datatype phase = Idle | Rolling string

text \<open>The three stages of an upgrade in their order; \<open>Failed\<close> is the stage an operator must look at.\<close>

datatype stage = Settled | InProgress | Failed

instantiation stage :: linorder
begin

definition stage_rank :: "stage \<Rightarrow> nat" where
  "stage_rank s = (case s of Settled \<Rightarrow> 0 | InProgress \<Rightarrow> 1 | Failed \<Rightarrow> 2)"

definition less_eq_stage :: "stage \<Rightarrow> stage \<Rightarrow> bool" where
  "less_eq_stage a b \<longleftrightarrow> stage_rank a \<le> stage_rank b"

definition less_stage :: "stage \<Rightarrow> stage \<Rightarrow> bool" where
  "less_stage a b \<longleftrightarrow> stage_rank a < stage_rank b"

instance
  by standard (auto simp: less_eq_stage_def less_stage_def stage_rank_def split: stage.splits)

end

record upgrade_state =
  up_phase :: phase
  up_failed :: bool
  up_current :: string
  up_target :: string
  up_ready :: bool

definition upgrade_view :: "ZookeeperClusterStatus \<Rightarrow> upgrade_state" where
  "upgrade_view st =
     \<lparr>up_phase = (case cond st ClusterConditionUpgrading of
                   None \<Rightarrow> Idle
                 | Some c \<Rightarrow> if CondStatus c = ConditionTrue then Rolling (CondMessage c) else Idle),
      up_failed = IsClusterInUpgradeFailedState st,
      up_current = CurrentVersion st,
      up_target = TargetVersion st,
      up_ready = IsClusterInReadyState st\<rparr>"

definition stage_of :: "upgrade_state \<Rightarrow> stage" where
  "stage_of u = (if up_failed u then Failed else if up_phase u = Idle then Settled else InProgress)"

text \<open>
  One step, for the StatefulSet status the operator observes and the image tag the user asks for.
  \<open>late\<close> says whether the deadline of the last recorded progress has passed.
\<close>

inductive upgrade_step ::
  "bool \<Rightarrow> StatefulSetStatus \<Rightarrow> string \<Rightarrow> upgrade_state \<Rightarrow> upgrade_state \<Rightarrow> bool" where
  start: "up_phase u = Idle \<Longrightarrow> up_ready u \<Longrightarrow> CurrentRevision s \<noteq> UpdateRevision s \<Longrightarrow> tag \<noteq> up_current u \<Longrightarrow>
    upgrade_step late s tag u (u\<lparr>up_phase := Rolling [], up_target := tag, up_ready := False\<rparr>)"
| rest: "up_phase u = Idle \<Longrightarrow>
    \<not> (up_ready u \<and> CurrentRevision s \<noteq> UpdateRevision s \<and> tag \<noteq> up_current u) \<Longrightarrow>
    upgrade_step late s tag u u"
| cancel: "up_phase u = Rolling m \<Longrightarrow> up_target u = [] \<Longrightarrow>
    upgrade_step late s tag u (u\<lparr>up_phase := Idle\<rparr>)"
| finish: "up_phase u = Rolling m \<Longrightarrow> up_target u \<noteq> [] \<Longrightarrow> CurrentRevision s = UpdateRevision s \<Longrightarrow>
    upgrade_step late s tag u (u\<lparr>up_phase := Idle, up_current := up_target u, up_target := []\<rparr>)"
| progress: "up_phase u = Rolling m \<Longrightarrow> up_target u \<noteq> [] \<Longrightarrow> CurrentRevision s \<noteq> UpdateRevision s \<Longrightarrow>
    m \<noteq> Itoa32 (SsUpdatedReplicas s) \<Longrightarrow>
    upgrade_step late s tag u (u\<lparr>up_phase := Rolling (Itoa32 (SsUpdatedReplicas s))\<rparr>)"
| wait: "up_phase u = Rolling m \<Longrightarrow> up_target u \<noteq> [] \<Longrightarrow> CurrentRevision s \<noteq> UpdateRevision s \<Longrightarrow>
    m = Itoa32 (SsUpdatedReplicas s) \<Longrightarrow> \<not> late \<Longrightarrow> upgrade_step late s tag u u"
| give_up: "up_phase u = Rolling m \<Longrightarrow> up_target u \<noteq> [] \<Longrightarrow> CurrentRevision s \<noteq> UpdateRevision s \<Longrightarrow>
    m = Itoa32 (SsUpdatedReplicas s) \<Longrightarrow> late \<Longrightarrow> upgrade_step late s tag u (u\<lparr>up_failed := True\<rparr>)"

inductive_cases upgrade_stepE: "upgrade_step late s tag u v"

section \<open>Reading the status\<close>

lemma upgrade_view_sel [simp]:
  "up_current (upgrade_view st) = CurrentVersion st" "up_target (upgrade_view st) = TargetVersion st"
  "up_ready (upgrade_view st) = IsClusterInReadyState st" "up_failed (upgrade_view st) = IsClusterInUpgradeFailedState st"
  "up_phase (upgrade_view st) = (case cond st ClusterConditionUpgrading of None \<Rightarrow> Idle
     | Some c \<Rightarrow> if CondStatus c = ConditionTrue then Rolling (CondMessage c) else Idle)"
  by (simp_all add: upgrade_view_def)

lemma cond_field_updates [simp]:
  "cond (st\<lparr>TargetVersion := v\<rparr>) t = cond st t" "cond (st\<lparr>CurrentVersion := v\<rparr>) t = cond st t"
  "cond (st\<lparr>StatusReplicas := n\<rparr>) t = cond st t" "cond (st\<lparr>ReadyReplicas := n\<rparr>) t = cond st t"
  "cond (st\<lparr>MetaRootCreated := b\<rparr>) t = cond st t" "cond (st\<lparr>Members := m\<rparr>) t = cond st t"
  "cond (st\<lparr>InternalClientEndpoint := v\<rparr>) t = cond st t" "cond (st\<lparr>ExternalClientEndpoint := v\<rparr>) t = cond st t"
  by (simp_all add: cond_def)

lemma setter_cond:
  "cond (SetUpgradingConditionTrue now rs m st) t =
     (if t = ClusterConditionUpgrading
      then Some (merged_condition now (cond st t) (newClusterCondition ClusterConditionUpgrading ConditionTrue rs m)) else cond st t)"
  "cond (SetUpgradingConditionFalse now st) t =
     (if t = ClusterConditionUpgrading
      then Some (merged_condition now (cond st t) (newClusterCondition ClusterConditionUpgrading ConditionFalse [] [])) else cond st t)"
  "cond (SetPodsReadyConditionTrue now st) t =
     (if t = ClusterConditionPodsReady
      then Some (merged_condition now (cond st t) (newClusterCondition ClusterConditionPodsReady ConditionTrue [] [])) else cond st t)"
  "cond (SetPodsReadyConditionFalse now st) t =
     (if t = ClusterConditionPodsReady
      then Some (merged_condition now (cond st t) (newClusterCondition ClusterConditionPodsReady ConditionFalse [] [])) else cond st t)"
  "cond (SetErrorConditionTrue now rs m st) t =
     (if t = ClusterConditionError
      then Some (merged_condition now (cond st t) (newClusterCondition ClusterConditionError ConditionTrue rs m)) else cond st t)"
  "cond (SetErrorConditionFalse now st) t =
     (if t = ClusterConditionError
      then Some (merged_condition now (cond st t) (newClusterCondition ClusterConditionError ConditionFalse [] [])) else cond st t)"
  by (simp_all add: condition_setters conds.lookup_put)

lemma setter_frame [frame, simp]:
  "CurrentVersion (SetUpgradingConditionTrue now rs m st) = CurrentVersion st"
  "TargetVersion (SetUpgradingConditionTrue now rs m st) = TargetVersion st"
  "CurrentVersion (SetUpgradingConditionFalse now st) = CurrentVersion st"
  "TargetVersion (SetUpgradingConditionFalse now st) = TargetVersion st"
  "CurrentVersion (SetPodsReadyConditionFalse now st) = CurrentVersion st"
  "TargetVersion (SetPodsReadyConditionFalse now st) = TargetVersion st"
  "CurrentVersion (SetPodsReadyConditionTrue now st) = CurrentVersion st"
  "TargetVersion (SetPodsReadyConditionTrue now st) = TargetVersion st"
  "CurrentVersion (SetErrorConditionTrue now rs m st) = CurrentVersion st"
  "TargetVersion (SetErrorConditionTrue now rs m st) = TargetVersion st"
  "CurrentVersion (SetErrorConditionFalse now st) = CurrentVersion st"
  "TargetVersion (SetErrorConditionFalse now st) = TargetVersion st"
  by (simp_all add: condition_setters)

lemmas view_rules = upgrade_view_def setter_cond status_predicates

lemma view_start:
  "upgrade_view (SetUpgradingConditionTrue now [] [] (SetPodsReadyConditionFalse now (st\<lparr>TargetVersion := tag\<rparr>))) =
     (upgrade_view st)\<lparr>up_phase := Rolling [], up_target := tag, up_ready := False\<rparr>"
  by (simp add: view_rules)

lemma view_clear:
  "upgrade_view ((SetUpgradingConditionFalse now st)\<lparr>TargetVersion := []\<rparr>) =
     (upgrade_view st)\<lparr>up_phase := Idle, up_target := []\<rparr>"
  by (simp add: view_rules)

lemma view_progress:
  "IsClusterInUpgradingState st \<Longrightarrow>
     upgrade_view (UpdateProgress now rs m st) = (upgrade_view st)\<lparr>up_phase := Rolling m\<rparr>"
  by (simp add: view_rules UpdateProgress_def)

lemma view_fail:
  "upgrade_view (SetErrorConditionTrue now ''UpgradeFailed'' m st) = (upgrade_view st)\<lparr>up_failed := True\<rparr>"
  by (simp add: view_rules)

lemma view_current:
  "upgrade_view (st\<lparr>CurrentVersion := v\<rparr>) = (upgrade_view st)\<lparr>up_current := v\<rparr>"
  by (simp add: view_rules)

section \<open>The refinement\<close>

text \<open>
  The documented behaviour of the status subresource: the server answers a status update with the
  status it was sent. (Of \<open>Update\<close> nothing is needed: \<open>clearUpgradeStatus\<close> restores the status.)
\<close>

definition status_echo :: "'w Env \<Rightarrow> bool" where
  "status_echo r \<longleftrightarrow> (\<forall>z w w' z'. UpdateClusterStatus r z w = (w', Inr z') \<longrightarrow> Status z' = Status z)"

definition upgrade_late :: "'w Env \<Rightarrow> 'w \<Rightarrow> ZookeeperClusterStatus \<Rightarrow> StatefulSetStatus \<Rightarrow> bool" where
  "upgrade_late r w st s \<longleftrightarrow>
     checkSyncTimeout (Now r w) st UpdatingZookeeperReason (SsUpdatedReplicas s) (10 * minute) \<noteq> None"

lemma status_update_status:
  "status_echo r \<Longrightarrow> Status (snd (fst (status_update r (w, z)))) = Status z"
  by (auto simp: status_update_def status_echo_def split: prod.splits sum.splits)

lemma clearUpgradeStatus_status:
  "Status (snd (fst (clearUpgradeStatus r (w, z)))) = (SetUpgradingConditionFalse (Now r w) (Status z))\<lparr>TargetVersion := []\<rparr>"
  by (simp add: clearUpgradeStatus_def Let_def split: prod.splits sum.splits)

lemma upgrade_simulation:
  assumes echo: "status_echo r"
    and c: "cond (Status z) ClusterConditionUpgrading = Some c"
    and tf: "CondStatus c = ConditionTrue \<or> CondStatus c = ConditionFalse"
  shows "upgrade_step (upgrade_late r w (Status z) (SsStatus sts)) (SsStatus sts) (Tag (Image (Spec z)))
     (upgrade_view (Status z)) (upgrade_view (Status (snd (fst (upgradeStatefulSet r sts (w, z))))))"
proof (cases "CondStatus c = ConditionTrue")
  case rolling: True
  then have up: "IsClusterInUpgradingState (Status z)"
    and ph: "up_phase (upgrade_view (Status z)) = Rolling (CondMessage c)"
    using c by (simp_all add: status_predicates)
  let ?s = "SsStatus sts" and ?n = "Itoa32 (SsUpdatedReplicas (SsStatus sts))"
  consider (cancel) "TargetVersion (Status z) = []"
    | (finish) "TargetVersion (Status z) \<noteq> []" "CurrentRevision ?s = UpdateRevision ?s"
    | (progress) "TargetVersion (Status z) \<noteq> []" "CurrentRevision ?s \<noteq> UpdateRevision ?s" "?n \<noteq> CondMessage c"
    | (still) "TargetVersion (Status z) \<noteq> []" "CurrentRevision ?s \<noteq> UpdateRevision ?s" "?n = CondMessage c"
    by blast
  then show ?thesis
  proof cases
    case cancel
    with c rolling have "upgrade_view (Status (snd (fst (upgradeStatefulSet r sts (w, z))))) =
        (upgrade_view (Status z))\<lparr>up_phase := Idle\<rparr>"
      by (simp add: upgradeStatefulSet_def Let_def clearUpgradeStatus_status view_clear)
    then show ?thesis using ph cancel by (simp only:) (rule upgrade_step.cancel, auto)
  next
    case finish
    with c rolling have "upgrade_view (Status (snd (fst (upgradeStatefulSet r sts (w, z))))) =
        (upgrade_view (Status z))\<lparr>up_phase := Idle, up_current := up_target (upgrade_view (Status z)), up_target := []\<rparr>"
      by (simp add: upgradeStatefulSet_def Let_def clearUpgradeStatus_status view_clear view_current)
    then show ?thesis using ph finish by (simp only:) (rule upgrade_step.finish, auto)
  next
    case progress
    with c rolling up have "upgrade_view (Status (snd (fst (upgradeStatefulSet r sts (w, z))))) =
        (upgrade_view (Status z))\<lparr>up_phase := Rolling ?n\<rparr>"
      by (simp add: upgradeStatefulSet_def Let_def status_update_status [OF echo] view_progress)
    then show ?thesis using ph progress by (simp only:) (rule upgrade_step.progress, auto)
  next
    case still
    show ?thesis
    proof (cases "upgrade_late r w (Status z) ?s")
      case True
      with still c rolling have "upgrade_view (Status (snd (fst (upgradeStatefulSet r sts (w, z))))) =
          (upgrade_view (Status z))\<lparr>up_failed := True\<rparr>"
        by (auto simp: upgradeStatefulSet_def Let_def upgrade_late_def status_update_status [OF echo] view_fail)
      then show ?thesis using ph still True by (simp only:) (rule upgrade_step.give_up, auto)
    next
      case False
      with still c rolling have "Status (snd (fst (upgradeStatefulSet r sts (w, z)))) = Status z"
        by (simp add: upgradeStatefulSet_def Let_def upgrade_late_def)
      then show ?thesis using ph still False by (simp only:) (rule upgrade_step.wait, auto)
    qed
  qed
next
  case False
  with tf have idle: "CondStatus c = ConditionFalse" by simp
  then have ph: "up_phase (upgrade_view (Status z)) = Idle" using c by simp
  let ?go = "IsClusterInReadyState (Status z) \<and> CurrentRevision (SsStatus sts) \<noteq> UpdateRevision (SsStatus sts) \<and>
    Tag (Image (Spec z)) \<noteq> CurrentVersion (Status z)"
  show ?thesis
  proof (cases ?go)
    case True
    with c idle have "upgrade_view (Status (snd (fst (upgradeStatefulSet r sts (w, z))))) =
        (upgrade_view (Status z))\<lparr>up_phase := Rolling [], up_target := Tag (Image (Spec z)), up_ready := False\<rparr>"
      by (simp add: upgradeStatefulSet_def Let_def start_upgrade_def status_update_status [OF echo] view_start)
    then show ?thesis using ph True by (simp only:) (rule upgrade_step.start, auto)
  next
    case False
    with c idle have "Status (snd (fst (upgradeStatefulSet r sts (w, z)))) = Status z"
      by (auto simp: upgradeStatefulSet_def Let_def status_update_status [OF echo])
    then show ?thesis using ph False by (simp only:) (rule upgrade_step.rest, auto)
  qed
qed

text \<open>C1. \<open>upgradeStatefulSet\<close> implements the abstract upgrade machine: every call moves the status along
  exactly one of its transitions (start, rest, cancel, finish, progress, wait, give up), also when a
  write to the API server fails. The hypothesis on the status is that the operator has already
  recorded an upgrade condition; the one on the server is the documented echo of a status update.\<close>

theorem upgradeStatefulSet_refines:
  assumes echo: "status_echo r"
    and c: "cond (Status z) ClusterConditionUpgrading = Some c"
    and tf: "CondStatus c = ConditionTrue \<or> CondStatus c = ConditionFalse"
  shows "upgrade_step (upgrade_late r w (Status z) (SsStatus sts)) (SsStatus sts) (Tag (Image (Spec z)))
     (upgrade_view (Status z)) (upgrade_view (Status (snd (fst (upgradeStatefulSet r sts (w, z))))))"
  by (rule upgrade_simulation [OF assms])

lemma idle_echo: "status_echo mem_env"
  by (auto simp: status_echo_def)

definition ready_status :: ZookeeperClusterStatus where
  "ready_status = Status_Init 0 (empty_status\<lparr>CurrentVersion := ''0.2.15'', ReadyReplicas := 3, StatusReplicas := 3, Conditions :=
     [newClusterCondition ClusterConditionPodsReady ConditionTrue [] []]\<rparr>)"

definition rolled_sts :: StatefulSet where
  "rolled_sts = (sample_sts ''7'')\<lparr>SsStatus := no_sts_status\<lparr>CurrentRevision := ''zk-1'', UpdateRevision := ''zk-2''\<rparr>\<rparr>"

definition ready_cluster :: ZookeeperCluster where
  "ready_cluster = sample_cluster\<lparr>Status := ready_status\<rparr>"

theorem upgradeStatefulSet_refines_witness:
  "upgrade_step (upgrade_late mem_env sample_world ready_status (SsStatus rolled_sts)) (SsStatus rolled_sts)
     (Tag (Image (Spec ready_cluster))) (upgrade_view ready_status)
     (upgrade_view (Status (snd (fst (upgradeStatefulSet mem_env rolled_sts (sample_world, ready_cluster))))))"
proof -
  have "cond (Status ready_cluster) ClusterConditionUpgrading = Some (newClusterCondition ClusterConditionUpgrading ConditionFalse [] [])"
    by code_simp
  from upgradeStatefulSet_refines [OF idle_echo this, of sample_world rolled_sts] show ?thesis
    by (simp add: newClusterCondition_def) (simp add: ready_cluster_def)
qed

text \<open>The evidence a recovery needs: the StatefulSet was read and written back, and the answer shows it settled.\<close>

definition recovered_sts :: "'w Env \<Rightarrow> ZookeeperCluster \<Rightarrow> 'w \<Rightarrow> 'w \<Rightarrow> StatefulSet \<Rightarrow> bool" where
  "recovered_sts r z w w2 found2 \<longleftrightarrow> (\<exists>sts w1 found. wanted_sts r z sts \<and>
     GetSts r (MetaNamespace (SsMeta sts)) (MetaName (SsMeta sts)) w = (w1, Inr found) \<and>
     UpdateSts r found w1 = (w2, Inr found2))"

definition sts_settled :: "StatefulSetStatus \<Rightarrow> bool" where
  "sts_settled s \<longleftrightarrow> SsStatusReplicas s = SsReadyReplicas s \<and> CurrentRevision s = UpdateRevision s"

lemma recovered_run:
  assumes "recovered_sts r z w w2 found2"
  shows "recover_failed_upgrade r (w, z) =
    (if sts_settled (SsStatus found2)
     then (w2, Some (clearUpgradeStatus r (w2, z\<lparr>Status := SetErrorConditionFalse (Now r w2)
            ((Status z)\<lparr>CurrentVersion := TargetVersion (Status z)\<rparr>)\<rparr>)))
     else (w2, None))"
  using assms by (auto simp: recovered_sts_def recover_failed_upgrade_def wanted_sts_def sts_settled_def)

lemma unrecovered_run:
  assumes "\<forall>w2 found2. \<not> recovered_sts r z w w2 found2" and "IsClusterInUpgradeFailedState (Status z)"
  shows "snd (fst (reconcileStatefulSet r (w, z))) = z"
proof (cases "MakeStatefulSet z")
  case None
  with assms(2) show ?thesis by (simp add: reconcileStatefulSet_def recover_failed_upgrade_def)
next
  case (Some sts)
  show ?thesis
  proof (cases "SetControllerReference r z (SsMeta sts)")
    case (Inl e)
    with Some assms(2) show ?thesis by (simp add: reconcileStatefulSet_def recover_failed_upgrade_def)
  next
    case (Inr m)
    obtain w1 g where g: "GetSts r (MetaNamespace m) (MetaName m) w = (w1, g)" by (metis prod.exhaust)
    obtain w2 u where u: "UpdateSts r (projr g) w1 = (w2, u)" by (metis prod.exhaust)
    have "wanted_sts r z (sts\<lparr>SsMeta := m\<rparr>)" using Some Inr by (auto simp: wanted_sts_def)
    then have "isl g \<or> isl u"
      using assms(1) g u unfolding recovered_sts_def by (cases g; cases u) fastforce+
    with assms(2) Some Inr g u show ?thesis
      by (cases g; cases u) (auto simp: reconcileStatefulSet_def recover_failed_upgrade_def)
  qed
qed


definition failed_cluster :: ZookeeperCluster where
  "failed_cluster = sample_cluster\<lparr>Status := SetErrorConditionTrue 0 ''UpgradeFailed'' ''late''
     (SetUpgradingConditionTrue 0 [] ''1'' (ready_status\<lparr>TargetVersion := ''0.2.16''\<rparr>))\<rparr>"

lemma MakeStatefulSet_status: "MakeStatefulSet (z\<lparr>Status := st\<rparr>) = MakeStatefulSet z"
  by (simp add: MakeStatefulSet_def data_storage_def makeZkPodSpec_def GetName_def headlessSvcName_def ConfigMapName_def
      cong: option.case_cong if_cong Option.bind_cong)


section \<open>Runs of the machine\<close>

text \<open>
  The other moves the operator makes between two upgrade steps: recording readiness (and the first
  version) while nothing is rolling, and the recovery of a failed upgrade once the StatefulSet has
  settled. Image tags are never empty, since defaulting fills them in.
\<close>

definition initial_upgrade :: upgrade_state where
  "initial_upgrade = \<lparr>up_phase = Idle, up_failed = False, up_current = [], up_target = [], up_ready = False\<rparr>"

inductive upgrade_reachable :: "upgrade_state \<Rightarrow> bool" where
  fresh: "upgrade_reachable initial_upgrade"
| step: "upgrade_reachable u \<Longrightarrow> \<not> up_failed u \<Longrightarrow> tag \<noteq> [] \<Longrightarrow> upgrade_step late s tag u v \<Longrightarrow> upgrade_reachable v"
| observe: "upgrade_reachable u \<Longrightarrow> stage_of u = Settled \<Longrightarrow> tag \<noteq> [] \<Longrightarrow>
    upgrade_reachable (u\<lparr>up_ready := b, up_current := (if up_current u = [] \<and> b then tag else up_current u)\<rparr>)"
| recover: "upgrade_reachable u \<Longrightarrow> up_failed u \<Longrightarrow>
    upgrade_reachable (u\<lparr>up_failed := False, up_phase := Idle, up_current := up_target u, up_target := []\<rparr>)"

definition upgrade_inv :: "upgrade_state \<Rightarrow> bool" where
  "upgrade_inv u \<longleftrightarrow> (up_phase u = Idle \<longleftrightarrow> up_target u = []) \<and> (up_failed u \<longrightarrow> up_phase u \<noteq> Idle)"

lemma upgrade_step_inv: "upgrade_step late s tag u v \<Longrightarrow> tag \<noteq> [] \<Longrightarrow> \<not> up_failed u \<Longrightarrow> upgrade_inv u \<Longrightarrow> upgrade_inv v"
  by (induction rule: upgrade_step.induct) (auto simp: upgrade_inv_def)

text \<open>In every reachable state of the upgrade machine a rolling upgrade has a target version and
  an idle cluster has none, and an upgrade is marked failed only while it is rolling. So the branch
  \<open>upgrading to an unknown version\<close> of the handler is never taken by the operator's own doing, and
  one step never leads from a settled cluster straight to a failed upgrade.\<close>

lemma upgrade_reachable_inv:
  assumes "upgrade_reachable u"
  shows "upgrade_inv u \<and> (\<forall>late s tag v. upgrade_step late s tag u v \<and> stage_of u = Settled \<longrightarrow> stage_of v \<le> InProgress)"
proof
  show "upgrade_inv u"
    using assms
  proof (induction rule: upgrade_reachable.induct)
    case fresh
    show ?case by (simp add: upgrade_inv_def initial_upgrade_def)
  next
    case (step u tag late s v)
    then show ?case by (blast intro: upgrade_step_inv)
  next
    case (observe u tag b)
    then show ?case by (auto simp: upgrade_inv_def stage_of_def split: if_splits)
  next
    case (recover u)
    then show ?case by (simp add: upgrade_inv_def)
  qed
  show "\<forall>late s tag v. upgrade_step late s tag u v \<and> stage_of u = Settled \<longrightarrow> stage_of v \<le> InProgress"
    by (auto elim!: upgrade_stepE simp: stage_of_def less_eq_stage_def stage_rank_def split: if_splits stage.splits)
qed

definition sample_sts_status :: StatefulSetStatus where
  "sample_sts_status = \<lparr>SsStatusReplicas = 3, SsReadyReplicas = 3, SsUpdatedReplicas = 1,
     CurrentRevision = ''zk-1'', UpdateRevision = ''zk-2''\<rparr>"

lemma sample_run:
  "upgrade_reachable \<lparr>up_phase = Rolling [], up_failed = False, up_current = ''0.2.15'', up_target = ''0.2.16'', up_ready = False\<rparr>"
proof -
  have "upgrade_reachable (initial_upgrade\<lparr>up_ready := True, up_current := ''0.2.15''\<rparr>)"
    using upgrade_reachable.observe [OF upgrade_reachable.fresh, of "''0.2.15''" True]
    by (simp add: stage_of_def initial_upgrade_def)
  from upgrade_reachable.step [OF this, of "''0.2.16''"] upgrade_step.start [of "initial_upgrade\<lparr>up_ready := True, up_current := ''0.2.15''\<rparr>"
      sample_sts_status "''0.2.16''" False]
  show ?thesis by (simp add: initial_upgrade_def sample_sts_status_def)
qed

lemma rolling_state_reachable:
  "\<exists>u. upgrade_reachable u \<and> up_phase u = Rolling [] \<and> up_target u = ''0.2.16'' \<and> upgrade_inv u"
  using upgrade_reachable_inv [OF sample_run] sample_run by force

section \<open>The deadline\<close>

lemma deadline_of_stamp:
  assumes c: "cond st ClusterConditionUpgrading = Some c" and "CondStatus c = ConditionTrue"
    and "CondReason c = UpdatingZookeeperReason" and "CondMessage c = Itoa32 n"
    and stamp: "LastUpdateTime c = FormatRFC3339 t0" and t0: "0 \<le> t0" "t0 < 253402300800 * second"
  shows "checkSyncTimeout now st UpdatingZookeeperReason n (10 * minute) \<noteq> None \<longleftrightarrow>
     t0 div second * second + 10 * minute < now"
proof -
  have "GetLastCondition st = Some c"
    using assms by (simp add: GetLastCondition_def status_predicates)
  then show ?thesis
    using assms ParseRFC3339_FormatRFC3339 [OF t0] by (simp add: checkSyncTimeout_def After_def Let_def)
qed

text \<open>C33. The progress deadline. While an upgrade is rolling whose last recorded progress (the same
  number of updated replicas) was stamped at \<open>t0\<close>, the check reports \<open>progress deadline exceeded\<close>
  exactly when more than ten minutes have passed since the second in which \<open>t0\<close> fell.\<close>

theorem checkSyncTimeout_deadline:
  assumes c: "cond st ClusterConditionUpgrading = Some c" and "CondStatus c = ConditionTrue"
    and "CondReason c = UpdatingZookeeperReason" and "CondMessage c = Itoa32 n"
    and stamp: "LastUpdateTime c = FormatRFC3339 t0" and t0: "0 \<le> t0" "t0 < 253402300800 * second"
  shows "checkSyncTimeout now st UpdatingZookeeperReason n (10 * minute) \<noteq> None \<longleftrightarrow>
     t0 div second * second + 10 * minute < now"
  by (rule deadline_of_stamp [OF assms])

definition rolling_status :: ZookeeperClusterStatus where
  "rolling_status = empty_status\<lparr>TargetVersion := ''0.2.16'', CurrentVersion := ''0.2.15'', Conditions :=
     [\<lparr>CondType = ClusterConditionUpgrading, CondStatus = ConditionTrue, CondReason = UpdatingZookeeperReason,
       CondMessage = ''1'', LastUpdateTime = FormatRFC3339 1700000000000000000, LastTransitionTime = []\<rparr>]\<rparr>"

lemma Itoa32_one: "Itoa32 1 = ''1''"
  by code_simp

lemma rolling_cond:
  "cond rolling_status ClusterConditionUpgrading = Some \<lparr>CondType = ClusterConditionUpgrading,
     CondStatus = ConditionTrue, CondReason = UpdatingZookeeperReason, CondMessage = ''1'',
     LastUpdateTime = FormatRFC3339 1700000000000000000, LastTransitionTime = []\<rparr>"
  by (simp add: cond_def rolling_status_def)

theorem checkSyncTimeout_deadline_witness:
  "checkSyncTimeout 1700000600000000000 rolling_status UpdatingZookeeperReason 1 (10 * minute) = None \<and>
   checkSyncTimeout 1700000600000000001 rolling_status UpdatingZookeeperReason 1 (10 * minute) \<noteq> None"
proof -
  have d: "checkSyncTimeout n rolling_status UpdatingZookeeperReason 1 (10 * minute) \<noteq> None \<longleftrightarrow>
      1700000000000000000 div second * second + 10 * minute < n" for n
    by (rule checkSyncTimeout_deadline [OF rolling_cond]) (simp_all add: Itoa32_one second_def)
  show ?thesis
    using d [of 1700000600000000000] d [of 1700000600000000001] by (simp add: second_def minute_def)
qed

end
