(* ===== verification/Finalization.thy ===== *)
theory Finalization
  imports SampleWorld
begin

text \<open>
  Finalizers and the clean-up of persistent volume claims
  (\<open>controllers/zookeepercluster_controller.go\<close>: \<open>reconcileFinalizers\<close>, \<open>cleanupOrphanPVCs\<close>,
  \<open>cleanUpAllPVCs\<close>, \<open>getPVCList\<close>, \<open>getPVCCount\<close>, \<open>deletePVC\<close>).
\<close>

definition pvc_selector :: "ZookeeperCluster \<Rightarrow> go_map" where
  "pvc_selector instance = [(''app'', GetName instance), (''uid'', MetaUID (Meta instance))]"

definition getPVCList :: "'w Env \<Rightarrow> ZookeeperCluster \<Rightarrow> 'w \<Rightarrow> 'w \<times> (go_error + StoredPVC list)" where
  "getPVCList r instance w = ListPVCs r (MetaNamespace (Meta instance)) (pvc_selector instance) w"

definition getPVCCount :: "'w Env \<Rightarrow> ZookeeperCluster \<Rightarrow> 'w \<Rightarrow> 'w \<times> (go_error + int)" where
  "getPVCCount r instance w =
     (case getPVCList r instance w of
        (w1, Inl err) \<Rightarrow> (w1, Inl err)
      | (w1, Inr items) \<Rightarrow> (w1, Inr (int (length items))))"

text \<open>A failed deletion is logged and otherwise ignored.\<close>

definition deletePVC :: "'w Env \<Rightarrow> StoredPVC \<Rightarrow> 'w \<Rightarrow> 'w" where
  "deletePVC r pvcItem w = fst (DeletePVC r \<lparr>PvcName = PvcName pvcItem, PvcNamespace = PvcNamespace pvcItem\<rparr> w)"

fun delete_orphans :: "'w Env \<Rightarrow> int32 \<Rightarrow> StoredPVC list \<Rightarrow> 'w \<Rightarrow> 'w" where
  "delete_orphans r replicas [] w = w"
| "delete_orphans r replicas (pvcItem # items) w =
     delete_orphans r replicas items
       (if IsPVCOrphan (PvcName pvcItem) replicas then deletePVC r pvcItem w else w)"

fun delete_all :: "'w Env \<Rightarrow> StoredPVC list \<Rightarrow> 'w \<Rightarrow> 'w" where
  "delete_all r [] w = w"
| "delete_all r (pvcItem # items) w = delete_all r items (deletePVC r pvcItem w)"

definition cleanupOrphanPVCs :: "'w Env \<Rightarrow> ZookeeperCluster \<Rightarrow> 'w \<Rightarrow> 'w \<times> go_error option" where
  "cleanupOrphanPVCs r instance w =
     (if ReadyReplicas (Status instance) = Replicas (Spec instance)
      then (case getPVCCount r instance w of
              (w1, Inl err) \<Rightarrow> (w1, Some err)
            | (w1, Inr pvcCount) \<Rightarrow>
                if sint (Replicas (Spec instance)) < pvcCount
                then (case getPVCList r instance w1 of
                        (w2, Inl err) \<Rightarrow> (w2, Some err)
                      | (w2, Inr items) \<Rightarrow> (delete_orphans r (Replicas (Spec instance)) items w2, None))
                else (w1, None))
      else (w, None))"

definition cleanUpAllPVCs :: "'w Env \<Rightarrow> ZookeeperCluster \<Rightarrow> 'w \<Rightarrow> 'w \<times> go_error option" where
  "cleanUpAllPVCs r instance w =
     (case getPVCList r instance w of
        (w1, Inl err) \<Rightarrow> (w1, Some err)
      | (w1, Inr items) \<Rightarrow> (delete_all r items w1, None))"

definition set_finalizers :: "string list \<Rightarrow> ZookeeperCluster \<Rightarrow> ZookeeperCluster" where
  "set_finalizers fs z = z\<lparr>Meta := (Meta z)\<lparr>Finalizers := fs\<rparr>\<rparr>"

text \<open>The clean-up at the end of the branch of a live object.\<close>

definition then_cleanup :: "'w Env \<Rightarrow> 'w state \<Rightarrow> 'w outcome" where
  "then_cleanup r s = (case s of (w, z) \<Rightarrow> case cleanupOrphanPVCs r z w of (w1, e) \<Rightarrow> done_with w1 z e)"

definition reconcileFinalizers :: "'w Env \<Rightarrow> 'w state \<Rightarrow> 'w outcome" where
  "reconcileFinalizers r s = (case s of (w, instance) \<Rightarrow>
     if (case SpecPersistence (Spec instance) of None \<Rightarrow> False
         | Some p \<Rightarrow> VolumeReclaimPolicy p \<noteq> VolumeReclaimPolicyDelete)
     then done_with w instance None
     else if Time_IsZero (DeletionTimestamp (Meta instance))
     then
       if \<not> ContainsString (Finalizers (Meta instance)) ZkFinalizer \<and> \<not> DisableFinalizer r
       then (let instance1 = set_finalizers (Finalizers (Meta instance) @ [ZkFinalizer]) instance
             in case UpdateCluster r instance1 w of
                  (w1, Inl err) \<Rightarrow> done_with w1 instance1 (Some err)
                | (w1, Inr instance2) \<Rightarrow> then_cleanup r (w1, instance2))
       else then_cleanup r (w, instance)
     else
       if ContainsString (Finalizers (Meta instance)) ZkFinalizer
       then (case cleanUpAllPVCs r instance w of
               (w1, Some err) \<Rightarrow> done_with w1 instance (Some err)
             | (w1, None) \<Rightarrow>
                 (let instance1 = set_finalizers (RemoveString (Finalizers (Meta instance)) ZkFinalizer) instance
                  in case UpdateCluster r instance1 w1 of
                       (w2, Inl err) \<Rightarrow> done_with w2 instance1 (Some err)
                     | (w2, Inr instance2) \<Rightarrow> done_with w2 instance2 None))
       else done_with w instance None)"

section \<open>What is deleted\<close>

text \<open>
  \<open>deletes r items\<close> is the effect of requesting the deletion of exactly these claims, in order, each
  by its own name and namespace.
\<close>

definition deletes :: "'w Env \<Rightarrow> StoredPVC list \<Rightarrow> 'w \<Rightarrow> 'w" where
  "deletes r items w = fold (\<lambda>p w. fst (DeletePVC r p w)) items w"

lemma deletePVC_self: "deletePVC r p w = fst (DeletePVC r p w)"
proof -
  have "\<lparr>PvcName = PvcName p, PvcNamespace = PvcNamespace p\<rparr> = p" by (cases p) simp
  then show ?thesis by (simp only: deletePVC_def)
qed

lemma delete_orphans_eq:
  "delete_orphans r replicas items w = deletes r (filter (\<lambda>p. IsPVCOrphan (PvcName p) replicas) items) w"
  by (induction r replicas items w rule: delete_orphans.induct) (auto simp: deletes_def deletePVC_self)

lemma delete_all_eq: "delete_all r items w = deletes r items w"
  by (induction r items w rule: delete_all.induct) (auto simp: deletes_def deletePVC_self)

lemma cleanupOrphanPVCs_eq:
  "cleanupOrphanPVCs r z w =
     (if ReadyReplicas (Status z) \<noteq> Replicas (Spec z) then (w, None)
      else case getPVCList r z w of
             (w1, Inl err) \<Rightarrow> (w1, Some err)
           | (w1, Inr items) \<Rightarrow>
               if int (length items) \<le> sint (Replicas (Spec z)) then (w1, None)
               else case getPVCList r z w1 of
                      (w2, Inl err) \<Rightarrow> (w2, Some err)
                    | (w2, Inr items') \<Rightarrow>
                        (deletes r (filter (\<lambda>p. IsPVCOrphan (PvcName p) (Replicas (Spec z))) items') w2, None))"
  by (auto simp: cleanupOrphanPVCs_def getPVCCount_def delete_orphans_eq split: prod.splits sum.splits)

text \<open>
  The claim the StatefulSet controller makes from the template \<open>t\<close> for pod \<open>i\<close> of the cluster, and a
  cluster's claims by their ordinals. A \<^emph>\<open>log\<close> of the world is a projection that records each deletion
  request, whether the server then grants it or not.
\<close>

definition pod_claim :: "string \<Rightarrow> ZookeeperCluster \<Rightarrow> nat \<Rightarrow> StoredPVC" where
  "pod_claim t z i = \<lparr>PvcName = pvc_name t (GetName z) i, PvcNamespace = MetaNamespace (Meta z)\<rparr>"

lemma deletes_log:
  assumes "\<And>p w. log (fst (DeletePVC r p w)) = log w @ [p]"
  shows "log (deletes r items w) = log w @ items"
  by (induction items arbitrary: w) (simp_all add: deletes_def assms)

lemma orphan_claims:
  assumes "\<forall>i \<in> set ords. i < 2 ^ 31"
  shows "filter (\<lambda>p. IsPVCOrphan (PvcName p) replicas) (map (pod_claim t z) ords) =
    map (pod_claim t z) (filter (\<lambda>i. sint replicas \<le> int i) ords)"
  using assms by (induction ords) (simp_all add: pod_claim_def IsPVCOrphan_ordinal)

text \<open>The count of claims is a sound test: with all live claims there, no more claims than replicas means no orphan.\<close>

lemma only_live_ordinals:
  assumes "distinct ords" and "\<forall>i. int i < n \<longrightarrow> i \<in> set ords" and "int (length ords) \<le> n"
  shows "filter (\<lambda>i. n \<le> int i) ords = []"
proof -
  have live: "{..<nat n} \<subseteq> set ords" using assms(2) by auto
  have "card (set ords) \<le> card {..<nat n}" using assms(3) distinct_card [OF assms(1)] by simp
  with live have "{..<nat n} = set ords" by (intro card_seteq [OF finite_set])
  then have "i < nat n" if "i \<in> set ords" for i using that by blast
  then have "int i < n" if "i \<in> set ords" for i using that zless_nat_eq_int_zless [of i n] by blast
  then show ?thesis by (force simp: filter_empty_conv)
qed

lemma cleanup_log:
  assumes delete: "\<And>p w. log (fst (DeletePVC r p w)) = log w @ [p]"
    and quiet: "\<And>w. log (fst (getPVCList r z w)) = log w"
  shows "log (fst (cleanupOrphanPVCs r z w)) = log w @
    (if ReadyReplicas (Status z) \<noteq> Replicas (Spec z) then []
     else case (snd (getPVCList r z w), snd (getPVCList r z (fst (getPVCList r z w)))) of
            (Inr items, Inr items') \<Rightarrow>
              if int (length items) \<le> sint (Replicas (Spec z)) then []
              else filter (\<lambda>p. IsPVCOrphan (PvcName p) (Replicas (Spec z))) items'
          | _ \<Rightarrow> [])"
proof -
  obtain w1 g1 where 1: "getPVCList r z w = (w1, g1)" by (metis prod.exhaust)
  obtain w2 g2 where 2: "getPVCList r z w1 = (w2, g2)" by (metis prod.exhaust)
  have "log w1 = log w" "log w2 = log w" using quiet [of w] quiet [of w1] 1 2 by simp_all
  then show ?thesis
    by (cases g1; cases g2) (simp_all add: cleanupOrphanPVCs_eq 1 2 deletes_log [of log r, OF delete])
qed

text \<open>C5. Orphan clean-up is exact, in terms of the ordinals of the pods. Let the claims listed for the
  cluster be those of the pods \<open>ords\<close> (and those of \<open>ords0\<close> in the first of the two listings, which is
  only counted). When the cluster has settled (ready replicas equal the wanted ones) and the first
  listing has more claims than replicas, the run requests the deletion of precisely the claims of the
  pods with an ordinal of at least the number of replicas, once each and in the order of the listing,
  and of nothing else. Counting is a sound shortcut: when both listings are the same, name no claim twice and contain
  the claim of every live pod, the orphans are all requested whatever their number.
  Before the cluster has settled, when the first listing has no more claims than replicas, and when
  either list request fails, nothing is deleted. Hypotheses: \<open>log\<close> is the record of deletion requests,
  which a list request does not change, and the claims carry the names the StatefulSet controller
  gives them, with ordinals below \<open>2^31\<close>.\<close>

theorem cleanupOrphanPVCs_exact:
  assumes delete: "\<And>p w. log (fst (DeletePVC r p w)) = log w @ [p]"
    and quiet: "\<And>w. log (fst (getPVCList r z w)) = log w"
    and list: "getPVCList r z w = (w1, Inr (map (pod_claim t z) ords0))"
    and again: "snd (getPVCList r z w1) = Inr (map (pod_claim t z) ords)"
    and range: "\<forall>i \<in> set ords. i < 2 ^ 31"
  shows "(ReadyReplicas (Status z) = Replicas (Spec z) \<and>
        (sint (Replicas (Spec z)) < int (length ords0) \<or>
         ords0 = ords \<and> distinct ords \<and> (\<forall>i. int i < sint (Replicas (Spec z)) \<longrightarrow> i \<in> set ords)) \<longrightarrow>
      log (fst (cleanupOrphanPVCs r z w)) =
        log w @ map (pod_claim t z) (filter (\<lambda>i. sint (Replicas (Spec z)) \<le> int i) ords)) \<and>
    (ReadyReplicas (Status z) \<noteq> Replicas (Spec z) \<or> int (length ords0) \<le> sint (Replicas (Spec z)) \<longrightarrow>
      log (fst (cleanupOrphanPVCs r z w)) = log w) \<and>
    (\<forall>v. isl (snd (getPVCList r z v)) \<or> isl (snd (getPVCList r z (fst (getPVCList r z v)))) \<longrightarrow>
      log (fst (cleanupOrphanPVCs r z v)) = log v)"
proof -
  note run = cleanup_log [of log, OF delete quiet]
  have w: "log (fst (cleanupOrphanPVCs r z w)) = log w @
      (if ReadyReplicas (Status z) \<noteq> Replicas (Spec z) \<or> int (length ords0) \<le> sint (Replicas (Spec z)) then []
       else map (pod_claim t z) (filter (\<lambda>i. sint (Replicas (Spec z)) \<le> int i) ords))"
    using again by (simp add: run list orphan_claims [OF range])
  have "filter (\<lambda>i. sint (Replicas (Spec z)) \<le> int i) ords = []"
    if "ords0 = ords" "distinct ords" "\<forall>i. int i < sint (Replicas (Spec z)) \<longrightarrow> i \<in> set ords"
      "int (length ords0) \<le> sint (Replicas (Spec z))"
    using only_live_ordinals [of ords "sint (Replicas (Spec z))"] that by simp
  moreover have "log (fst (cleanupOrphanPVCs r z v)) = log v"
    if "isl (snd (getPVCList r z v)) \<or> isl (snd (getPVCList r z (fst (getPVCList r z v))))" for v
    using that by (auto simp: run split: sum.splits)
  ultimately show ?thesis using w by auto
qed

text \<open>C6. The claims of the running pods are safe: whatever the API server lists, orphan clean-up never
  requests the deletion of the claim of a pod with an ordinal below the wanted number of replicas.
  (Stated over the world's own log: any projection of the world that only a \<open>DeletePVC\<close> of that claim
  can change is unchanged.)\<close>

theorem orphan_cleanup_spares_live_claims:
  assumes "i < 2 ^ 31" and "int i < sint (Replicas (Spec z))"
    and "\<And>p w. PvcName p \<noteq> pvc_name t name i \<Longrightarrow> obs (fst (DeletePVC r p w)) = obs w"
    and "\<And>w. obs (fst (getPVCList r z w)) = obs w"
  shows "obs (fst (cleanupOrphanPVCs r z w)) = obs w"
proof -
  have keep: "obs (deletes r items w) = obs w"
    if "\<forall>p \<in> set items. PvcName p \<noteq> pvc_name t name i" for items w
    using that by (induction items arbitrary: w) (simp_all add: deletes_def assms(3))
  have live: "\<not> IsPVCOrphan (pvc_name t name i) (Replicas (Spec z))"
    using IsPVCOrphan_ordinal [OF assms(1), of t name "Replicas (Spec z)"] assms(2) by simp
  have filtered: "obs (deletes r (filter (\<lambda>p. IsPVCOrphan (PvcName p) (Replicas (Spec z))) items) w) = obs w" for items w
    using live by (intro keep) auto
  have list: "getPVCList r z w1 = (w2, x) \<Longrightarrow> obs w2 = obs w1" for w1 w2 x
    using assms(4) [of w1] by simp
  show ?thesis
    unfolding cleanupOrphanPVCs_eq
    by (auto simp: filtered dest!: list split: prod.splits sum.splits)
qed


text \<open>A settled cluster of three replicas that has been scaled down from five.\<close>

definition settled_cluster :: ZookeeperCluster where
  "settled_cluster = sample_cluster\<lparr>Status := empty_status\<lparr>ReadyReplicas := 3, StatusReplicas := 3\<rparr>\<rparr>"

definition claims_of_zk :: "nat list \<Rightarrow> StoredPVC list" where
  "claims_of_zk = map (\<lambda>i. \<lparr>PvcName = pvc_name ''data'' ''zk'' i, PvcNamespace = ''default''\<rparr>)"

definition shrunk_world :: world where
  "shrunk_world = sample_world\<lparr>w_cluster := settled_cluster, w_pvcs := claims_of_zk [0, 1, 2, 3, 4]\<rparr>"

lemma sample_replicas [simp]: "Replicas (Spec sample_cluster) = 3"
  by code_simp

lemma settled_sel [simp]:
  "Replicas (Spec settled_cluster) = 3" "ReadyReplicas (Status settled_cluster) = 3"
  "MetaNamespace (Meta settled_cluster) = ''default''" "GetName settled_cluster = ''zk''"
  using sample_key(1) by (simp_all add: settled_cluster_def GetNamespace_def GetName_def) (simp flip: GetName_def)

text \<open>
  A server whose claims are protected: a deletion request is recorded, in \<open>w_pvcs\<close>, but the five claims
  stay listed.
\<close>

definition protected_env :: "world Env" where
  "protected_env = mem_env\<lparr>ListPVCs := \<lambda>ns sel w. (w, Inr (map (pod_claim ''data'' settled_cluster) [0, 1, 2, 3, 4])),
     DeletePVC := \<lambda>p w. (w\<lparr>w_pvcs := w_pvcs w @ [p]\<rparr>, None)\<rparr>"

theorem cleanupOrphanPVCs_exact_witness:
  "w_pvcs (fst (cleanupOrphanPVCs protected_env settled_cluster sample_world)) = claims_of_zk [3, 4]"
proof -
  let ?ords = "[0, 1, 2, 3, 4]"
  have "getPVCList protected_env settled_cluster w = (w, Inr (map (pod_claim ''data'' settled_cluster) ?ords))" for w
    by (simp add: getPVCList_def protected_env_def)
  then have "w_pvcs (fst (cleanupOrphanPVCs protected_env settled_cluster sample_world)) =
      w_pvcs sample_world @ map (pod_claim ''data'' settled_cluster) (filter (\<lambda>i. 3 \<le> int i) ?ords)"
    using cleanupOrphanPVCs_exact [where log = w_pvcs and r = protected_env and z = settled_cluster and t = "''data''"
        and w = sample_world and ?ords0.0 = ?ords and ords = ?ords]
    by (simp add: protected_env_def)
  then show ?thesis by (simp add: claims_of_zk_def pod_claim_def sample_world_def)
qed

theorem orphan_cleanup_spares_live_claims_witness:
  "filter (\<lambda>q. PvcName q = ''data-zk-2'') (w_pvcs (fst (cleanupOrphanPVCs mem_env settled_cluster shrunk_world))) =
     claims_of_zk [2]"
proof -
  have n: "pvc_name ''data'' ''zk'' 2 = ''data-zk-2''" by code_simp
  let ?obs = "\<lambda>w. filter (\<lambda>q. PvcName q = ''data-zk-2'') (w_pvcs w)"
  have "?obs (fst (cleanupOrphanPVCs mem_env settled_cluster shrunk_world)) = ?obs shrunk_world"
    by (rule orphan_cleanup_spares_live_claims [where i = 2 and t = "''data''" and name = "''zk''"])
       (auto simp: n getPVCList_def intro: filter_cong)
  moreover have "?obs shrunk_world = claims_of_zk [2]" by code_simp
  ultimately show ?thesis by simp
qed

section \<open>The life cycle of the finalizer\<close>

definition keeps_volumes :: "ZookeeperCluster \<Rightarrow> bool" where
  "keeps_volumes z \<longleftrightarrow> (case SpecPersistence (Spec z) of None \<Rightarrow> False
     | Some p \<Rightarrow> VolumeReclaimPolicy p \<noteq> VolumeReclaimPolicyDelete)"

definition deleted_cluster :: "string \<Rightarrow> ZookeeperCluster" where
  "deleted_cluster policy = settled_cluster
     \<lparr>Meta := (Meta settled_cluster)\<lparr>Finalizers := [''other'', ZkFinalizer], DeletionTimestamp := Some 1700000000000000000\<rparr>,
      Spec := (Spec settled_cluster)\<lparr>SpecPersistence := Some
        \<lparr>VolumeReclaimPolicy = policy, ClaimSpec = \<lparr>AccessModes = [], ClaimResources =
          \<lparr>Limits = None, Requests = None, ResourcesRest = []\<rparr>, ClaimRest = []\<rparr>, PersistenceAnnotations = None\<rparr>\<rparr>\<rparr>"

text \<open>A cluster whose volumes are to be retained never loses one to the operator: with a reclaim policy
  other than \<open>Delete\<close> the finalizer handler does nothing at all. That includes a cluster being deleted
  that still carries the finalizer (set while its policy was \<open>Delete\<close>): the finalizer then stays, so the
  object cannot go away.\<close>

theorem retained_volumes_untouched:
  assumes "keeps_volumes z"
  shows "reconcileFinalizers r (w, z) = ((w, z), None)"
  using assms by (simp add: reconcileFinalizers_def keeps_volumes_def)

theorem retained_volumes_untouched_witness:
  "ZkFinalizer \<in> set (Finalizers (Meta (deleted_cluster ''Retain''))) \<and>
   \<not> Time_IsZero (DeletionTimestamp (Meta (deleted_cluster ''Retain''))) \<and>
   reconcileFinalizers mem_env (shrunk_world, deleted_cluster ''Retain'') = ((shrunk_world, deleted_cluster ''Retain''), None)"
proof -
  have "keeps_volumes (deleted_cluster ''Retain'')"
    by (simp add: keeps_volumes_def deleted_cluster_def VolumeReclaimPolicyDelete_def)
  from retained_volumes_untouched [OF this, of mem_env shrunk_world] show ?thesis
    by (simp add: deleted_cluster_def Time_IsZero_def zero_time_def second_def)
qed

text \<open>C26. Deletion of a cluster whose volumes are to be deleted: the handler requests the deletion of every
  claim listed for the cluster and then removes the operator's finalizer, and only that one, in the
  update that lets the object go. Whether the deletions succeeded plays no part: \<open>deletes\<close> drops their
  results, so a claim that could not be deleted is never retried.\<close>

theorem deletion_releases_cluster:
  assumes "\<not> keeps_volumes z" and "\<not> Time_IsZero (DeletionTimestamp (Meta z))"
    and "ZkFinalizer \<in> set (Finalizers (Meta z))" and "getPVCList r z w = (w1, Inr items)"
  shows "reconcileFinalizers r (w, z) =
    (let z1 = set_finalizers (filter (\<lambda>f. f \<noteq> ZkFinalizer) (Finalizers (Meta z))) z
     in case UpdateCluster r z1 (deletes r items w1) of
          (w2, Inl err) \<Rightarrow> ((w2, z1), Some err)
        | (w2, Inr z2) \<Rightarrow> ((w2, z2), None))"
  using assms
  by (auto simp: reconcileFinalizers_def keeps_volumes_def cleanUpAllPVCs_def delete_all_eq RemoveString_filter Let_def
      split: option.splits prod.splits sum.splits)

text \<open>The flag \<open>disableFinalizer\<close> does not enter into this: a cluster that carries the finalizer from before
  loses its claims all the same.\<close>

lemma disabled_finalizer_still_deletes:
  assumes "\<not> keeps_volumes z" and "\<not> Time_IsZero (DeletionTimestamp (Meta z))" and "ZkFinalizer \<in> set (Finalizers (Meta z))"
  shows "reconcileFinalizers (r\<lparr>DisableFinalizer := True\<rparr>) (w, z) = reconcileFinalizers (r\<lparr>DisableFinalizer := False\<rparr>) (w, z)"
  using assms by (simp add: reconcileFinalizers_def keeps_volumes_def cleanUpAllPVCs_def getPVCList_def delete_all_eq deletes_def
      split: prod.split sum.split)

theorem deletion_releases_cluster_witness:
  "w_pvcs (fst (fst (reconcileFinalizers mem_env (shrunk_world, deleted_cluster ''Delete'')))) = [] \<and>
   Finalizers (Meta (w_cluster (fst (fst (reconcileFinalizers mem_env (shrunk_world, deleted_cluster ''Delete'')))))) = [''other'']"
proof -
  let ?z = "deleted_cluster ''Delete''"
  have k: "\<not> keeps_volumes ?z" "\<not> Time_IsZero (DeletionTimestamp (Meta ?z))" "ZkFinalizer \<in> set (Finalizers (Meta ?z))"
    by (simp_all add: keeps_volumes_def deleted_cluster_def VolumeReclaimPolicyDelete_def Time_IsZero_def zero_time_def second_def)
  have items: "getPVCList mem_env ?z shrunk_world = (shrunk_world, Inr (claims_of_zk [0, 1, 2, 3, 4]))"
    by (simp add: getPVCList_def deleted_cluster_def shrunk_world_def claims_of_zk_def)
  have "deletes mem_env (claims_of_zk [0, 1, 2, 3, 4]) shrunk_world = shrunk_world\<lparr>w_pvcs := []\<rparr>"
    by code_simp
  with deletion_releases_cluster [OF k items] show ?thesis
    by (simp add: deleted_cluster_def set_finalizers_def ZkFinalizer_def Let_def)
qed

end
