(* ===== verification/ClusterReconcile.thy ===== *)
theory ClusterReconcile
  imports UpgradeMachine Finalization
begin

text \<open>
  \<open>reconcileClusterStatus\<close> and the main loop \<open>Reconcile\<close> of
  \<open>controllers/zookeepercluster_controller.go\<close>.
\<close>

section \<open>The cluster status\<close>

fun all_ready :: "bool list \<Rightarrow> bool \<Rightarrow> bool" where
  "all_ready [] ready = ready"
| "all_ready (c # cs) ready = all_ready cs (if \<not> c then False else ready)"

fun member_lists :: "Pod list \<Rightarrow> string list \<times> string list \<Rightarrow> string list \<times> string list" where
  "member_lists [] m = m"
| "member_lists (p # ps) (readyMembers, unreadyMembers) =
     member_lists ps
       (if all_ready (PodContainersReady p) True then (readyMembers @ [PodName p], unreadyMembers)
        else (readyMembers, unreadyMembers @ [PodName p]))"

definition set_status :: "(ZookeeperClusterStatus \<Rightarrow> ZookeeperClusterStatus) \<Rightarrow> ZookeeperCluster \<Rightarrow> ZookeeperCluster" where
  "set_status f z = z\<lparr>Status := f (Status z)\<rparr>"

text \<open>
  The creation of the metadata root; the flag says that \<open>defer r.ZkClient.Close()\<close> was reached.
\<close>

definition create_meta_root :: "'w Env \<Rightarrow> 'w state \<Rightarrow> 'w outcome \<times> bool" where
  "create_meta_root r s = (case s of (w, instance) \<Rightarrow>
     if Replicas (Spec instance) = ReadyReplicas (Status instance) \<and> \<not> MetaRootCreated (Status instance)
     then (case ZkConnect r (GetZkServiceUri instance) w of
             (w1, Some err) \<Rightarrow>
               (done_with w1 instance (Some (GoErr (''Error creating cluster metaroot. Connect to zk failed '' @ err_text err))), False)
           | (w1, None) \<Rightarrow>
               (let metaPath = GetMetaPath instance
                in case ZkCreateNode r instance metaPath w1 of
                     (w2, Some err) \<Rightarrow>
                       (done_with w2 instance (Some (GoErr (''Error creating cluster metadata path '' @ metaPath @ '', '' @ err_text err))), True)
                   | (w2, None) \<Rightarrow>
                       (done_with w2 (set_status (\<lambda>st. st\<lparr>MetaRootCreated := True\<rparr>) instance) None, True)))
     else (done_with w instance None, False))"

definition finish_status :: "instant \<Rightarrow> ZookeeperCluster \<Rightarrow> ZookeeperCluster" where
  "finish_status now instance =
     (let z1 = (if ReadyReplicas (Status instance) = Replicas (Spec instance)
                then set_status (SetPodsReadyConditionTrue now) instance
                else set_status (SetPodsReadyConditionFalse now) instance)
      in if CurrentVersion (Status z1) = [] \<and> IsClusterInReadyState (Status z1)
         then set_status (\<lambda>st. st\<lparr>CurrentVersion := Tag (Image (Spec z1))\<rparr>) z1 else z1)"

definition reconcileClusterStatus :: "'w Env \<Rightarrow> 'w state \<Rightarrow> 'w outcome" where
  "reconcileClusterStatus r s = (case s of (w, instance) \<Rightarrow>
     if IsClusterInUpgradingState (Status instance) \<or> IsClusterInUpgradeFailedState (Status instance)
     then done_with w instance None
     else
       let instance = set_status (Status_Init (Now r w)) instance
       in case ListPods r (MetaNamespace (Meta instance)) [(''app'', GetName instance)] w of
            (w1, Inl err) \<Rightarrow> done_with w1 instance (Some err)
          | (w1, Inr foundPods) \<Rightarrow>
              let (readyMembers, unreadyMembers) = member_lists foundPods ([], []);
                  instance = set_status (\<lambda>st. st\<lparr>Members :=
                    \<lparr>ReadyMembers = readyMembers, UnreadyMembers = unreadyMembers\<rparr>\<rparr>) instance
              in case create_meta_root r (w1, instance) of
                   (((w2, instance), Some err), connected) \<Rightarrow>
                     deferred_close r connected (done_with w2 instance (Some err))
                 | (((w2, instance), None), connected) \<Rightarrow>
                     deferred_close r connected (status_update r (w2, finish_status (Now r w2) instance)))"

section \<open>Reconcile\<close>

datatype result = Done | Requeue | RequeueAfter int

definition ReconcileTime :: int where "ReconcileTime = 30 * second"

definition getRollingRestartAnnotation :: "instant \<Rightarrow> string \<times> string" where
  "getRollingRestartAnnotation now = (''restartTime'', FormatRFC850 now)"

definition trigger_restart :: "instant \<Rightarrow> ZookeeperCluster \<Rightarrow> ZookeeperCluster" where
  "trigger_restart now z =
     (let (annotationkey, annotationvalue) = getRollingRestartAnnotation now;
          pod = Pod (Spec z);
          m = (case PodAnnotations pod of None \<Rightarrow> [] | Some l \<Rightarrow> l)
      in SetTriggerRollingRestart False
           (z\<lparr>Spec := (Spec z)\<lparr>Pod := pod\<lparr>PodAnnotations := Some (gm_put annotationkey annotationvalue m)\<rparr>\<rparr>\<rparr>))"

definition reconcile_funs :: "'w Env \<Rightarrow> ('w state \<Rightarrow> 'w outcome) list" where
  "reconcile_funs r = [reconcileFinalizers r, reconcileConfigMap r, reconcileStatefulSet r, reconcileClientService r,
     reconcileHeadlessService r, reconcileAdminServerService r, reconcilePodDisruptionBudget r, reconcileClusterStatus r]"

fun run_funs :: "('w state \<Rightarrow> 'w outcome) list \<Rightarrow> 'w state \<Rightarrow> 'w outcome" where
  "run_funs [] s = (s, None)"
| "run_funs (f # fs) s = (case f s of (s1, Some err) \<Rightarrow> (s1, Some err) | (s1, None) \<Rightarrow> run_funs fs s1)"

definition Reconcile :: "'w Env \<Rightarrow> string \<Rightarrow> string \<Rightarrow> 'w \<Rightarrow> 'w \<times> result \<times> go_error option" where
  "Reconcile r namespace name w =
     (case GetCluster r namespace name w of
        (w1, Inl err) \<Rightarrow> if IsNotFound err then (w1, Done, None) else (w1, Done, Some err)
      | (w1, Inr instance0) \<Rightarrow>
          (let (instance1, changed1) = WithDefaults instance0;
               (instance2, changed) =
                 (if GetTriggerRollingRestart instance1 then (trigger_restart (Now r w1) instance1, True)
                  else (instance1, changed1))
           in if changed
              then (case UpdateCluster r instance2 w1 of
                      (w2, Inl err) \<Rightarrow> (w2, Done, Some err)
                    | (w2, Inr _) \<Rightarrow> (w2, Requeue, None))
              else (case run_funs (reconcile_funs r) (w1, instance2) of
                      ((w2, _), Some err) \<Rightarrow> (w2, Done, Some err)
                    | ((w2, _), None) \<Rightarrow> (w2, RequeueAfter ReconcileTime, None))))"


section \<open>Members\<close>

lemma all_ready_iff: "all_ready cs b \<longleftrightarrow> b \<and> list_all id cs"
  by (induction cs b rule: all_ready.induct) auto

lemma member_lists_eq:
  "member_lists ps (r, u) = (r @ map PodName (filter (\<lambda>p. list_all id (PodContainersReady p)) ps),
     u @ map PodName (filter (\<lambda>p. \<not> list_all id (PodContainersReady p)) ps))"
  by (induction ps arbitrary: r u) (simp_all add: all_ready_iff)

text \<open>The member lists of the status split the listed pods in their order: a pod is a ready member
  exactly when all its reported containers are ready, so every pod is in exactly one list. (A pod that
  has not reported any container yet, one that is still pending for example, counts as ready.)\<close>

lemma members_partition_pods:
  "member_lists ps ([], []) =
     (map PodName (filter (\<lambda>p. list_all id (PodContainersReady p)) ps),
      map PodName (filter (\<lambda>p. list_ex Not (PodContainersReady p)) ps)) \<and>
   member_lists [\<lparr>PodName = n, PodContainersReady = []\<rparr>] ([], []) = ([n], [])"
  by (simp add: member_lists_eq list_all_iff list_ex_iff)

section \<open>The observed status\<close>

definition replicas_ready :: "ZookeeperCluster \<Rightarrow> bool" where
  "replicas_ready z \<longleftrightarrow> ReadyReplicas (Status z) = Replicas (Spec z)"

lemma cond_update [simp]: "cond (st\<lparr>Conditions := cs\<rparr>) t = List.find (\<lambda>c. t = CondType c) cs"
  by (simp add: cond_def)

lemma finish_status_fields:
  "Spec (finish_status now z) = Spec z" "Meta (finish_status now z) = Meta z"
  "Members (Status (finish_status now z)) = Members (Status z)"
  "MetaRootCreated (Status (finish_status now z)) = MetaRootCreated (Status z)"
  by (simp_all add: finish_status_def Let_def set_status_def condition_setters)

lemma finish_status_ready: "IsClusterInReadyState (Status (finish_status now z)) \<longleftrightarrow> replicas_ready z"
  by (auto simp: finish_status_def Let_def set_status_def replicas_ready_def status_predicates setter_cond)

lemma finish_status_view:
  "upgrade_view (Status (finish_status now z)) = (upgrade_view (Status z))
     \<lparr>up_ready := replicas_ready z,
      up_current := (if CurrentVersion (Status z) = [] \<and> replicas_ready z then Tag (Image (Spec z)) else CurrentVersion (Status z))\<rparr>"
  by (simp add: finish_status_def Let_def set_status_def replicas_ready_def view_rules)

lemma Status_Init_view: "upgrade_view (Status_Init now st) = upgrade_view st"
  by (auto simp: upgrade_view_def status_predicates Status_Init_cond split: option.splits)

lemma view_fields [simp]:
  "upgrade_view (st\<lparr>Members := m\<rparr>) = upgrade_view st" "upgrade_view (st\<lparr>MetaRootCreated := b\<rparr>) = upgrade_view st"
  by (simp_all add: upgrade_view_def status_predicates)

text \<open>The status a run without error ends with, before it is sent to the API server.\<close>

lemma reconcileClusterStatus_sends:
  assumes echo: "status_echo r" and run: "reconcileClusterStatus r (w, z) = ((w', z'), None)"
    and calm: "\<not> IsClusterInUpgradingState (Status z)" "\<not> IsClusterInUpgradeFailedState (Status z)"
  obtains w1 pods z1 now where "ListPods r (MetaNamespace (Meta z)) [(''app'', GetName z)] w = (w1, Inr pods)"
    and "Status z' = Status (finish_status now z1)" and "Spec z1 = Spec z"
    and "ReadyReplicas (Status z1) = ReadyReplicas (Status z)" and "CurrentVersion (Status z1) = CurrentVersion (Status z)"
    and "Members (Status z1) = (case member_lists pods ([], []) of (a, b) \<Rightarrow> \<lparr>ReadyMembers = a, UnreadyMembers = b\<rparr>)"
    and "MetaRootCreated (Status z1) \<longleftrightarrow> MetaRootCreated (Status z) \<or> replicas_ready z"
    and "upgrade_view (Status z1) = upgrade_view (Status z)"
proof -
  let ?z0 = "set_status (Status_Init (Now r w)) z"
  obtain w1 l where l: "ListPods r (MetaNamespace (Meta z)) [(''app'', GetName z)] w = (w1, l)" by (metis prod.exhaust)
  have l0: "ListPods r (MetaNamespace (Meta ?z0)) [(''app'', GetName ?z0)] w = (w1, l)"
    using l by (simp add: set_status_def GetName_def)
  obtain pods where pods: "l = Inr pods"
    using run calm l0 by (auto simp: reconcileClusterStatus_def Let_def split: sum.splits)
  obtain a b where ab: "member_lists pods ([], []) = (a, b)" by (metis prod.exhaust)
  let ?z1 = "set_status (\<lambda>st. st\<lparr>Members := \<lparr>ReadyMembers = a, UnreadyMembers = b\<rparr>\<rparr>) ?z0"
  obtain w2 z2 e c where root: "create_meta_root r (w1, ?z1) = (((w2, z2), e), c)" by (metis prod.exhaust)
  have e: "e = None"
    using run calm l0 pods ab root
    by (cases e) (simp_all add: reconcileClusterStatus_def Let_def deferred_close_def)
  have z2: "z2 = ?z1 \<or> z2 = set_status (\<lambda>st. st\<lparr>MetaRootCreated := True\<rparr>) ?z1"
    and made: "MetaRootCreated (Status z2) \<longleftrightarrow> MetaRootCreated (Status z) \<or> replicas_ready z"
    using root e unfolding create_meta_root_def
    by (auto simp: Let_def set_status_def replicas_ready_def split: if_splits prod.splits option.splits)
  have upd: "deferred_close r c (status_update r (w2, finish_status (Now r w2) z2)) = ((w', z'), None)"
    using run calm l0 pods ab root e by (simp add: reconcileClusterStatus_def Let_def)
  have "Status z' = Status (snd (fst (status_update r (w2, finish_status (Now r w2) z2))))"
    using upd by (auto simp: deferred_close_def split: prod.splits)
  then have "Status z' = Status (finish_status (Now r w2) z2)" by (simp add: status_update_status [OF echo])
  then show thesis
    using l pods ab z2 made by (intro that [of w1 pods "Now r w2" z2]) (auto simp: set_status_def Status_Init_view)
qed

text \<open>C15. What a run of \<open>reconcileClusterStatus\<close> without error reports, when no upgrade is running or failed:
  \<open>PodsReady\<close> is true exactly when the ready replicas are the wanted ones, in that case the metadata
  root has been created and the first version recorded, and the members are those of the listed pods.\<close>

theorem cluster_status_reports:
  assumes "status_echo r" and "reconcileClusterStatus r (w, z) = ((w', z'), None)"
    and "\<not> IsClusterInUpgradingState (Status z)" "\<not> IsClusterInUpgradeFailedState (Status z)"
  shows "(IsClusterInReadyState (Status z') \<longleftrightarrow> replicas_ready z) \<and>
    (MetaRootCreated (Status z') \<longleftrightarrow> MetaRootCreated (Status z) \<or> replicas_ready z) \<and>
    CurrentVersion (Status z') = (if CurrentVersion (Status z) = [] \<and> replicas_ready z then Tag (Image (Spec z))
      else CurrentVersion (Status z)) \<and>
    (\<exists>w1 pods. ListPods r (MetaNamespace (Meta z)) [(''app'', GetName z)] w = (w1, Inr pods) \<and>
      (ReadyMembers (Members (Status z')), UnreadyMembers (Members (Status z'))) = member_lists pods ([], []))"
proof -
  from assms obtain w1 pods z1 now where f:
    "ListPods r (MetaNamespace (Meta z)) [(''app'', GetName z)] w = (w1, Inr pods)"
    "Status z' = Status (finish_status now z1)" "Spec z1 = Spec z"
    "ReadyReplicas (Status z1) = ReadyReplicas (Status z)" "CurrentVersion (Status z1) = CurrentVersion (Status z)"
    "Members (Status z1) = (case member_lists pods ([], []) of (a, b) \<Rightarrow> \<lparr>ReadyMembers = a, UnreadyMembers = b\<rparr>)"
    "MetaRootCreated (Status z1) \<longleftrightarrow> MetaRootCreated (Status z) \<or> replicas_ready z"
    "upgrade_view (Status z1) = upgrade_view (Status z)"
    by (rule reconcileClusterStatus_sends)
  have r1: "replicas_ready z1 = replicas_ready z" using f by (simp add: replicas_ready_def)
  have "CurrentVersion (Status z') = (if CurrentVersion (Status z) = [] \<and> replicas_ready z then Tag (Image (Spec z))
      else CurrentVersion (Status z))"
    using arg_cong [OF finish_status_view [of now z1], of up_current] f r1 by simp
  then show ?thesis
    using f r1 by (auto simp: finish_status_ready finish_status_fields split: prod.splits)
qed

definition healthy_cluster :: ZookeeperCluster where
  "healthy_cluster = sample_cluster\<lparr>Status := Status_Init 0 (empty_status\<lparr>ReadyReplicas := 3, StatusReplicas := 3\<rparr>)\<rparr>"

definition healthy_world :: world where
  "healthy_world = sample_world\<lparr>w_cluster := healthy_cluster, w_pods :=
     [\<lparr>PodName = ''zk-0'', PodContainersReady = [True]\<rparr>, \<lparr>PodName = ''zk-1'', PodContainersReady = [True, False]\<rparr>,
      \<lparr>PodName = ''zk-2'', PodContainersReady = [True]\<rparr>]\<rparr>"

lemma healthy_facts:
  "\<not> IsClusterInUpgradingState (Status healthy_cluster)" "\<not> IsClusterInUpgradeFailedState (Status healthy_cluster)"
  "replicas_ready healthy_cluster" "Tag (Image (Spec healthy_cluster)) \<noteq> []"
  "cond (Status healthy_cluster) ClusterConditionUpgrading =
     Some (newClusterCondition ClusterConditionUpgrading ConditionFalse [] [])"
  "snd (reconcileClusterStatus mem_env (healthy_world, healthy_cluster)) = None"
  "snd (ListPods mem_env (MetaNamespace (Meta healthy_cluster)) [(''app'', GetName healthy_cluster)] healthy_world) =
     Inr (w_pods healthy_world)"
  by code_simp+

theorem cluster_status_reports_witness:
  "let z' = snd (fst (reconcileClusterStatus mem_env (healthy_world, healthy_cluster)))
   in IsClusterInReadyState (Status z') \<and> MetaRootCreated (Status z')"
proof -
  obtain w' z' where run: "reconcileClusterStatus mem_env (healthy_world, healthy_cluster) = ((w', z'), None)"
    using healthy_facts(6) by (metis prod.collapse)
  show ?thesis
    using cluster_status_reports [OF idle_echo run healthy_facts(1,2)] healthy_facts(3) run by simp
qed

definition safe_status :: "ZookeeperClusterStatus \<Rightarrow> bool" where
  "safe_status st \<longleftrightarrow> upgrade_reachable (upgrade_view st) \<and> (TargetVersion st = [] \<longleftrightarrow> \<not> IsClusterInUpgradingState st)"

lemma safe_statusI: "upgrade_reachable (upgrade_view st) \<Longrightarrow> safe_status st"
  using upgrade_reachable_inv [of "upgrade_view st"]
  by (auto simp: safe_status_def upgrade_inv_def status_predicates split: option.splits if_splits)

lemma cluster_status_reachable:
  assumes echo: "status_echo r" and reach: "upgrade_reachable (upgrade_view (Status z))"
    and ok: "\<not> IsClusterInUpgradeFailedState (Status z)" and tag: "Tag (Image (Spec z)) \<noteq> []"
    and e: "snd (reconcileClusterStatus r (w, z)) = None"
  shows "upgrade_reachable (upgrade_view (Status (snd (fst (reconcileClusterStatus r (w, z))))))"
proof (cases "IsClusterInUpgradingState (Status z)")
  case True
  then show ?thesis using reach by (simp add: reconcileClusterStatus_def)
next
  case False
  obtain w' z' where run: "reconcileClusterStatus r (w, z) = ((w', z'), None)" using e by (metis prod.collapse)
  with False echo ok obtain w1 pods z1 now where f:
    "ListPods r (MetaNamespace (Meta z)) [(''app'', GetName z)] w = (w1, Inr pods)"
    "Status z' = Status (finish_status now z1)" "Spec z1 = Spec z"
    "ReadyReplicas (Status z1) = ReadyReplicas (Status z)" "CurrentVersion (Status z1) = CurrentVersion (Status z)"
    "Members (Status z1) = (case member_lists pods ([], []) of (a, b) \<Rightarrow> \<lparr>ReadyMembers = a, UnreadyMembers = b\<rparr>)"
    "MetaRootCreated (Status z1) \<longleftrightarrow> MetaRootCreated (Status z) \<or> replicas_ready z"
    "upgrade_view (Status z1) = upgrade_view (Status z)"
    by (elim reconcileClusterStatus_sends) blast+
  have "stage_of (upgrade_view (Status z)) = Settled"
    using False ok by (auto simp: stage_of_def status_predicates split: option.splits)
  from upgrade_reachable.observe [OF reach this tag, of "replicas_ready z1"] f run
  show ?thesis by (simp add: finish_status_view cong: if_cong split del: if_split)
qed

lemma upgrade_pass_reachable:
  assumes echo: "status_echo r" and reach: "upgrade_reachable (upgrade_view (Status z))"
    and ok: "\<not> IsClusterInUpgradeFailedState (Status z)" and tag: "Tag (Image (Spec z)) \<noteq> []"
    and tf: "\<And>c. cond (Status z) ClusterConditionUpgrading = Some c \<Longrightarrow> CondStatus c = ConditionTrue \<or> CondStatus c = ConditionFalse"
  shows "upgrade_reachable (upgrade_view (Status (snd (fst (upgradeStatefulSet r sts (w, z))))))"
proof (cases "cond (Status z) ClusterConditionUpgrading")
  case None
  then have "Status (snd (fst (upgradeStatefulSet r sts (w, z)))) = SetUpgradingConditionFalse (Now r w) (Status z)"
    by (simp add: upgradeStatefulSet_def Let_def)
  with None reach show ?thesis by (simp add: view_rules)
next
  case (Some c)
  note move = upgrade_simulation [OF echo Some tf [OF Some], of w sts]
  have "\<not> up_failed (upgrade_view (Status z))" using ok by simp
  from upgrade_reachable.step [OF reach this tag move] show ?thesis .
qed

text \<open>C2. The whole life of the status stays inside the abstract upgrade machine: from a status whose view is
  reachable, an error-free \<open>reconcileClusterStatus\<close> and any \<open>upgradeStatefulSet\<close> on a cluster that has not
  failed lead to a status whose view is reachable again. Hence in every status these handlers produce the
  target version is empty exactly when no upgrade is rolling, and the branch \<open>upgrading to an unknown
  version\<close> is never taken by the operator's own doing.\<close>

theorem status_stays_reachable:
  assumes echo: "status_echo r" and reach: "upgrade_reachable (upgrade_view (Status z))"
    and ok: "\<not> IsClusterInUpgradeFailedState (Status z)" and tag: "Tag (Image (Spec z)) \<noteq> []"
  shows "(snd (reconcileClusterStatus r (w, z)) = None \<longrightarrow>
      safe_status (Status (snd (fst (reconcileClusterStatus r (w, z)))))) \<and>
    ((\<forall>c. cond (Status z) ClusterConditionUpgrading = Some c \<longrightarrow> CondStatus c = ConditionTrue \<or> CondStatus c = ConditionFalse) \<longrightarrow>
      safe_status (Status (snd (fst (upgradeStatefulSet r sts (w, z))))))"
  using cluster_status_reachable [OF assms] upgrade_pass_reachable [OF assms] by (simp add: safe_statusI)

theorem status_stays_reachable_witness:
  "safe_status (Status (snd (fst (reconcileClusterStatus mem_env (healthy_world, healthy_cluster)))))"
proof -
  have "upgrade_view (Status healthy_cluster) = initial_upgrade"
    by (simp add: healthy_cluster_def Status_Init_view) (simp add: view_rules initial_upgrade_def empty_status_def cond_def)
  then have "upgrade_reachable (upgrade_view (Status healthy_cluster))"
    by (simp add: upgrade_reachable.fresh)
  from status_stays_reachable [OF idle_echo this healthy_facts(2)] healthy_facts(4,6) show ?thesis
    by simp
qed

end
