(* ===== verification/ReconcileLoop.thy ===== *)
theory ReconcileLoop
  imports ClusterReconcile
begin

text \<open>
  Properties of the main loop \<open>Reconcile\<close>: defaulting before anything else, the rolling restart on
  request, the order of the handlers and what their errors do.
\<close>

lemma quiet_instance:
  assumes "timeouts_default (Conf (Spec z))" and "Spec z' = Spec (fst (WithDefaults z))" and "MetaName (Meta z') = MetaName (Meta z)"
  shows "WithDefaults z' = (z', False)"
  using Spec_result(1) [OF assms(1)] assms(2,3) spec.settled [OF assms(1), of "MetaName (Meta z)"]
  by (simp add: WithDefaults_eq)

lemma Reconcile_quiet:
  assumes "GetCluster r ns n w = (w1, Inr z)" and "WithDefaults z = (z', False)" and "\<not> TriggerRollingRestart (Spec z')"
  shows "Reconcile r ns n w = (case run_funs (reconcile_funs r) (w1, z') of
     ((w2, _), Some err) \<Rightarrow> (w2, Done, Some err) | ((w2, _), None) \<Rightarrow> (w2, RequeueAfter ReconcileTime, None))"
  using assms by (simp add: Reconcile_def GetTriggerRollingRestart_def split: prod.splits option.splits)

text \<open>C23. Defaults first, then the work, and only one detour: a cluster with anything missing is completed,
  written back in one update and requeued without a handler having run; if the API server then returns
  what was written, the next call finds nothing to do and runs the handlers.\<close>

theorem Reconcile_defaults_once:
  assumes "timeouts_default (Conf (Spec z))" and "\<not> Spec_complete (Spec z)" and "\<not> TriggerRollingRestart (Spec z)"
    and get: "GetCluster r ns n w = (w1, Inr z)" and upd: "UpdateCluster r (fst (WithDefaults z)) w1 = (w2, Inr z2)"
    and again: "GetCluster r ns n w2 = (w3, Inr z3)" "Spec z3 = Spec (fst (WithDefaults z))" "MetaName (Meta z3) = MetaName (Meta z)"
  shows "Reconcile r ns n w = (w2, Requeue, None) \<and>
    Reconcile r ns n w2 = (case run_funs (reconcile_funs r) (w3, z3) of
      ((w4, _), Some err) \<Rightarrow> (w4, Done, Some err) | ((w4, _), None) \<Rightarrow> (w4, RequeueAfter ReconcileTime, None))"
proof -
  have t: "TriggerRollingRestart (Spec (fst (WithDefaults z))) = TriggerRollingRestart (Spec z)"
    by (simp add: Spec_withDefaults_def Let_def spec_rules)
  obtain c where c: "WithDefaults z = (c, True)" using assms(2) by (simp add: WithDefaults_eq)
  have "Reconcile r ns n w = (w2, Requeue, None)"
    using get upd t assms(3) c by (simp add: Reconcile_def GetTriggerRollingRestart_def)
  moreover have "\<not> TriggerRollingRestart (Spec z3)" using again t assms(3) by simp
  ultimately show ?thesis
    using Reconcile_quiet [OF again(1) quiet_instance [OF assms(1) again(2,3)]] by simp
qed

definition bare_world :: world where
  "bare_world = sample_world\<lparr>w_cluster := bare_cluster\<rparr>"

theorem Reconcile_defaults_once_witness:
  "Reconcile mem_env ''default'' ''zk'' bare_world = (sample_world, Requeue, None) \<and>
   fst (snd (Reconcile mem_env ''default'' ''zk'' sample_world)) = RequeueAfter ReconcileTime"
proof -
  have k: "\<not> Spec_complete (Spec bare_cluster)" "\<not> TriggerRollingRestart (Spec bare_cluster)"
    by (simp_all add: Spec_complete_def bare_cluster_def bare_spec_def)
  have g: "GetCluster mem_env ''default'' ''zk'' bare_world = (bare_world, Inr bare_cluster)"
    by (simp add: mem_env_def bare_world_def bare_cluster_def empty_meta_def)
  have m: "Meta sample_cluster = Meta bare_cluster" "Status sample_cluster = Status bare_cluster"
    by (simp_all add: sample_cluster_def)
  have u: "UpdateCluster mem_env (fst (WithDefaults bare_cluster)) bare_world = (sample_world, Inr sample_cluster)"
    using m by (simp add: bare_world_def sample_world_def flip: sample_cluster_def)
  have g2: "GetCluster mem_env ''default'' ''zk'' sample_world = (sample_world, Inr sample_cluster)"
    using m by (simp add: mem_env_def sample_world_def bare_cluster_def empty_meta_def)
  have "snd (run_funs (reconcile_funs mem_env) (sample_world, sample_cluster)) = None" by code_simp
  then obtain s where "run_funs (reconcile_funs mem_env) (sample_world, sample_cluster) = (s, None)"
    by (metis prod.collapse)
  with Reconcile_defaults_once [OF bare_timeouts k g u g2] m show ?thesis
    by (cases s) (simp flip: sample_cluster_def)
qed

lemma run_funs_append:
  "run_funs fs s = (s1, None) \<Longrightarrow> run_funs (fs @ gs) s = run_funs gs s1"
  by (induction fs arbitrary: s) (auto split: prod.splits option.splits)

lemma run_funs_stops:
  assumes "run_funs (take i fs) s = (s1, None)" and "i < length fs" and "(fs ! i) s1 = (s2, Some err)"
  shows "run_funs fs s = (s2, Some err)"
proof -
  have "run_funs fs s = run_funs (take i fs @ drop i fs) s" by simp
  also have "\<dots> = run_funs (drop i fs) s1" by (rule run_funs_append [OF assms(1)])
  also have "\<dots> = run_funs (fs ! i # drop (Suc i) fs) s1" using assms(2) by (simp only: Cons_nth_drop_Suc)
  finally show ?thesis using assms(3) by simp
qed

text \<open>C24. The handlers run in a fixed order up to the first that fails: when the first \<open>i\<close> of the eight
  succeed and the next one fails, the reconciliation ends with its error in the world it left, and
  the later handlers (the status report among them) do not run.\<close>

theorem Reconcile_stops_at_failure:
  assumes "GetCluster r ns n w = (w1, Inr z)" and "WithDefaults z = (z1, False)" and "\<not> TriggerRollingRestart (Spec z1)"
    and "run_funs (take i (reconcile_funs r)) (w1, z1) = (s1, None)" and "i < length (reconcile_funs r)"
    and "(reconcile_funs r ! i) s1 = ((w2, z2), Some err)"
  shows "Reconcile r ns n w = (w2, Done, Some err)"
  using Reconcile_quiet [OF assms(1-3)] run_funs_stops [OF assms(4-6)] by simp

lemma sample_found:
  "w_cluster w = sample_cluster \<Longrightarrow> GetCluster mem_env ''default'' ''zk'' w = (w, Inr sample_cluster)"
  using sample_key(1) sample_name by (simp add: mem_env_def GetNamespace_def GetName_def)

lemma sample_quiet: "WithDefaults sample_cluster = (sample_cluster, False)"
  unfolding sample_cluster_def by (rule cluster.settled [OF bare_timeouts])

theorem Reconcile_stops_at_failure_witness:
  "snd (snd (Reconcile mem_env ''default'' ''zk'' (world_with ''10''))) \<noteq> None \<and>
   w_svc (fst (Reconcile mem_env ''default'' ''zk'' (world_with ''10''))) = []"
proof -
  have "\<not> TriggerRollingRestart (Spec sample_cluster)" by code_simp
  note front = sample_found [of "world_with ''10''"] sample_quiet this
  have run: "snd (run_funs (take 2 (reconcile_funs mem_env)) (world_with ''10'', sample_cluster)) = None \<and>
      w_svc (fst (fst (run_funs (take 3 (reconcile_funs mem_env)) (world_with ''10'', sample_cluster)))) = [] \<and>
      snd ((reconcile_funs mem_env ! 2) (fst (run_funs (take 2 (reconcile_funs mem_env)) (world_with ''10'', sample_cluster)))) \<noteq> None \<and>
      w_svc (fst (fst ((reconcile_funs mem_env ! 2)
        (fst (run_funs (take 2 (reconcile_funs mem_env)) (world_with ''10'', sample_cluster)))))) = []"
    by code_simp
  obtain s1 where s1: "run_funs (take 2 (reconcile_funs mem_env)) (world_with ''10'', sample_cluster) = (s1, None)"
    using run by (metis prod.collapse)
  with run obtain w2 z2 err where f: "(reconcile_funs mem_env ! 2) s1 = ((w2, z2), Some err)" "w_svc w2 = []"
    by (metis fst_conv option.exhaust prod.collapse snd_conv)
  have "Reconcile mem_env ''default'' ''zk'' (world_with ''10'') = (w2, Done, Some err)"
    by (rule Reconcile_stops_at_failure [OF front(1,2,3) s1 _ f(1)]) (simp_all add: world_with_def sample_world_def reconcile_funs_def)
  with f show ?thesis by simp
qed

section \<open>Rolling restart\<close>

lemma template_annotations:
  "MakeStatefulSet z = Some s \<Longrightarrow> MetaAnnotations (TplMeta (SsTemplate (SsSpec s))) = PodAnnotations (Pod (Spec z))"
  by (auto simp: MakeStatefulSet_def split: Option.bind_splits)

text \<open>The cluster with the restart taken up: nothing but the flag and the annotations of the pods changes.\<close>

definition restarted :: "go_map \<Rightarrow> ZookeeperCluster \<Rightarrow> ZookeeperCluster" where
  "restarted annotations z = z\<lparr>Spec := (Spec z)\<lparr>TriggerRollingRestart := False,
     Pod := (Pod (Spec z))\<lparr>PodAnnotations := Some annotations\<rparr>\<rparr>\<rparr>"

lemma normal_storage_restarted:
  "normal_storage (s\<lparr>TriggerRollingRestart := t, Pod := p\<rparr>) = (normal_storage s)\<lparr>TriggerRollingRestart := t, Pod := p\<rparr>"
  by (simp add: normal_storage_def)

lemma restarted_settled:
  assumes "timeouts_default (Conf (Spec z))" and "Spec z' = Spec (restarted l (fst (WithDefaults z)))"
  shows "WithDefaults z' = (z', False)"
proof -
  let ?c = "Spec (fst (WithDefaults z))"
  have c: "Spec_complete ?c" "normal_storage ?c = ?c" using Spec_result [OF assms(1)] by simp_all
  have s: "Spec z' = ?c\<lparr>TriggerRollingRestart := False, Pod := (Pod ?c)\<lparr>PodAnnotations := Some l\<rparr>\<rparr>"
    using assms(2) by (simp add: restarted_def)
  have "Spec_complete (Spec z')"
    using c(1) unfolding s by (simp add: Spec_complete_def PodPolicy_complete_def storage_complete_def)
  moreover have "normal_storage (Spec z') = Spec z'"
    unfolding s normal_storage_restarted c(2) by (rule refl)
  ultimately show ?thesis by (simp add: WithDefaults_eq Spec_keep)
qed

text \<open>C25. A rolling restart on request happens once. When \<open>triggerRollingRestart\<close> is set, the reconciliation
  makes one request, to write back the defaulted cluster in which exactly two things have changed: the
  flag is cleared, and the pod annotations have the time under \<open>restartTime\<close>, all others kept (name,
  status and every other field of the specification included). It then requeues, or ends with the
  error of the update. The pod template generated from what was written carries those annotations,
  which is what makes the StatefulSet roll its pods; and once the API server returns the specification as
  written, the next reconciliation finds nothing to restart or to complete and runs the handlers.\<close>

theorem rolling_restart_once:
  assumes "GetCluster r ns n w = (w1, Inr z)" and "TriggerRollingRestart (Spec z)"
    and m: "m = gm_put ''restartTime'' (FormatRFC850 (Now r w1)) (gm_range (PodAnnotations (Pod (Spec z))))"
    and z': "z' = restarted m (fst (WithDefaults z))"
  shows "Reconcile r ns n w =
      (case UpdateCluster r z' w1 of (w2, Inl err) \<Rightarrow> (w2, Done, Some err) | (w2, Inr _) \<Rightarrow> (w2, Requeue, None)) \<and>
    (\<forall>s. MakeStatefulSet z' = Some s \<longrightarrow> MetaAnnotations (TplMeta (SsTemplate (SsSpec s))) = Some m) \<and>
    (\<forall>k. map_of m k = (if k = ''restartTime'' then Some (FormatRFC850 (Now r w1)) else gm_get (PodAnnotations (Pod (Spec z))) k)) \<and>
    (\<forall>w3 w4 z3. timeouts_default (Conf (Spec z)) \<and> GetCluster r ns n w3 = (w4, Inr z3) \<and> Spec z3 = Spec z' \<longrightarrow>
      Reconcile r ns n w3 = (case run_funs (reconcile_funs r) (w4, z3) of
        ((w5, _), Some err) \<Rightarrow> (w5, Done, Some err) | ((w5, _), None) \<Rightarrow> (w5, RequeueAfter ReconcileTime, None)))"
proof -
  have t: "TriggerRollingRestart (Spec (fst (WithDefaults z))) = TriggerRollingRestart (Spec z)"
    "PodAnnotations (Pod (Spec (fst (WithDefaults z)))) = PodAnnotations (Pod (Spec z))"
    by (simp_all add: Spec_withDefaults_def PodPolicy_withDefaults_def Let_def spec_rules default_key_other set_default_other)
  obtain c b where c: "WithDefaults z = (c, b)" by (metis prod.exhaust)
  have written: "trigger_restart (Now r w1) c = z'"
    using t(2) c by (simp add: z' m restarted_def trigger_restart_def getRollingRestartAnnotation_def
        SetTriggerRollingRestart_def Let_def gm_range_def)
  have "Reconcile r ns n w =
      (case UpdateCluster r z' w1 of (w2, Inl err) \<Rightarrow> (w2, Done, Some err) | (w2, Inr _) \<Rightarrow> (w2, Requeue, None))"
    using assms(1,2) t(1) c by (simp add: Reconcile_def GetTriggerRollingRestart_def written)
  moreover have "Reconcile r ns n w3 = (case run_funs (reconcile_funs r) (w4, z3) of
        ((w5, _), Some err) \<Rightarrow> (w5, Done, Some err) | ((w5, _), None) \<Rightarrow> (w5, RequeueAfter ReconcileTime, None))"
    if "timeouts_default (Conf (Spec z))" "GetCluster r ns n w3 = (w4, Inr z3)" "Spec z3 = Spec z'" for w3 w4 z3
  proof (rule Reconcile_quiet [OF that(2)])
    show "WithDefaults z3 = (z3, False)" using restarted_settled [OF that(1)] that(3) unfolding z' by blast
    show "\<not> TriggerRollingRestart (Spec z3)" using that(3) by (simp add: z' restarted_def)
  qed
  moreover have "map_of m k = (if k = ''restartTime'' then Some (FormatRFC850 (Now r w1)) else gm_get (PodAnnotations (Pod (Spec z))) k)" for k
    by (simp add: m gm_range_def split: option.split)
  moreover have "PodAnnotations (Pod (Spec z')) = Some m" by (simp add: z' restarted_def)
  ultimately show ?thesis using template_annotations [of z'] by auto
qed

theorem rolling_restart_once_witness:
  "let z = sample_cluster\<lparr>Spec := (Spec sample_cluster)\<lparr>TriggerRollingRestart := True\<rparr>\<rparr>;
       w = sample_world\<lparr>w_cluster := z\<rparr>
   in Reconcile mem_env ''default'' ''zk'' w =
      (w\<lparr>w_cluster := restarted [(''restartTime'', FormatRFC850 (w_time w))] (fst (WithDefaults z))\<rparr>, Requeue, None)"
proof -
  let ?z = "sample_cluster\<lparr>Spec := (Spec sample_cluster)\<lparr>TriggerRollingRestart := True\<rparr>\<rparr>"
  let ?w = "sample_world\<lparr>w_cluster := ?z\<rparr>"
  have g: "GetCluster mem_env ''default'' ''zk'' ?w = (?w, Inr ?z)"
    using sample_key(1) sample_name by (simp add: mem_env_def GetNamespace_def GetName_def)
  have m: "[(''restartTime'', FormatRFC850 (w_time ?w))] =
      gm_put ''restartTime'' (FormatRFC850 (Now mem_env ?w)) (gm_range (PodAnnotations (Pod (Spec ?z))))"
    by code_simp
  have "Status (restarted l (fst (WithDefaults ?z))) = Status ?z" for l by (simp add: restarted_def)
  then have u: "(restarted l (fst (WithDefaults ?z)))\<lparr>Status := Status ?z\<rparr> = restarted l (fst (WithDefaults ?z))" for l
    by (metis ZookeeperCluster.surjective ZookeeperCluster.update_convs(3) ZookeeperCluster.select_convs(3))
  show ?thesis
    using rolling_restart_once [OF g _ m refl] u by (simp add: Let_def)
qed

section \<open>The disruption budget\<close>

text \<open>The disruption budget is created once and never changed: when one exists the handler only reads it,
  so a later change of \<open>maxUnavailableReplicas\<close> in the cluster has no effect.\<close>

theorem disruption_budget_never_updated:
  assumes "owner_keeps r" and "\<not> isl (SetControllerReference r z (PdbMeta (MakePodDisruptionBudget z)))"
    and "GetPdb r (GetNamespace z) (GetName z) w = (w1, Inr found)"
  shows "reconcilePodDisruptionBudget r (w, z) = ((w1, z), None)"
proof -
  obtain m where m: "SetControllerReference r z (PdbMeta (MakePodDisruptionBudget z)) = Inr m"
    using assms(2) by (cases "SetControllerReference r z (PdbMeta (MakePodDisruptionBudget z))") simp_all
  obtain refs where "m = (PdbMeta (MakePodDisruptionBudget z))\<lparr>OwnerReferences := refs\<rparr>"
    using assms(1) m unfolding owner_keeps_def by blast
  then have "MetaNamespace m = GetNamespace z" "MetaName m = GetName z"
    by (simp_all add: MakePodDisruptionBudget_def GetNamespace_def)
  with m assms(3) show ?thesis by (simp add: reconcilePodDisruptionBudget_def Let_def)
qed

theorem disruption_budget_never_updated_witness:
  "let old = MakePodDisruptionBudget sample_cluster; w = sample_world\<lparr>w_pdb := [old]\<rparr>;
       z = sample_cluster\<lparr>Spec := (Spec sample_cluster)\<lparr>MaxUnavailableReplicas := 2\<rparr>\<rparr>
   in reconcilePodDisruptionBudget mem_env (w, z) = ((w, z), None) \<and> PdbMaxUnavailable old \<noteq> PdbMaxUnavailable (MakePodDisruptionBudget z)"
proof -
  let ?old = "MakePodDisruptionBudget sample_cluster"
  let ?z = "sample_cluster\<lparr>Spec := (Spec sample_cluster)\<lparr>MaxUnavailableReplicas := 2\<rparr>\<rparr>"
  have k: "GetNamespace ?z = ''default''" "GetName ?z = ''zk''" "PdbMaxUnavailable ?old \<noteq> PdbMaxUnavailable (MakePodDisruptionBudget ?z)"
    "mem_find PdbMeta [?old] (''default'', ''zk'') = Some ?old"
    by code_simp+
  have g: "GetPdb mem_env (GetNamespace ?z) (GetName ?z) (sample_world\<lparr>w_pdb := [?old]\<rparr>) = (sample_world\<lparr>w_pdb := [?old]\<rparr>, Inr ?old)"
    unfolding k(1,2) by (simp add: mem_get_def k(4))
  show ?thesis
    using disruption_budget_never_updated [OF mem_owner _ g] k(3) by (simp add: Let_def)
qed

end
