(* ===== verification/ZkClient.thy ===== *)
theory ZkClient
  imports ClusterReconcile
begin

text \<open>
  \<open>pkg/zk/zookeeper_client.go\<close>: the ZooKeeper client behind the interface the reconciler uses. The
  library \<open>github.com/samuel/go-zookeeper\<close> is the parameter \<open>ZkLib\<close>; the field \<open>conn\<close> of the client is
  an \<open>option\<close>, and a call on a client that never connected panics.
\<close>

record ('c, 'w) ZkLib =
  LibConnect :: "string list \<Rightarrow> int \<Rightarrow> 'w \<Rightarrow> 'w \<times> (go_error + 'c)"
  LibCreate :: "'c \<Rightarrow> string \<Rightarrow> string option \<Rightarrow> int32 \<Rightarrow> string \<Rightarrow> 'w \<Rightarrow> 'w \<times> go_error option"
  LibSet :: "'c \<Rightarrow> string \<Rightarrow> string \<Rightarrow> int32 \<Rightarrow> 'w \<Rightarrow> 'w \<times> go_error option"
  LibExists :: "'c \<Rightarrow> string \<Rightarrow> 'w \<Rightarrow> 'w \<times> bool \<times> int32 \<times> go_error option"
  LibClose :: "'c \<Rightarrow> 'w \<Rightarrow> 'w"
  WorldACL :: "int32 \<Rightarrow> string"
  PermAll :: int32

type_synonym ('c, 'w) zk_state = "'c option \<times> 'w"

definition nil_conn :: "go_error" where
  "nil_conn = GoPanic ''nil pointer dereference''"

definition Client_Connect ::
  "('c, 'w) ZkLib \<Rightarrow> string \<Rightarrow> ('c, 'w) zk_state \<Rightarrow> ('c, 'w) zk_state \<times> go_error option" where
  "Client_Connect lib zkUri s = (case s of (c, w) \<Rightarrow>
     case LibConnect lib [zkUri] (5 * second) w of
       (w1, Inl err) \<Rightarrow> ((c, w1), Some (GoErr (''Failed to connect to zookeeper: '' @ zkUri @ '', Reason: '' @ err_text err)))
     | (w1, Inr conn) \<Rightarrow> ((Some conn, w1), None))"

text \<open>The loop over the inner components of the path, with the path built so far.\<close>

fun create_parents ::
  "('c, 'w) ZkLib \<Rightarrow> 'c \<Rightarrow> string \<Rightarrow> string list \<Rightarrow> 'w \<Rightarrow> 'w \<times> (go_error + string)" where
  "create_parents lib conn parentPath [] w = (w, Inr parentPath)"
| "create_parents lib conn parentPath (p # ps) w =
     (let parentPath = parentPath @ ''/'' @ p
      in case LibCreate lib conn parentPath None 0 (WorldACL lib (PermAll lib)) w of
           (w1, Some err) \<Rightarrow> (w1, Inl (GoErr (''Error creating parent zkNode: '' @ parentPath @ '': '' @ err_text err)))
         | (w1, None) \<Rightarrow> create_parents lib conn parentPath ps w1)"

definition Client_CreateNode ::
  "('c, 'w) ZkLib \<Rightarrow> ZookeeperCluster \<Rightarrow> string \<Rightarrow> ('c, 'w) zk_state \<Rightarrow> ('c, 'w) zk_state \<times> go_error option" where
  "Client_CreateNode lib zoo zNodePath s = (case s of
     (None, w) \<Rightarrow> (s, Some nil_conn)
   | (Some conn, w) \<Rightarrow>
       (let paths = split_at (CHR ''/'') zNodePath
        in case create_parents lib conn [] (butlast (tl paths)) w of
             (w1, Inl err) \<Rightarrow> ((Some conn, w1), Some err)
           | (w1, Inr parentPath) \<Rightarrow>
               (let childNode = parentPath @ ''/'' @ last paths
                in case LibCreate lib conn childNode (Some (cluster_size_data (Replicas (Spec zoo)))) 0
                          (WorldACL lib (PermAll lib)) w1 of
                     (w2, Some err) \<Rightarrow> ((Some conn, w2), Some (GoErr (''Error creating sub zkNode: '' @ childNode @ '': '' @ err_text err)))
                   | (w2, None) \<Rightarrow> ((Some conn, w2), None))))"

definition Client_UpdateNode ::
  "('c, 'w) ZkLib \<Rightarrow> string \<Rightarrow> string \<Rightarrow> int32 \<Rightarrow> ('c, 'w) zk_state \<Rightarrow> ('c, 'w) zk_state \<times> go_error option" where
  "Client_UpdateNode lib path d version s = (case s of
     (None, w) \<Rightarrow> (s, Some nil_conn)
   | (Some conn, w) \<Rightarrow>
       (case LibSet lib conn path d version w of
          (w1, Some err) \<Rightarrow> ((Some conn, w1), Some (GoErr (''Error updating zkNode: '' @ err_text err)))
        | (w1, None) \<Rightarrow> ((Some conn, w1), None)))"

text \<open>\<open>%v\<close> prints a nil error as \<open><nil>\<close>.\<close>

definition Client_NodeExists ::
  "('c, 'w) ZkLib \<Rightarrow> string \<Rightarrow> ('c, 'w) zk_state \<Rightarrow> ('c, 'w) zk_state \<times> (go_error + int32)" where
  "Client_NodeExists lib zNodePath s = (case s of
     (None, w) \<Rightarrow> (s, Inl nil_conn)
   | (Some conn, w) \<Rightarrow>
       (case LibExists lib conn zNodePath w of
          (w1, ex, version, err) \<Rightarrow>
            if err \<noteq> None \<or> \<not> ex
            then ((Some conn, w1), Inl (GoErr (''Znode exists check failed for path '' @ zNodePath @ '': '' @
                    (case err of None \<Rightarrow> ''<nil>'' | Some e \<Rightarrow> err_text e))))
            else ((Some conn, w1), Inr version)))"

definition Client_Close :: "('c, 'w) ZkLib \<Rightarrow> ('c, 'w) zk_state \<Rightarrow> ('c, 'w) zk_state" where
  "Client_Close lib s = (case s of (None, w) \<Rightarrow> s | (Some conn, w) \<Rightarrow> (Some conn, LibClose lib conn w))"

text \<open>The reconciler's environment with this client as its \<open>ZkClient\<close>, as \<open>main.go\<close> wires it.\<close>

definition with_zk_client :: "('c, 'w) ZkLib \<Rightarrow> ('c, 'w) zk_state Env \<Rightarrow> ('c, 'w) zk_state Env" where
  "with_zk_client lib r = r\<lparr>ZkConnect := Client_Connect lib, ZkCreateNode := Client_CreateNode lib,
     ZkNodeExists := Client_NodeExists lib, ZkUpdateNode := Client_UpdateNode lib, ZkClose := Client_Close lib\<rparr>"

section \<open>The metadata nodes\<close>

lemma split_at_free: "sep \<notin> set s \<Longrightarrow> split_at sep s = [s]"
  by (induction s) auto

lemma split_meta_path:
  assumes "CHR ''/'' \<notin> set (MetaName (Meta z))"
  shows "split_at (CHR ''/'') (GetMetaPath z) = [[], ''zookeeper-operator'', MetaName (Meta z)]"
proof -
  have "GetMetaPath z = [] @ CHR ''/'' # ''zookeeper-operator'' @ CHR ''/'' # MetaName (Meta z)"
    by (simp add: GetMetaPath_def ZKMetaRoot_def)
  then show ?thesis using split_at_free [OF assms] by simp
qed

lemma CreateNode_steps:
  assumes "CHR ''/'' \<notin> set (MetaName (Meta z))"
  shows "Client_CreateNode lib z (GetMetaPath z) (Some conn, w) =
    (let acl = WorldACL lib (PermAll lib)
     in case LibCreate lib conn ZKMetaRoot None 0 acl w of
          (w1, Some err) \<Rightarrow> ((Some conn, w1), Some (GoErr (''Error creating parent zkNode: '' @ ZKMetaRoot @ '': '' @ err_text err)))
        | (w1, None) \<Rightarrow>
            (case LibCreate lib conn (GetMetaPath z) (Some (cluster_size_data (Replicas (Spec z)))) 0 acl w1 of
               (w2, Some err) \<Rightarrow> ((Some conn, w2), Some (GoErr (''Error creating sub zkNode: '' @ GetMetaPath z @ '': '' @ err_text err)))
             | (w2, None) \<Rightarrow> ((Some conn, w2), None)))"
  unfolding Client_CreateNode_def split_meta_path [OF assms]
  by (simp add: Let_def ZKMetaRoot_def GetMetaPath_def split: prod.splits option.splits)


text \<open>
  What is used of the ensemble: creating a node succeeds only where there is none, and then adds
  exactly that node; \<open>nodes\<close> is the tree as a map from paths to data.
\<close>

definition lawful_ensemble :: "('c, 'w) ZkLib \<Rightarrow> ('w \<Rightarrow> string \<Rightarrow> string option) \<Rightarrow> bool" where
  "lawful_ensemble lib nodes \<longleftrightarrow>
     (\<forall>conn p d fl acl w w'. LibCreate lib conn p d fl acl w = (w', None) \<longrightarrow>
        nodes w p = None \<and> nodes w' = (nodes w)(p \<mapsto> (case d of None \<Rightarrow> [] | Some s \<Rightarrow> s)))"

lemma lawful_ensembleD:
  assumes "lawful_ensemble lib nodes" and "LibCreate lib conn p d fl acl w = (w', None)"
  shows "nodes w p = None" and "nodes w' = (nodes w)(p \<mapsto> (case d of None \<Rightarrow> [] | Some s \<Rightarrow> s))"
  using assms unfolding lawful_ensemble_def by blast+

text \<open>C21. A successful \<open>CreateNode\<close> publishes the size: on a tree without the operator's root it adds exactly
  two nodes, the empty root \<open>/zookeeper-operator\<close> and below it the cluster's node with the text
  \<open>CLUSTER_SIZE=<replicas>\<close>, which is where the scaling code looks it up; the root cannot have been there before.\<close>

theorem CreateNode_publishes_size:
  assumes law: "lawful_ensemble lib nodes" and name: "CHR ''/'' \<notin> set (MetaName (Meta z))"
    and run: "Client_CreateNode lib z (GetMetaPath z) (Some conn, w) = ((c, w'), None)"
  shows "nodes w ZKMetaRoot = None \<and> nodes w (GetMetaPath z) = None \<and> nodes w' = (nodes w)
    (ZKMetaRoot \<mapsto> [], GetMetaPath z \<mapsto> cluster_size_data (Replicas (Spec z)))"
proof -
  let ?acl = "WorldACL lib (PermAll lib)"
  obtain w1 e1 where c1: "LibCreate lib conn ZKMetaRoot None 0 ?acl w = (w1, e1)" by (metis prod.exhaust)
  obtain w2 e2 where c2: "LibCreate lib conn (GetMetaPath z) (Some (cluster_size_data (Replicas (Spec z)))) 0 ?acl w1 = (w2, e2)"
    by (metis prod.exhaust)
  have ok: "e1 = None" "e2 = None" "w' = w2"
    using run c1 c2 by (auto simp: CreateNode_steps [OF name] Let_def split: option.splits)
  have path: "GetMetaPath z \<noteq> ZKMetaRoot" by (simp add: GetMetaPath_def)
  have "nodes w ZKMetaRoot = None \<and> nodes w1 = (nodes w)(ZKMetaRoot \<mapsto> [])"
    using law c1 ok unfolding lawful_ensemble_def by fastforce
  moreover have "nodes w1 (GetMetaPath z) = None \<and> nodes w2 = (nodes w1)(GetMetaPath z \<mapsto> cluster_size_data (Replicas (Spec z)))"
    using law c2 ok unfolding lawful_ensemble_def by fastforce
  ultimately show ?thesis using ok path by auto
qed

definition mem_lib :: "(unit, world) ZkLib" where
  "mem_lib = \<lparr>LibConnect = (\<lambda>hosts t w. (w, if w_zk_up w then Inr () else Inl (GoErr ''no connection''))),
     LibCreate = (\<lambda>c p d fl acl w. case map_of (w_znodes w) p of
        None \<Rightarrow> (w\<lparr>w_znodes := (p, case d of None \<Rightarrow> [] | Some s \<Rightarrow> s) # w_znodes w\<rparr>, None)
      | Some _ \<Rightarrow> (w, Some (GoErr ''zk: node already exists''))),
     LibSet = (\<lambda>c p d v w. (w\<lparr>w_znodes := (p, d) # w_znodes w\<rparr>, None)),
     LibExists = (\<lambda>c p w. (w, map_of (w_znodes w) p \<noteq> None, 0, None)),
     LibClose = (\<lambda>c w. w), WorldACL = (\<lambda>n. []), PermAll = 31\<rparr>"

abbreviation mem_nodes :: "world \<Rightarrow> string \<Rightarrow> string option" where
  "mem_nodes w \<equiv> map_of (w_znodes w)"

lemma mem_ensemble: "lawful_ensemble mem_lib mem_nodes"
  by (auto simp: lawful_ensemble_def mem_lib_def split: option.splits)

theorem CreateNode_publishes_size_witness:
  "mem_nodes (snd (fst (Client_CreateNode mem_lib sample_cluster ''/zookeeper-operator/zk'' (Some (), sample_world))))
     ''/zookeeper-operator/zk'' = Some ''CLUSTER_SIZE=3''"
proof -
  have k: "CHR ''/'' \<notin> set (MetaName (Meta sample_cluster))" using sample_name by (simp add: GetName_def)
  have d: "GetMetaPath sample_cluster = ''/zookeeper-operator/zk''" "cluster_size_data 3 = ''CLUSTER_SIZE=3''"
    "snd (Client_CreateNode mem_lib sample_cluster (GetMetaPath sample_cluster) (Some (), sample_world)) = None"
    by code_simp+
  obtain c w' where run: "Client_CreateNode mem_lib sample_cluster (GetMetaPath sample_cluster) (Some (), sample_world) = ((c, w'), None)"
    using d(3) by (metis prod.collapse)
  from CreateNode_publishes_size [OF mem_ensemble k run] run d(1,2) show ?thesis by simp
qed

section \<open>A lost status\<close>

text \<open>An environment whose world also holds the connection.\<close>

definition lift_op :: "('w \<Rightarrow> 'w \<times> 'r) \<Rightarrow> 'c \<times> 'w \<Rightarrow> ('c \<times> 'w) \<times> 'r" where
  "lift_op f s = (case s of (c, w) \<Rightarrow> case f w of (w1, x) \<Rightarrow> ((c, w1), x))"

definition lift_env :: "'w Env \<Rightarrow> ('c \<times> 'w) Env" where
  "lift_env r =
     \<lparr>GetCluster = (\<lambda>a b. lift_op (GetCluster r a b)), UpdateCluster = (\<lambda>a. lift_op (UpdateCluster r a)),
      UpdateClusterStatus = (\<lambda>a. lift_op (UpdateClusterStatus r a)),
      GetSts = (\<lambda>a b. lift_op (GetSts r a b)), CreateSts = (\<lambda>a. lift_op (CreateSts r a)), UpdateSts = (\<lambda>a. lift_op (UpdateSts r a)),
      GetSvc = (\<lambda>a b. lift_op (GetSvc r a b)), CreateSvc = (\<lambda>a. lift_op (CreateSvc r a)), UpdateSvc = (\<lambda>a. lift_op (UpdateSvc r a)),
      GetCm = (\<lambda>a b. lift_op (GetCm r a b)), CreateCm = (\<lambda>a. lift_op (CreateCm r a)), UpdateCm = (\<lambda>a. lift_op (UpdateCm r a)),
      GetPdb = (\<lambda>a b. lift_op (GetPdb r a b)), CreatePdb = (\<lambda>a. lift_op (CreatePdb r a)),
      GetSa = (\<lambda>a b. lift_op (GetSa r a b)), CreateSa = (\<lambda>a. lift_op (CreateSa r a)), UpdateSa = (\<lambda>a. lift_op (UpdateSa r a)),
      ListPods = (\<lambda>a b. lift_op (ListPods r a b)), ListPVCs = (\<lambda>a b. lift_op (ListPVCs r a b)),
      DeletePVC = (\<lambda>a. lift_op (DeletePVC r a)), SetControllerReference = SetControllerReference r,
      ZkConnect = (\<lambda>a. lift_op (ZkConnect r a)), ZkCreateNode = (\<lambda>a b. lift_op (ZkCreateNode r a b)),
      ZkNodeExists = (\<lambda>a. lift_op (ZkNodeExists r a)), ZkUpdateNode = (\<lambda>a b d. lift_op (ZkUpdateNode r a b d)),
      ZkClose = apsnd (ZkClose r), Now = (\<lambda>s. Now r (snd s)), MapOrder = (\<lambda>s. MapOrder r (snd s)),
      DisableFinalizer = DisableFinalizer r\<rparr>"

lemma create_fails_on_root:
  assumes "lawful_ensemble lib nodes" and "nodes v ZKMetaRoot \<noteq> None" and "CHR ''/'' \<notin> set (MetaName (Meta y))"
  shows "snd (Client_CreateNode lib y (GetMetaPath y) (Some k, v)) \<noteq> None"
proof -
  obtain v1 e where e: "LibCreate lib k ZKMetaRoot None 0 (WorldACL lib (PermAll lib)) v = (v1, e)" by (metis prod.exhaust)
  have "e \<noteq> None" using lawful_ensembleD(1) [OF assms(1)] assms(2) e by fastforce
  with e show ?thesis by (auto simp: CreateNode_steps [OF assms(3)] Let_def)
qed

lemma meta_root_fails_on_root:
  assumes law: "lawful_ensemble lib nodes" and conn: "\<And>hosts t w. nodes (fst (LibConnect lib hosts t w)) = nodes w"
    and y: "replicas_ready y" "\<not> MetaRootCreated (Status y)" "nodes v ZKMetaRoot \<noteq> None" "CHR ''/'' \<notin> set (MetaName (Meta y))"
  shows "snd (fst (create_meta_root (with_zk_client lib r) ((k, v), y))) \<noteq> None"
proof -
  obtain v1 g where g: "LibConnect lib [GetZkServiceUri y] (5 * second) v = (v1, g)" by (metis prod.exhaust)
  have root: "nodes v1 ZKMetaRoot \<noteq> None" using conn [of "[GetZkServiceUri y]" "5 * second" v] g y(3) by simp
  show ?thesis
  proof (cases g)
    case (Inl e)
    with y g show ?thesis
      by (simp add: create_meta_root_def replicas_ready_def with_zk_client_def Client_Connect_def)
  next
    case (Inr k1)
    from create_fails_on_root [OF law root y(4), of k1] obtain s2 e where
      "Client_CreateNode lib y (GetMetaPath y) (Some k1, v1) = (s2, Some e)"
      by (metis option.exhaust prod.collapse)
    with y g Inr show ?thesis
      by (simp add: create_meta_root_def replicas_ready_def with_zk_client_def Client_Connect_def Let_def)
  qed
qed

text \<open>C22. A lost status blocks the cluster for good. If the metadata root exists but the status does not say
  so (the status update after \<open>CreateNode\<close> failed, or only the second of its two nodes could not be
  created), every later \<open>reconcileClusterStatus\<close> of the ready cluster fails: the creation is retried
  from the root and the existing root is an error, not a success.\<close>

theorem metadata_root_never_retried:
  assumes law: "lawful_ensemble lib nodes" and name: "CHR ''/'' \<notin> set (MetaName (Meta z))"
    and conn: "\<And>hosts t w. nodes (fst (LibConnect lib hosts t w)) = nodes w"
    and pods: "\<And>ns sel s. nodes (snd (fst (ListPods r ns sel s))) = nodes (snd s)"
    and calm: "\<not> IsClusterInUpgradingState (Status z)" "\<not> IsClusterInUpgradeFailedState (Status z)"
    and lost: "replicas_ready z" "\<not> MetaRootCreated (Status z)" "nodes w ZKMetaRoot \<noteq> None"
  shows "snd (reconcileClusterStatus (with_zk_client lib r) ((c, w), z)) \<noteq> None"
proof -
  let ?r = "with_zk_client lib r"
  let ?z0 = "set_status (Status_Init (Now ?r (c, w))) z"
  obtain s1 l where l: "ListPods r (MetaNamespace (Meta ?z0)) [(''app'', GetName ?z0)] (c, w) = (s1, l)" by (metis prod.exhaust)
  obtain k v where s1: "s1 = (k, v)" by (cases s1)
  have v: "nodes v ZKMetaRoot \<noteq> None"
    using pods [of "MetaNamespace (Meta ?z0)" "[(''app'', GetName ?z0)]" "(c, w)"] l s1 lost(3) by simp
  have lp: "ListPods ?r = ListPods r" by (simp add: with_zk_client_def)
  show ?thesis
  proof (cases l)
    case (Inl e)
    with l calm show ?thesis by (simp add: reconcileClusterStatus_def Let_def lp)
  next
    case (Inr ps)
    obtain a b where ab: "member_lists ps ([], []) = (a, b)" by (metis prod.exhaust)
    let ?y = "set_status (\<lambda>st. st\<lparr>Members := \<lparr>ReadyMembers = a, UnreadyMembers = b\<rparr>\<rparr>) ?z0"
    have "snd (fst (create_meta_root ?r ((k, v), ?y))) \<noteq> None"
      using lost v name by (intro meta_root_fails_on_root [OF law conn]) (simp_all add: set_status_def replicas_ready_def)
    then obtain s2 y2 e f where "create_meta_root ?r ((k, v), ?y) = (((s2, y2), Some e), f)"
      by (metis option.exhaust prod.collapse)
    with l s1 Inr ab calm show ?thesis
      by (simp add: reconcileClusterStatus_def Let_def lp deferred_close_def)
  qed
qed

theorem metadata_root_never_retried_witness:
  "let w = healthy_world\<lparr>w_znodes := [(ZKMetaRoot, [])]\<rparr>
   in snd (reconcileClusterStatus (with_zk_client mem_lib (lift_env mem_env)) ((None, w), healthy_cluster)) \<noteq> None"
proof -
  let ?w = "healthy_world\<lparr>w_znodes := [(ZKMetaRoot, [])]\<rparr>"
  have k: "CHR ''/'' \<notin> set (MetaName (Meta healthy_cluster))" "\<not> MetaRootCreated (Status healthy_cluster)"
    by code_simp+
  show ?thesis unfolding Let_def
    by (rule metadata_root_never_retried [where nodes = mem_nodes, OF mem_ensemble k(1)])
       (use k healthy_facts in \<open>auto simp: mem_lib_def lift_env_def lift_op_def split: prod.splits\<close>)
qed

end
