(* ===== verification/Leader.thy ===== *)
theory Leader
  imports ApiTypes
begin

text \<open>
  \<open>pkg/utils/leader.go\<close>: the check of the leader lock before the election. The Kubernetes client, the
  variable \<open>POD_NAME\<close> and the library's \<open>leader.Become\<close> are the parameter \<open>LeaderEnv\<close>; logging is left
  out. Pods and config maps are deleted by the object that was read.
\<close>

record LeaderPod =
  LpName :: string
  LpPhase :: string
  LpReason :: string

record LockMap =
  LockName :: string
  LockOwners :: "OwnerReference list"

record 'w LeaderEnv =
  ClientFails :: bool
  GetLock :: "string \<Rightarrow> string \<Rightarrow> 'w \<Rightarrow> 'w \<times> (go_error + LockMap)"
  GetLeaderPod :: "string \<Rightarrow> string \<Rightarrow> 'w \<Rightarrow> 'w \<times> (go_error + LeaderPod)"
  DeletePod :: "LeaderPod \<Rightarrow> 'w \<Rightarrow> 'w \<times> go_error option"
  DeleteLock :: "LockMap \<Rightarrow> 'w \<Rightarrow> 'w \<times> go_error option"
  PodNameVar :: string
  Become :: "string \<Rightarrow> 'w \<Rightarrow> 'w \<times> go_error option"

definition getConfigMapWithLock ::
  "'w LeaderEnv \<Rightarrow> string \<Rightarrow> string \<Rightarrow> 'w \<Rightarrow> 'w \<times> (go_error + LockMap option)" where
  "getConfigMapWithLock r lockName ns w =
     (case GetLock r ns lockName w of
        (w1, Inl e) \<Rightarrow> if IsNotFound e then (w1, Inr None) else (w1, Inl e)
      | (w1, Inr existingConfigMap) \<Rightarrow> (w1, Inr (Some existingConfigMap)))"

definition deleteLeader :: "'w LeaderEnv \<Rightarrow> LeaderPod \<Rightarrow> LockMap \<Rightarrow> 'w \<Rightarrow> 'w \<times> go_error option" where
  "deleteLeader r leaderPod configMapWithLock w =
     (case DeletePod r leaderPod w of
        (w1, Some err) \<Rightarrow> (w1, Some err)
      | (w1, None) \<Rightarrow>
          (case DeleteLock r configMapWithLock w1 of
             (w2, Some err) \<Rightarrow> if IsNotFound err then (w2, None) else (w2, Some err)
           | (w2, None) \<Rightarrow> (w2, None)))"

definition checkupLeaderPodStatus ::
  "'w LeaderEnv \<Rightarrow> OwnerReference \<Rightarrow> LockMap \<Rightarrow> string \<Rightarrow> 'w \<Rightarrow> 'w \<times> go_error option" where
  "checkupLeaderPodStatus r leaderRef existingLock ns w =
     (if OwnerKind leaderRef \<noteq> ''Pod'' then (w, None)
      else case GetLeaderPod r ns (OwnerName leaderRef) w of
             (w1, Inl err) \<Rightarrow> if IsNotFound err then (w1, None) else (w1, Some err)
           | (w1, Inr leaderPod) \<Rightarrow>
               if LpReason leaderPod = ''ProviderFailed'' then deleteLeader r leaderPod existingLock w1
               else (w1, None))"

text \<open>The loop over the owners of the lock.\<close>

fun check_owners ::
  "'w LeaderEnv \<Rightarrow> string \<Rightarrow> LockMap \<Rightarrow> string \<Rightarrow> OwnerReference list \<Rightarrow> 'w \<Rightarrow> 'w \<times> go_error option" where
  "check_owners r currentPod lock ns [] w = (w, None)"
| "check_owners r currentPod lock ns (lockOwner # owners) w =
     (if OwnerName lockOwner = currentPod then (w, None)
      else case checkupLeaderPodStatus r lockOwner lock ns w of
             (w1, Some e) \<Rightarrow> (w1, Some e)
           | (w1, None) \<Rightarrow> check_owners r currentPod lock ns owners w1)"

definition precheckLeaderLock :: "'w LeaderEnv \<Rightarrow> string \<Rightarrow> string \<Rightarrow> 'w \<Rightarrow> 'w \<times> go_error option" where
  "precheckLeaderLock r lockName ns w =
     (case getConfigMapWithLock r lockName ns w of
        (w1, Inl e) \<Rightarrow> (w1, Some e)
      | (w1, Inr None) \<Rightarrow> (w1, None)
      | (w1, Inr (Some existingConfigMap)) \<Rightarrow>
          if PodNameVar r = [] then (w1, Some (GoErr ''required env POD_NAME not set''))
          else check_owners r (PodNameVar r) existingConfigMap ns (LockOwners existingConfigMap) w1)"

text \<open>The error of creating the client is dropped; the nil client then panics on its first use.\<close>

definition BecomeLeader :: "'w LeaderEnv \<Rightarrow> string \<Rightarrow> string \<Rightarrow> 'w \<Rightarrow> 'w \<times> go_error option" where
  "BecomeLeader r lockName namespace w =
     (if ClientFails r then (w, Some (GoPanic ''nil pointer dereference''))
      else Become r lockName (fst (precheckLeaderLock r lockName namespace w)))"

section \<open>When the lock is broken\<close>

text \<open>
  Deleting is the only change of the check. \<open>obs\<close> is what the deletions may change and reading does not:
  the stored pods and config maps.
\<close>

definition read_only :: "'w LeaderEnv \<Rightarrow> ('w \<Rightarrow> 'x) \<Rightarrow> bool" where
  "read_only r obs \<longleftrightarrow> (\<forall>ns n w. obs (fst (GetLock r ns n w)) = obs w \<and> obs (fst (GetLeaderPod r ns n w)) = obs w)"

text \<open>The owners the check looks at: those in front of the operator's own pod.\<close>

definition consulted :: "string \<Rightarrow> OwnerReference list \<Rightarrow> OwnerReference list" where
  "consulted me owners = takeWhile (\<lambda>x. OwnerName x \<noteq> me) owners"

lemma consulted_simps [simp]:
  "consulted me [] = []"
  "consulted me (x # owners) = (if OwnerName x = me then [] else x # consulted me owners)"
  by (simp_all add: consulted_def)

lemma check_owners_safe:
  assumes "read_only r obs"
    and "\<And>x v p. x \<in> set (consulted me owners) \<Longrightarrow> OwnerKind x = ''Pod'' \<Longrightarrow> obs v = obs w \<Longrightarrow>
      snd (GetLeaderPod r ns (OwnerName x) v) = Inr p \<Longrightarrow> LpReason p \<noteq> ''ProviderFailed''"
  shows "obs (fst (check_owners r me lock ns owners w)) = obs w"
  using assms(2)
proof (induction owners arbitrary: w)
  case (Cons x owners)
  show ?case
  proof (cases "OwnerName x = me")
    case False
    obtain w1 e where c: "checkupLeaderPodStatus r x lock ns w = (w1, e)" by (metis prod.exhaust)
    have g: "obs (fst (GetLeaderPod r ns n v)) = obs v" for n v using assms(1) by (simp add: read_only_def)
    have w1: "obs w1 = obs w"
      using c Cons.prems [of x w] False g [of "OwnerName x" w]
      by (auto simp: checkupLeaderPodStatus_def split: if_splits prod.splits sum.splits)
    have "obs (fst (check_owners r me lock ns owners w1)) = obs w1"
    proof (rule Cons.IH)
      fix y v p
      assume "y \<in> set (consulted me owners)" "OwnerKind y = ''Pod''" "obs v = obs w1" "snd (GetLeaderPod r ns (OwnerName y) v) = Inr p"
      then show "LpReason p \<noteq> ''ProviderFailed''" using Cons.prems [of y v p] False w1 by simp
    qed
    with c w1 False show ?thesis by (cases e) simp_all
  qed simp
qed simp


text \<open>A server with one list of pods and one of locks.\<close>

type_synonym leader_world = "LeaderPod list \<times> LockMap list"

definition mem_leader :: "leader_world LeaderEnv" where
  "mem_leader = \<lparr>ClientFails = False,
     GetLock = (\<lambda>ns n w. (w, case List.find (\<lambda>l. LockName l = n) (snd w) of None \<Rightarrow> Inl NotFound | Some l \<Rightarrow> Inr l)),
     GetLeaderPod = (\<lambda>ns n w. (w, case List.find (\<lambda>p. LpName p = n) (fst w) of None \<Rightarrow> Inl NotFound | Some p \<Rightarrow> Inr p)),
     DeletePod = (\<lambda>p w. ((filter (\<lambda>q. q \<noteq> p) (fst w), snd w), None)),
     DeleteLock = (\<lambda>l w. ((fst w, filter (\<lambda>k. k \<noteq> l) (snd w)), None)),
     PodNameVar = ''operator-2'', Become = (\<lambda>l w. (w, None))\<rparr>"

text \<open>C37. A healthy leader keeps the lock. Unless one of the lock's owners is a pod with the reason
  \<open>ProviderFailed\<close>, the check before the election deletes nothing, whatever the pods' phases and
  whichever requests fail. Only the owners the check has to look at count: those of kind \<open>Pod\<close> in front of the
  operator's own pod, read in the operator's namespace. Any other pod may have failed, under another
  name, in another namespace, behind the operator's own pod or as an owner of another kind.\<close>

theorem healthy_leader_keeps_lock:
  assumes ro: "read_only r obs"
    and ok: "\<And>lock x v p. snd (GetLock r ns lockName w) = Inr lock \<Longrightarrow>
      x \<in> set (consulted (PodNameVar r) (LockOwners lock)) \<Longrightarrow> OwnerKind x = ''Pod'' \<Longrightarrow> obs v = obs w \<Longrightarrow>
      snd (GetLeaderPod r ns (OwnerName x) v) = Inr p \<Longrightarrow> LpReason p \<noteq> ''ProviderFailed''"
  shows "obs (fst (precheckLeaderLock r lockName ns w)) = obs w"
proof -
  obtain w1 l where l: "GetLock r ns lockName w = (w1, l)" by (metis prod.exhaust)
  have w1: "obs w1 = obs w" using ro l by (auto simp: read_only_def) (metis fst_conv)
  have "obs (fst (check_owners r (PodNameVar r) lock ns (LockOwners lock) w1)) = obs w1" if "l = Inr lock" for lock
    by (rule check_owners_safe [OF ro]) (use ok [of lock] l that w1 in simp)
  with l w1 show ?thesis
    by (auto simp: precheckLeaderLock_def getConfigMapWithLock_def split: sum.splits)
qed

text \<open>Here a pod of the same name as the lock's second owner has failed, but that owner is not a pod.\<close>

definition other_failures :: leader_world where
  "other_failures = ([\<lparr>LpName = ''operator-1'', LpPhase = ''Running'', LpReason = []\<rparr>,
      \<lparr>LpName = ''job'', LpPhase = ''Failed'', LpReason = ''ProviderFailed''\<rparr>,
      \<lparr>LpName = ''operator-3'', LpPhase = ''Failed'', LpReason = ''ProviderFailed''\<rparr>],
     [\<lparr>LockName = ''lock'', LockOwners =
        [\<lparr>OwnerKind = ''Pod'', OwnerName = ''operator-1'', OwnerUID = []\<rparr>, \<lparr>OwnerKind = ''Job'', OwnerName = ''job'', OwnerUID = []\<rparr>,
         \<lparr>OwnerKind = ''Pod'', OwnerName = ''operator-2'', OwnerUID = []\<rparr>, \<lparr>OwnerKind = ''Pod'', OwnerName = ''operator-3'', OwnerUID = []\<rparr>]\<rparr>])"

theorem healthy_leader_keeps_lock_witness:
  "fst (precheckLeaderLock mem_leader ''lock'' ''ns'' other_failures) = other_failures"
proof -
  have "id (fst (precheckLeaderLock mem_leader ''lock'' ''ns'' other_failures)) = id other_failures"
  proof (rule healthy_leader_keeps_lock)
    show "read_only mem_leader id" by (simp add: read_only_def mem_leader_def)
    fix lock x p and v :: leader_world
    assume "snd (GetLock mem_leader ''ns'' ''lock'' other_failures) = Inr lock"
      and x: "x \<in> set (consulted (PodNameVar mem_leader) (LockOwners lock))" and k: "OwnerKind x = ''Pod''"
      and v: "id v = id other_failures" and p: "snd (GetLeaderPod mem_leader ''ns'' (OwnerName x) v) = Inr p"
    then have "x = \<lparr>OwnerKind = ''Pod'', OwnerName = ''operator-1'', OwnerUID = []\<rparr> \<or>
        x = \<lparr>OwnerKind = ''Job'', OwnerName = ''job'', OwnerUID = []\<rparr>"
      by (auto simp: mem_leader_def other_failures_def)
    with k have "OwnerName x = ''operator-1''" by (elim disjE) simp_all
    with p v show "LpReason p \<noteq> ''ProviderFailed''" by (auto simp: mem_leader_def other_failures_def)
  qed
  then show ?thesis by simp
qed

section \<open>Removing a failed leader\<close>

text \<open>
  The record of deletion requests, and what it is read against: \<open>pods\<close> is the server's view of the pods
  of the namespace. Reading changes neither; deleting one pod does not change what is seen of another.
\<close>

datatype deletion = PodDeletion string | LockDeletion string

definition deletion_log ::
  "'w LeaderEnv \<Rightarrow> string \<Rightarrow> ('w \<Rightarrow> string \<Rightarrow> LeaderPod option) \<Rightarrow> ('w \<Rightarrow> deletion list) \<Rightarrow> bool" where
  "deletion_log r ns pods log \<longleftrightarrow>
     (\<forall>l w. log (fst (GetLock r ns l w)) = log w \<and> pods (fst (GetLock r ns l w)) = pods w) \<and>
     (\<forall>n w. log (fst (GetLeaderPod r ns n w)) = log w \<and> pods (fst (GetLeaderPod r ns n w)) = pods w) \<and>
     (\<forall>n w p. snd (GetLeaderPod r ns n w) = Inr p \<longrightarrow> pods w n = Some p \<and> LpName p = n) \<and>
     (\<forall>n w e. snd (GetLeaderPod r ns n w) = Inl e \<and> IsNotFound e \<longrightarrow> pods w n = None) \<and>
     (\<forall>p w. log (fst (DeletePod r p w)) = log w @ [PodDeletion (LpName p)] \<and>
        (\<forall>n. n \<noteq> LpName p \<longrightarrow> pods (fst (DeletePod r p w)) n = pods w n)) \<and>
     (\<forall>l w. log (fst (DeleteLock r l w)) = log w @ [LockDeletion (LockName l)] \<and> pods (fst (DeleteLock r l w)) = pods w)"

text \<open>What is to be deleted: each failed leader pod with the lock right after it.\<close>

definition removal :: "(string \<Rightarrow> LeaderPod option) \<Rightarrow> LockMap \<Rightarrow> OwnerReference \<Rightarrow> deletion list" where
  "removal pods lock x = (case pods (OwnerName x) of
     None \<Rightarrow> []
   | Some p \<Rightarrow> if OwnerKind x = ''Pod'' \<and> LpReason p = ''ProviderFailed''
       then [PodDeletion (OwnerName x), LockDeletion (LockName lock)] else [])"

definition removals :: "(string \<Rightarrow> LeaderPod option) \<Rightarrow> LockMap \<Rightarrow> OwnerReference list \<Rightarrow> deletion list" where
  "removals pods lock owners = concat (map (removal pods lock) owners)"

text \<open>Every request of the check is answered: pods are found or not, deletions succeed, the lock may be gone.\<close>

definition answers :: "'w LeaderEnv \<Rightarrow> string \<Rightarrow> bool" where
  "answers r ns \<longleftrightarrow> (\<forall>n w e. snd (GetLeaderPod r ns n w) = Inl e \<longrightarrow> IsNotFound e) \<and>
     (\<forall>p w. snd (DeletePod r p w) = None) \<and> (\<forall>l w e. snd (DeleteLock r l w) = Some e \<longrightarrow> IsNotFound e)"

lemma deletion_logD:
  assumes "deletion_log r ns pods log"
  shows "GetLock r ns l w = (w1, a) \<Longrightarrow> log w1 = log w \<and> pods w1 = pods w"
    and "GetLeaderPod r ns n w = (w1, g) \<Longrightarrow> log w1 = log w \<and> pods w1 = pods w"
    and "GetLeaderPod r ns n w = (w1, Inr p) \<Longrightarrow> pods w n = Some p \<and> LpName p = n"
    and "GetLeaderPod r ns n w = (w1, Inl err) \<Longrightarrow> IsNotFound err \<Longrightarrow> pods w n = None"
    and "DeletePod r p w = (w1, d) \<Longrightarrow> log w1 = log w @ [PodDeletion (LpName p)]"
    and "DeletePod r p w = (w1, d) \<Longrightarrow> n \<noteq> LpName p \<Longrightarrow> pods w1 n = pods w n"
    and "DeleteLock r lock w = (w1, d) \<Longrightarrow> log w1 = log w @ [LockDeletion (LockName lock)] \<and> pods w1 = pods w"
  using assms unfolding deletion_log_def by (metis fst_conv snd_conv)+

lemma deleteLeader_log:
  assumes law: "deletion_log r ns pods log" and run: "deleteLeader r p lock w = (w1, e)"
  shows "\<exists>k. log w1 = log w @ take k [PodDeletion (LpName p), LockDeletion (LockName lock)] \<and> (e = None \<longrightarrow> k = 2)"
    and "n \<noteq> LpName p \<Longrightarrow> pods w1 n = pods w n" and "answers r ns \<Longrightarrow> e = None"
proof -
  obtain w2 d where d: "DeletePod r p w = (w2, d)" by (metis prod.exhaust)
  obtain w3 d' where d': "DeleteLock r lock w2 = (w3, d')" by (metis prod.exhaust)
  note pod = deletion_logD(5,6) [OF law d] and lock = deletion_logD(7) [OF law d']
  have res: "(w1, e) = (case d of Some err \<Rightarrow> (w2, Some err)
      | None \<Rightarrow> (w3, if \<exists>err. d' = Some err \<and> IsNotFound err then None else d'))"
    using run d d' by (auto simp: deleteLeader_def split: option.splits if_splits)
  show "\<exists>k. log w1 = log w @ take k [PodDeletion (LpName p), LockDeletion (LockName lock)] \<and> (e = None \<longrightarrow> k = 2)"
  proof (cases d)
    case None
    with res pod lock show ?thesis by (intro exI [of _ 2]) simp
  next
    case (Some err)
    with res pod show ?thesis by (intro exI [of _ 1]) simp
  qed
  show "n \<noteq> LpName p \<Longrightarrow> pods w1 n = pods w n"
    using res pod lock by (cases d) simp_all
  show "e = None" if "answers r ns"
  proof -
    have "d = None" "\<And>err. d' = Some err \<Longrightarrow> IsNotFound err"
      using that d d' unfolding answers_def by (metis snd_conv)+
    with res show ?thesis by (cases d') simp_all
  qed
qed

lemma checkup_removes:
  assumes law: "deletion_log r ns pods log" and run: "checkupLeaderPodStatus r x lock ns w = (w1, e)"
  shows "\<exists>k. log w1 = log w @ take k (removal (pods w) lock x) \<and> (e = None \<longrightarrow> log w1 = log w @ removal (pods w) lock x)"
    and "n \<noteq> OwnerName x \<Longrightarrow> pods w1 n = pods w n"
    and "answers r ns \<Longrightarrow> e = None"
proof -
  obtain w2 g where g: "GetLeaderPod r ns (OwnerName x) w = (w2, g)" by (metis prod.exhaust)
  note 2 = deletion_logD(2) [OF law g]
  consider (skip) "OwnerKind x \<noteq> ''Pod''" "w1 = w" "e = None"
    | (unread) err where "g = Inl err" "w1 = w2" "e = (if IsNotFound err then None else Some err)" "OwnerKind x = ''Pod''"
    | (healthy) p where "g = Inr p" "LpReason p \<noteq> ''ProviderFailed''" "w1 = w2" "e = None"
    | (failed) p where "g = Inr p" "LpReason p = ''ProviderFailed''" "OwnerKind x = ''Pod''" "deleteLeader r p lock w2 = (w1, e)"
    using run g by (cases g) (auto simp: checkupLeaderPodStatus_def split: if_splits)
  then have "(\<exists>k. log w1 = log w @ take k (removal (pods w) lock x) \<and> (e = None \<longrightarrow> log w1 = log w @ removal (pods w) lock x)) \<and>
    (n \<noteq> OwnerName x \<longrightarrow> pods w1 n = pods w n) \<and> (answers r ns \<longrightarrow> e = None)"
  proof cases
    case skip
    then show ?thesis by (simp add: removal_def split: option.split)
  next
    case unread
    have "answers r ns \<longrightarrow> IsNotFound err" using g unread(1) unfolding answers_def by (metis snd_conv)
    moreover have "IsNotFound err \<longrightarrow> removal (pods w) lock x = []"
      using deletion_logD(4) [OF law] g unread(1) by (fastforce simp: removal_def)
    ultimately show ?thesis using 2 unread by (auto intro: exI [of _ 0])
  next
    case healthy
    then show ?thesis using 2 deletion_logD(3) [OF law] g by (fastforce simp: removal_def)
  next
    case failed
    have p: "pods w (OwnerName x) = Some p" "LpName p = OwnerName x"
      using deletion_logD(3) [OF law] g failed(1) by blast+
    then have rem: "removal (pods w) lock x = [PodDeletion (LpName p), LockDeletion (LockName lock)]"
      using failed by (simp add: removal_def)
    obtain k where k: "log w1 = log w2 @ take k (removal (pods w) lock x)" "e = None \<longrightarrow> k = 2"
      using deleteLeader_log(1) [OF law failed(4)] unfolding rem by blast
    have "take 2 (removal (pods w) lock x) = removal (pods w) lock x" by (simp add: rem)
    with k 2 have "\<exists>k. log w1 = log w @ take k (removal (pods w) lock x) \<and> (e = None \<longrightarrow> log w1 = log w @ removal (pods w) lock x)"
      by auto
    with deleteLeader_log(2,3) [OF law failed(4)] 2 p(2) show ?thesis by simp
  qed
  then show "\<exists>k. log w1 = log w @ take k (removal (pods w) lock x) \<and> (e = None \<longrightarrow> log w1 = log w @ removal (pods w) lock x)"
    and "n \<noteq> OwnerName x \<Longrightarrow> pods w1 n = pods w n" and "answers r ns \<Longrightarrow> e = None"
    by blast+
qed

lemma removals_simps [simp]:
  "removals v lock [] = []" "removals v lock (x # owners) = removal v lock x @ removals v lock owners"
  by (simp_all add: removals_def)

lemma removals_cong:
  "(\<And>x. x \<in> set owners \<Longrightarrow> v (OwnerName x) = v' (OwnerName x)) \<Longrightarrow> removals v lock owners = removals v' lock owners"
  by (induction owners) (simp_all add: removal_def)

lemma consulted_subset: "set (consulted me owners) \<subseteq> set owners"
  unfolding consulted_def by (blast dest: set_takeWhileD)

lemma check_owners_removes:
  assumes law: "deletion_log r ns pods log" and "distinct (map OwnerName owners)"
    and "check_owners r me lock ns owners w = (w1, e)"
  shows "\<exists>k. log w1 = log w @ take k (removals (pods w) lock (consulted me owners)) \<and>
    (e = None \<longrightarrow> log w1 = log w @ removals (pods w) lock (consulted me owners)) \<and> (answers r ns \<longrightarrow> e = None)"
  using assms(2,3)
proof (induction owners arbitrary: w)
  case (Cons x owners)
  show ?case
  proof (cases "OwnerName x = me")
    case False
    obtain w2 e2 where c: "checkupLeaderPodStatus r x lock ns w = (w2, e2)" by (metis prod.exhaust)
    note first = checkup_removes [OF law c]
    obtain k where k: "log w2 = log w @ take k (removal (pods w) lock x)"
      "e2 = None \<longrightarrow> log w2 = log w @ removal (pods w) lock x" using first(1) by blast
    show ?thesis
    proof (cases e2)
      case None
      with Cons.prems(2) False c have rest: "check_owners r me lock ns owners w2 = (w1, e)" by simp
      have same: "removals (pods w2) lock (consulted me owners) = removals (pods w) lock (consulted me owners)"
      proof (intro removals_cong first(2))
        fix y assume "y \<in> set (consulted me owners)"
        then have "OwnerName y \<in> OwnerName ` set owners" using consulted_subset [of me owners] by blast
        with Cons.prems(1) show "OwnerName y \<noteq> OwnerName x" by auto
      qed
      have "distinct (map OwnerName owners)" using Cons.prems(1) by simp
      from Cons.IH [OF this rest] obtain j where j:
        "log w1 = log w2 @ take j (removals (pods w) lock (consulted me owners))"
        "e = None \<longrightarrow> log w1 = log w2 @ removals (pods w) lock (consulted me owners)" "answers r ns \<longrightarrow> e = None"
        unfolding same by blast
      with k None False show ?thesis by (intro exI [of _ "length (removal (pods w) lock x) + j"]) simp
    next
      case (Some err)
      then have "w1 = w2" "e = Some err" using Cons.prems(2) False c by simp_all
      moreover have "log w2 = log w @ take (min k (length (removal (pods w) lock x)))
          (removals (pods w) lock (consulted me (x # owners)))"
        using k(1) False by (simp add: min_def)
      ultimately show ?thesis using first(3) Some by blast
    qed
  qed (use Cons.prems in simp)
qed simp

text \<open>C38. A failed leader is removed before the election. For a lock with any owners (of different names), the
  check requests, for each owner of kind \<open>Pod\<close> in front of the operator's own pod whose pod has the reason
  \<open>ProviderFailed\<close>, the deletion of that pod and right after it of the lock, in the order of the owners, and
  nothing else (\<open>removals\<close>). If a request fails it stops there, so what it has requested is always a beginning of
  that list: the lock is never deleted before the failed pod. If it ends without an error it has
  requested the whole list, and it does so when every request is answered (\<open>answers\<close>; a lock that is
  already gone is no error). The election then runs from the state the check left, whatever its
  result, and determines what \<open>BecomeLeader\<close> returns; only if the client could not be created is
  there no election: the dropped error makes the check panic before any request.\<close>

theorem failed_leader_is_removed:
  assumes law: "deletion_log r ns pods log" and lock: "GetLock r ns lockName w = (w1, Inr lock)"
    and me: "PodNameVar r \<noteq> []" and owners: "distinct (map OwnerName (LockOwners lock))"
    and todo: "todo = removals (pods w) lock (consulted (PodNameVar r) (LockOwners lock))"
  shows "\<exists>w2 e k. precheckLeaderLock r lockName ns w = (w2, e) \<and> log w2 = log w @ take k todo \<and>
    (e = None \<longrightarrow> log w2 = log w @ todo) \<and> (answers r ns \<longrightarrow> e = None) \<and>
    BecomeLeader r lockName ns w =
      (if ClientFails r then (w, Some (GoPanic ''nil pointer dereference'')) else Become r lockName w2)"
proof -
  have 1: "log w1 = log w" "pods w1 = pods w" using deletion_logD(1) [OF law lock] by simp_all
  obtain w2 e where c: "check_owners r (PodNameVar r) lock ns (LockOwners lock) w1 = (w2, e)" by (metis prod.exhaust)
  then have "precheckLeaderLock r lockName ns w = (w2, e)"
    using lock me by (simp add: precheckLeaderLock_def getConfigMapWithLock_def)
  with check_owners_removes [OF law owners c] show ?thesis
    unfolding todo 1 BecomeLeader_def by (intro exI [of _ w2] exI [of _ e]) auto
qed

text \<open>A server whose world is the record of deletions. Deleted pods stay visible while they terminate.\<close>

definition log_leader :: "LockMap \<Rightarrow> LeaderPod list \<Rightarrow> deletion list LeaderEnv" where
  "log_leader lock ps = \<lparr>ClientFails = False,
     GetLock = (\<lambda>ns n w. (w, Inr lock)),
     GetLeaderPod = (\<lambda>ns n w. (w, case List.find (\<lambda>p. LpName p = n) ps of None \<Rightarrow> Inl NotFound | Some p \<Rightarrow> Inr p)),
     DeletePod = (\<lambda>p w. (w @ [PodDeletion (LpName p)], None)),
     DeleteLock = (\<lambda>l w. (w @ [LockDeletion (LockName l)],
       if LockDeletion (LockName l) \<in> set w then Some NotFound else None)),
     PodNameVar = ''operator-2'', Become = (\<lambda>l w. (w, None))\<rparr>"

definition contested_lock :: LockMap where
  "contested_lock = \<lparr>LockName = ''lock'', LockOwners = map (\<lambda>(k, n). \<lparr>OwnerKind = k, OwnerName = n, OwnerUID = []\<rparr>)
     [(''Job'', ''job''), (''Pod'', ''operator-1''), (''Pod'', ''operator-3''), (''Pod'', ''operator-4''),
      (''Pod'', ''operator-2''), (''Pod'', ''operator-5'')]\<rparr>"

definition contesting_pods :: "LeaderPod list" where
  "contesting_pods = map (\<lambda>(n, reason). \<lparr>LpName = n, LpPhase = ''Failed'', LpReason = reason\<rparr>)
     [(''job'', ''ProviderFailed''), (''operator-1'', ''ProviderFailed''), (''operator-3'', ''Evicted''),
      (''operator-4'', ''ProviderFailed''), (''operator-5'', ''ProviderFailed'')]"

theorem failed_leader_is_removed_witness:
  "BecomeLeader (log_leader contested_lock contesting_pods) ''lock'' ''ns'' [] =
     ([PodDeletion ''operator-1'', LockDeletion ''lock'', PodDeletion ''operator-4'', LockDeletion ''lock''], None)"
proof -
  let ?r = "log_leader contested_lock contesting_pods"
  let ?pods = "\<lambda>w n. List.find (\<lambda>p. LpName p = n) contesting_pods"
  have "deletion_log ?r ''ns'' ?pods id"
    by (auto simp: deletion_log_def log_leader_def IsNotFound_def find_Some_iff split: option.splits)
  moreover have "GetLock ?r ''ns'' ''lock'' [] = ([], Inr contested_lock)" "PodNameVar ?r \<noteq> []" "answers ?r ''ns''"
    "distinct (map OwnerName (LockOwners contested_lock))" "\<not> ClientFails ?r" "\<And>l w. Become ?r l w = (w, None)"
    by (auto simp: log_leader_def answers_def IsNotFound_def contested_lock_def split: option.splits if_splits)
  moreover have "removals (?pods []) contested_lock (consulted (PodNameVar ?r) (LockOwners contested_lock)) =
      [PodDeletion ''operator-1'', LockDeletion ''lock'', PodDeletion ''operator-4'', LockDeletion ''lock'']"
    by code_simp
  ultimately show ?thesis
    using failed_leader_is_removed [of ?r "''ns''" ?pods id "''lock''" "[]" "[]" contested_lock, OF _ _ _ _ refl] by auto
qed

end
