(* ===== verification/Coherence.thy ===== *)
theory Coherence
  imports ReconcileLoop ZkClient Leader
begin

text \<open>
  Facts on which several components rely together, reduced to lemmas of the generators: what a
  defaulted cluster generates, which labels the generated objects carry and select, what backs the
  mounts of the pods.
\<close>

section \<open>Generation after defaulting\<close>

lemma MakeStatefulSet_complete:
  assumes "storage_complete (Spec z)" and "SpecProbes (Spec z) = Some p" "Probes_complete p"
  shows "MakeStatefulSet z \<noteq> None"
proof -
  obtain v where "data_storage z = Some v"
    using assms(1) by (auto simp: data_storage_def storage_complete_def split: if_splits option.splits)
  moreover have "makeZkPodSpec z vs \<noteq> None" for vs
    using assms(2,3) by (auto simp: makeZkPodSpec_def Probes_complete_def Let_def)
  moreover obtain vs pvcs where v: "v = (vs, pvcs)" by (cases v)
  moreover obtain ps where "makeZkPodSpec z vs = Some ps" using \<open>makeZkPodSpec z vs \<noteq> None\<close> by blast
  ultimately show ?thesis by (simp add: MakeStatefulSet_def)
qed

lemma normal_storage_keeps:
  "SpecProbes (normal_storage s) = SpecProbes s" "storage_complete (normal_storage s) = storage_complete s"
  by (auto simp: normal_storage_def storage_complete_def Persistence_complete_def force_access_modes_def storage_request_def
      split: option.splits)

section \<open>Labels and selectors\<close>

text \<open>\<open>selects sel labels\<close>: a label selector of this form matches an object with these labels.\<close>

definition selects :: "go_map \<Rightarrow> go_map option \<Rightarrow> bool" where
  "selects sel labels \<longleftrightarrow> list_all (\<lambda>(k, v). gm_get labels k = Some v) sel"

lemma merged_last:
  assumes "distinct (map fst l)" and "map_of l k = Some v"
  shows "map_of (mergeLabels (ls @ [Some l])) k = Some v"
  using assms by (simp add: mergeLabels_def map_of_gm_overlay)

lemma MakeStatefulSet_parts:
  assumes "MakeStatefulSet z = Some s"
  shows "MetaLabels (TplMeta (SsTemplate (SsSpec s))) = Some (mergeLabels [Labels (Spec z), PodLabels (Pod (Spec z)),
      Some [(''app'', GetName z), (''kind'', ''ZookeeperMember'')]])"
    and "SsSelector (SsSpec s) = [(''app'', GetName z)]"
    and "SsServiceName (SsSpec s) = headlessSvcName z" and "SsReplicas (SsSpec s) = Some (Replicas (Spec z))"
    and "\<exists>vs. data_storage z = Some (vs, SsVolumeClaimTemplates (SsSpec s)) \<and>
      makeZkPodSpec z vs = Some (TplSpec (SsTemplate (SsSpec s)))"
  using assms by (auto simp: MakeStatefulSet_def split: Option.bind_splits)

lemma template_labels:
  assumes "MakeStatefulSet z = Some s"
  shows "gm_get (MetaLabels (TplMeta (SsTemplate (SsSpec s)))) ''app'' = Some (GetName z)"
  using merged_last [of "[(''app'', GetName z), (''kind'', ''ZookeeperMember'')]" "''app''" "GetName z"
      "[Labels (Spec z), PodLabels (Pod (Spec z))]"] MakeStatefulSet_parts(1) [OF assms]
  by simp

lemma claim_labels:
  assumes "data_storage z = Some (vs, pvcs)" and "c \<in> set pvcs"
  shows "selects (pvc_selector z) (MetaLabels (PvcMeta c))"
proof -
  have "MetaLabels (PvcMeta c) = Some (mergeLabels ([Labels (Spec z)] @ [Some [(''app'', GetName z), (''uid'', MetaUID (Meta z))]]))"
    using assms by (auto simp: data_storage_def split: if_splits option.splits)
  then show ?thesis
    using merged_last [of "[(''app'', GetName z), (''uid'', MetaUID (Meta z))]" _ _ "[Labels (Spec z)]"]
    by (simp add: selects_def pvc_selector_def)
qed

lemma service_selectors:
  "SvcSelector (SvcSpec (MakeClientService z)) = [(''app'', GetName z)]"
  "SvcSelector (SvcSpec (MakeHeadlessService z)) = [(''app'', GetName z)]"
  "SvcSelector (SvcSpec (MakeAdminServerService z)) = [(''app'', GetName z)]"
  "PdbSelector (MakePodDisruptionBudget z) = [(''app'', GetName z)]"
  by (simp_all add: MakeClientService_def MakeHeadlessService_def MakeAdminServerService_def makeService_def
      MakePodDisruptionBudget_def Let_def)

section \<open>Mounts\<close>

lemma pod_volumes:
  assumes "makeZkPodSpec z vs = Some ps"
  shows "PsVolumes ps = SpecVolumes (Spec z) @ vs @ [\<lparr>VolumeName = ''conf'', VolumeSrc = ConfigMapVolume (ConfigMapName z)\<rparr>]"
    and "\<exists>c. PsContainers ps = SpecContainers (Spec z) @ [c] \<and> ContainerMounts c = SpecVolumeMounts (Spec z) @
      [\<lparr>MountName = ''data'', MountPath = ''/data'', MountRest = []\<rparr>, \<lparr>MountName = ''conf'', MountPath = ''/conf'', MountRest = []\<rparr>]"
  using assms by (auto simp: makeZkPodSpec_def Let_def split: Option.bind_splits)

lemma data_storage_names:
  assumes "data_storage z = Some (vs, pvcs)"
  shows "map VolumeName vs @ map (\<lambda>c. MetaName (PvcMeta c)) pvcs = [''data'']"
  using assms by (auto simp: data_storage_def zkDataVolume_def split: if_splits option.splits)

end
