(* ===== verification/UpgradeProgress.thy ===== *)
theory UpgradeProgress
  imports UpgradeMachine
begin

text \<open>
  Passes of \<open>upgradeStatefulSet\<close> one after the other: an upgrade that makes no progress is marked as failed
  after ten minutes, however often the operator looks at it in between.
\<close>

text \<open>
  One pass for each world of the list, the state in which it finds the environment; the StatefulSet it
  observes is the same each time. The status is carried from pass to pass.
\<close>

fun upgrade_passes :: "'w Env \<Rightarrow> StatefulSet \<Rightarrow> 'w list \<Rightarrow> ZookeeperCluster \<Rightarrow> ZookeeperCluster" where
  "upgrade_passes r sts [] z = z"
| "upgrade_passes r sts (w # ws) z = upgrade_passes r sts ws (snd (fst (upgradeStatefulSet r sts (w, z))))"

lemma upgrade_passes_append:
  "upgrade_passes r sts (us @ ws) z = upgrade_passes r sts ws (upgrade_passes r sts us z)"
  by (induction r sts us z rule: upgrade_passes.induct) auto

text \<open>An upgrade that rolls: a target version, and the StatefulSet between two revisions.\<close>

definition rolling :: "StatefulSet \<Rightarrow> ZookeeperCluster \<Rightarrow> ClusterCondition \<Rightarrow> bool" where
  "rolling sts z c \<longleftrightarrow> cond (Status z) ClusterConditionUpgrading = Some c \<and> CondStatus c = ConditionTrue \<and>
     TargetVersion (Status z) \<noteq> [] \<and> CurrentRevision (SsStatus sts) \<noteq> UpdateRevision (SsStatus sts)"

text \<open>Progress to the observed number of replicas was recorded at \<open>t0\<close>.\<close>

definition recorded :: "StatefulSet \<Rightarrow> instant \<Rightarrow> ClusterCondition \<Rightarrow> bool" where
  "recorded sts t0 c \<longleftrightarrow> CondReason c = UpdatingZookeeperReason \<and>
     CondMessage c = Itoa32 (SsUpdatedReplicas (SsStatus sts)) \<and> LastUpdateTime c = FormatRFC3339 t0"

definition deadline :: "instant \<Rightarrow> instant" where
  "deadline t0 = t0 div second * second + 10 * minute"

lemma first_pass_records:
  assumes "status_echo r" and "rolling sts z c" and "CondMessage c \<noteq> Itoa32 (SsUpdatedReplicas (SsStatus sts))"
    and "z1 = snd (fst (upgradeStatefulSet r sts (w, z)))"
  shows "(\<exists>c1. rolling sts z1 c1 \<and> recorded sts (Now r w) c1) \<and>
    (IsClusterInUpgradeFailedState (Status z1) \<longleftrightarrow> IsClusterInUpgradeFailedState (Status z))"
proof -
  let ?n = "Itoa32 (SsUpdatedReplicas (SsStatus sts))"
  let ?st = "SetUpgradingConditionTrue (Now r w) UpdatingZookeeperReason ?n (Status z)"
  have up: "IsClusterInUpgradingState (Status z)" using assms(2) by (simp add: rolling_def status_predicates)
  have s: "Status z1 = ?st"
    using assms up by (simp add: upgradeStatefulSet_def rolling_def Let_def status_update_status UpdateProgress_def)
  let ?c1 = "merged_condition (Now r w) (Some c) (newClusterCondition ClusterConditionUpgrading ConditionTrue UpdatingZookeeperReason ?n)"
  have "rolling sts z1 ?c1" using assms(2) s by (simp add: rolling_def setter_cond)
  moreover have "recorded sts (Now r w) ?c1" using assms(3) by (simp add: recorded_def merged_condition_def)
  ultimately show ?thesis using s by (auto simp: status_predicates setter_cond)
qed

lemma later_pass:
  assumes "status_echo r" and "rolling sts z c" and "recorded sts t0 c"
    and t0: "0 \<le> t0" "t0 < 253402300800 * second"
    and "z1 = snd (fst (upgradeStatefulSet r sts (w, z)))"
  shows "if deadline t0 < Now r w then IsClusterInUpgradeFailedState (Status z1) else z1 = z"
proof -
  let ?check = "checkSyncTimeout (Now r w) (Status z) UpdatingZookeeperReason (SsUpdatedReplicas (SsStatus sts)) (10 * minute)"
  have d: "?check \<noteq> None \<longleftrightarrow> deadline t0 < Now r w"
    using assms(2,3) deadline_of_stamp [OF _ _ _ _ _ t0] by (simp add: rolling_def recorded_def deadline_def)
  show ?thesis
  proof (cases ?check)
    case None
    with d assms(2,3,6) show ?thesis by (simp add: upgradeStatefulSet_def rolling_def recorded_def Let_def)
  next
    case (Some e)
    with assms(1,2,3,6) have "Status z1 = SetErrorConditionTrue (Now r w) ''UpgradeFailed'' (err_text e) (Status z)"
      by (simp add: upgradeStatefulSet_def rolling_def recorded_def Let_def status_update_status)
    with d Some show ?thesis by (simp add: status_predicates setter_cond)
  qed
qed

lemma passes_before_deadline:
  assumes "status_echo r" and "rolling sts z c" and "recorded sts t0 c"
    and t0: "0 \<le> t0" "t0 < 253402300800 * second" and "list_all (\<lambda>w. Now r w \<le> deadline t0) ws"
  shows "upgrade_passes r sts ws z = z"
  using assms(6)
proof (induction ws)
  case (Cons w ws)
  with later_pass [OF assms(1-5) refl, of w] show ?case by simp
qed simp

text \<open>C27. A stalled upgrade fails. Once a pass has recorded the number of updated replicas, later passes that
  observe the same number, however many, change nothing and do not move the deadline as long as it has not
  passed; the first pass more than ten minutes (from the second of the recording) later marks the upgrade as
  failed. So an upgrade that does not progress cannot stay unnoticed, and one is not marked as failed early.\<close>

theorem stalled_upgrade_fails:
  assumes "status_echo r" and "rolling sts z c" and "CondMessage c \<noteq> Itoa32 (SsUpdatedReplicas (SsStatus sts))"
    and t0: "0 \<le> Now r w0" "Now r w0 < 253402300800 * second"
    and "list_all (\<lambda>w. Now r w \<le> deadline (Now r w0)) ws"
  shows "upgrade_passes r sts (w0 # ws) z = upgrade_passes r sts [w0] z \<and>
    (IsClusterInUpgradeFailedState (Status (upgrade_passes r sts (w0 # ws) z)) \<longleftrightarrow> IsClusterInUpgradeFailedState (Status z)) \<and>
    (deadline (Now r w0) < Now r w \<longrightarrow>
       IsClusterInUpgradeFailedState (Status (upgrade_passes r sts (w0 # ws @ [w]) z)))"
proof -
  let ?z1 = "snd (fst (upgradeStatefulSet r sts (w0, z)))"
  from first_pass_records [OF assms(1-3) refl, of w0] obtain c1 where
    c1: "rolling sts ?z1 c1" "recorded sts (Now r w0) c1"
    and f: "IsClusterInUpgradeFailedState (Status ?z1) \<longleftrightarrow> IsClusterInUpgradeFailedState (Status z)" by blast
  have s: "upgrade_passes r sts ws ?z1 = ?z1" by (rule passes_before_deadline [OF assms(1) c1 t0 assms(6)])
  show ?thesis using s f later_pass [OF assms(1) c1 t0 refl, of w] by (simp add: upgrade_passes_append)
qed

definition stalled_sts :: StatefulSet where
  "stalled_sts = (sample_sts ''7'')\<lparr>SsStatus := sample_sts_status\<rparr>"

definition started_cluster :: ZookeeperCluster where
  "started_cluster = start_upgrade 0 ready_cluster"

abbreviation at_time :: "instant \<Rightarrow> world" where
  "at_time t \<equiv> sample_world\<lparr>w_time := t\<rparr>"

theorem stalled_upgrade_fails_witness:
  "let t = 1700000000000000000 in
     \<not> IsClusterInUpgradeFailedState (Status (upgrade_passes mem_env stalled_sts
         [at_time t, at_time (t + 5 * minute), at_time (t + 10 * minute)] started_cluster)) \<and>
     IsClusterInUpgradeFailedState (Status (upgrade_passes mem_env stalled_sts
         [at_time t, at_time (t + 5 * minute), at_time (t + 10 * minute), at_time (t + 10 * minute + 1)] started_cluster))"
proof -
  let ?t = "1700000000000000000 :: int"
  have "CondStatus (the (cond (Status started_cluster) ClusterConditionUpgrading)) = ConditionTrue \<and>
      CondMessage (the (cond (Status started_cluster) ClusterConditionUpgrading)) = [] \<and>
      cond (Status started_cluster) ClusterConditionUpgrading \<noteq> None \<and> TargetVersion (Status started_cluster) \<noteq> [] \<and>
      \<not> IsClusterInUpgradeFailedState (Status started_cluster)"
    by code_simp
  then obtain c where c: "rolling stalled_sts started_cluster c" "CondMessage c = []"
      "\<not> IsClusterInUpgradeFailedState (Status started_cluster)"
    by (auto simp: rolling_def stalled_sts_def sample_sts_status_def)
  have n: "CondMessage c \<noteq> Itoa32 (SsUpdatedReplicas (SsStatus stalled_sts))"
    using c(2) by (simp add: stalled_sts_def sample_sts_status_def Itoa32_one)
  have d: "deadline ?t = ?t + 10 * minute" by (simp add: deadline_def second_def)
  note run = stalled_upgrade_fails [OF idle_echo c(1) n, of "at_time ?t" "[at_time (?t + 5 * minute), at_time (?t + 10 * minute)]" "at_time (?t + 10 * minute + 1)"]
  show ?thesis
    using run c(3) d by (auto simp: second_def minute_def Let_def simp del: upgrade_passes.simps)
qed

end
