(* ===== verification/E2eUtil.thy ===== *)
theory E2eUtil
  imports UpgradeProgress ClusterReconcile
begin

text \<open>
  The helpers of the end-to-end tests (\<open>pkg/test/e2e/e2eutil\<close>): the clusters they create and the conditions
  they wait for, which are the contract of the operator as its tests see it. The Kubernetes client and
  \<open>wait.PollUntilContextTimeout\<close> are the parameter \<open>TestEnv\<close>; the closure handed to it returns whether it
  is done, and an error. Logging is left out.
\<close>

section \<open>spec\_util.go\<close>

definition zero_spec :: ZookeeperClusterSpec where
  "zero_spec = bare_spec\<lparr>Replicas := 0\<rparr>"

definition NewDefaultCluster :: "string \<Rightarrow> TypeMeta \<times> ZookeeperCluster" where
  "NewDefaultCluster namespace =
     (\<lparr>Kind = ''ZookeeperCluster'', APIVersion = ''zookeeper.pravega.io/v1beta1''\<rparr>,
      \<lparr>Meta = empty_meta\<lparr>MetaName := ''zookeeper'', MetaNamespace := namespace\<rparr>,
       Spec = zero_spec\<lparr>Image := \<lparr>Repository = ''ghcr.io/infonl/zookeeper'', Tag = ''0.2.16-rc.2'', PullPolicy = []\<rparr>\<rparr>,
       Status = empty_status\<rparr>)"

definition NewClusterWithVersion :: "string \<Rightarrow> string \<Rightarrow> TypeMeta \<times> ZookeeperCluster" where
  "NewClusterWithVersion namespace version =
     (let cluster = NewDefaultCluster namespace; z = snd cluster
      in (fst cluster, z\<lparr>Spec := (Spec z)\<lparr>Image := (Image (Spec z))\<lparr>Tag := version\<rparr>\<rparr>\<rparr>))"

definition NewClusterWithEmptyDir :: "string \<Rightarrow> TypeMeta \<times> ZookeeperCluster" where
  "NewClusterWithEmptyDir namespace =
     (let cluster = NewDefaultCluster namespace; z = snd cluster
      in (fst cluster, z\<lparr>Spec := (Spec z)\<lparr>StorageType := ''ephemeral''\<rparr>\<rparr>))"

section \<open>zookeepercluster\_util.go\<close>

record 'w TestEnv =
  TestCreate :: "ZookeeperCluster \<Rightarrow> 'w \<Rightarrow> 'w \<times> (go_error + ZookeeperCluster)"
  TestGet :: "string \<Rightarrow> string \<Rightarrow> 'w \<Rightarrow> 'w \<times> (go_error + ZookeeperCluster)"
  TestDelete :: "ZookeeperCluster \<Rightarrow> 'w \<Rightarrow> 'w \<times> go_error option"
  TestUpdate :: "ZookeeperCluster \<Rightarrow> 'w \<Rightarrow> 'w \<times> (go_error + ZookeeperCluster)"
  TestListPods :: "string \<Rightarrow> go_map \<Rightarrow> 'w \<Rightarrow> 'w \<times> (go_error + Pod list)"
  TestDeletePod :: "Pod \<Rightarrow> 'w \<Rightarrow> 'w \<times> go_error option"
  TestListPVCs :: "string \<Rightarrow> go_map \<Rightarrow> 'w \<Rightarrow> 'w \<times> (go_error + StoredPVC list)"
  TestListServices :: "string \<Rightarrow> go_map \<Rightarrow> 'w \<Rightarrow> 'w \<times> (go_error + Service list)"
  Poll :: "int \<Rightarrow> int \<Rightarrow> bool \<Rightarrow> ('w \<Rightarrow> 'w \<times> bool \<times> go_error option) \<Rightarrow> 'w \<Rightarrow> 'w \<times> go_error option"

definition RetryInterval :: int where "RetryInterval = second * 15"
definition ReadyTimeout :: int where "ReadyTimeout = minute * 15"
definition UpgradeTimeout :: int where "UpgradeTimeout = minute * 25"
definition TerminateTimeout :: int where "TerminateTimeout = minute * 15"

definition app_selector :: "ZookeeperCluster \<Rightarrow> go_map" where
  "app_selector z = [(''app'', GetName z)]"

text \<open>\<open>fmt.Errorf(text + ": %v", err)\<close>\<close>

definition wrapped :: "string \<Rightarrow> go_error \<Rightarrow> go_error" where
  "wrapped text err = GoErr (text @ '': '' @ err_text err)"

text \<open>The cluster read back is dropped: the result is the argument, as \<open>Create\<close> left it.\<close>

definition CreateCluster :: "'w TestEnv \<Rightarrow> ZookeeperCluster \<Rightarrow> 'w \<Rightarrow> 'w \<times> (go_error + ZookeeperCluster)" where
  "CreateCluster r z w =
     (case TestCreate r z w of
        (w1, Inl err) \<Rightarrow> (w1, Inl (wrapped ''failed to create CR'' err))
      | (w1, Inr z1) \<Rightarrow>
          (case TestGet r (GetNamespace z1) (GetName z1) w1 of
             (w2, Inl err) \<Rightarrow> (w2, Inl (wrapped ''failed to obtain created CR'' err))
           | (w2, Inr zk) \<Rightarrow> (w2, Inr z1)))"

definition DeleteCluster :: "'w TestEnv \<Rightarrow> ZookeeperCluster \<Rightarrow> 'w \<Rightarrow> 'w \<times> go_error option" where
  "DeleteCluster r z w =
     (case TestDelete r z w of
        (w1, Some err) \<Rightarrow> (w1, Some (wrapped ''failed to delete CR'' err))
      | (w1, None) \<Rightarrow> (w1, None))"

definition E2e_UpdateCluster :: "'w TestEnv \<Rightarrow> ZookeeperCluster \<Rightarrow> 'w \<Rightarrow> ('w \<times> ZookeeperCluster) \<times> go_error option" where
  "E2e_UpdateCluster r z w =
     (case TestUpdate r z w of
        (w1, Inl err) \<Rightarrow> ((w1, z), Some (wrapped ''failed to update CR'' err))
      | (w1, Inr z1) \<Rightarrow> ((w1, z1), None))"

definition E2e_GetCluster :: "'w TestEnv \<Rightarrow> ZookeeperCluster \<Rightarrow> 'w \<Rightarrow> 'w \<times> (go_error + ZookeeperCluster)" where
  "E2e_GetCluster r z w =
     (case TestGet r (GetNamespace z) (GetName z) w of
        (w1, Inl err) \<Rightarrow> (w1, Inl (wrapped ''failed to obtain created CR'' err))
      | (w1, Inr zk) \<Rightarrow> (w1, Inr zk))"

definition ready_check :: "int \<Rightarrow> ZookeeperClusterStatus \<Rightarrow> bool \<times> go_error option" where
  "ready_check sz st =
     (case snd (GetClusterCondition st ClusterConditionPodsReady) of
        Some condition \<Rightarrow>
          if CondStatus condition = ConditionTrue \<and> ReadyReplicas st = to_int32 sz then (True, None) else (False, None)
      | None \<Rightarrow> (False, None))"

definition WaitForClusterToBecomeReady ::
  "'w TestEnv \<Rightarrow> ZookeeperCluster \<Rightarrow> int \<Rightarrow> 'w \<Rightarrow> 'w \<times> go_error option" where
  "WaitForClusterToBecomeReady r z sz w =
     Poll r RetryInterval ReadyTimeout False
       (\<lambda>w. case E2e_GetCluster r z w of
          (w1, Inl err) \<Rightarrow> (w1, False, Some err)
        | (w1, Inr cluster) \<Rightarrow> (w1, ready_check sz (Status cluster))) w"

text \<open>Both conditions are dereferenced without a check for nil.\<close>

definition upgrade_check :: "string \<Rightarrow> ZookeeperClusterStatus \<Rightarrow> bool \<times> go_error option" where
  "upgrade_check targetVersion st =
     (case (snd (GetClusterCondition st ClusterConditionUpgrading), snd (GetClusterCondition st ClusterConditionError)) of
        (Some upgradeCondition, Some errorCondition) \<Rightarrow>
          if CondStatus errorCondition = ConditionTrue
          then (False, Some (GoErr (''failed upgrading cluster: ['' @ CondReason errorCondition @ ''] '' @ CondMessage errorCondition)))
          else if CondStatus upgradeCondition = ConditionFalse \<and> CurrentVersion st = targetVersion
          then (True, None)
          else (False, None)
      | _ \<Rightarrow> (False, Some (GoPanic ''nil pointer dereference'')))"

definition WaitForClusterToUpgrade ::
  "'w TestEnv \<Rightarrow> ZookeeperCluster \<Rightarrow> string \<Rightarrow> 'w \<Rightarrow> 'w \<times> go_error option" where
  "WaitForClusterToUpgrade r z targetVersion w =
     Poll r RetryInterval UpgradeTimeout False
       (\<lambda>w. case E2e_GetCluster r z w of
          (w1, Inl err) \<Rightarrow> (w1, False, Some err)
        | (w1, Inr cluster) \<Rightarrow> (w1, upgrade_check targetVersion (Status cluster))) w"

definition WaitForClusterToTerminate :: "'w TestEnv \<Rightarrow> ZookeeperCluster \<Rightarrow> 'w \<Rightarrow> 'w \<times> go_error option" where
  "WaitForClusterToTerminate r z w =
     (case Poll r RetryInterval TerminateTimeout False
             (\<lambda>w. case TestListPods r (GetNamespace z) (app_selector z) w of
                (w1, Inl err) \<Rightarrow> (w1, False, Some err)
              | (w1, Inr podList) \<Rightarrow> (w1, map PodName podList = [], None)) w of
        (w1, Some err) \<Rightarrow> (w1, Some err)
      | (w1, None) \<Rightarrow>
          Poll r RetryInterval TerminateTimeout False
            (\<lambda>w. case TestListPVCs r (GetNamespace z) (app_selector z) w of
               (w1, Inl err) \<Rightarrow> (w1, False, Some err)
             | (w1, Inr pvcList) \<Rightarrow> (w1, map PvcName pvcList = [], None)) w1)"

fun delete_pods :: "'w TestEnv \<Rightarrow> Pod list \<Rightarrow> 'w \<Rightarrow> 'w \<times> go_error option" where
  "delete_pods r [] w = (w, None)"
| "delete_pods r (pod # pods) w =
     (case TestDeletePod r pod w of
        (w1, Some err) \<Rightarrow> (w1, Some (wrapped ''failed to delete pod'' err))
      | (w1, None) \<Rightarrow> delete_pods r pods w1)"

definition DeletePods :: "'w TestEnv \<Rightarrow> ZookeeperCluster \<Rightarrow> int \<Rightarrow> 'w \<Rightarrow> 'w \<times> go_error option" where
  "DeletePods r z sz w =
     (case TestListPods r (GetNamespace z) (app_selector z) w of
        (w1, Inl err) \<Rightarrow> (w1, Some err)
      | (w1, Inr items) \<Rightarrow>
          if int (length items) < sz
          then (w1, Some (GoErr (''expected at least '' @ Itoa sz @ '' pods for cluster '' @ GetName z @ '', found '' @ Itoa (int (length items)))))
          else delete_pods r (take (nat sz) items) w1)"

definition GetPods :: "'w TestEnv \<Rightarrow> ZookeeperCluster \<Rightarrow> 'w \<Rightarrow> 'w \<times> (go_error + Pod list)" where
  "GetPods r z w = TestListPods r (GetNamespace z) (app_selector z) w"

fun find_admin :: "Service list \<Rightarrow> go_error option" where
  "find_admin [] = Some (GoErr ''Admin Service is not enabled'')"
| "find_admin (sn # items) = (if MetaName (SvcMeta sn) = ''zookeeper-admin-server'' then None else find_admin items)"

definition CheckAdminService :: "'w TestEnv \<Rightarrow> ZookeeperCluster \<Rightarrow> 'w \<Rightarrow> 'w \<times> go_error option" where
  "CheckAdminService r z w =
     (case TestListServices r (GetNamespace z) (app_selector z) w of
        (w1, Inl err) \<Rightarrow> (w1, Some err)
      | (w1, Inr items) \<Rightarrow> (w1, find_admin items))"

section \<open>What the tests wait for\<close>

text \<open>The documented contract of polling: success is the last call of the closure reporting that it is done.\<close>

definition polls :: "'w TestEnv \<Rightarrow> bool" where
  "polls r \<longleftrightarrow> (\<forall>i t now f w w1. Poll r i t now f w = (w1, None) \<longrightarrow> (\<exists>v. f v = (w1, True, None)))"

lemma wait_for_upgrade_success:
  assumes "polls r" and "WaitForClusterToUpgrade r z v w = (w1, None)"
  shows "\<exists>u cluster. TestGet r (GetNamespace z) (GetName z) u = (w1, Inr cluster) \<and> upgrade_check v (Status cluster) = (True, None)"
proof -
  obtain u where "(case E2e_GetCluster r z u of (w1, Inl err) \<Rightarrow> (w1, False, Some err)
      | (w1, Inr cluster) \<Rightarrow> (w1, upgrade_check v (Status cluster))) = (w1, True, None)"
    using assms unfolding polls_def WaitForClusterToUpgrade_def by blast
  then show ?thesis by (auto simp: E2e_GetCluster_def split: prod.splits sum.splits)
qed

lemma wait_for_termination_success:
  assumes "polls r" and "WaitForClusterToTerminate r z w = (w1, None)"
  shows "\<exists>u. TestListPVCs r (GetNamespace z) (app_selector z) u = (w1, Inr [])"
proof -
  obtain w2 where "Poll r RetryInterval TerminateTimeout False
      (\<lambda>w. case TestListPVCs r (GetNamespace z) (app_selector z) w of
         (w1, Inl err) \<Rightarrow> (w1, False, Some err) | (w1, Inr pvcList) \<Rightarrow> (w1, map PvcName pvcList = [], None)) w2 = (w1, None)"
    using assms(2) by (auto simp: WaitForClusterToTerminate_def split: prod.splits option.splits)
  then obtain u where "(case TestListPVCs r (GetNamespace z) (app_selector z) u of
      (w1, Inl err) \<Rightarrow> (w1, False, Some err) | (w1, Inr pvcList) \<Rightarrow> (w1, map PvcName pvcList = [], None)) = (w1, True, None)"
    using assms(1) unfolding polls_def by blast
  then show ?thesis by (auto split: prod.splits sum.splits)
qed

text \<open>
  What the wait reads of a status, and the conditions one pass of \<open>upgradeStatefulSet\<close> leaves: the
  upgrade condition is there, and the error condition is the old one or says that the pass gave up.
\<close>

definition same_outcome :: "ZookeeperClusterStatus \<Rightarrow> ZookeeperClusterStatus \<Rightarrow> bool" where
  "same_outcome a b \<longleftrightarrow> cond a ClusterConditionUpgrading = cond b ClusterConditionUpgrading \<and>
     cond a ClusterConditionError = cond b ClusterConditionError \<and> CurrentVersion a = CurrentVersion b"

lemma same_outcome_check: "same_outcome a b \<Longrightarrow> upgrade_check v a = upgrade_check v b"
  by (auto simp: same_outcome_def upgrade_check_def split: option.split)

lemma same_outcome_states:
  "same_outcome a b \<Longrightarrow> IsClusterInUpgradingState a = IsClusterInUpgradingState b"
  "same_outcome a b \<Longrightarrow> IsClusterInUpgradeFailedState a = IsClusterInUpgradeFailedState b"
  by (simp_all add: same_outcome_def status_predicates)

lemma upgrade_step_deterministic: "upgrade_step l s t u v \<Longrightarrow> upgrade_step l s t u v' \<Longrightarrow> v = v'"
  by (auto elim!: upgrade_stepE)

definition gave_up :: "ClusterCondition \<Rightarrow> bool" where
  "gave_up e \<longleftrightarrow> CondStatus e = ConditionTrue \<and> CondReason e = ''UpgradeFailed'' \<and>
     CondMessage e = ''progress deadline exceeded''"

lemma late_text:
  assumes "checkSyncTimeout now st reason n t = Some err"
  shows "err_text err = ''progress deadline exceeded''"
  using assms by (auto simp: checkSyncTimeout_def err_text_def Let_def split: option.splits if_splits)

text \<open>The possible effects of one pass on the conditions, and on a store of the status.\<close>

lemma pass_conditions:
  assumes echo: "status_echo r" and c: "cond (Status z) ClusterConditionUpgrading = Some c"
    and tf: "CondStatus c = ConditionTrue \<or> CondStatus c = ConditionFalse"
    and e: "cond (Status z) ClusterConditionError = Some e"
  shows "\<exists>c1 e1. cond (Status (snd (fst (upgradeStatefulSet r sts (w, z))))) ClusterConditionUpgrading = Some c1 \<and>
    (CondStatus c1 = ConditionTrue \<or> CondStatus c1 = ConditionFalse) \<and>
    cond (Status (snd (fst (upgradeStatefulSet r sts (w, z))))) ClusterConditionError = Some e1 \<and> (e1 = e \<or> gave_up e1)"
proof (cases "CondStatus c = ConditionTrue")
  case True
  let ?late = "checkSyncTimeout (Now r w) (Status z) UpdatingZookeeperReason (SsUpdatedReplicas (SsStatus sts)) (10 * minute)"
  have up: "IsClusterInUpgradingState (Status z)" using c True by (simp add: status_predicates)
  show ?thesis
  proof (cases "?late")
    case None
    with True c e up show ?thesis
      by (simp add: upgradeStatefulSet_def Let_def clearUpgradeStatus_status status_update_status [OF echo]
          UpdateProgress_def setter_cond)
  next
    case (Some err)
    with True c e up late_text [OF Some] show ?thesis
      by (simp add: upgradeStatefulSet_def Let_def clearUpgradeStatus_status status_update_status [OF echo]
          UpdateProgress_def setter_cond gave_up_def)
  qed
next
  case False
  with tf c e show ?thesis
    by (simp add: upgradeStatefulSet_def Let_def start_upgrade_def status_update_status [OF echo] setter_cond)
qed

lemma pass_stored:
  assumes store: "\<And>z w w' z'. UpdateClusterStatus r z w = (w', Inr z') \<Longrightarrow> Status z' = Status z \<and> stored w' = Status z"
    and c: "cond (Status z) ClusterConditionUpgrading = Some c" and nf: "\<not> IsClusterInUpgradeFailedState (Status z)"
    and read: "same_outcome (stored w) (Status z)" and pass: "upgradeStatefulSet r sts (w, z) = ((w1, z1), None)"
  shows "same_outcome (stored w1) (Status z1) \<or>
    \<not> IsClusterInUpgradingState (Status z1) \<and> \<not> IsClusterInUpgradeFailedState (Status z1)"
proof -
  have upd: "same_outcome (stored w1) (Status z1)" if "status_update r (w, y) = ((w1, z1), None)" for y
    using that store [of y w] by (auto simp: status_update_def same_outcome_def split: prod.splits sum.splits)
  have clear: "\<not> IsClusterInUpgradingState (Status z1) \<and> \<not> IsClusterInUpgradeFailedState (Status z1)"
    if "clearUpgradeStatus r (w, y) = ((w1, z1), None)" "cond (Status y) ClusterConditionError = cond (Status z) ClusterConditionError" for y
    using clearUpgradeStatus_status [of r w y] that nf by (simp add: status_predicates setter_cond)
  show ?thesis
    using pass c read
    by (auto simp: upgradeStatefulSet_def Let_def dest: upd clear split: if_splits option.splits)
qed

text \<open>The verdict is a reading of the abstract machine's state after the pass.\<close>

lemma pass_verdict:
  assumes echo: "status_echo r" and c: "cond (Status z) ClusterConditionUpgrading = Some c"
    and tf: "CondStatus c = ConditionTrue \<or> CondStatus c = ConditionFalse"
    and e: "cond (Status z) ClusterConditionError = Some e" and nf: "\<not> IsClusterInUpgradeFailedState (Status z)"
    and u: "u = upgrade_view (Status (snd (fst (upgradeStatefulSet r sts (w, z)))))"
  shows "upgrade_check v (Status (snd (fst (upgradeStatefulSet r sts (w, z))))) =
    (if up_failed u then (False, Some (GoErr ''failed upgrading cluster: [UpgradeFailed] progress deadline exceeded''))
     else if CondStatus e = ConditionTrue
     then (False, Some (GoErr (''failed upgrading cluster: ['' @ CondReason e @ ''] '' @ CondMessage e)))
     else (up_phase u = Idle \<and> up_current u = v, None))"
proof -
  obtain c1 e1 where after: "cond (Status (snd (fst (upgradeStatefulSet r sts (w, z))))) ClusterConditionUpgrading = Some c1"
    "CondStatus c1 = ConditionTrue \<or> CondStatus c1 = ConditionFalse"
    "cond (Status (snd (fst (upgradeStatefulSet r sts (w, z))))) ClusterConditionError = Some e1" "e1 = e \<or> gave_up e1"
    using pass_conditions [OF echo c tf e, of sts w] by blast
  have "\<not> (CondStatus e = ConditionTrue \<and> CondReason e = ''UpgradeFailed'')"
    using nf e by (simp add: status_predicates)
  with after show ?thesis
    unfolding u by (auto simp: upgrade_check_def status_predicates gave_up_def)
qed

text \<open>The report at the end of a reconciliation stores a status with the same outcome.\<close>

lemma report_stored:
  assumes store: "\<And>z w w' z'. UpdateClusterStatus r z w = (w', Inr z') \<Longrightarrow> Status z' = Status z \<and> stored w' = Status z"
    and close: "\<And>w. stored (ZkClose r w) = stored w"
    and conds: "cond (Status z) ClusterConditionUpgrading \<noteq> None" "cond (Status z) ClusterConditionError \<noteq> None"
    and cur: "CurrentVersion (Status z) \<noteq> []"
    and calm: "\<not> IsClusterInUpgradingState (Status z)" "\<not> IsClusterInUpgradeFailedState (Status z)"
    and run: "reconcileClusterStatus r (w, z) = ((w', z'), None)"
  shows "same_outcome (stored w') (Status z)"
proof -
  let ?z0 = "set_status (Status_Init (Now r w)) z"
  have fin: "same_outcome (Status (finish_status n y)) (Status y)" if "CurrentVersion (Status y) \<noteq> []" for n y
    using that by (auto simp: same_outcome_def finish_status_def Let_def set_status_def setter_cond)
  obtain w1 l where l: "ListPods r (MetaNamespace (Meta ?z0)) [(''app'', GetName ?z0)] w = (w1, l)" by (metis prod.exhaust)
  then obtain pods where pods: "l = Inr pods"
    using run calm by (cases l) (auto simp: reconcileClusterStatus_def Let_def)
  obtain a b where ab: "member_lists pods ([], []) = (a, b)" by (metis prod.exhaust)
  let ?z1 = "set_status (\<lambda>st. st\<lparr>Members := \<lparr>ReadyMembers = a, UnreadyMembers = b\<rparr>\<rparr>) ?z0"
  obtain w2 z2 x k where root: "create_meta_root r (w1, ?z1) = (((w2, z2), x), k)" by (metis prod.exhaust)
  have x: "x = None"
    using run calm l pods ab root by (cases x) (simp_all add: reconcileClusterStatus_def Let_def deferred_close_def)
  have "z2 = ?z1 \<or> z2 = set_status (\<lambda>st. st\<lparr>MetaRootCreated := True\<rparr>) ?z1"
    using root x unfolding create_meta_root_def by (auto simp: Let_def split: if_splits prod.splits option.splits)
  then have z2: "same_outcome (Status z2) (Status z)" "CurrentVersion (Status z2) \<noteq> []"
    using conds cur by (auto simp: same_outcome_def set_status_def Status_Init_cond)
  obtain w3 z3 where upd: "status_update r (w2, finish_status (Now r w2) z2) = ((w3, z3), None)" "w' = (if k then ZkClose r w3 else w3)"
    using run calm l pods ab root x by (auto simp: reconcileClusterStatus_def Let_def deferred_close_def split: prod.splits)
  then have "stored w3 = Status (finish_status (Now r w2) z2)"
    using store [of "finish_status (Now r w2) z2" w2] by (auto simp: status_update_def split: prod.splits sum.splits)
  then have "stored w' = Status (finish_status (Now r w2) z2)" using upd(2) close by simp
  with fin [OF z2(2), of "Now r w2"] z2(1) show ?thesis by (simp add: same_outcome_def)
qed

text \<open>C31. The tests and the operator agree on the outcome of an upgrade. Take one reconciliation as far as
  the upgrade is concerned: \<open>upgradeStatefulSet\<close>, later handlers that leave conditions and versions
  alone, and \<open>reconcileClusterStatus\<close> at the end, none with an error. Let the status it starts from have both
  conditions recorded (the wait dereferences them, see \<open>upgrade_check_panics\<close>) and a current version, and
  not be a failed upgrade, where the operator does not get this far. Then the wait for the upgrade to
  \<open>v\<close>, run on the status that is stored afterwards, gives: the deadline error exactly when the abstract
  machine has just failed; the recorded reason and text when the status already had another error; and otherwise success
  exactly when the machine is idle at version \<open>v\<close>, else not yet. Hypotheses on the server: a status update stores
  the status it is sent, and closing the ZooKeeper connection does not change it.\<close>

theorem upgrade_wait_matches_operator:
  assumes store: "\<And>z w w' z'. UpdateClusterStatus r z w = (w', Inr z') \<Longrightarrow> Status z' = Status z \<and> stored w' = Status z"
    and close: "\<And>w. stored (ZkClose r w) = stored w"
    and c: "cond (Status z) ClusterConditionUpgrading = Some c" "CondStatus c = ConditionTrue \<or> CondStatus c = ConditionFalse"
    and e: "cond (Status z) ClusterConditionError = Some e" and nf: "\<not> IsClusterInUpgradeFailedState (Status z)"
    and cur: "CurrentVersion (Status z) \<noteq> []" and read: "same_outcome (stored w) (Status z)"
    and pass: "upgradeStatefulSet r sts (w, z) = ((w1, z1), None)"
    and between: "stored w2 = stored w1" "same_outcome (Status z2) (Status z1)"
    and report: "reconcileClusterStatus r (w2, z2) = ((w3, z3), None)"
    and machine: "upgrade_step (upgrade_late r w (Status z) (SsStatus sts)) (SsStatus sts) (Tag (Image (Spec z)))
      (upgrade_view (Status z)) u"
  shows "upgrade_check v (stored w3) =
    (if up_failed u then (False, Some (GoErr ''failed upgrading cluster: [UpgradeFailed] progress deadline exceeded''))
     else if CondStatus e = ConditionTrue
     then (False, Some (GoErr (''failed upgrading cluster: ['' @ CondReason e @ ''] '' @ CondMessage e)))
     else (up_phase u = Idle \<and> up_current u = v, None))"
proof -
  have echo: "status_echo r" using store by (auto simp: status_echo_def)
  have u: "u = upgrade_view (Status (snd (fst (upgradeStatefulSet r sts (w, z)))))"
    by (rule upgrade_step_deterministic [OF machine upgrade_simulation [OF echo c]])
  have "CurrentVersion (Status z1) \<noteq> []"
    using machine cur arg_cong [OF u, of up_current] pass by (auto elim!: upgrade_stepE)
  then have cur2: "CurrentVersion (Status z2) \<noteq> []" using between(2) by (simp add: same_outcome_def)
  have conds: "cond (Status z2) ClusterConditionUpgrading \<noteq> None" "cond (Status z2) ClusterConditionError \<noteq> None"
    using pass_conditions [OF echo c e, of sts w] pass between(2) by (auto simp: same_outcome_def)
  have "same_outcome (stored w3) (Status z1)"
  proof (cases "IsClusterInUpgradingState (Status z2) \<or> IsClusterInUpgradeFailedState (Status z2)")
    case True
    then have "w3 = w2" using report by (auto simp: reconcileClusterStatus_def)
    then show ?thesis
      using pass_stored [of r stored z c w sts w1 z1, OF store c(1) nf read pass] True between same_outcome_states by auto
  next
    case False
    with report_stored [of r stored z2 w2 w3 z3, OF store close conds cur2 _ _ report] between(2) show ?thesis
      by (simp add: same_outcome_def)
  qed
  then have "upgrade_check v (stored w3) = upgrade_check v (Status z1)" by (rule same_outcome_check)
  with pass_verdict [OF echo c e nf u, of v] pass show ?thesis by simp
qed

definition started_world :: world where
  "started_world = sample_world\<lparr>w_cluster := started_cluster\<rparr>"

lemma started_facts:
  "cond (Status started_cluster) ClusterConditionUpgrading \<noteq> None"
  "CondStatus (the (cond (Status started_cluster) ClusterConditionUpgrading)) = ConditionTrue"
  "cond (Status started_cluster) ClusterConditionError \<noteq> None"
  "CondStatus (the (cond (Status started_cluster) ClusterConditionError)) = ConditionFalse"
  "TargetVersion (Status started_cluster) \<noteq> []" "CurrentVersion (Status started_cluster) \<noteq> []"
  "\<not> IsClusterInUpgradeFailedState (Status started_cluster)"
  by code_simp+

lemma started_pass:
  "snd (upgradeStatefulSet mem_env (sample_sts ''7'') (started_world, started_cluster)) = None"
  "snd (reconcileClusterStatus mem_env (fst (upgradeStatefulSet mem_env (sample_sts ''7'') (started_world, started_cluster)))) = None"
  by code_simp+

theorem upgrade_wait_matches_operator_witness:
  "upgrade_check (TargetVersion (Status started_cluster)) (Status (w_cluster (fst (fst (reconcileClusterStatus mem_env
     (fst (upgradeStatefulSet mem_env (sample_sts ''7'') (started_world, started_cluster)))))))) = (True, None)"
proof -
  obtain c e where ce: "cond (Status started_cluster) ClusterConditionUpgrading = Some c" "CondStatus c = ConditionTrue"
      "cond (Status started_cluster) ClusterConditionError = Some e" "CondStatus e = ConditionFalse"
    using started_facts(1-4) by auto
  obtain w1 z1 where pass: "upgradeStatefulSet mem_env (sample_sts ''7'') (started_world, started_cluster) = ((w1, z1), None)"
    using started_pass(1) by (metis prod.collapse)
  obtain w3 z3 where report: "reconcileClusterStatus mem_env (w1, z1) = ((w3, z3), None)"
    using started_pass(2) pass by (metis fst_conv prod.collapse)
  let ?u = "upgrade_view (Status started_cluster)"
  let ?v = "?u\<lparr>up_phase := Idle, up_current := up_target ?u, up_target := []\<rparr>"
  have "SsStatus (sample_sts ''7'') = no_sts_status" by code_simp
  then have step: "upgrade_step l (SsStatus (sample_sts ''7'')) tag ?u ?v" for l tag
    using ce(1,2) started_facts(5) by (intro upgrade_step.finish [where m = "CondMessage c"]) (simp_all add: no_sts_status_def)
  have "upgrade_check (TargetVersion (Status started_cluster)) (Status (w_cluster w3)) = (True, None)"
    using upgrade_wait_matches_operator [where stored = "\<lambda>w. Status (w_cluster w)", OF _ _ ce(1) disjI1 [OF ce(2)] ce(3)
        started_facts(7,6) _ pass refl _ report step, of "TargetVersion (Status started_cluster)"] ce(4) started_facts(7)
    by (auto simp: same_outcome_def started_world_def)
  with pass report show ?thesis by simp
qed

text \<open>The clusters of the tests keep their pinned image through defaulting, when the tag is not empty.\<close>

lemma pinned_image_kept:
  assumes "v \<noteq> []"
  shows "ToString (Image (Spec (fst (WithDefaults (snd (NewClusterWithVersion ns v)))))) = ''ghcr.io/infonl/zookeeper:'' @ v"
proof -
  have "Image (fst (Spec_withDefaults n s)) = fst (ContainerImage_withDefaults (Image s))" for n s
    by (simp add: Spec_withDefaults_def Let_def spec_rules)
  then show ?thesis
    using assms by (simp add: WithDefaults_eq NewClusterWithVersion_def NewDefaultCluster_def ToString_def Let_def
      ContainerImage_withDefaults_def set_default_def)
qed

text \<open>A status without the error condition makes the wait panic.\<close>

lemma upgrade_check_panics:
  assumes "cond st ClusterConditionError = None"
  shows "upgrade_check v st = (False, Some (GoPanic ''nil pointer dereference''))"
  using assms by (simp add: upgrade_check_def split: option.split)

end
