(* ===== verification/GoPath.thy ===== *)
theory GoPath
  imports GoStrings
begin

text \<open>
  \<open>filepath.Clean\<close> and \<open>filepath.Join\<close> on Unix, lexically: a path is split at its slashes, empty and
  \<open>.\<close> components vanish, \<open>..\<close> removes the component before it.
\<close>

definition slash :: char where "slash = CHR ''/''"

definition clean_step :: "bool \<Rightarrow> string list \<Rightarrow> string \<Rightarrow> string list" where
  "clean_step rooted out elem =
     (if elem = [] \<or> elem = ''.'' then out
      else if elem = ''..'' then
        (if out \<noteq> [] \<and> last out \<noteq> ''..'' then butlast out else if rooted then out else out @ [elem])
      else out @ [elem])"

definition Clean :: "string \<Rightarrow> string" where
  "Clean path =
     (if path = [] then ''.''
      else let rooted = (hd path = slash); out = foldl (clean_step rooted) [] (split_at slash path)
           in if rooted then slash # join_with slash out else if out = [] then ''.'' else join_with slash out)"

definition Join :: "string list \<Rightarrow> string" where
  "Join elems = (case dropWhile (\<lambda>e. e = []) elems of [] \<Rightarrow> [] | es \<Rightarrow> Clean (join_with slash es))"

text \<open>A component that names an entry of a directory.\<close>

definition plain_name :: "string \<Rightarrow> bool" where
  "plain_name n \<longleftrightarrow> n \<noteq> [] \<and> n \<noteq> ''.'' \<and> n \<noteq> ''..'' \<and> slash \<notin> set n"

lemma clean_step_plain [simp]: "plain_name n \<Longrightarrow> clean_step r out n = out @ [n]"
  by (simp add: clean_step_def plain_name_def)

lemma clean_plain: "list_all plain_name ns \<Longrightarrow> foldl (clean_step r) out ns = out @ ns"
  by (induction ns arbitrary: out) auto

lemma join_with_snoc: "ws \<noteq> [] \<Longrightarrow> join_with sep (ws @ [w]) = join_with sep ws @ sep # w"
  by (induction sep ws rule: join_with.induct) (auto simp: neq_Nil_conv)

lemma Clean_names:
  assumes "list_all plain_name ns" and "ns \<noteq> []"
  shows "Clean (join_with slash ns) = join_with slash ns"
proof -
  obtain n ms where ns: "ns = n # ms" using assms(2) by (cases ns) auto
  have free: "\<forall>w \<in> set ns. slash \<notin> set w" using assms(1) by (auto simp: list_all_iff plain_name_def)
  obtain c cs where n: "n = c # cs" "c \<noteq> slash"
    using assms(1) ns by (cases n) (auto simp: plain_name_def)
  have "hd (join_with slash ns) = c" "join_with slash ns \<noteq> []"
    using ns n by (cases ms; simp)+
  with n(2) show ?thesis
    using clean_plain [OF assms(1), of False "[]"] assms(2)
    by (simp add: Clean_def split_join [OF assms(2) free])
qed

lemma Join_names: "list_all plain_name ns \<Longrightarrow> ns \<noteq> [] \<Longrightarrow> Join ns = join_with slash ns"
  by (cases ns) (auto simp: Join_def Clean_names plain_name_def)

text \<open>The last component of a cleaned path is the one that was joined to it.\<close>

lemma split_at_snoc: "sep \<notin> set n \<Longrightarrow> split_at sep (p @ sep # n) = split_at sep p @ [n]"
  by (induction p) (auto simp: split_at_word split: list.splits)

lemma join_last: "\<exists>pre. join_with slash (out @ [n]) = pre @ n"
  by (cases "out = []") (auto simp: join_with_snoc)

lemma Clean_suffix:
  assumes "plain_name n"
  shows "\<exists>pre. Clean (p @ slash # n) = pre @ n"
proof -
  have s: "split_at slash (p @ slash # n) = split_at slash p @ [n]"
    using assms by (intro split_at_snoc) (simp add: plain_name_def)
  let ?r = "hd (p @ slash # n) = slash"
  obtain out where out: "foldl (clean_step ?r) [] (split_at slash (p @ slash # n)) = out @ [n]"
    using assms s by simp
  obtain pre where "join_with slash (out @ [n]) = pre @ n" using join_last by blast
  then show ?thesis
    unfolding Clean_def Let_def out by (auto intro: exI [of _ "slash # pre"])
qed

lemma Join_suffix:
  assumes "plain_name n"
  shows "\<exists>pre. Join [d, n] = pre @ n"
proof (cases "d = []")
  case True
  then have "Join [d, n] = Join [n]" by (simp add: Join_def)
  then show ?thesis using assms Join_names [of "[n]"] by (intro exI [of _ "[]"]) simp
next
  case False
  then show ?thesis using Clean_suffix [OF assms, of d] by (simp add: Join_def)
qed

lemma Join_apart:
  assumes "plain_name m" "plain_name n" and "last m \<noteq> last n \<or> \<not> (HasSuffix m n \<or> HasSuffix n m)"
  shows "Join [c, m] \<noteq> Join [d, n]"
proof
  assume eq: "Join [c, m] = Join [d, n]"
  obtain a b where ab: "Join [c, m] = a @ m" "Join [d, n] = b @ n"
    using assms(1,2) Join_suffix by blast
  then have e: "a @ m = b @ n" using eq by simp
  then have "last m = last n" using assms(1,2) by (metis last_appendR plain_name_def)
  moreover have "HasSuffix m n \<or> HasSuffix n m"
  proof (cases "length m \<le> length n")
    case True
    have "drop (length n - length m) n = m"
      using arg_cong [OF e, of "\<lambda>s. drop (length s - length m) s"] True by (simp add: drop_append)
    with True show ?thesis by (simp add: HasSuffix_def)
  next
    case False
    have "drop (length m - length n) m = n"
      using arg_cong [OF e, of "\<lambda>s. drop (length s - length n) s"] False by (simp add: drop_append)
    with False show ?thesis by (simp add: HasSuffix_def)
  qed
  ultimately show False using assms(3) by blast
qed

end
