(* ===== verification/Exporter.thy ===== *)
theory Exporter
  imports GoPath Generators
begin

text \<open>
  The command that writes the objects of a cluster to YAML files: \<open>pkg/yamlexporter/exportutil.go\<close>, the
  \<open>yaml\<close> functions of the controller and \<open>cmd/exporter/main.go\<close>. The file system and the YAML library
  are parameters. \<open>RawWrite\<close> is the write system call under \<open>os.File.Write\<close>: it may write less than it
  was given, with or without an error.
\<close>

datatype k8s_object =
  ObjCm ConfigMap | ObjSts StatefulSet | ObjSvc Service | ObjPdb PodDisruptionBudget

record ('w, 'h) Disk =
  Stat :: "string \<Rightarrow> 'w \<Rightarrow> go_error option"
  MkdirAll :: "string \<Rightarrow> nat \<Rightarrow> 'w \<Rightarrow> 'w \<times> go_error option"
  CreateFile :: "string \<Rightarrow> 'w \<Rightarrow> 'w \<times> (go_error + 'h)"
  RawWrite :: "'h \<Rightarrow> string \<Rightarrow> 'w \<Rightarrow> 'w \<times> nat \<times> go_error option"
  CloseFile :: "'h \<Rightarrow> 'w \<Rightarrow> 'w \<times> go_error option"
  ReadWholeFile :: "string \<Rightarrow> 'w \<Rightarrow> go_error + string"
  Marshal :: "k8s_object \<Rightarrow> go_error + string"
  Unmarshal :: "string \<Rightarrow> go_error + ZookeeperCluster"
  BuildFakeClient :: "ZookeeperCluster \<Rightarrow> go_error option"

section \<open>exportutil.go\<close>

definition createDirIfNotExist :: "('w, 'h) Disk \<Rightarrow> string \<Rightarrow> 'w \<Rightarrow> 'w \<times> go_error option" where
  "createDirIfNotExist d dir w =
     (case Stat d dir w of
        Some err \<Rightarrow> if IsNotFound err then MkdirAll d dir 493 w else (w, None)
      | None \<Rightarrow> (w, None))"

definition CreateOutputSubDir ::
  "('w, 'h) Disk \<Rightarrow> string \<Rightarrow> string \<Rightarrow> 'w \<Rightarrow> 'w \<times> string \<times> go_error option" where
  "CreateOutputSubDir d clusterName compName w =
     (let fpath = Join [clusterName, compName]
      in case createDirIfNotExist d fpath w of (w1, err) \<Rightarrow> (w1, fpath, err))"

definition CreateYAMLOutputDir :: "('w, 'h) Disk \<Rightarrow> string \<Rightarrow> 'w \<Rightarrow> 'w \<times> go_error option" where
  "CreateYAMLOutputDir d maindir w =
     (case createDirIfNotExist d maindir w of
        (w1, Some err) \<Rightarrow> (w1, Some err)
      | (w1, None) \<Rightarrow> (w1, None))"

text \<open>\<open>os.File.Write\<close>, with its error for a write that was cut short.\<close>

definition File_Write :: "('w, 'h) Disk \<Rightarrow> 'h \<Rightarrow> string \<Rightarrow> 'w \<Rightarrow> 'w \<times> nat \<times> go_error option" where
  "File_Write d h b w =
     (case RawWrite d h b w of
        (w1, n, Some e) \<Rightarrow> (w1, n, Some e)
      | (w1, n, None) \<Rightarrow> (w1, n, if n \<noteq> length b then Some (GoErr ''short write'') else None))"

text \<open>
  A \<open>bufio.Writer\<close> over a file: what it has buffered and the error it remembers. \<open>bufio_Write\<close> is
  \<open>Write\<close> on a writer with an empty buffer, the only one the program calls: more than 4096 bytes go
  straight to the file, the rest is kept for \<open>Flush\<close>.
\<close>

record bufio_writer =
  Buffered :: string
  WriterErr :: "go_error option"

definition bufio_Write ::
  "('w, 'h) Disk \<Rightarrow> 'h \<Rightarrow> string \<Rightarrow> 'w \<Rightarrow> 'w \<times> bufio_writer \<times> nat \<times> go_error option" where
  "bufio_Write d h p w =
     (if 4096 < length p
      then (case File_Write d h p w of
          (w1, n, err) \<Rightarrow> (w1, \<lparr>Buffered = [], WriterErr = err\<rparr>, n, err))
      else (w, \<lparr>Buffered = p, WriterErr = None\<rparr>, length p, None))"

definition bufio_Flush :: "('w, 'h) Disk \<Rightarrow> 'h \<Rightarrow> bufio_writer \<Rightarrow> 'w \<Rightarrow> 'w \<times> go_error option" where
  "bufio_Flush d h b w =
     (if WriterErr b \<noteq> None then (w, WriterErr b)
      else if Buffered b = [] then (w, None)
      else case File_Write d h (Buffered b) w of (w1, n, err) \<Rightarrow> (w1, err))"

text \<open>
  The two deferred calls run in reverse order, \<open>Flush\<close> before \<open>Close\<close>, and the errors of both are
  dropped.
\<close>

definition flush_and_close :: "('w, 'h) Disk \<Rightarrow> 'h \<Rightarrow> bufio_writer \<Rightarrow> 'w \<Rightarrow> 'w" where
  "flush_and_close d h b w = fst (CloseFile d h (fst (bufio_Flush d h b w)))"

definition output_file :: "string \<Rightarrow> string \<Rightarrow> string" where
  "output_file subdir depType = Join [subdir, depType @ ''.'' @ ''yaml'']"

definition GenerateOutputYAMLFile ::
  "('w, 'h) Disk \<Rightarrow> string \<Rightarrow> string \<Rightarrow> k8s_object \<Rightarrow> 'w \<Rightarrow> 'w \<times> go_error option" where
  "GenerateOutputYAMLFile d subdir depType data w =
     (case CreateFile d (output_file subdir depType) w of
        (w1, Inl err) \<Rightarrow> (w1, Some err)
      | (w1, Inr h) \<Rightarrow>
          (case Marshal d data of
             Inl err \<Rightarrow> (flush_and_close d h \<lparr>Buffered = [], WriterErr = None\<rparr> w1, Some err)
           | Inr yamlData \<Rightarrow>
               (case bufio_Write d h yamlData w1 of
                  (w2, b, n, err) \<Rightarrow>
                    (flush_and_close d h b w2,
                     case err of
                       Some e \<Rightarrow> Some (GoErr (''write failed total bytes written:'' @ Itoa (int n) @ '': '' @ err_text e))
                     | None \<Rightarrow> None))))"

definition ReadInputClusterYAMLFile ::
  "('w, 'h) Disk \<Rightarrow> string \<Rightarrow> 'w \<Rightarrow> go_error + ZookeeperCluster" where
  "ReadInputClusterYAMLFile d inyamlfile w =
     (case Stat d inyamlfile w of
        Some NotFound \<Rightarrow> Inl NotFound
      | _ \<Rightarrow> (case ReadWholeFile d inyamlfile w of
               Inl err \<Rightarrow> Inl err
             | Inr source \<Rightarrow> Unmarshal d source))"

section \<open>The controller's part\<close>

definition yamlConfigMap :: "('w, 'h) Disk \<Rightarrow> go_map \<Rightarrow> ZookeeperCluster \<Rightarrow> 'w \<Rightarrow> 'w \<times> go_error option" where
  "yamlConfigMap d visit instance w =
     (let cm = MakeConfigMap visit instance
      in case CreateOutputSubDir d ''ZookeeperCluster'' ''config'' w of
           (w1, subdir, Some err) \<Rightarrow> (w1, Some err)
         | (w1, subdir, None) \<Rightarrow> GenerateOutputYAMLFile d subdir (Kind (CmType cm)) (ObjCm cm) w1)"

text \<open>\<open>m[k]\<close> as an expression: the empty string for a missing key.\<close>

definition map_index :: "go_map option \<Rightarrow> string \<Rightarrow> string" where
  "map_index m k = (case gm_get m k of None \<Rightarrow> [] | Some v \<Rightarrow> v)"

text \<open>The error of \<open>CreateOutputSubDir\<close> is assigned but not looked at.\<close>

definition yamlStatefulSet :: "('w, 'h) Disk \<Rightarrow> ZookeeperCluster \<Rightarrow> 'w \<Rightarrow> 'w \<times> go_error option" where
  "yamlStatefulSet d instance w =
     (case MakeStatefulSet instance of
        None \<Rightarrow> (w, Some (GoPanic ''nil pointer dereference''))
      | Some sts \<Rightarrow>
          (case CreateOutputSubDir d ''ZookeeperCluster'' (map_index (MetaLabels (SsMeta sts)) ''component'') w of
             (w1, subdir, _) \<Rightarrow> GenerateOutputYAMLFile d subdir (Kind (SsType sts)) (ObjSts sts) w1))"

definition yamlClientService :: "('w, 'h) Disk \<Rightarrow> ZookeeperCluster \<Rightarrow> 'w \<Rightarrow> 'w \<times> go_error option" where
  "yamlClientService d instance w =
     (let svc = MakeClientService instance
      in case CreateOutputSubDir d ''ZookeeperCluster'' ''client'' w of
           (w1, subdir, Some err) \<Rightarrow> (w1, Some err)
         | (w1, subdir, None) \<Rightarrow> GenerateOutputYAMLFile d subdir (Kind (SvcTypeMeta svc)) (ObjSvc svc) w1)"

definition yamlHeadlessService :: "('w, 'h) Disk \<Rightarrow> ZookeeperCluster \<Rightarrow> 'w \<Rightarrow> 'w \<times> go_error option" where
  "yamlHeadlessService d instance w =
     (let svc = MakeHeadlessService instance
      in case CreateOutputSubDir d ''ZookeeperCluster'' ''headless'' w of
           (w1, subdir, Some err) \<Rightarrow> (w1, Some err)
         | (w1, subdir, None) \<Rightarrow> GenerateOutputYAMLFile d subdir (Kind (SvcTypeMeta svc)) (ObjSvc svc) w1)"

definition yamlPodDisruptionBudget :: "('w, 'h) Disk \<Rightarrow> ZookeeperCluster \<Rightarrow> 'w \<Rightarrow> 'w \<times> go_error option" where
  "yamlPodDisruptionBudget d instance w =
     (let pdb = MakePodDisruptionBudget instance
      in case CreateOutputSubDir d ''ZookeeperCluster'' ''pdb'' w of
           (w1, subdir, Some err) \<Rightarrow> (w1, Some err)
         | (w1, subdir, None) \<Rightarrow> GenerateOutputYAMLFile d subdir (Kind (PdbType pdb)) (ObjPdb pdb) w1)"

fun run_yaml :: "(ZookeeperCluster \<Rightarrow> 'w \<Rightarrow> 'w \<times> go_error option) list \<Rightarrow> ZookeeperCluster \<Rightarrow> 'w \<Rightarrow> 'w \<times> go_error option" where
  "run_yaml [] inst w = (w, None)"
| "run_yaml (f # fs) inst w =
     (case f inst w of (w1, Some err) \<Rightarrow> (w1, Some err) | (w1, None) \<Rightarrow> run_yaml fs inst w1)"

definition GenerateYAML :: "('w, 'h) Disk \<Rightarrow> go_map \<Rightarrow> ZookeeperCluster \<Rightarrow> 'w \<Rightarrow> 'w \<times> go_error option" where
  "GenerateYAML d visit inst w =
     run_yaml [yamlConfigMap d visit, yamlStatefulSet d, yamlClientService d, yamlHeadlessService d, yamlPodDisruptionBudget d]
       (fst (WithDefaults inst)) w"

text \<open>The fake client panics when it cannot hold the cluster.\<close>

definition YAMLExporterReconciler :: "('w, 'h) Disk \<Rightarrow> ZookeeperCluster \<Rightarrow> go_error option" where
  "YAMLExporterReconciler d z =
     (case BuildFakeClient d z of None \<Rightarrow> None | Some e \<Rightarrow> Some (GoPanic (err_text e)))"

section \<open>cmd/exporter/main.go\<close>

text \<open>
  \<open>main\<close> with the values of its two flags and the random number of the identifier. The result is the
  exit status of the process, 2 after a panic, and the value left in the variable \<open>YAMLOutputDir\<close>.
\<close>

record 'w exporter_run =
  RunDisk :: 'w
  YAMLOutputDir :: string
  ExitStatus :: nat

definition exporter_exit :: "go_error option \<Rightarrow> nat" where
  "exporter_exit e = (case e of None \<Rightarrow> 0 | Some (GoPanic _) \<Rightarrow> 2 | Some _ \<Rightarrow> 1)"

definition exporter_main ::
  "('w, 'h) Disk \<Rightarrow> (go_map \<Rightarrow> go_map) \<Rightarrow> string \<Rightarrow> string \<Rightarrow> 64 word \<Rightarrow> 'w \<Rightarrow> 'w exporter_run" where
  "exporter_main d order ifile odir random w =
     (case ReadInputClusterYAMLFile d ifile w of
        Inl err \<Rightarrow> \<lparr>RunDisk = w, YAMLOutputDir = [], ExitStatus = 1\<rparr>
      | Inr z \<Rightarrow>
          (case CreateYAMLOutputDir d odir w of
             (w1, Some err) \<Rightarrow> \<lparr>RunDisk = w1, YAMLOutputDir = [], ExitStatus = 1\<rparr>
           | (w1, None) \<Rightarrow>
               let z = z\<lparr>Meta := (Meta z)\<lparr>MetaUID := utoa (unat random)\<rparr>\<rparr>
               in case YAMLExporterReconciler d z of
                    Some err \<Rightarrow> \<lparr>RunDisk = w1, YAMLOutputDir = odir, ExitStatus = exporter_exit (Some err)\<rparr>
                  | None \<Rightarrow>
                      (case GenerateYAML d (order (gm_range (AdditionalConfig (Conf (Spec z))))) z w1 of
                         (w2, err) \<Rightarrow> \<lparr>RunDisk = w2, YAMLOutputDir = odir, ExitStatus = exporter_exit err\<rparr>)))"

section \<open>What the file system promises\<close>

text \<open>
  \<open>content w p\<close> is what the file at the cleaned path \<open>p\<close> holds, \<open>target h\<close> the path a handle was
  opened for. Creating a file truncates it, writing appends the bytes the system took, directories
  have no content, and two cleaned paths are two files (no links among the output directories).
\<close>

definition lawful_disk :: "('w, 'h) Disk \<Rightarrow> ('w \<Rightarrow> string \<Rightarrow> string option) \<Rightarrow> ('h \<Rightarrow> string) \<Rightarrow> bool" where
  "lawful_disk d content target \<longleftrightarrow>
     (\<forall>p m w. content (fst (MkdirAll d p m w)) = content w) \<and>
     (\<forall>h w. content (fst (CloseFile d h w)) = content w) \<and>
     (\<forall>p w w1 r. CreateFile d p w = (w1, r) \<longrightarrow>
        (\<forall>q. q \<noteq> p \<longrightarrow> content w1 q = content w q) \<and> (\<forall>h. r = Inr h \<longrightarrow> target h = p \<and> content w1 p = Some [])) \<and>
     (\<forall>h b w w1 n e. RawWrite d h b w = (w1, n, e) \<longrightarrow> n \<le> length b \<and>
        content w1 = (content w)(target h := map_option (\<lambda>c. c @ take n b) (content w (target h))))"

text \<open>The system takes every write in full.\<close>

definition full_writes :: "('w, 'h) Disk \<Rightarrow> bool" where
  "full_writes d \<longleftrightarrow> (\<forall>h b w. snd (RawWrite d h b w) = (length b, None))"

lemma lawful_diskD:
  assumes "lawful_disk d content target"
  shows "content (fst (MkdirAll d p m w)) = content w" "content (fst (CloseFile d h w)) = content w"
    and "CreateFile d p w = (w1, r) \<Longrightarrow> q \<noteq> p \<Longrightarrow> content w1 q = content w q"
    and "CreateFile d p w = (w1, Inr h) \<Longrightarrow> target h = p \<and> content w1 p = Some []"
    and "RawWrite d h b w = (w1, n, e) \<Longrightarrow>
      content w1 = (content w)(target h := map_option (\<lambda>c. c @ take n b) (content w (target h)))"
proof -
  note l = assms [unfolded lawful_disk_def]
  show "content (fst (MkdirAll d p m w)) = content w" "content (fst (CloseFile d h w)) = content w"
    using l by simp_all
  show "CreateFile d p w = (w1, r) \<Longrightarrow> q \<noteq> p \<Longrightarrow> content w1 q = content w q"
    using l [THEN conjunct2, THEN conjunct2, THEN conjunct1] by metis
  show "CreateFile d p w = (w1, Inr h) \<Longrightarrow> target h = p \<and> content w1 p = Some []"
    using l [THEN conjunct2, THEN conjunct2, THEN conjunct1] by metis
  show "RawWrite d h b w = (w1, n, e) \<Longrightarrow>
      content w1 = (content w)(target h := map_option (\<lambda>c. c @ take n b) (content w (target h)))"
    using l [THEN conjunct2, THEN conjunct2, THEN conjunct2] by (elim allE impE) (assumption | erule conjunct2)+
qed

lemma directories_hold_nothing:
  assumes "lawful_disk d content target"
  shows "content (fst (createDirIfNotExist d dir w)) = content w" "content (fst (CreateYAMLOutputDir d dir w)) = content w"
    and "content (fst (CreateOutputSubDir d c n w)) = content w"
proof -
  show 1: "content (fst (createDirIfNotExist d dir w)) = content w" for dir
    by (simp add: createDirIfNotExist_def lawful_diskD [OF assms] split: option.split)
  show "content (fst (CreateYAMLOutputDir d dir w)) = content w"
    using 1 [of dir] by (auto simp: CreateYAMLOutputDir_def split: prod.split option.split)
  show "content (fst (CreateOutputSubDir d c n w)) = content w"
    using 1 [of "Join [c, n]"] by (auto simp: CreateOutputSubDir_def Let_def split: prod.split)
qed

lemma File_Write_effect:
  assumes "lawful_disk d content target" and "File_Write d h b w = (w1, n, err)"
  shows "q \<noteq> target h \<Longrightarrow> content w1 q = content w q"
    and "full_writes d \<Longrightarrow> err = None \<and> content w1 = (content w)(target h := map_option (\<lambda>c. c @ b) (content w (target h)))"
proof -
  obtain k e where r: "RawWrite d h b w = (w1, k, e)"
    using assms(2) by (auto simp: File_Write_def split: prod.splits option.splits)
  note c = lawful_diskD(5) [OF assms(1) r]
  show "content w1 q = content w q" if "q \<noteq> target h" using that c by simp
  assume "full_writes d"
  then have "snd (RawWrite d h b w) = (length b, None)" by (simp add: full_writes_def)
  with r c assms(2) show "err = None \<and> content w1 = (content w)(target h := map_option (\<lambda>c. c @ b) (content w (target h)))"
    by (simp add: File_Write_def)
qed

lemma flush_and_close_effect:
  assumes "lawful_disk d content target"
  shows "q \<noteq> target h \<Longrightarrow> content (flush_and_close d h b w) q = content w q"
    and "full_writes d \<Longrightarrow> WriterErr b = None \<Longrightarrow>
      content (flush_and_close d h b w) = (content w)(target h := map_option (\<lambda>c. c @ Buffered b) (content w (target h)))"
proof -
  obtain w1 n err where f: "File_Write d h (Buffered b) w = (w1, n, err)" by (metis surj_pair)
  note e = File_Write_effect [OF assms f]
  show "q \<noteq> target h \<Longrightarrow> content (flush_and_close d h b w) q = content w q"
    using e(1) by (auto simp: flush_and_close_def bufio_Flush_def lawful_diskD [OF assms] f)
  show "full_writes d \<Longrightarrow> WriterErr b = None \<Longrightarrow>
      content (flush_and_close d h b w) = (content w)(target h := map_option (\<lambda>c. c @ Buffered b) (content w (target h)))"
    using e(2) by (auto simp: flush_and_close_def bufio_Flush_def lawful_diskD [OF assms] f map_option.id [unfolded id_def])
qed

lemma bufio_Write_effect:
  assumes "lawful_disk d content target" and "bufio_Write d h p w = (w1, b, n, err)"
  shows "q \<noteq> target h \<Longrightarrow> content w1 q = content w q"
    and "full_writes d \<Longrightarrow> err = None \<and> WriterErr b = None \<and>
      content w1 = (content w)(target h := map_option (\<lambda>c. c @ (if 4096 < length p then p else [])) (content w (target h))) \<and>
      (if 4096 < length p then p else []) @ Buffered b = p"
  using File_Write_effect [OF assms(1), of h p w] assms(2)
  by (auto simp: bufio_Write_def map_option.id [unfolded id_def] split: if_splits prod.splits)

section \<open>Writing one file\<close>

lemma GenerateOutputYAMLFile_frame:
  assumes "lawful_disk d content target" and "q \<noteq> output_file subdir depType"
  shows "content (fst (GenerateOutputYAMLFile d subdir depType obj w)) q = content w q"
proof -
  obtain w1 r where c: "CreateFile d (output_file subdir depType) w = (w1, r)" by (metis surj_pair)
  note q = lawful_diskD(3) [OF assms(1) c assms(2)]
  show ?thesis
  proof (cases r)
    case (Inr h)
    with c have t: "q \<noteq> target h" using lawful_diskD(4) [OF assms(1)] assms(2) by blast
    show ?thesis
      using c Inr q flush_and_close_effect(1) [OF assms(1) t] bufio_Write_effect(1) [OF assms(1) _ t]
      by (auto simp: GenerateOutputYAMLFile_def split: sum.split prod.split)
  qed (use c q in \<open>simp add: GenerateOutputYAMLFile_def\<close>)
qed

lemma GenerateOutputYAMLFile_writes:
  assumes "lawful_disk d content target" and "full_writes d"
    and "GenerateOutputYAMLFile d subdir depType obj w = (w1, None)"
  shows "\<exists>y. Marshal d obj = Inr y \<and> content w1 (output_file subdir depType) = Some y"
proof -
  obtain w2 h y where c: "CreateFile d (output_file subdir depType) w = (w2, Inr h)" and y: "Marshal d obj = Inr y"
    using assms(3) by (auto simp: GenerateOutputYAMLFile_def split: prod.splits sum.splits)
  obtain w3 b n err where b: "bufio_Write d h y w2 = (w3, b, n, err)" by (metis surj_pair)
  have t: "target h = output_file subdir depType" "content w2 (target h) = Some []"
    using lawful_diskD(4) [OF assms(1) c] by auto
  note w = bufio_Write_effect(2) [OF assms(1) b assms(2)]
  have "w1 = flush_and_close d h b w3" using assms(3) c y b by (simp add: GenerateOutputYAMLFile_def)
  with w t y show ?thesis
    using flush_and_close_effect(2) [OF assms(1,2), of b h w3] by (auto split: if_splits)
qed

section \<open>Writing the five files\<close>

text \<open>The files of a cluster, in the order in which they are written, and the objects they are for.\<close>

definition sts_path :: "ZookeeperCluster \<Rightarrow> string" where
  "sts_path z = output_file (Join [''ZookeeperCluster'', map_index (Labels (Spec z)) ''component'']) ''StatefulSet''"

definition exported :: "go_map \<Rightarrow> ZookeeperCluster \<Rightarrow> (string \<times> k8s_object option) list" where
  "exported visit z =
     [(''ZookeeperCluster/config/ConfigMap.yaml'', Some (ObjCm (MakeConfigMap visit z))),
      (sts_path z, map_option ObjSts (MakeStatefulSet z)),
      (''ZookeeperCluster/client/Service.yaml'', Some (ObjSvc (MakeClientService z))),
      (''ZookeeperCluster/headless/Service.yaml'', Some (ObjSvc (MakeHeadlessService z))),
      (''ZookeeperCluster/pdb/PodDisruptionBudget.yaml'', Some (ObjPdb (MakePodDisruptionBudget z)))]"

lemma fixed_paths:
  "output_file (Join [''ZookeeperCluster'', ''config'']) ''ConfigMap'' = ''ZookeeperCluster/config/ConfigMap.yaml''"
  "output_file (Join [''ZookeeperCluster'', ''client'']) ''Service'' = ''ZookeeperCluster/client/Service.yaml''"
  "output_file (Join [''ZookeeperCluster'', ''headless'']) ''Service'' = ''ZookeeperCluster/headless/Service.yaml''"
  "output_file (Join [''ZookeeperCluster'', ''pdb'']) ''PodDisruptionBudget'' = ''ZookeeperCluster/pdb/PodDisruptionBudget.yaml''"
  by code_simp+

lemma sts_path_apart:
  "sts_path z \<notin> set [''ZookeeperCluster/config/ConfigMap.yaml'', ''ZookeeperCluster/client/Service.yaml'',
     ''ZookeeperCluster/headless/Service.yaml'', ''ZookeeperCluster/pdb/PodDisruptionBudget.yaml'']"
proof -
  have p: "list_all plain_name [''StatefulSet.yaml'', ''ConfigMap.yaml'', ''Service.yaml'', ''PodDisruptionBudget.yaml'']"
    by (simp add: plain_name_def slash_def)
  have "sts_path z \<noteq> output_file dir k"
    if "k \<in> {''ConfigMap'', ''Service'', ''PodDisruptionBudget''}" for dir k
    unfolding sts_path_def output_file_def
    by (rule Join_apart) (use p that in \<open>auto simp: HasSuffix_def\<close>)
  then show ?thesis by (auto simp: fixed_paths [symmetric])
qed

lemma exported_distinct: "distinct (map fst (exported visit z))"
  using sts_path_apart [of z] by (auto simp: exported_def)

text \<open>One \<open>yaml\<close> function: what it leaves alone and what it leaves behind.\<close>

definition writes_one ::
  "('w, 'h) Disk \<Rightarrow> ('w \<Rightarrow> string \<Rightarrow> string option) \<Rightarrow> ('w \<Rightarrow> 'w \<times> go_error option) \<Rightarrow> string \<times> k8s_object option \<Rightarrow> bool" where
  "writes_one d content f job \<longleftrightarrow>
     (\<forall>w q. q \<noteq> fst job \<longrightarrow> content (fst (f w)) q = content w q) \<and>
     (full_writes d \<longrightarrow> (\<forall>w w1. f w = (w1, None) \<longrightarrow>
        (\<exists>obj y. snd job = Some obj \<and> Marshal d obj = Inr y \<and> content w1 (fst job) = Some y)))"

lemma writes_one_file:
  assumes l: "lawful_disk d content target" and p: "output_file (Join [c, n]) k = path"
    and f: "\<And>w w1 e. CreateOutputSubDir d c n w = (w1, Join [c, n], e) \<Longrightarrow>
        f w = GenerateOutputYAMLFile d (Join [c, n]) k obj w1 \<or> (\<exists>e. f w = (w1, Some e))"
  shows "writes_one d content f (path, Some obj)"
proof -
  have sub: "\<exists>w1 e. CreateOutputSubDir d c n w = (w1, Join [c, n], e) \<and> content w1 = content w" for w
    using directories_hold_nothing(3) [OF l, of c n w]
    by (cases "createDirIfNotExist d (Join [c, n]) w") (simp add: CreateOutputSubDir_def Let_def)
  have "content (fst (f w)) q = content w q" if "q \<noteq> path" for w q
    using sub [of w] f [of w] GenerateOutputYAMLFile_frame [OF l, of q "Join [c, n]" k obj] that p by fastforce
  moreover have "\<exists>y. Marshal d obj = Inr y \<and> content w1 path = Some y" if "full_writes d" "f w = (w1, None)" for w w1
  proof -
    obtain w2 e where "CreateOutputSubDir d c n w = (w2, Join [c, n], e)" using sub by blast
    with f [of w] that(2) have "GenerateOutputYAMLFile d (Join [c, n]) k obj w2 = (w1, None)" by auto
    then show ?thesis using GenerateOutputYAMLFile_writes [OF l that(1)] p by blast
  qed
  ultimately show ?thesis by (simp add: writes_one_def)
qed

lemma yaml_functions_write:
  assumes l: "lawful_disk d content target"
  shows "list_all2 (writes_one d content)
    [yamlConfigMap d visit z, yamlStatefulSet d z, yamlClientService d z, yamlHeadlessService d z, yamlPodDisruptionBudget d z]
    (exported visit z)"
proof -
  have k: "Kind (CmType (MakeConfigMap visit z)) = ''ConfigMap''" "Kind (SvcTypeMeta (MakeClientService z)) = ''Service''"
    "Kind (SvcTypeMeta (MakeHeadlessService z)) = ''Service''" "Kind (PdbType (MakePodDisruptionBudget z)) = ''PodDisruptionBudget''"
    by (simp_all add: MakeConfigMap_def MakeClientService_def MakeHeadlessService_def makeService_def MakePodDisruptionBudget_def Let_def)
  have s: "Kind (SsType s) = ''StatefulSet'' \<and> MetaLabels (SsMeta s) = Labels (Spec z)" if "MakeStatefulSet z = Some s" for s
    using that by (auto simp: MakeStatefulSet_def split: Option.bind_splits)
  have "writes_one d content (yamlStatefulSet d z) (sts_path z, map_option ObjSts (MakeStatefulSet z))"
  proof (cases "MakeStatefulSet z")
    case None
    then show ?thesis by (simp add: writes_one_def yamlStatefulSet_def)
  next
    case (Some sts)
    have "writes_one d content (yamlStatefulSet d z) (sts_path z, Some (ObjSts sts))"
      using Some s [OF Some] by (intro writes_one_file [OF l sts_path_def [symmetric]]) (simp add: yamlStatefulSet_def)
    with Some show ?thesis by simp
  qed
  moreover have "writes_one d content (yamlConfigMap d visit z) (''ZookeeperCluster/config/ConfigMap.yaml'', Some (ObjCm (MakeConfigMap visit z)))"
    "writes_one d content (yamlClientService d z) (''ZookeeperCluster/client/Service.yaml'', Some (ObjSvc (MakeClientService z)))"
    "writes_one d content (yamlHeadlessService d z) (''ZookeeperCluster/headless/Service.yaml'', Some (ObjSvc (MakeHeadlessService z)))"
    "writes_one d content (yamlPodDisruptionBudget d z) (''ZookeeperCluster/pdb/PodDisruptionBudget.yaml'', Some (ObjPdb (MakePodDisruptionBudget z)))"
    by (rule writes_one_file [OF l fixed_paths(1)] writes_one_file [OF l fixed_paths(2)]
          writes_one_file [OF l fixed_paths(3)] writes_one_file [OF l fixed_paths(4)],
        simp add: yamlConfigMap_def yamlClientService_def yamlHeadlessService_def yamlPodDisruptionBudget_def Let_def k split: option.split)+
  ultimately show ?thesis by (simp add: exported_def)
qed

definition holds_object :: "('w, 'h) Disk \<Rightarrow> (string \<Rightarrow> string option) \<Rightarrow> string \<times> k8s_object option \<Rightarrow> bool" where
  "holds_object d files job \<longleftrightarrow>
     (case snd job of None \<Rightarrow> False
      | Some obj \<Rightarrow> (case Marshal d obj of Inl _ \<Rightarrow> False | Inr y \<Rightarrow> files (fst job) = Some y))"

lemma run_yaml_frame:
  assumes "list_all2 (writes_one d content) (map (\<lambda>f. f z) fs) jobs" and "q \<notin> fst ` set jobs"
  shows "content (fst (run_yaml fs z w)) q = content w q"
  using assms
proof (induction fs arbitrary: jobs w)
  case (Cons f fs)
  then obtain j js where jobs: "jobs = j # js" "writes_one d content (f z) j" "list_all2 (writes_one d content) (map (\<lambda>f. f z) fs) js"
    by (auto simp: list_all2_Cons1)
  obtain w1 e where f: "f z w = (w1, e)" by (metis surj_pair)
  have "content w1 q = content w q" using jobs(1,2) Cons.prems(2) f unfolding writes_one_def by (metis fst_conv image_eqI list.set_intros(1))
  moreover have "content (fst (run_yaml fs z w1)) q = content w1 q" using Cons.IH [OF jobs(3)] Cons.prems(2) jobs(1) by auto
  ultimately show ?case by (simp add: f split: option.split)
qed simp

lemma run_yaml_writes:
  assumes "list_all2 (writes_one d content) (map (\<lambda>f. f z) fs) jobs" and "distinct (map fst jobs)"
    and "full_writes d" and "run_yaml fs z w = (w1, None)"
  shows "list_all (holds_object d (content w1)) jobs"
  using assms(1,2,4)
proof (induction fs arbitrary: jobs w)
  case (Cons f fs)
  then obtain j js where jobs: "jobs = j # js" "writes_one d content (f z) j" "list_all2 (writes_one d content) (map (\<lambda>f. f z) fs) js"
    by (auto simp: list_all2_Cons1)
  obtain w2 where f: "f z w = (w2, None)" "run_yaml fs z w2 = (w1, None)"
    using Cons.prems(3) by (auto split: prod.splits option.splits)
  obtain obj y where j: "snd j = Some obj" "Marshal d obj = Inr y" "content w2 (fst j) = Some y"
    using jobs(2) f(1) assms(3) unfolding writes_one_def by blast
  have "fst j \<notin> fst ` set js" using Cons.prems(2) jobs(1) by simp
  from run_yaml_frame [OF jobs(3) this, of w2] j f(2) have "holds_object d (content w1) j"
    by (simp add: holds_object_def)
  moreover have "list_all (holds_object d (content w1)) js"
    using Cons.IH [OF jobs(3) _ f(2)] Cons.prems(2) jobs(1) by simp
  ultimately show ?case by (simp add: jobs(1))
qed simp

section \<open>A concrete disk\<close>

text \<open>
  Files as a list, and a number of bytes that are still free. On a \<open>limited\<close> disk a write that does not
  fit is cut short.
  An object is written as its kind and name; every input file describes the bare cluster.
\<close>

record mem_files =
  mf_files :: "(string \<times> string) list"
  mf_free :: nat

definition mem_content :: "mem_files \<Rightarrow> string \<Rightarrow> string option" where
  "mem_content w = map_of (mf_files w)"

definition mem_marshal :: "k8s_object \<Rightarrow> string" where
  "mem_marshal obj = (case obj of ObjCm c \<Rightarrow> ''kind: ConfigMap '' @ MetaName (CmMeta c)
     | ObjSts s \<Rightarrow> ''kind: StatefulSet '' @ MetaName (SsMeta s) | ObjSvc s \<Rightarrow> ''kind: Service '' @ MetaName (SvcMeta s)
     | ObjPdb p \<Rightarrow> ''kind: PodDisruptionBudget '' @ MetaName (PdbMeta p))"

definition mem_disk :: "bool \<Rightarrow> (mem_files, string) Disk" where
  "mem_disk limited =
     \<lparr>Stat = (\<lambda>p w. if mem_content w p = None then Some NotFound else None),
      MkdirAll = (\<lambda>p m w. (w, None)),
      CreateFile = (\<lambda>p w. (w\<lparr>mf_files := (p, []) # mf_files w\<rparr>, Inr p)),
      RawWrite = (\<lambda>h b w. let n = (if limited then min (length b) (mf_free w) else length b) in
        case mem_content w h of None \<Rightarrow> (w, n, None)
        | Some c \<Rightarrow> (w\<lparr>mf_files := (h, c @ take n b) # mf_files w, mf_free := mf_free w - n\<rparr>, n, None)),
      CloseFile = (\<lambda>h w. (w, None)),
      ReadWholeFile = (\<lambda>p w. case mem_content w p of None \<Rightarrow> Inl NotFound | Some c \<Rightarrow> Inr c),
      Marshal = (\<lambda>obj. Inr (mem_marshal obj)),
      Unmarshal = (\<lambda>s. Inr bare_cluster),
      BuildFakeClient = (\<lambda>z. None)\<rparr>"

lemma mem_disk_lawful: "lawful_disk (mem_disk l) mem_content (\<lambda>h. h)"
  by (auto simp: lawful_disk_def mem_disk_def mem_content_def Let_def fun_eq_iff split: option.splits)

lemma mem_disk_full: "full_writes (mem_disk False)"
  by (auto simp: full_writes_def mem_disk_def Let_def split: option.splits)

definition sample_files :: mem_files where
  "sample_files = \<lparr>mf_files = [(''zk.yaml'', ''kind: ZookeeperCluster''), (''other'', ''untouched'')], mf_free = 0\<rparr>"

section \<open>What the exporter leaves on the disk\<close>

definition with_uid :: "64 word \<Rightarrow> ZookeeperCluster \<Rightarrow> ZookeeperCluster" where
  "with_uid random z = z\<lparr>Meta := (Meta z)\<lparr>MetaUID := utoa (unat random)\<rparr>\<rparr>"

lemma with_uid_spec [simp]: "Spec (with_uid random z) = Spec z"
  by (simp add: with_uid_def)

abbreviation visited :: "(go_map \<Rightarrow> go_map) \<Rightarrow> ZookeeperCluster \<Rightarrow> go_map" where
  "visited order z \<equiv> order (gm_range (AdditionalConfig (Conf (Spec z))))"

lemma GenerateYAML_effect:
  assumes "lawful_disk d content target" and "GenerateYAML d visit z w = (w1, e)"
  shows "q \<notin> fst ` set (exported visit (fst (WithDefaults z))) \<Longrightarrow> content w1 q = content w q"
    and "full_writes d \<Longrightarrow> e = None \<Longrightarrow> list_all (holds_object d (content w1)) (exported visit (fst (WithDefaults z)))"
proof -
  let ?z = "fst (WithDefaults z)"
  let ?fs = "[yamlConfigMap d visit, yamlStatefulSet d, yamlClientService d, yamlHeadlessService d, yamlPodDisruptionBudget d]"
  have one: "list_all2 (writes_one d content) (map (\<lambda>f. f ?z) ?fs) (exported visit ?z)"
    using yaml_functions_write [OF assms(1), of visit ?z] by simp
  show "content w1 q = content w q" if "q \<notin> fst ` set (exported visit ?z)"
    using run_yaml_frame [OF one that, of w] assms(2) by (simp add: GenerateYAML_def)
  show "list_all (holds_object d (content w1)) (exported visit ?z)" if "full_writes d" "e = None"
    using run_yaml_writes [OF one exported_distinct that(1)] assms(2) that(2) by (simp add: GenerateYAML_def)
qed

lemma exporter_main_cases:
  assumes "lawful_disk d content target" and "ReadInputClusterYAMLFile d ifile w = Inr z"
    and "run = exporter_main d order ifile odir random w"
  shows "content (RunDisk run) = content w \<and> ExitStatus run \<noteq> 0 \<or>
    (\<exists>w1 e. content w1 = content w \<and> ExitStatus run = exporter_exit e \<and>
       GenerateYAML d (visited order z) (with_uid random z) w1 = (RunDisk run, e))"
proof -
  obtain w1 e where o: "CreateYAMLOutputDir d odir w = (w1, e)" by (metis surj_pair)
  then have c: "content w1 = content w" using directories_hold_nothing(2) [OF assms(1), of odir w] by simp
  show ?thesis
  proof (cases "e = None \<and> YAMLExporterReconciler d (with_uid random z) = None")
    case True
    obtain w2 e2 where "GenerateYAML d (visited order z) (with_uid random z) w1 = (w2, e2)" by (metis surj_pair)
    with True c assms(2,3) o show ?thesis by (auto simp: exporter_main_def with_uid_def [symmetric] Let_def)
  next
    case False
    then have "content (RunDisk run) = content w \<and> ExitStatus run \<noteq> 0"
      using c assms(2,3) o
      by (cases e) (auto simp: exporter_main_def with_uid_def [symmetric] Let_def exporter_exit_def YAMLExporterReconciler_def split: option.splits)
    then show ?thesis by blast
  qed
qed

text \<open>C29. The exporter writes five files at fixed places below \<open>ZookeeperCluster\<close> (that of the StatefulSet
  depends on the label \<open>component\<close>) and no other, whatever fails on the way and whatever output directory
  was asked for. When it exits with 0 on a disk that takes every write, each of the five distinct files holds
  the object generated from the defaulted cluster with the random identifier.\<close>

theorem exporter_output:
  assumes "lawful_disk d content target" and "ReadInputClusterYAMLFile d ifile w = Inr z"
    and "run = exporter_main d order ifile odir random w"
    and "files = exported (visited order z) (fst (WithDefaults (with_uid random z)))"
  shows "distinct (map fst files) \<and>
    (q \<notin> set (map fst files) \<longrightarrow> content (RunDisk run) q = content w q) \<and>
    (full_writes d \<and> ExitStatus run = 0 \<longrightarrow> list_all (holds_object d (content (RunDisk run))) files)"
proof -
  have "\<not> exporter_exit e = 0" if "e \<noteq> None" for e
    using that by (auto simp: exporter_exit_def split: option.splits go_error.splits)
  then show ?thesis
    using exporter_main_cases [OF assms(1-3)] GenerateYAML_effect [OF assms(1)] exported_distinct assms(4)
    by (simp, metis)
qed

theorem exporter_output_witness:
  "let run = exporter_main (mem_disk False) (\<lambda>m. m) ''zk.yaml'' ''out'' 7 sample_files in
     ExitStatus run = 0 \<and> mem_content (RunDisk run) ''other'' = Some ''untouched'' \<and>
     list_all (holds_object (mem_disk False) (mem_content (RunDisk run)))
       (exported [] (fst (WithDefaults (with_uid 7 bare_cluster))))"
proof -
  let ?run = "exporter_main (mem_disk False) (\<lambda>m. m) ''zk.yaml'' ''out'' 7 sample_files"
  have v: "visited (\<lambda>m. m) bare_cluster = []" by code_simp
  have r: "ReadInputClusterYAMLFile (mem_disk False) ''zk.yaml'' sample_files = Inr bare_cluster"
    by (simp add: ReadInputClusterYAMLFile_def mem_disk_def mem_content_def sample_files_def)
  have e: "ExitStatus ?run = 0" by code_simp
  have q: "''other'' \<notin> set (map fst (exported (visited (\<lambda>m. m) bare_cluster) (fst (WithDefaults (with_uid 7 bare_cluster)))))"
    by code_simp
  have o: "mem_content sample_files ''other'' = Some ''untouched''" by (simp add: mem_content_def sample_files_def)
  note out = exporter_output [OF mem_disk_lawful r refl refl,
    where q = "''other''" and order = "\<lambda>m. m" and odir = "''out''" and random = 7, unfolded v]
  show ?thesis unfolding Let_def
    using out [THEN conjunct2, THEN conjunct1] out [THEN conjunct2, THEN conjunct2] mem_disk_full e q [unfolded v] o by metis
qed

text \<open>
  The error of the deferred \<open>Flush\<close> is dropped: an object of at most 4096 bytes is reported as written
  when not a byte of it reached the disk.
\<close>

lemma lost_output_succeeds:
  assumes "CreateFile d (output_file subdir k) w = (w1, Inr h)" and "Marshal d obj = Inr y" and "length y \<le> 4096"
    and "\<And>b. RawWrite d h b w1 = (w1, 0, Some e)"
  shows "GenerateOutputYAMLFile d subdir k obj w = (fst (CloseFile d h w1), None)"
  using assms
  by (simp add: GenerateOutputYAMLFile_def bufio_Write_def flush_and_close_def bufio_Flush_def File_Write_def)

lemma lost_output_example:
  "let run = exporter_main (mem_disk True) (\<lambda>m. m) ''zk.yaml'' ''out'' 7 sample_files in
     ExitStatus run = 0 \<and> mem_content (RunDisk run) ''ZookeeperCluster/config/ConfigMap.yaml'' = Some []"
  by code_simp

text \<open>The output directory is created and then not used.\<close>

lemma output_directory_unused:
  assumes "Stat d odir w = None" and "Stat d odir2 w = None"
  shows "RunDisk (exporter_main d order ifile odir random w) = RunDisk (exporter_main d order ifile odir2 random w)"
  using assms
  by (auto simp: exporter_main_def CreateYAMLOutputDir_def createDirIfNotExist_def Let_def split: sum.split option.split prod.split)

text \<open>A failure to create the directory of the StatefulSet is not reported as such.\<close>

lemma sts_directory_error_dropped:
  assumes "MakeStatefulSet z = Some s" and "CreateOutputSubDir d ''ZookeeperCluster'' (map_index (MetaLabels (SsMeta s)) ''component'') w = (w1, dir, Some e)"
  shows "yamlStatefulSet d z w = GenerateOutputYAMLFile d dir (Kind (SsType s)) (ObjSts s) w1"
  using assms by (simp add: yamlStatefulSet_def)

end
