(* ===== verification/Startup.thy ===== *)
theory Startup
  imports Leader
begin

text \<open>
  \<open>main.go\<close>: the start of the operator, from the flags to the running manager, and \<open>SetupWithManager\<close> of
  the controller. The environment of the process, the service account file, the configuration of the
  client and the controller runtime are the parameter \<open>StartEnv\<close>; the flags are given parsed. Logging is
  left out, and so is the scheme, to which \<open>init\<close> adds the types of the API. The flag \<open>disableFinalizer\<close> is
  read by the running controller only: it is the field \<open>DisableFinalizer\<close> of \<open>Env\<close>.
\<close>

record Flags =
  versionFlag :: bool
  disableFinalizer :: bool
  metricsAddr :: string

record ManagerOptions =
  CacheNamespaces :: "string list"
  MetricsBindAddress :: string

record ControllerSetup =
  ForKind :: string
  OwnsKinds :: "string list"
  EventFilter :: string

record ('w, 'c, 'm) StartEnv =
  LookupEnv :: "string \<Rightarrow> string option"
  ReadSecretFile :: "string \<Rightarrow> go_error + string"
  GetConfig :: "'w \<Rightarrow> 'w \<times> (go_error + 'c)"
  LeaderClient :: "'c \<Rightarrow> 'w LeaderEnv"
  NewManager :: "'c \<Rightarrow> ManagerOptions \<Rightarrow> 'w \<Rightarrow> 'w \<times> (go_error + 'm)"
  CompleteController :: "'m \<Rightarrow> ControllerSetup \<Rightarrow> 'w \<Rightarrow> 'w \<times> go_error option"
  StartManager :: "'m \<Rightarrow> 'w \<Rightarrow> 'w \<times> go_error option"

definition getWatchNamespace :: "('w, 'c, 'm) StartEnv \<Rightarrow> string \<times> go_error option" where
  "getWatchNamespace r =
     (let watchNamespaceEnvVar = ''WATCH_NAMESPACE''
      in case LookupEnv r watchNamespaceEnvVar of
           None \<Rightarrow> ([], Some (GoErr (watchNamespaceEnvVar @ '' must be set'')))
         | Some ns \<Rightarrow> (ns, None))"

definition GetOperatorNamespace :: "('w, 'c, 'm) StartEnv \<Rightarrow> go_error + string" where
  "GetOperatorNamespace r =
     (case ReadSecretFile r ''/var/run/secrets/kubernetes.io/serviceaccount/namespace'' of
        Inl err \<Rightarrow> if IsNotFound err then Inl (GoErr ''file does not exist'') else Inl err
      | Inr nsBytes \<Rightarrow> Inr (TrimSpace nsBytes))"

text \<open>The namespaces the manager watches: none listed means all.\<close>

definition managerNamespaces :: "string \<Rightarrow> string list" where
  "managerNamespaces namespaces =
     (if namespaces \<noteq> [] then map TrimSpace (split_at (CHR '','') namespaces) else [])"

definition SetupWithManager :: "('w, 'c, 'm) StartEnv \<Rightarrow> 'm \<Rightarrow> 'w \<Rightarrow> 'w \<times> go_error option" where
  "SetupWithManager r mgr =
     CompleteController r mgr
       \<lparr>ForKind = ''ZookeeperCluster'', OwnsKinds = [''StatefulSet'', ''Service'', ''Pod''],
        EventFilter = ''GenerationChangedPredicate''\<rparr>"

text \<open>\<open>main\<close>, with the exit status of the process. A panic ends it with status 2.\<close>

definition failed :: "go_error \<Rightarrow> nat" where
  "failed e = (case e of GoPanic _ \<Rightarrow> 2 | _ \<Rightarrow> 1)"

definition start_manager ::
  "('w, 'c, 'm) StartEnv \<Rightarrow> ManagerOptions \<Rightarrow> 'w \<Rightarrow> 'w \<times> nat" where
  "start_manager r opts w =
     (case GetConfig r w of
        (w1, Inl err) \<Rightarrow> (w1, 1)
      | (w1, Inr cfg) \<Rightarrow>
          (case NewManager r cfg opts w1 of
             (w2, Inl err) \<Rightarrow> (w2, 1)
           | (w2, Inr mgr) \<Rightarrow>
               (case SetupWithManager r mgr w2 of
                  (w3, Some err) \<Rightarrow> (w3, 1)
                | (w3, None) \<Rightarrow>
                    (case StartManager r mgr w3 of
                       (w4, Some err) \<Rightarrow> (w4, 1)
                     | (w4, None) \<Rightarrow> (w4, 0)))))"

definition operator_main :: "('w, 'c, 'm) StartEnv \<Rightarrow> Flags \<Rightarrow> 'w \<Rightarrow> 'w \<times> nat" where
  "operator_main r flags w =
     (let namespaces = fst (getWatchNamespace r)
      in if versionFlag flags then (w, 0)
         else let namespaces = managerNamespaces namespaces
         in case GetConfig r w of
              (w1, Inl err) \<Rightarrow> (w1, 1)
            | (w1, Inr cfg) \<Rightarrow>
                (case GetOperatorNamespace r of
                   Inl err \<Rightarrow> (w1, 1)
                 | Inr operatorNs \<Rightarrow>
                     (case BecomeLeader (LeaderClient r cfg) ''zookeeper-operator-lock'' operatorNs w1 of
                        (w2, Some err) \<Rightarrow> (w2, failed err)
                      | (w2, None) \<Rightarrow>
                          start_manager r \<lparr>CacheNamespaces = namespaces, MetricsBindAddress = metricsAddr flags\<rparr> w2)))"

section \<open>Watched namespaces\<close>

definition trimmed :: "string \<Rightarrow> bool" where
  "trimmed n \<longleftrightarrow> n = [] \<or> \<not> is_space (hd n) \<and> \<not> is_space (last n)"

lemma dropWhile_pad: "list_all P l \<Longrightarrow> dropWhile P (l @ s) = dropWhile P s"
  by (induction l) auto

lemma dropWhile_stop: "n \<noteq> [] \<Longrightarrow> \<not> P (hd n) \<Longrightarrow> dropWhile P (n @ s) = n @ s"
  by (cases n) auto

lemma TrimSpace_padded:
  assumes "list_all is_space l" "list_all is_space r" "trimmed n"
  shows "TrimSpace (l @ n @ r) = n"
proof (cases "n = []")
  case True
  have "dropWhile is_space (l @ r) = []" using assms(1,2) unfolding dropWhile_eq_Nil_conv list_all_iff by auto
  with True show ?thesis by (simp only: TrimSpace_def append_Nil rev.simps dropWhile.simps)
next
  case False
  with assms(3) have n: "\<not> is_space (hd n)" "\<not> is_space (hd (rev n))" by (simp_all add: trimmed_def hd_rev)
  have r: "list_all is_space (rev r)" using assms(2) by (simp add: list_all_iff)
  show ?thesis
    using dropWhile_pad [OF assms(1), of "n @ r"] dropWhile_stop [of n is_space r, OF False n(1)]
      dropWhile_pad [OF r, of "rev n"] dropWhile_stop [of "rev n" is_space "[]"] False n(2)
    by (simp add: TrimSpace_def)
qed

text \<open>C39. The operator watches the namespaces its environment lists: a list of names separated by commas, with
  spaces around them or not, is read back as these names. Without the variable no namespace is listed and
  the error is only reported, so the operator watches all of them.\<close>

theorem watched_namespaces_roundtrip:
  assumes "list_all (\<lambda>(before, name, after). list_all is_space before \<and> list_all is_space after \<and>
      trimmed name \<and> CHR '','' \<notin> set name) items"
    and "listed = join_with (CHR '','') (map (\<lambda>(before, name, after). before @ name @ after) items)" and "listed \<noteq> []"
  shows "(LookupEnv r ''WATCH_NAMESPACE'' = Some listed \<longrightarrow>
      managerNamespaces (fst (getWatchNamespace r)) = map (\<lambda>(before, name, after). name) items) \<and>
    (LookupEnv r ''WATCH_NAMESPACE'' = None \<longrightarrow> managerNamespaces (fst (getWatchNamespace r)) = [])"
proof -
  let ?words = "map (\<lambda>(before, name, after). before @ name @ after) items"
  have comma: "CHR '','' \<notin> set s" if "list_all is_space s" for s
  proof -
    have "\<not> is_space (CHR '','')" by (simp add: is_space_def)
    then show ?thesis using that by (metis list_all_iff)
  qed
  have "CHR '','' \<notin> set (b @ n @ a)" if "(b, n, a) \<in> set items" for b n a
  proof -
    have "list_all is_space b" "list_all is_space a" "CHR '','' \<notin> set n"
      using assms(1) that by (auto simp only: list_all_iff split: prod.splits)
    then show ?thesis using comma by simp
  qed
  then have "\<forall>w \<in> set ?words. CHR '','' \<notin> set w" by (auto simp only: set_map)
  moreover have "?words \<noteq> []" using assms(2,3) by auto
  ultimately have "split_at (CHR '','') listed = ?words" unfolding assms(2) by (rule split_join [rotated])
  moreover have "map TrimSpace ?words = map (\<lambda>(before, name, after). name) items"
  proof -
    have "TrimSpace (b @ n @ a) = n" if "(b, n, a) \<in> set items" for b n a
      using assms(1) that by (intro TrimSpace_padded) (auto simp only: list_all_iff split: prod.splits)
    then show ?thesis by auto
  qed
  ultimately show ?thesis using assms(3) by (simp add: managerNamespaces_def getWatchNamespace_def)
qed

text \<open>An empty word of the list, as after a final comma, becomes the namespace with the empty name.\<close>

lemma trailing_comma_is_a_namespace: "managerNamespaces ''ns1,'' = [''ns1'', []]"
  by (simp add: managerNamespaces_def TrimSpace_def is_space_def)

section \<open>Leadership\<close>

text \<open>C30. Nothing is managed without leadership: if the operator changed anything beside what reading the
  configuration and the election change (\<open>obs\<close>), or ended as after a completed run, then its election with
  the name of the lock and its own namespace had succeeded before.\<close>

theorem manages_only_as_leader:
  assumes quiet: "\<And>w. obs (fst (GetConfig r w)) = obs w"
      "\<And>cfg lock ns w. obs (fst (BecomeLeader (LeaderClient r cfg) lock ns w)) = obs w"
    and run: "operator_main r flags w = (w1, status)" "\<not> versionFlag flags"
    and moved: "obs w1 \<noteq> obs w \<or> status = 0"
  shows "\<exists>cfg ns w2 w3. GetOperatorNamespace r = Inr ns \<and> obs w3 = obs w \<and>
    BecomeLeader (LeaderClient r cfg) ''zookeeper-operator-lock'' ns w2 = (w3, None) \<and>
    start_manager r \<lparr>CacheNamespaces = managerNamespaces (fst (getWatchNamespace r)), MetricsBindAddress = metricsAddr flags\<rparr> w3 =
      (w1, status)"
proof -
  obtain w2 c where c: "GetConfig r w = (w2, c)" by (metis surj_pair)
  have o2: "obs w2 = obs w" using quiet(1) [of w] c by simp
  obtain cfg ns where r: "c = Inr cfg" "GetOperatorNamespace r = Inr ns"
    using run moved o2 c by (auto simp: operator_main_def Let_def split: sum.splits)
  obtain w3 e where b: "BecomeLeader (LeaderClient r cfg) ''zookeeper-operator-lock'' ns w2 = (w3, e)" by (metis surj_pair)
  have o3: "obs w3 = obs w" using quiet(2) [of cfg "''zookeeper-operator-lock''" ns w2] b o2 by simp
  have "e = None"
    using run moved o3 c r b by (auto simp: operator_main_def Let_def failed_def split: option.splits go_error.splits)
  with run c r b o3 show ?thesis by (auto simp: operator_main_def Let_def)
qed

text \<open>A start in a process with one watched namespace, over the leader server of theory \<open>Leader\<close>.\<close>

definition mem_start :: "bool \<Rightarrow> (leader_world \<times> string list list, unit, string list) StartEnv" where
  "mem_start elected =
     \<lparr>LookupEnv = [''WATCH_NAMESPACE'' \<mapsto> '' team-a ,team-b''], ReadSecretFile = (\<lambda>p. Inr (''ops'' @ nl)),
      GetConfig = (\<lambda>w. (w, Inr ())),
      LeaderClient = (\<lambda>_. \<lparr>ClientFails = False,
        GetLock = (\<lambda>ns n w. (w, Inl NotFound)), GetLeaderPod = (\<lambda>ns n w. (w, Inl NotFound)),
        DeletePod = (\<lambda>p w. (w, None)), DeleteLock = (\<lambda>l w. (w, None)), PodNameVar = ''operator-2'',
        Become = (\<lambda>l w. (w, if elected then None else Some (GoErr ''no leader'')))\<rparr>),
      NewManager = (\<lambda>_ opts w. (w, Inr (CacheNamespaces opts))),
      CompleteController = (\<lambda>m s w. (w, None)),
      StartManager = (\<lambda>m w. ((fst w, m # snd w), None))\<rparr>"

theorem watched_namespaces_roundtrip_witness:
  "managerNamespaces (fst (getWatchNamespace (mem_start True))) = [''team-a'', ''team-b'']"
proof -
  let ?items = "[('' '', ''team-a'', '' ''), ([], ''team-b'', [])]"
  have "list_all (\<lambda>(before, name, after). list_all is_space before \<and> list_all is_space after \<and>
      trimmed name \<and> CHR '','' \<notin> set name) ?items"
    by (simp add: is_space_def trimmed_def)
  from watched_namespaces_roundtrip [OF this refl, of "mem_start True"] show ?thesis by (simp add: mem_start_def)
qed

theorem manages_only_as_leader_witness:
  "snd (fst (operator_main (mem_start True) \<lparr>versionFlag = False, disableFinalizer = False, metricsAddr = ''127.0.0.1:6000''\<rparr> (([], []), []))) =
     [[''team-a'', ''team-b'']] \<and> (\<exists>ns w2 w3. GetOperatorNamespace (mem_start True) = Inr ns \<and>
     BecomeLeader (LeaderClient (mem_start True) ()) ''zookeeper-operator-lock'' ns w2 = (w3, None))"
proof -
  let ?f = "\<lparr>versionFlag = False, disableFinalizer = False, metricsAddr = ''127.0.0.1:6000''\<rparr>"
  have e: "operator_main (mem_start True) ?f (([], []), []) = ((([], []), [[''team-a'', ''team-b'']]), 0)" by code_simp
  have q: "snd (fst (GetConfig (mem_start True) w)) = snd w"
    "snd (fst (BecomeLeader (LeaderClient (mem_start True) cfg) lock ns w)) = snd w" for w cfg lock ns
    by (simp_all add: mem_start_def BecomeLeader_def precheckLeaderLock_def getConfigMapWithLock_def)
  from manages_only_as_leader [of snd, OF q e] obtain cfg ns w2 w3 where
    "GetOperatorNamespace (mem_start True) = Inr ns"
    "BecomeLeader (LeaderClient (mem_start True) cfg) ''zookeeper-operator-lock'' ns w2 = (w3, None)" by auto
  then show ?thesis using e by (metis fst_conv old.unit.exhaust snd_conv)
qed

end
