(* ===== verification/GoHeap.thy ===== *)
theory GoHeap
  imports GoPrelude "HOL-Library.State_Monad"
begin

text \<open>
  Go values with references: a store of cells, reached by the pointers, slices and maps of a struct, and
  the patterns in which generated deep-copy functions walk them. A store is a list of cells, an address
  an index, allocation appends; a reference is \<open>None\<close> for \<open>nil\<close>. The kinds of cells are a type
  parameter; \<open>proj\<close> reads the contents of one kind of cell and \<open>mk\<close> makes a cell of it.
\<close>

type_synonym ref = "nat option"
type_synonym ('c, 'a) heap_op = "('c list, 'a) state"

definition deref :: "('c \<Rightarrow> 'a option) \<Rightarrow> 'c list \<Rightarrow> nat \<Rightarrow> 'a option" where
  "deref proj h a = (if a < length h then proj (h ! a) else None)"

definition alloc :: "'c \<Rightarrow> ('c, ref) heap_op" where
  "alloc c = do { h \<leftarrow> State_Monad.get; _ \<leftarrow> State_Monad.set (h @ [c]); State_Monad.return (Some (length h)) }"

text \<open>
  \<open>if in.F != nil { in, out := &in.F, &out.F; *out = new(T); ... }\<close>: the field \<open>F\<close> of the copy is \<open>nil\<close>, or
  refers to a new cell filled by \<open>copy\<close>. The cell is allocated once its contents are complete; addresses
  cannot be observed, so this order cannot either. A reference without a cell of its kind, which Go's types
  exclude, is left as it is.
\<close>

definition copy_ref :: "('c \<Rightarrow> 'a option) \<Rightarrow> ('a \<Rightarrow> 'c) \<Rightarrow> ('a \<Rightarrow> ('c, 'a) heap_op) \<Rightarrow> ref \<Rightarrow> ('c, ref) heap_op" where
  "copy_ref proj mk copy r =
     (case r of None \<Rightarrow> State_Monad.return None
      | Some a \<Rightarrow> do {
          h \<leftarrow> State_Monad.get;
          (case deref proj h a of None \<Rightarrow> State_Monad.return (Some a)
           | Some x \<Rightarrow> do { y \<leftarrow> copy x; alloc (mk y) }) })"

definition read_ref :: "('c \<Rightarrow> 'a option) \<Rightarrow> ('c list \<Rightarrow> 'a \<Rightarrow> 'v option) \<Rightarrow> 'c list \<Rightarrow> ref \<Rightarrow> 'v option option" where
  "read_ref proj read h r =
     (case r of None \<Rightarrow> Some None
      | Some a \<Rightarrow> (case deref proj h a of None \<Rightarrow> None | Some x \<Rightarrow> map_option Some (read h x)))"

text \<open>\<open>for i := range *in { (*in)[i].DeepCopyInto(&(*out)[i]) }\<close>\<close>

fun copy_elems :: "('a \<Rightarrow> ('c, 'a) heap_op) \<Rightarrow> 'a list \<Rightarrow> ('c, 'a list) heap_op" where
  "copy_elems copy [] = State_Monad.return []"
| "copy_elems copy (x # xs) = do { y \<leftarrow> copy x; ys \<leftarrow> copy_elems copy xs; State_Monad.return (y # ys) }"

fun read_elems :: "('c list \<Rightarrow> 'a \<Rightarrow> 'v option) \<Rightarrow> 'c list \<Rightarrow> 'a list \<Rightarrow> 'v list option" where
  "read_elems read h [] = Some []"
| "read_elems read h (x # xs) =
     (case read h x of None \<Rightarrow> None | Some v \<Rightarrow> map_option (\<lambda>vs. v # vs) (read_elems read h xs))"

text \<open>\<open>make(map[string]string)\<close> and the loop \<open>for key, val := range *in { (*out)[key] = val }\<close>.\<close>

definition copy_map :: "go_map \<Rightarrow> ('c, go_map) heap_op" where
  "copy_map m = State_Monad.return (gm_overlay [] m)"

definition read_map :: "'c list \<Rightarrow> go_map \<Rightarrow> go_map option" where
  "read_map h m = (if distinct (map fst m) then Some m else None)"

text \<open>An assignment, or \<open>copy(*out, *in)\<close>, of values without references.\<close>

definition copy_flat :: "'a \<Rightarrow> ('c, 'a) heap_op" where
  "copy_flat x = State_Monad.return x"

definition read_flat :: "'c list \<Rightarrow> 'a \<Rightarrow> 'a option" where
  "read_flat h x = Some x"

text \<open>Two fields, one after the other.\<close>

definition copy_pair :: "('a \<Rightarrow> ('c, 'a) heap_op) \<Rightarrow> ('b \<Rightarrow> ('c, 'b) heap_op) \<Rightarrow> 'a \<times> 'b \<Rightarrow> ('c, 'a \<times> 'b) heap_op" where
  "copy_pair c1 c2 x = do { a \<leftarrow> c1 (fst x); b \<leftarrow> c2 (snd x); State_Monad.return (a, b) }"

definition read_pair ::
  "('c list \<Rightarrow> 'a \<Rightarrow> 'v option) \<Rightarrow> ('c list \<Rightarrow> 'b \<Rightarrow> 'w option) \<Rightarrow> 'c list \<Rightarrow> 'a \<times> 'b \<Rightarrow> ('v \<times> 'w) option" where
  "read_pair r1 r2 h x = (case r1 h (fst x) of None \<Rightarrow> None | Some v \<Rightarrow> map_option (Pair v) (r2 h (snd x)))"

section \<open>What a deep copy promises\<close>

text \<open>
  \<open>read h x\<close> is the value of \<open>x\<close> with all references followed. Reading a value does not depend on cells
  allocated later. A copy of a readable value leaves all cells as they are and gives a value that reads
  the same whatever the cells that existed before are overwritten with: the two share nothing.
\<close>

locale deep_copier =
  fixes copy :: "'a \<Rightarrow> ('c, 'a) heap_op" and read :: "'c list \<Rightarrow> 'a \<Rightarrow> 'v option"
  assumes stable: "read h x = Some v \<Longrightarrow> read (h @ k) x = Some v"
    and copies: "read h x = Some v \<Longrightarrow> \<exists>k y. run_state (copy x) h = (y, h @ k) \<and>
      (\<forall>g. length g = length h \<longrightarrow> read (g @ k) y = Some v)"
begin

lemma copy_reads_same:
  assumes "read h x = Some v" and "run_state (copy x) h = (y, h1)"
  shows "read h1 y = Some v" "read h1 x = Some v" "take (length h) h1 = h"
proof -
  obtain k where k: "h1 = h @ k" "\<forall>g. length g = length h \<longrightarrow> read (g @ k) y = Some v"
    using copies [OF assms(1)] assms(2) by auto
  show "read h1 y = Some v" using k by simp
  show "read h1 x = Some v" using k(1) stable [OF assms(1)] by simp
  show "take (length h) h1 = h" using k(1) by simp
qed

text \<open>Overwriting any cells that existed before the copy does not show in the copy.\<close>

lemma copy_isolated:
  assumes "read h x = Some v" and "run_state (copy x) h = (y, h1)" and "a < length h"
  shows "read (h1[a := c]) y = Some v"
proof -
  obtain k where k: "h1 = h @ k" "\<forall>g. length g = length h \<longrightarrow> read (g @ k) y = Some v"
    using copies [OF assms(1)] assms(2) by auto
  then have "h1[a := c] = h[a := c] @ k" using assms(3) by (simp add: list_update_append)
  with k(2) show ?thesis by simp
qed

text \<open>Overwriting the cells of the copy does not show in the original.\<close>

lemma original_isolated:
  assumes "read h x = Some v" and "run_state (copy x) h = (y, h1)" and "length h \<le> a"
  shows "read (h1[a := c]) x = Some v"
proof -
  obtain k where "h1 = h @ k" using copies [OF assms(1)] assms(2) by auto
  then have "h1[a := c] = h @ k[a - length h := c]" using assms(3) by (simp add: list_update_append)
  with stable [OF assms(1)] show ?thesis by simp
qed

end

section \<open>The patterns keep the promise\<close>

lemma deep_copier_flat: "deep_copier copy_flat read_flat"
  by unfold_locales (simp_all add: copy_flat_def read_flat_def)

lemma gm_put_append: "k \<notin> fst ` set l \<Longrightarrow> gm_put k v l = l @ [(k, v)]"
  by (induction l) (auto simp: gm_put_def)

lemma gm_overlay_append:
  "distinct (map fst (res @ m)) \<Longrightarrow> gm_overlay res m = res @ m"
  by (induction res m rule: gm_overlay.induct) (auto simp: gm_put_append)

lemma deep_copier_map: "deep_copier copy_map read_map"
  by unfold_locales (auto simp: copy_map_def read_map_def gm_overlay_append [of "[]", simplified] split: if_splits)

lemma deep_copier_pair:
  assumes "deep_copier c1 r1" and "deep_copier c2 r2"
  shows "deep_copier (copy_pair c1 c2) (read_pair r1 r2)"
proof
  fix h x v
  assume "read_pair r1 r2 h x = Some v"
  then obtain u w where v: "v = (u, w)" "r1 h (fst x) = Some u" "r2 h (snd x) = Some w"
    by (auto simp: read_pair_def split: option.splits)
  show "read_pair r1 r2 (h @ k) x = Some v" for k
    using v deep_copier.stable [OF assms(1)] deep_copier.stable [OF assms(2)] by (simp add: read_pair_def)
  obtain k y where y: "run_state (c1 (fst x)) h = (y, h @ k)" "\<forall>g. length g = length h \<longrightarrow> r1 (g @ k) y = Some u"
    using deep_copier.copies [OF assms(1) v(2)] by blast
  have "r2 (h @ k) (snd x) = Some w" using deep_copier.stable [OF assms(2) v(3)] .
  then obtain l z where z: "run_state (c2 (snd x)) (h @ k) = (z, (h @ k) @ l)"
      "\<forall>g. length g = length (h @ k) \<longrightarrow> r2 (g @ l) z = Some w"
    using deep_copier.copies [OF assms(2)] by blast
  have "read_pair r1 r2 (g @ k @ l) (y, z) = Some v" if "length g = length h" for g
    using y(2) z(2) [rule_format, of "g @ k"] that v(1) deep_copier.stable [OF assms(1), of "g @ k" y u l]
      by (simp add: read_pair_def)
  moreover have "run_state (copy_pair c1 c2 x) h = ((y, z), h @ k @ l)" using y(1) z(1) by (simp add: copy_pair_def)
  ultimately show "\<exists>k y. run_state (copy_pair c1 c2 x) h = (y, h @ k) \<and>
      (\<forall>g. length g = length h \<longrightarrow> read_pair r1 r2 (g @ k) y = Some v)"
    by blast
qed

text \<open>A struct is copied as the tuple \<open>sel x\<close> of its fields that hold references; \<open>upd\<close> stores the tuple.\<close>

lemma deep_copier_struct:
  assumes "deep_copier c r"
    and copy: "\<And>x. copy x = State_Monad.bind (c (sel x)) (\<lambda>y. State_Monad.return (upd x y))"
    and read: "\<And>h x. read h x = map_option (val x) (r h (sel x))"
    and upd: "\<And>x y. sel (upd x y) = y" "\<And>x y. val (upd x y) = val x"
  shows "deep_copier copy read"
proof
  fix h x v
  assume "read h x = Some v"
  then obtain u where u: "r h (sel x) = Some u" "v = val x u" by (auto simp: read)
  show "read (h @ k) x = Some v" for k
    using deep_copier.stable [OF assms(1) u(1)] u(2) by (simp add: read)
  show "\<exists>k y. run_state (copy x) h = (y, h @ k) \<and> (\<forall>g. length g = length h \<longrightarrow> read (g @ k) y = Some v)"
    using deep_copier.copies [OF assms(1) u(1)] u(2) by (fastforce simp: copy read upd)
qed

lemma deep_copier_elems:
  assumes "deep_copier c r"
  shows "deep_copier (copy_elems c) (read_elems r)"
proof
  show st: "read_elems r (h @ k) xs = Some vs" if "read_elems r h xs = Some vs" for h xs vs k
    using that by (induction xs arbitrary: vs) (auto simp: deep_copier.stable [OF assms] split: option.splits)
  show "\<exists>k ys. run_state (copy_elems c xs) h = (ys, h @ k) \<and> (\<forall>g. length g = length h \<longrightarrow> read_elems r (g @ k) ys = Some vs)"
    if "read_elems r h xs = Some vs" for h xs vs
    using that
  proof (induction xs arbitrary: h vs)
    case (Cons x xs)
    then obtain u us where v: "vs = u # us" "r h x = Some u" "read_elems r h xs = Some us"
      by (auto split: option.splits)
    obtain k y where y: "run_state (c x) h = (y, h @ k)" "\<forall>g. length g = length h \<longrightarrow> r (g @ k) y = Some u"
      using deep_copier.copies [OF assms v(2)] by blast
    obtain l ys where z: "run_state (copy_elems c xs) (h @ k) = (ys, (h @ k) @ l)"
        "\<forall>g. length g = length (h @ k) \<longrightarrow> read_elems r (g @ l) ys = Some us"
      using Cons.IH [OF st [OF v(3), of k]] by blast
    have "read_elems r (g @ k @ l) (y # ys) = Some vs" if "length g = length h" for g
      using y(2) z(2) [rule_format, of "g @ k"] that v(1) deep_copier.stable [OF assms, of "g @ k" y u l] by simp
    then show ?case using y(1) z(1) by (intro exI [of _ "k @ l"] exI [of _ "y # ys"]) simp
  qed simp
qed

lemma deep_copier_ref:
  assumes "deep_copier c r" and "\<And>x. proj (mk x) = Some x"
  shows "deep_copier (copy_ref proj mk c) (read_ref proj r)"
proof
  fix h x v
  assume v: "read_ref proj r h x = Some v"
  show "read_ref proj r (h @ k) x = Some v" for k
  proof (cases x)
    case (Some a)
    with v obtain e u where "deref proj h a = Some e" "r h e = Some u" "v = Some u"
      by (auto simp: read_ref_def split: option.splits)
    with Some show ?thesis using deep_copier.stable [OF assms(1), of h e u k]
      by (simp add: read_ref_def deref_def nth_append split: if_splits)
  qed (use v in \<open>simp add: read_ref_def\<close>)
  show "\<exists>k y. run_state (copy_ref proj mk c x) h = (y, h @ k) \<and>
      (\<forall>g. length g = length h \<longrightarrow> read_ref proj r (g @ k) y = Some v)"
  proof (cases x)
    case None
    with v show ?thesis by (simp add: copy_ref_def read_ref_def)
  next
    case (Some a)
    with v obtain e u where e: "deref proj h a = Some e" "r h e = Some u" "v = Some u"
      by (auto simp: read_ref_def split: option.splits)
    obtain k y where y: "run_state (c e) h = (y, h @ k)" "\<forall>g. length g = length h \<longrightarrow> r (g @ k) y = Some u"
      using deep_copier.copies [OF assms(1) e(2)] by blast
    have "read_ref proj r (g @ k @ [mk y]) (Some (length h + length k)) = Some v" if "length g = length h" for g
      using y(2) that e(3) deep_copier.stable [OF assms(1), of "g @ k" y u "[mk y]"] assms(2)
      by (simp add: read_ref_def deref_def nth_append)
    then show ?thesis using Some e(1) y(1)
      by (intro exI [of _ "k @ [mk y]"] exI [of _ "Some (length h + length k)"]) (simp add: copy_ref_def alloc_def)
  qed
qed

end
