(* ===== verification/DeepCopy.thy ===== *)
theory DeepCopy
  imports GoHeap Generators
begin

text \<open>
  \<open>api/v1beta1/zz_generated.deepcopy.go\<close>: the deep copies of the API types, over the store of theory
  \<open>GoHeap\<close>. A struct in memory has its plain fields and a \<open>ref\<close> for each map, slice and pointer; the
  \<open>read\<close> functions follow them to the values of theory \<open>ApiTypes\<close>. Structs of the Kubernetes API keep
  their references inside a value of the type parameter; their own \<open>DeepCopyInto\<close> methods, with the
  values they hold, are the parameter \<open>Foreign\<close>.
\<close>

section \<open>Structs in memory\<close>

text \<open>\<open>ZookeeperClusterList\<close> with its type information, and a cluster with its own.\<close>

record ZookeeperClusterList =
  ListType :: TypeMeta
  ListMetadata :: raw
  Items :: "(TypeMeta \<times> ZookeeperCluster) list"

record GoAdminServerServicePolicy =
  ga_Annotations :: ref
  ga_External :: bool

record GoClientServicePolicy =
  gc_Annotations :: ref

record GoHeadlessServicePolicy =
  gh_Annotations :: ref

record 'e GoEphemeral =
  ge_EmptyDirVolumeSource :: 'e

record GoMembersStatus =
  gm_Ready :: ref
  gm_Unready :: ref

record 'e GoPersistence =
  gv_VolumeReclaimPolicy :: string
  gv_PersistentVolumeClaimSpec :: 'e
  gv_Annotations :: ref

record 'e GoPodPolicy =
  gp_Labels :: ref
  gp_NodeSelector :: ref
  gp_Affinity :: ref
  gp_TopologySpreadConstraints :: ref
  gp_Resources :: 'e
  gp_Tolerations :: ref
  gp_Env :: ref
  gp_Annotations :: ref
  gp_SecurityContext :: ref
  gp_TerminationGracePeriodSeconds :: int64
  gp_ServiceAccountName :: string
  gp_ImagePullSecrets :: ref

record GoProbes =
  gb_ReadinessProbe :: ref
  gb_LivenessProbe :: ref

text \<open>Of \<open>gz_Plain\<close> only the fields without references count.\<close>

record GoZookeeperConfig =
  gz_Plain :: ZookeeperConfig
  gz_AdditionalConfig :: ref

record GoZookeeperClusterStatus =
  gt_Members :: GoMembersStatus
  gt_Replicas :: int32
  gt_ReadyReplicas :: int32
  gt_InternalClientEndpoint :: string
  gt_ExternalClientEndpoint :: string
  gt_MetaRootCreated :: bool
  gt_CurrentVersion :: string
  gt_TargetVersion :: string
  gt_Conditions :: ref

record 'e GoZookeeperClusterSpec =
  gs_Image :: ContainerImage
  gs_Labels :: ref
  gs_Replicas :: int32
  gs_Ports :: ref
  gs_Pod :: "'e GoPodPolicy"
  gs_AdminServerService :: GoAdminServerServicePolicy
  gs_ClientService :: GoClientServicePolicy
  gs_TriggerRollingRestart :: bool
  gs_HeadlessService :: GoHeadlessServicePolicy
  gs_StorageType :: string
  gs_Persistence :: ref
  gs_Ephemeral :: ref
  gs_Conf :: GoZookeeperConfig
  gs_DomainName :: string
  gs_KubernetesClusterDomain :: string
  gs_Containers :: ref
  gs_InitContainers :: ref
  gs_Volumes :: ref
  gs_VolumeMounts :: ref
  gs_Probes :: ref
  gs_MaxUnavailableReplicas :: int32

record 'e GoZookeeperCluster =
  gk_TypeMeta :: TypeMeta
  gk_ObjectMeta :: 'e
  gk_Spec :: "'e GoZookeeperClusterSpec"
  gk_Status :: GoZookeeperClusterStatus

record 'e GoZookeeperClusterList =
  gl_TypeMeta :: TypeMeta
  gl_ListMeta :: 'e
  gl_Items :: ref

section \<open>The store\<close>

datatype 'e cell =
    MapCell go_map
  | StringsCell "string list"
  | PortsCell "ContainerPort list"
  | ConditionsCell "ClusterCondition list"
  | ForeignCell 'e
  | ForeignsCell "'e list"
  | ClustersCell "'e GoZookeeperCluster list"
  | AdminCell GoAdminServerServicePolicy
  | ClientCell GoClientServicePolicy
  | ConditionCell ClusterCondition
  | ImageCell ContainerImage
  | EphemeralCell "'e GoEphemeral"
  | HeadlessCell GoHeadlessServicePolicy
  | MembersCell GoMembersStatus
  | PersistenceCell "'e GoPersistence"
  | PodCell "'e GoPodPolicy"
  | PortNumbersCell Ports
  | ProbeCell Probe
  | ProbesCell GoProbes
  | ClusterCell "'e GoZookeeperCluster"
  | ListCell "'e GoZookeeperClusterList"
  | SpecCell "'e GoZookeeperClusterSpec"
  | StatusCell GoZookeeperClusterStatus
  | ConfigCell GoZookeeperConfig

type_synonym 'e store = "'e cell list"
type_synonym ('e, 'a) op = "('e cell, 'a) heap_op"

definition in_MapCell :: "'e cell \<Rightarrow> go_map option" where
  "in_MapCell c = (case c of MapCell x \<Rightarrow> Some x | _ \<Rightarrow> None)"

definition in_StringsCell :: "'e cell \<Rightarrow> (string list) option" where
  "in_StringsCell c = (case c of StringsCell x \<Rightarrow> Some x | _ \<Rightarrow> None)"

definition in_PortsCell :: "'e cell \<Rightarrow> (ContainerPort list) option" where
  "in_PortsCell c = (case c of PortsCell x \<Rightarrow> Some x | _ \<Rightarrow> None)"

definition in_ConditionsCell :: "'e cell \<Rightarrow> (ClusterCondition list) option" where
  "in_ConditionsCell c = (case c of ConditionsCell x \<Rightarrow> Some x | _ \<Rightarrow> None)"

definition in_ForeignCell :: "'e cell \<Rightarrow> 'e option" where
  "in_ForeignCell c = (case c of ForeignCell x \<Rightarrow> Some x | _ \<Rightarrow> None)"

definition in_ForeignsCell :: "'e cell \<Rightarrow> ('e list) option" where
  "in_ForeignsCell c = (case c of ForeignsCell x \<Rightarrow> Some x | _ \<Rightarrow> None)"

definition in_ClustersCell :: "'e cell \<Rightarrow> ('e GoZookeeperCluster list) option" where
  "in_ClustersCell c = (case c of ClustersCell x \<Rightarrow> Some x | _ \<Rightarrow> None)"

definition in_AdminCell :: "'e cell \<Rightarrow> GoAdminServerServicePolicy option" where
  "in_AdminCell c = (case c of AdminCell x \<Rightarrow> Some x | _ \<Rightarrow> None)"

definition in_ClientCell :: "'e cell \<Rightarrow> GoClientServicePolicy option" where
  "in_ClientCell c = (case c of ClientCell x \<Rightarrow> Some x | _ \<Rightarrow> None)"

definition in_ConditionCell :: "'e cell \<Rightarrow> ClusterCondition option" where
  "in_ConditionCell c = (case c of ConditionCell x \<Rightarrow> Some x | _ \<Rightarrow> None)"

definition in_ImageCell :: "'e cell \<Rightarrow> ContainerImage option" where
  "in_ImageCell c = (case c of ImageCell x \<Rightarrow> Some x | _ \<Rightarrow> None)"

definition in_EphemeralCell :: "'e cell \<Rightarrow> ('e GoEphemeral) option" where
  "in_EphemeralCell c = (case c of EphemeralCell x \<Rightarrow> Some x | _ \<Rightarrow> None)"

definition in_HeadlessCell :: "'e cell \<Rightarrow> GoHeadlessServicePolicy option" where
  "in_HeadlessCell c = (case c of HeadlessCell x \<Rightarrow> Some x | _ \<Rightarrow> None)"

definition in_MembersCell :: "'e cell \<Rightarrow> GoMembersStatus option" where
  "in_MembersCell c = (case c of MembersCell x \<Rightarrow> Some x | _ \<Rightarrow> None)"

definition in_PersistenceCell :: "'e cell \<Rightarrow> ('e GoPersistence) option" where
  "in_PersistenceCell c = (case c of PersistenceCell x \<Rightarrow> Some x | _ \<Rightarrow> None)"

definition in_PodCell :: "'e cell \<Rightarrow> ('e GoPodPolicy) option" where
  "in_PodCell c = (case c of PodCell x \<Rightarrow> Some x | _ \<Rightarrow> None)"

definition in_PortNumbersCell :: "'e cell \<Rightarrow> Ports option" where
  "in_PortNumbersCell c = (case c of PortNumbersCell x \<Rightarrow> Some x | _ \<Rightarrow> None)"

definition in_ProbeCell :: "'e cell \<Rightarrow> Probe option" where
  "in_ProbeCell c = (case c of ProbeCell x \<Rightarrow> Some x | _ \<Rightarrow> None)"

definition in_ProbesCell :: "'e cell \<Rightarrow> GoProbes option" where
  "in_ProbesCell c = (case c of ProbesCell x \<Rightarrow> Some x | _ \<Rightarrow> None)"

definition in_ClusterCell :: "'e cell \<Rightarrow> ('e GoZookeeperCluster) option" where
  "in_ClusterCell c = (case c of ClusterCell x \<Rightarrow> Some x | _ \<Rightarrow> None)"

definition in_ListCell :: "'e cell \<Rightarrow> ('e GoZookeeperClusterList) option" where
  "in_ListCell c = (case c of ListCell x \<Rightarrow> Some x | _ \<Rightarrow> None)"

definition in_SpecCell :: "'e cell \<Rightarrow> ('e GoZookeeperClusterSpec) option" where
  "in_SpecCell c = (case c of SpecCell x \<Rightarrow> Some x | _ \<Rightarrow> None)"

definition in_StatusCell :: "'e cell \<Rightarrow> GoZookeeperClusterStatus option" where
  "in_StatusCell c = (case c of StatusCell x \<Rightarrow> Some x | _ \<Rightarrow> None)"

definition in_ConfigCell :: "'e cell \<Rightarrow> GoZookeeperConfig option" where
  "in_ConfigCell c = (case c of ConfigCell x \<Rightarrow> Some x | _ \<Rightarrow> None)"

lemma in_cells [simp]:
  "in_MapCell (MapCell x0) = Some x0"
  "in_StringsCell (StringsCell x1) = Some x1"
  "in_PortsCell (PortsCell x2) = Some x2"
  "in_ConditionsCell (ConditionsCell x3) = Some x3"
  "in_ForeignCell (ForeignCell x4) = Some x4"
  "in_ForeignsCell (ForeignsCell x5) = Some x5"
  "in_ClustersCell (ClustersCell x6) = Some x6"
  "in_AdminCell (AdminCell x7) = Some x7"
  "in_ClientCell (ClientCell x8) = Some x8"
  "in_ConditionCell (ConditionCell x9) = Some x9"
  "in_ImageCell (ImageCell x10) = Some x10"
  "in_EphemeralCell (EphemeralCell x11) = Some x11"
  "in_HeadlessCell (HeadlessCell x12) = Some x12"
  "in_MembersCell (MembersCell x13) = Some x13"
  "in_PersistenceCell (PersistenceCell x14) = Some x14"
  "in_PodCell (PodCell x15) = Some x15"
  "in_PortNumbersCell (PortNumbersCell x16) = Some x16"
  "in_ProbeCell (ProbeCell x17) = Some x17"
  "in_ProbesCell (ProbesCell x18) = Some x18"
  "in_ClusterCell (ClusterCell x19) = Some x19"
  "in_ListCell (ListCell x20) = Some x20"
  "in_SpecCell (SpecCell x21) = Some x21"
  "in_StatusCell (StatusCell x22) = Some x22"
  "in_ConfigCell (ConfigCell x23) = Some x23"
  by (simp_all add: in_MapCell_def in_StringsCell_def in_PortsCell_def in_ConditionsCell_def in_ForeignCell_def in_ForeignsCell_def in_ClustersCell_def in_AdminCell_def in_ClientCell_def in_ConditionCell_def in_ImageCell_def in_EphemeralCell_def in_HeadlessCell_def in_MembersCell_def in_PersistenceCell_def in_PodCell_def in_PortNumbersCell_def in_ProbeCell_def in_ProbesCell_def in_ClusterCell_def in_ListCell_def in_SpecCell_def in_StatusCell_def in_ConfigCell_def)

section \<open>Foreign structs\<close>

text \<open>\<open>DeepCopyInto\<close> and the value of each struct of the Kubernetes API that a cluster contains.\<close>

type_synonym ('e, 'v) foreign = "('e \<Rightarrow> ('e, 'e) op) \<times> ('e store \<Rightarrow> 'e \<Rightarrow> 'v option)"

record 'e Foreign =
  FObjectMeta :: "('e, ObjectMeta) foreign"
  FListMeta :: "('e, raw) foreign"
  FAffinity :: "('e, Affinity) foreign"
  FTopologySpreadConstraint :: "('e, raw) foreign"
  FResourceRequirements :: "('e, ResourceRequirements) foreign"
  FToleration :: "('e, raw) foreign"
  FEnvVar :: "('e, EnvVar) foreign"
  FPodSecurityContext :: "('e, PodSecurityContext) foreign"
  FPersistentVolumeClaimSpec :: "('e, PersistentVolumeClaimSpec) foreign"
  FEmptyDirVolumeSource :: "('e, raw) foreign"
  FContainer :: "('e, Container) foreign"
  FVolume :: "('e, Volume) foreign"
  FVolumeMount :: "('e, VolumeMount) foreign"

text \<open>The Kubernetes methods make deep copies.\<close>

definition copies_deeply :: "('e, 'v) foreign \<Rightarrow> bool" where
  "copies_deeply f \<longleftrightarrow> deep_copier (fst f) (snd f)"

definition lawful_foreign :: "'e Foreign \<Rightarrow> bool" where
  "lawful_foreign X \<longleftrightarrow> copies_deeply (FObjectMeta X) \<and>
     copies_deeply (FListMeta X) \<and>
     copies_deeply (FAffinity X) \<and>
     copies_deeply (FTopologySpreadConstraint X) \<and>
     copies_deeply (FResourceRequirements X) \<and>
     copies_deeply (FToleration X) \<and>
     copies_deeply (FEnvVar X) \<and>
     copies_deeply (FPodSecurityContext X) \<and>
     copies_deeply (FPersistentVolumeClaimSpec X) \<and>
     copies_deeply (FEmptyDirVolumeSource X) \<and>
     copies_deeply (FContainer X) \<and>
     copies_deeply (FVolume X) \<and>
     copies_deeply (FVolumeMount X)"

lemma foreign_copiers:
  assumes "lawful_foreign X"
  shows "deep_copier (fst (FObjectMeta X)) (snd (FObjectMeta X))"
    "deep_copier (fst (FListMeta X)) (snd (FListMeta X))"
    "deep_copier (fst (FAffinity X)) (snd (FAffinity X))"
    "deep_copier (fst (FTopologySpreadConstraint X)) (snd (FTopologySpreadConstraint X))"
    "deep_copier (fst (FResourceRequirements X)) (snd (FResourceRequirements X))"
    "deep_copier (fst (FToleration X)) (snd (FToleration X))"
    "deep_copier (fst (FEnvVar X)) (snd (FEnvVar X))"
    "deep_copier (fst (FPodSecurityContext X)) (snd (FPodSecurityContext X))"
    "deep_copier (fst (FPersistentVolumeClaimSpec X)) (snd (FPersistentVolumeClaimSpec X))"
    "deep_copier (fst (FEmptyDirVolumeSource X)) (snd (FEmptyDirVolumeSource X))"
    "deep_copier (fst (FContainer X)) (snd (FContainer X))"
    "deep_copier (fst (FVolume X)) (snd (FVolume X))"
    "deep_copier (fst (FVolumeMount X)) (snd (FVolumeMount X))"
  using assms by (simp_all add: lawful_foreign_def copies_deeply_def)

section \<open>Fields\<close>

text \<open>The fields of the generated code: maps, slices of plain values, pointers and slices of foreign structs.\<close>

definition copy_map_field :: "ref \<Rightarrow> ('e, ref) op" where
  "copy_map_field = copy_ref in_MapCell MapCell copy_map"

definition read_map_field :: "'e store \<Rightarrow> ref \<Rightarrow> go_map option option" where
  "read_map_field = read_ref in_MapCell read_map"

definition copy_strings_field :: "ref \<Rightarrow> ('e, ref) op" where
  "copy_strings_field = copy_ref in_StringsCell StringsCell copy_flat"

definition read_strings_field :: "'e store \<Rightarrow> ref \<Rightarrow> string list option option" where
  "read_strings_field = read_ref in_StringsCell read_flat"

definition copy_foreign_pointer :: "('e, 'v) foreign \<Rightarrow> ref \<Rightarrow> ('e, ref) op" where
  "copy_foreign_pointer f = copy_ref in_ForeignCell ForeignCell (fst f)"

definition read_foreign_pointer :: "('e, 'v) foreign \<Rightarrow> 'e store \<Rightarrow> ref \<Rightarrow> 'v option option" where
  "read_foreign_pointer f = read_ref in_ForeignCell (snd f)"

definition copy_foreign_slice :: "('e, 'v) foreign \<Rightarrow> ref \<Rightarrow> ('e, ref) op" where
  "copy_foreign_slice f = copy_ref in_ForeignsCell ForeignsCell (copy_elems (fst f))"

definition read_foreign_slice :: "('e, 'v) foreign \<Rightarrow> 'e store \<Rightarrow> ref \<Rightarrow> 'v list option option" where
  "read_foreign_slice f = read_ref in_ForeignsCell (read_elems (snd f))"

text \<open>A nil slice has no elements.\<close>

definition elements :: "'v list option \<Rightarrow> 'v list" where
  "elements s = (case s of None \<Rightarrow> [] | Some vs \<Rightarrow> vs)"

lemma field_copiers:
  "deep_copier copy_map_field read_map_field" "deep_copier copy_strings_field read_strings_field"
  "deep_copier (fst f) (snd f) \<Longrightarrow> deep_copier (copy_foreign_pointer f) (read_foreign_pointer f)"
  "deep_copier (fst f) (snd f) \<Longrightarrow> deep_copier (copy_foreign_slice f) (read_foreign_slice f)"
  by (simp_all add: copy_map_field_def read_map_field_def copy_strings_field_def read_strings_field_def
      copy_foreign_pointer_def read_foreign_pointer_def copy_foreign_slice_def read_foreign_slice_def
      deep_copier_ref deep_copier_map deep_copier_flat deep_copier_elems)

section \<open>The service policies\<close>

definition AdminServerServicePolicy_DeepCopyInto :: "GoAdminServerServicePolicy \<Rightarrow> ('e, GoAdminServerServicePolicy) op" where
  "AdminServerServicePolicy_DeepCopyInto p = do {
     a \<leftarrow> copy_map_field (ga_Annotations p);
     State_Monad.return (p\<lparr>ga_Annotations := a\<rparr>) }"

definition read_AdminServerServicePolicy :: "'e store \<Rightarrow> GoAdminServerServicePolicy \<Rightarrow> AdminServerServicePolicy option" where
  "read_AdminServerServicePolicy h p =
     map_option (\<lambda>a. \<lparr>AdminAnnotations = a, AdminExternal = ga_External p\<rparr>) (read_map_field h (ga_Annotations p))"

definition ClientServicePolicy_DeepCopyInto :: "GoClientServicePolicy \<Rightarrow> ('e, GoClientServicePolicy) op" where
  "ClientServicePolicy_DeepCopyInto p = do {
     a \<leftarrow> copy_map_field (gc_Annotations p);
     State_Monad.return (p\<lparr>gc_Annotations := a\<rparr>) }"

definition read_ClientServicePolicy :: "'e store \<Rightarrow> GoClientServicePolicy \<Rightarrow> ClientServicePolicy option" where
  "read_ClientServicePolicy h p = map_option (\<lambda>a. \<lparr>ClientAnnotations = a\<rparr>) (read_map_field h (gc_Annotations p))"

definition HeadlessServicePolicy_DeepCopyInto :: "GoHeadlessServicePolicy \<Rightarrow> ('e, GoHeadlessServicePolicy) op" where
  "HeadlessServicePolicy_DeepCopyInto p = do {
     a \<leftarrow> copy_map_field (gh_Annotations p);
     State_Monad.return (p\<lparr>gh_Annotations := a\<rparr>) }"

definition read_HeadlessServicePolicy :: "'e store \<Rightarrow> GoHeadlessServicePolicy \<Rightarrow> HeadlessServicePolicy option" where
  "read_HeadlessServicePolicy h p = map_option (\<lambda>a. \<lparr>HeadlessAnnotations = a\<rparr>) (read_map_field h (gh_Annotations p))"

interpretation AdminServerServicePolicy: deep_copier AdminServerServicePolicy_DeepCopyInto read_AdminServerServicePolicy
  by (rule deep_copier_struct [OF field_copiers(1), where sel = ga_Annotations and upd = "\<lambda>p a. p\<lparr>ga_Annotations := a\<rparr>"
        and val = "\<lambda>p a. \<lparr>AdminAnnotations = a, AdminExternal = ga_External p\<rparr>"])
     (simp_all add: AdminServerServicePolicy_DeepCopyInto_def read_AdminServerServicePolicy_def)

interpretation ClientServicePolicy: deep_copier ClientServicePolicy_DeepCopyInto read_ClientServicePolicy
  by (rule deep_copier_struct [OF field_copiers(1), where sel = gc_Annotations and upd = "\<lambda>p a. p\<lparr>gc_Annotations := a\<rparr>"
        and val = "\<lambda>_ a. \<lparr>ClientAnnotations = a\<rparr>"])
     (simp_all add: ClientServicePolicy_DeepCopyInto_def read_ClientServicePolicy_def)

interpretation HeadlessServicePolicy: deep_copier HeadlessServicePolicy_DeepCopyInto read_HeadlessServicePolicy
  by (rule deep_copier_struct [OF field_copiers(1), where sel = gh_Annotations and upd = "\<lambda>p a. p\<lparr>gh_Annotations := a\<rparr>"
        and val = "\<lambda>_ a. \<lparr>HeadlessAnnotations = a\<rparr>"])
     (simp_all add: HeadlessServicePolicy_DeepCopyInto_def read_HeadlessServicePolicy_def)

section \<open>Values without references\<close>

definition ClusterCondition_DeepCopyInto :: "ClusterCondition \<Rightarrow> ('e, ClusterCondition) op" where
  "ClusterCondition_DeepCopyInto c = State_Monad.return c"

definition ContainerImage_DeepCopyInto :: "ContainerImage \<Rightarrow> ('e, ContainerImage) op" where
  "ContainerImage_DeepCopyInto i = State_Monad.return i"

definition Ports_DeepCopyInto :: "Ports \<Rightarrow> ('e, Ports) op" where
  "Ports_DeepCopyInto p = State_Monad.return p"

definition Probe_DeepCopyInto :: "Probe \<Rightarrow> ('e, Probe) op" where
  "Probe_DeepCopyInto p = State_Monad.return p"

interpretation ClusterCondition: deep_copier ClusterCondition_DeepCopyInto read_flat
  by unfold_locales (simp_all add: ClusterCondition_DeepCopyInto_def read_flat_def)

interpretation ContainerImage: deep_copier ContainerImage_DeepCopyInto read_flat
  by unfold_locales (simp_all add: ContainerImage_DeepCopyInto_def read_flat_def)

interpretation Ports: deep_copier Ports_DeepCopyInto read_flat
  by unfold_locales (simp_all add: Ports_DeepCopyInto_def read_flat_def)

interpretation Probe: deep_copier Probe_DeepCopyInto read_flat
  by unfold_locales (simp_all add: Probe_DeepCopyInto_def read_flat_def)

section \<open>Probes, configuration, status\<close>

definition Probes_DeepCopyInto :: "GoProbes \<Rightarrow> ('e, GoProbes) op" where
  "Probes_DeepCopyInto p = do {
     r \<leftarrow> copy_ref in_ProbeCell ProbeCell copy_flat (gb_ReadinessProbe p);
     l \<leftarrow> copy_ref in_ProbeCell ProbeCell copy_flat (gb_LivenessProbe p);
     State_Monad.return (p\<lparr>gb_ReadinessProbe := r, gb_LivenessProbe := l\<rparr>) }"

definition read_Probes :: "'e store \<Rightarrow> GoProbes \<Rightarrow> Probes option" where
  "read_Probes h p =
     map_option (\<lambda>(r, l). \<lparr>ReadinessProbe = r, LivenessProbe = l\<rparr>)
       (read_pair (read_ref in_ProbeCell read_flat) (read_ref in_ProbeCell read_flat) h (gb_ReadinessProbe p, gb_LivenessProbe p))"

interpretation Probes: deep_copier Probes_DeepCopyInto read_Probes
  by (rule deep_copier_struct [OF deep_copier_pair [OF deep_copier_ref [OF deep_copier_flat] deep_copier_ref [OF deep_copier_flat]],
        where sel = "\<lambda>p. (gb_ReadinessProbe p, gb_LivenessProbe p)"
          and upd = "\<lambda>p x. p\<lparr>gb_ReadinessProbe := fst x, gb_LivenessProbe := snd x\<rparr>"
          and val = "\<lambda>_ (r, l). \<lparr>ReadinessProbe = r, LivenessProbe = l\<rparr>"])
     (simp_all add: Probes_DeepCopyInto_def read_Probes_def copy_pair_def)

definition ZookeeperConfig_DeepCopyInto :: "GoZookeeperConfig \<Rightarrow> ('e, GoZookeeperConfig) op" where
  "ZookeeperConfig_DeepCopyInto c = do {
     a \<leftarrow> copy_map_field (gz_AdditionalConfig c);
     State_Monad.return (c\<lparr>gz_AdditionalConfig := a\<rparr>) }"

definition read_ZookeeperConfig :: "'e store \<Rightarrow> GoZookeeperConfig \<Rightarrow> ZookeeperConfig option" where
  "read_ZookeeperConfig h c =
     map_option (\<lambda>a. (gz_Plain c)\<lparr>AdditionalConfig := a\<rparr>) (read_map_field h (gz_AdditionalConfig c))"

interpretation ZookeeperConfig: deep_copier ZookeeperConfig_DeepCopyInto read_ZookeeperConfig
  by (rule deep_copier_struct [OF field_copiers(1), where sel = gz_AdditionalConfig and upd = "\<lambda>c a. c\<lparr>gz_AdditionalConfig := a\<rparr>"
        and val = "\<lambda>c a. (gz_Plain c)\<lparr>AdditionalConfig := a\<rparr>"])
     (simp_all add: ZookeeperConfig_DeepCopyInto_def read_ZookeeperConfig_def)

definition MembersStatus_DeepCopyInto :: "GoMembersStatus \<Rightarrow> ('e, GoMembersStatus) op" where
  "MembersStatus_DeepCopyInto m = do {
     r \<leftarrow> copy_strings_field (gm_Ready m);
     u \<leftarrow> copy_strings_field (gm_Unready m);
     State_Monad.return (m\<lparr>gm_Ready := r, gm_Unready := u\<rparr>) }"

definition read_MembersStatus :: "'e store \<Rightarrow> GoMembersStatus \<Rightarrow> MembersStatus option" where
  "read_MembersStatus h m =
     map_option (\<lambda>(r, u). \<lparr>ReadyMembers = elements r, UnreadyMembers = elements u\<rparr>)
       (read_pair read_strings_field read_strings_field h (gm_Ready m, gm_Unready m))"

interpretation MembersStatus: deep_copier MembersStatus_DeepCopyInto read_MembersStatus
  by (rule deep_copier_struct [OF deep_copier_pair [OF field_copiers(2) field_copiers(2)],
        where sel = "\<lambda>m. (gm_Ready m, gm_Unready m)" and upd = "\<lambda>m x. m\<lparr>gm_Ready := fst x, gm_Unready := snd x\<rparr>"
          and val = "\<lambda>_ (r, u). \<lparr>ReadyMembers = elements r, UnreadyMembers = elements u\<rparr>"])
     (simp_all add: MembersStatus_DeepCopyInto_def read_MembersStatus_def copy_pair_def)

definition ZookeeperClusterStatus_DeepCopyInto :: "GoZookeeperClusterStatus \<Rightarrow> ('e, GoZookeeperClusterStatus) op" where
  "ZookeeperClusterStatus_DeepCopyInto t = do {
     m \<leftarrow> MembersStatus_DeepCopyInto (gt_Members t);
     c \<leftarrow> copy_ref in_ConditionsCell ConditionsCell copy_flat (gt_Conditions t);
     State_Monad.return (t\<lparr>gt_Members := m, gt_Conditions := c\<rparr>) }"

definition status_value :: "GoZookeeperClusterStatus \<Rightarrow> MembersStatus \<times> ClusterCondition list option \<Rightarrow> ZookeeperClusterStatus" where
  "status_value t x =
     \<lparr>Members = fst x, StatusReplicas = gt_Replicas t, ReadyReplicas = gt_ReadyReplicas t,
      InternalClientEndpoint = gt_InternalClientEndpoint t, ExternalClientEndpoint = gt_ExternalClientEndpoint t,
      MetaRootCreated = gt_MetaRootCreated t, CurrentVersion = gt_CurrentVersion t,
      TargetVersion = gt_TargetVersion t, Conditions = elements (snd x)\<rparr>"

definition read_ZookeeperClusterStatus :: "'e store \<Rightarrow> GoZookeeperClusterStatus \<Rightarrow> ZookeeperClusterStatus option" where
  "read_ZookeeperClusterStatus h t = map_option (status_value t)
     (read_pair read_MembersStatus (read_ref in_ConditionsCell read_flat) h (gt_Members t, gt_Conditions t))"

interpretation ZookeeperClusterStatus: deep_copier ZookeeperClusterStatus_DeepCopyInto read_ZookeeperClusterStatus
  by (rule deep_copier_struct [OF deep_copier_pair [OF MembersStatus.deep_copier_axioms deep_copier_ref [OF deep_copier_flat]],
        where sel = "\<lambda>t. (gt_Members t, gt_Conditions t)" and upd = "\<lambda>t x. t\<lparr>gt_Members := fst x, gt_Conditions := snd x\<rparr>"
          and val = status_value])
     (simp_all add: status_value_def fun_eq_iff ZookeeperClusterStatus_DeepCopyInto_def read_ZookeeperClusterStatus_def copy_pair_def)

section \<open>Storage and pods\<close>

definition Ephemeral_DeepCopyInto :: "'e Foreign \<Rightarrow> 'e GoEphemeral \<Rightarrow> ('e, 'e GoEphemeral) op" where
  "Ephemeral_DeepCopyInto X s = do {
     v \<leftarrow> fst (FEmptyDirVolumeSource X) (ge_EmptyDirVolumeSource s);
     State_Monad.return (s\<lparr>ge_EmptyDirVolumeSource := v\<rparr>) }"

definition read_Ephemeral :: "'e Foreign \<Rightarrow> 'e store \<Rightarrow> 'e GoEphemeral \<Rightarrow> Ephemeral option" where
  "read_Ephemeral X h s =
     map_option (\<lambda>v. \<lparr>EmptyDirVolumeSource = v\<rparr>) (snd (FEmptyDirVolumeSource X) h (ge_EmptyDirVolumeSource s))"

lemma Ephemeral_copier:
  assumes "lawful_foreign X"
  shows "deep_copier (Ephemeral_DeepCopyInto X) (read_Ephemeral X)"
  by (rule deep_copier_struct [OF foreign_copiers(10) [OF assms], where sel = ge_EmptyDirVolumeSource
        and upd = "\<lambda>s v. s\<lparr>ge_EmptyDirVolumeSource := v\<rparr>" and val = "\<lambda>_ v. \<lparr>EmptyDirVolumeSource = v\<rparr>"])
     (simp_all add: Ephemeral_DeepCopyInto_def read_Ephemeral_def)

definition Persistence_DeepCopyInto :: "'e Foreign \<Rightarrow> 'e GoPersistence \<Rightarrow> ('e, 'e GoPersistence) op" where
  "Persistence_DeepCopyInto X s = do {
     c \<leftarrow> fst (FPersistentVolumeClaimSpec X) (gv_PersistentVolumeClaimSpec s);
     a \<leftarrow> copy_map_field (gv_Annotations s);
     State_Monad.return (s\<lparr>gv_PersistentVolumeClaimSpec := c, gv_Annotations := a\<rparr>) }"

definition persistence_value :: "'e GoPersistence \<Rightarrow> PersistentVolumeClaimSpec \<times> go_map option \<Rightarrow> Persistence" where
  "persistence_value s x =
     \<lparr>VolumeReclaimPolicy = gv_VolumeReclaimPolicy s, ClaimSpec = fst x, PersistenceAnnotations = snd x\<rparr>"

definition read_Persistence :: "'e Foreign \<Rightarrow> 'e store \<Rightarrow> 'e GoPersistence \<Rightarrow> Persistence option" where
  "read_Persistence X h s = map_option (persistence_value s)
     (read_pair (snd (FPersistentVolumeClaimSpec X)) read_map_field h (gv_PersistentVolumeClaimSpec s, gv_Annotations s))"

lemma Persistence_copier:
  assumes "lawful_foreign X"
  shows "deep_copier (Persistence_DeepCopyInto X) (read_Persistence X)"
  by (rule deep_copier_struct [OF deep_copier_pair [OF foreign_copiers(9) [OF assms] field_copiers(1)],
        where sel = "\<lambda>s. (gv_PersistentVolumeClaimSpec s, gv_Annotations s)"
          and upd = "\<lambda>s x. s\<lparr>gv_PersistentVolumeClaimSpec := fst x, gv_Annotations := snd x\<rparr>" and val = persistence_value])
     (simp_all add: persistence_value_def fun_eq_iff Persistence_DeepCopyInto_def read_Persistence_def copy_pair_def)

definition PodPolicy_DeepCopyInto :: "'e Foreign \<Rightarrow> 'e GoPodPolicy \<Rightarrow> ('e, 'e GoPodPolicy) op" where
  "PodPolicy_DeepCopyInto X p = do {
     labels \<leftarrow> copy_map_field (gp_Labels p);
     node \<leftarrow> copy_map_field (gp_NodeSelector p);
     affinity \<leftarrow> copy_foreign_pointer (FAffinity X) (gp_Affinity p);
     spread \<leftarrow> copy_foreign_slice (FTopologySpreadConstraint X) (gp_TopologySpreadConstraints p);
     res \<leftarrow> fst (FResourceRequirements X) (gp_Resources p);
     tol \<leftarrow> copy_foreign_slice (FToleration X) (gp_Tolerations p);
     env \<leftarrow> copy_foreign_slice (FEnvVar X) (gp_Env p);
     ann \<leftarrow> copy_map_field (gp_Annotations p);
     sc \<leftarrow> copy_foreign_pointer (FPodSecurityContext X) (gp_SecurityContext p);
     secrets \<leftarrow> copy_strings_field (gp_ImagePullSecrets p);
     State_Monad.return (p\<lparr>gp_Labels := labels, gp_NodeSelector := node, gp_Affinity := affinity,
       gp_TopologySpreadConstraints := spread, gp_Resources := res, gp_Tolerations := tol, gp_Env := env,
       gp_Annotations := ann, gp_SecurityContext := sc, gp_ImagePullSecrets := secrets\<rparr>) }"

definition pod_value :: "'e GoPodPolicy \<Rightarrow> go_map option \<times> go_map option \<times> Affinity option \<times> raw list option \<times>
    ResourceRequirements \<times> raw list option \<times> EnvVar list option \<times> go_map option \<times> PodSecurityContext option \<times>
    string list option \<Rightarrow> PodPolicy" where
  "pod_value p x = (case x of (labels, node, affinity, spread, res, tol, env, ann, sc, secrets) \<Rightarrow>
     \<lparr>PodLabels = labels, NodeSelector = node, PodAffinity = affinity, TopologySpreadConstraints = elements spread,
      PodResources = res, Tolerations = elements tol, PodEnv = elements env, PodAnnotations = ann,
      SecurityContext = sc, TerminationGracePeriodSeconds = gp_TerminationGracePeriodSeconds p,
      ServiceAccountName = gp_ServiceAccountName p, ImagePullSecrets = elements secrets\<rparr>)"

abbreviation pod_fields :: "'e GoPodPolicy \<Rightarrow> ref \<times> ref \<times> ref \<times> ref \<times> 'e \<times> ref \<times> ref \<times> ref \<times> ref \<times> ref" where
  "pod_fields p \<equiv> (gp_Labels p, gp_NodeSelector p, gp_Affinity p, gp_TopologySpreadConstraints p, gp_Resources p,
     gp_Tolerations p, gp_Env p, gp_Annotations p, gp_SecurityContext p, gp_ImagePullSecrets p)"

definition read_PodPolicy :: "'e Foreign \<Rightarrow> 'e store \<Rightarrow> 'e GoPodPolicy \<Rightarrow> PodPolicy option" where
  "read_PodPolicy X h p = map_option (pod_value p)
     (read_pair read_map_field (read_pair read_map_field (read_pair (read_foreign_pointer (FAffinity X))
       (read_pair (read_foreign_slice (FTopologySpreadConstraint X)) (read_pair (snd (FResourceRequirements X))
       (read_pair (read_foreign_slice (FToleration X)) (read_pair (read_foreign_slice (FEnvVar X))
       (read_pair read_map_field (read_pair (read_foreign_pointer (FPodSecurityContext X)) read_strings_field))))))))
       h (pod_fields p))"

lemma PodPolicy_copier:
  assumes "lawful_foreign X"
  shows "deep_copier (PodPolicy_DeepCopyInto X) (read_PodPolicy X)"
proof -
  note f = foreign_copiers [OF assms]
  note fields = field_copiers(1,2) field_copiers(3) [OF f(3)] field_copiers(4) [OF f(4)] f(5) field_copiers(4) [OF f(6)]
    field_copiers(4) [OF f(7)] field_copiers(3) [OF f(8)]
  note parts = deep_copier_pair [OF fields(1) deep_copier_pair [OF fields(1) deep_copier_pair [OF fields(3)
    deep_copier_pair [OF fields(4) deep_copier_pair [OF fields(5) deep_copier_pair [OF fields(6)
    deep_copier_pair [OF fields(7) deep_copier_pair [OF fields(1) deep_copier_pair [OF fields(8) fields(2)]]]]]]]]]
  show ?thesis
    by (rule deep_copier_struct [OF parts, where sel = pod_fields and val = pod_value
          and upd = "\<lambda>p (l, n, a, s, r, t, e, an, sc, i). p\<lparr>gp_Labels := l, gp_NodeSelector := n, gp_Affinity := a,
            gp_TopologySpreadConstraints := s, gp_Resources := r, gp_Tolerations := t, gp_Env := e,
            gp_Annotations := an, gp_SecurityContext := sc, gp_ImagePullSecrets := i\<rparr>"])
       (simp_all add: pod_value_def fun_eq_iff PodPolicy_DeepCopyInto_def read_PodPolicy_def copy_pair_def split: prod.splits)
qed

section \<open>The specification\<close>

definition ZookeeperClusterSpec_DeepCopyInto ::
  "'e Foreign \<Rightarrow> 'e GoZookeeperClusterSpec \<Rightarrow> ('e, 'e GoZookeeperClusterSpec) op" where
  "ZookeeperClusterSpec_DeepCopyInto X s = do {
     labels \<leftarrow> copy_map_field (gs_Labels s);
     ports \<leftarrow> copy_ref in_PortsCell PortsCell copy_flat (gs_Ports s);
     pod \<leftarrow> PodPolicy_DeepCopyInto X (gs_Pod s);
     admin \<leftarrow> AdminServerServicePolicy_DeepCopyInto (gs_AdminServerService s);
     client \<leftarrow> ClientServicePolicy_DeepCopyInto (gs_ClientService s);
     headless \<leftarrow> HeadlessServicePolicy_DeepCopyInto (gs_HeadlessService s);
     persistence \<leftarrow> copy_ref in_PersistenceCell PersistenceCell (Persistence_DeepCopyInto X) (gs_Persistence s);
     ephemeral \<leftarrow> copy_ref in_EphemeralCell EphemeralCell (Ephemeral_DeepCopyInto X) (gs_Ephemeral s);
     conf \<leftarrow> ZookeeperConfig_DeepCopyInto (gs_Conf s);
     containers \<leftarrow> copy_foreign_slice (FContainer X) (gs_Containers s);
     inits \<leftarrow> copy_foreign_slice (FContainer X) (gs_InitContainers s);
     volumes \<leftarrow> copy_foreign_slice (FVolume X) (gs_Volumes s);
     mounts \<leftarrow> copy_foreign_slice (FVolumeMount X) (gs_VolumeMounts s);
     probes \<leftarrow> copy_ref in_ProbesCell ProbesCell Probes_DeepCopyInto (gs_Probes s);
     State_Monad.return (s\<lparr>gs_Labels := labels, gs_Ports := ports, gs_Pod := pod, gs_AdminServerService := admin,
       gs_ClientService := client, gs_HeadlessService := headless, gs_Persistence := persistence,
       gs_Ephemeral := ephemeral, gs_Conf := conf, gs_Containers := containers, gs_InitContainers := inits,
       gs_Volumes := volumes, gs_VolumeMounts := mounts, gs_Probes := probes\<rparr>) }"

text \<open>The part of the specification up to the configuration, and the rest.\<close>

type_synonym spec_front =
  "go_map option \<times> ContainerPort list option \<times> PodPolicy \<times> AdminServerServicePolicy \<times> ClientServicePolicy \<times>
   HeadlessServicePolicy \<times> Persistence option \<times> Ephemeral option"

type_synonym spec_back =
  "ZookeeperConfig \<times> Container list option \<times> Container list option \<times> Volume list option \<times> VolumeMount list option \<times> Probes option"

definition spec_value :: "'e GoZookeeperClusterSpec \<Rightarrow> spec_front \<times> spec_back \<Rightarrow> ZookeeperClusterSpec" where
  "spec_value s x = (case x of ((labels, ports, pod, admin, client, headless, persistence, ephemeral),
      (conf, containers, inits, volumes, mounts, probes)) \<Rightarrow>
     \<lparr>Image = gs_Image s, Labels = labels, Replicas = gs_Replicas s, SpecPorts = ports, Pod = pod,
      AdminServerService = admin, ClientService = client, TriggerRollingRestart = gs_TriggerRollingRestart s,
      HeadlessService = headless, StorageType = gs_StorageType s, SpecPersistence = persistence,
      SpecEphemeral = ephemeral, Conf = conf, DomainName = gs_DomainName s,
      KubernetesClusterDomain = gs_KubernetesClusterDomain s, SpecContainers = elements containers,
      SpecInitContainers = inits, SpecVolumes = elements volumes, SpecVolumeMounts = elements mounts,
      SpecProbes = probes, MaxUnavailableReplicas = gs_MaxUnavailableReplicas s\<rparr>)"

abbreviation spec_fields where
  "spec_fields s \<equiv>
     ((gs_Labels s, gs_Ports s, gs_Pod s, gs_AdminServerService s, gs_ClientService s, gs_HeadlessService s,
       gs_Persistence s, gs_Ephemeral s),
      (gs_Conf s, gs_Containers s, gs_InitContainers s, gs_Volumes s, gs_VolumeMounts s, gs_Probes s))"

definition read_ZookeeperClusterSpec :: "'e Foreign \<Rightarrow> 'e store \<Rightarrow> 'e GoZookeeperClusterSpec \<Rightarrow> ZookeeperClusterSpec option" where
  "read_ZookeeperClusterSpec X h s = map_option (spec_value s)
     (read_pair
       (read_pair read_map_field (read_pair (read_ref in_PortsCell read_flat) (read_pair (read_PodPolicy X)
         (read_pair read_AdminServerServicePolicy (read_pair read_ClientServicePolicy (read_pair read_HeadlessServicePolicy
         (read_pair (read_ref in_PersistenceCell (read_Persistence X)) (read_ref in_EphemeralCell (read_Ephemeral X)))))))))
       (read_pair read_ZookeeperConfig (read_pair (read_foreign_slice (FContainer X)) (read_pair (read_foreign_slice (FContainer X))
         (read_pair (read_foreign_slice (FVolume X)) (read_pair (read_foreign_slice (FVolumeMount X))
         (read_ref in_ProbesCell read_Probes))))))
       h (spec_fields s))"

lemma ZookeeperClusterSpec_copier:
  assumes "lawful_foreign X"
  shows "deep_copier (ZookeeperClusterSpec_DeepCopyInto X) (read_ZookeeperClusterSpec X)"
proof -
  note f = foreign_copiers [OF assms]
  note ports = deep_copier_ref [where proj = in_PortsCell and mk = PortsCell, OF deep_copier_flat in_cells(3)]
  note pers = deep_copier_ref [where proj = in_PersistenceCell and mk = PersistenceCell, OF Persistence_copier [OF assms] in_cells(15)]
  note eph = deep_copier_ref [where proj = in_EphemeralCell and mk = EphemeralCell, OF Ephemeral_copier [OF assms] in_cells(12)]
  note probes = deep_copier_ref [where proj = in_ProbesCell and mk = ProbesCell, OF Probes.deep_copier_axioms in_cells(19)]
  note fst_half = deep_copier_pair [OF field_copiers(1) deep_copier_pair [OF ports deep_copier_pair [OF PodPolicy_copier [OF assms]
    deep_copier_pair [OF AdminServerServicePolicy.deep_copier_axioms deep_copier_pair [OF ClientServicePolicy.deep_copier_axioms
    deep_copier_pair [OF HeadlessServicePolicy.deep_copier_axioms deep_copier_pair [OF pers eph]]]]]]]
  note snd_half = deep_copier_pair [OF ZookeeperConfig.deep_copier_axioms deep_copier_pair [OF field_copiers(4) [OF f(11)]
    deep_copier_pair [OF field_copiers(4) [OF f(11)] deep_copier_pair [OF field_copiers(4) [OF f(12)]
    deep_copier_pair [OF field_copiers(4) [OF f(13)] probes]]]]]
  show ?thesis
    by (rule deep_copier_struct [OF deep_copier_pair [OF fst_half snd_half], where sel = spec_fields and val = spec_value
          and upd = "\<lambda>s ((l, p, pd, a, c, hl, pe, e), (cf, co, i, v, m, pr)).
            s\<lparr>gs_Labels := l, gs_Ports := p, gs_Pod := pd, gs_AdminServerService := a, gs_ClientService := c,
              gs_HeadlessService := hl, gs_Persistence := pe, gs_Ephemeral := e, gs_Conf := cf, gs_Containers := co,
              gs_InitContainers := i, gs_Volumes := v, gs_VolumeMounts := m, gs_Probes := pr\<rparr>"])
       (simp_all add: spec_value_def fun_eq_iff ZookeeperClusterSpec_DeepCopyInto_def read_ZookeeperClusterSpec_def copy_pair_def
         split: prod.splits)
qed

section \<open>Clusters and lists of clusters\<close>

definition ZookeeperCluster_DeepCopyInto ::
  "'e Foreign \<Rightarrow> 'e GoZookeeperCluster \<Rightarrow> ('e, 'e GoZookeeperCluster) op" where
  "ZookeeperCluster_DeepCopyInto X z = do {
     m \<leftarrow> fst (FObjectMeta X) (gk_ObjectMeta z);
     s \<leftarrow> ZookeeperClusterSpec_DeepCopyInto X (gk_Spec z);
     t \<leftarrow> ZookeeperClusterStatus_DeepCopyInto (gk_Status z);
     State_Monad.return (z\<lparr>gk_ObjectMeta := m, gk_Spec := s, gk_Status := t\<rparr>) }"

definition cluster_value ::
  "'e GoZookeeperCluster \<Rightarrow> ObjectMeta \<times> ZookeeperClusterSpec \<times> ZookeeperClusterStatus \<Rightarrow> TypeMeta \<times> ZookeeperCluster" where
  "cluster_value z x = (gk_TypeMeta z, \<lparr>Meta = fst x, Spec = fst (snd x), Status = snd (snd x)\<rparr>)"

definition read_ZookeeperCluster :: "'e Foreign \<Rightarrow> 'e store \<Rightarrow> 'e GoZookeeperCluster \<Rightarrow> (TypeMeta \<times> ZookeeperCluster) option" where
  "read_ZookeeperCluster X h z = map_option (cluster_value z)
     (read_pair (snd (FObjectMeta X)) (read_pair (read_ZookeeperClusterSpec X) read_ZookeeperClusterStatus) h
       (gk_ObjectMeta z, gk_Spec z, gk_Status z))"

lemma ZookeeperCluster_copier:
  assumes "lawful_foreign X"
  shows "deep_copier (ZookeeperCluster_DeepCopyInto X) (read_ZookeeperCluster X)"
  by (rule deep_copier_struct [OF deep_copier_pair [OF foreign_copiers(1) [OF assms]
          deep_copier_pair [OF ZookeeperClusterSpec_copier [OF assms] ZookeeperClusterStatus.deep_copier_axioms]],
        where sel = "\<lambda>z. (gk_ObjectMeta z, gk_Spec z, gk_Status z)"
          and upd = "\<lambda>z (m, s, t). z\<lparr>gk_ObjectMeta := m, gk_Spec := s, gk_Status := t\<rparr>" and val = cluster_value])
     (simp_all add: cluster_value_def fun_eq_iff ZookeeperCluster_DeepCopyInto_def read_ZookeeperCluster_def copy_pair_def split: prod.splits)

definition ZookeeperClusterList_DeepCopyInto ::
  "'e Foreign \<Rightarrow> 'e GoZookeeperClusterList \<Rightarrow> ('e, 'e GoZookeeperClusterList) op" where
  "ZookeeperClusterList_DeepCopyInto X l = do {
     m \<leftarrow> fst (FListMeta X) (gl_ListMeta l);
     i \<leftarrow> copy_ref in_ClustersCell ClustersCell (copy_elems (ZookeeperCluster_DeepCopyInto X)) (gl_Items l);
     State_Monad.return (l\<lparr>gl_ListMeta := m, gl_Items := i\<rparr>) }"

definition list_value ::
  "'e GoZookeeperClusterList \<Rightarrow> raw \<times> (TypeMeta \<times> ZookeeperCluster) list option \<Rightarrow> ZookeeperClusterList" where
  "list_value l x = \<lparr>ListType = gl_TypeMeta l, ListMetadata = fst x, Items = elements (snd x)\<rparr>"

definition read_ZookeeperClusterList :: "'e Foreign \<Rightarrow> 'e store \<Rightarrow> 'e GoZookeeperClusterList \<Rightarrow> ZookeeperClusterList option" where
  "read_ZookeeperClusterList X h l = map_option (list_value l)
     (read_pair (snd (FListMeta X)) (read_ref in_ClustersCell (read_elems (read_ZookeeperCluster X))) h (gl_ListMeta l, gl_Items l))"

lemma ZookeeperClusterList_copier:
  assumes "lawful_foreign X"
  shows "deep_copier (ZookeeperClusterList_DeepCopyInto X) (read_ZookeeperClusterList X)"
  by (rule deep_copier_struct [OF deep_copier_pair [OF foreign_copiers(2) [OF assms]
          deep_copier_ref [where proj = in_ClustersCell and mk = ClustersCell,
            OF deep_copier_elems [OF ZookeeperCluster_copier [OF assms]] in_cells(7)]],
        where sel = "\<lambda>l. (gl_ListMeta l, gl_Items l)"
          and upd = "\<lambda>l (m, i). l\<lparr>gl_ListMeta := m, gl_Items := i\<rparr>" and val = list_value])
     (simp_all add: list_value_def fun_eq_iff ZookeeperClusterList_DeepCopyInto_def read_ZookeeperClusterList_def copy_pair_def split: prod.splits)

section \<open>DeepCopy\<close>

text \<open>\<open>DeepCopy\<close> of a pointer: nil for nil, otherwise a new struct filled by \<open>DeepCopyInto\<close>.\<close>

definition AdminServerServicePolicy_DeepCopy :: "ref \<Rightarrow> ('e, ref) op" where
  "AdminServerServicePolicy_DeepCopy = copy_ref in_AdminCell AdminCell AdminServerServicePolicy_DeepCopyInto"

definition ClientServicePolicy_DeepCopy :: "ref \<Rightarrow> ('e, ref) op" where
  "ClientServicePolicy_DeepCopy = copy_ref in_ClientCell ClientCell ClientServicePolicy_DeepCopyInto"

definition ClusterCondition_DeepCopy :: "ref \<Rightarrow> ('e, ref) op" where
  "ClusterCondition_DeepCopy = copy_ref in_ConditionCell ConditionCell ClusterCondition_DeepCopyInto"

definition ContainerImage_DeepCopy :: "ref \<Rightarrow> ('e, ref) op" where
  "ContainerImage_DeepCopy = copy_ref in_ImageCell ImageCell ContainerImage_DeepCopyInto"

definition Ephemeral_DeepCopy :: "'e Foreign \<Rightarrow> ref \<Rightarrow> ('e, ref) op" where
  "Ephemeral_DeepCopy X = copy_ref in_EphemeralCell EphemeralCell (Ephemeral_DeepCopyInto X)"

definition HeadlessServicePolicy_DeepCopy :: "ref \<Rightarrow> ('e, ref) op" where
  "HeadlessServicePolicy_DeepCopy = copy_ref in_HeadlessCell HeadlessCell HeadlessServicePolicy_DeepCopyInto"

definition MembersStatus_DeepCopy :: "ref \<Rightarrow> ('e, ref) op" where
  "MembersStatus_DeepCopy = copy_ref in_MembersCell MembersCell MembersStatus_DeepCopyInto"

definition Persistence_DeepCopy :: "'e Foreign \<Rightarrow> ref \<Rightarrow> ('e, ref) op" where
  "Persistence_DeepCopy X = copy_ref in_PersistenceCell PersistenceCell (Persistence_DeepCopyInto X)"

definition PodPolicy_DeepCopy :: "'e Foreign \<Rightarrow> ref \<Rightarrow> ('e, ref) op" where
  "PodPolicy_DeepCopy X = copy_ref in_PodCell PodCell (PodPolicy_DeepCopyInto X)"

definition Ports_DeepCopy :: "ref \<Rightarrow> ('e, ref) op" where
  "Ports_DeepCopy = copy_ref in_PortNumbersCell PortNumbersCell Ports_DeepCopyInto"

definition Probe_DeepCopy :: "ref \<Rightarrow> ('e, ref) op" where
  "Probe_DeepCopy = copy_ref in_ProbeCell ProbeCell Probe_DeepCopyInto"

definition Probes_DeepCopy :: "ref \<Rightarrow> ('e, ref) op" where
  "Probes_DeepCopy = copy_ref in_ProbesCell ProbesCell Probes_DeepCopyInto"

definition ZookeeperCluster_DeepCopy :: "'e Foreign \<Rightarrow> ref \<Rightarrow> ('e, ref) op" where
  "ZookeeperCluster_DeepCopy X = copy_ref in_ClusterCell ClusterCell (ZookeeperCluster_DeepCopyInto X)"

definition ZookeeperClusterList_DeepCopy :: "'e Foreign \<Rightarrow> ref \<Rightarrow> ('e, ref) op" where
  "ZookeeperClusterList_DeepCopy X = copy_ref in_ListCell ListCell (ZookeeperClusterList_DeepCopyInto X)"

definition ZookeeperClusterSpec_DeepCopy :: "'e Foreign \<Rightarrow> ref \<Rightarrow> ('e, ref) op" where
  "ZookeeperClusterSpec_DeepCopy X = copy_ref in_SpecCell SpecCell (ZookeeperClusterSpec_DeepCopyInto X)"

definition ZookeeperClusterStatus_DeepCopy :: "ref \<Rightarrow> ('e, ref) op" where
  "ZookeeperClusterStatus_DeepCopy = copy_ref in_StatusCell StatusCell ZookeeperClusterStatus_DeepCopyInto"

definition ZookeeperConfig_DeepCopy :: "ref \<Rightarrow> ('e, ref) op" where
  "ZookeeperConfig_DeepCopy = copy_ref in_ConfigCell ConfigCell ZookeeperConfig_DeepCopyInto"

text \<open>\<open>DeepCopyObject\<close> wraps the pointer, or gives the nil interface for a nil pointer.\<close>

definition ZookeeperCluster_DeepCopyObject :: "'e Foreign \<Rightarrow> ref \<Rightarrow> ('e, ref) op" where
  "ZookeeperCluster_DeepCopyObject X r = do {
     c \<leftarrow> ZookeeperCluster_DeepCopy X r;
     (case c of None \<Rightarrow> State_Monad.return None | Some a \<Rightarrow> State_Monad.return (Some a)) }"

definition ZookeeperClusterList_DeepCopyObject :: "'e Foreign \<Rightarrow> ref \<Rightarrow> ('e, ref) op" where
  "ZookeeperClusterList_DeepCopyObject X r = do {
     c \<leftarrow> ZookeeperClusterList_DeepCopy X r;
     (case c of None \<Rightarrow> State_Monad.return None | Some a \<Rightarrow> State_Monad.return (Some a)) }"

text \<open>What the copied pointers refer to.\<close>

abbreviation read_cluster_at :: "'e Foreign \<Rightarrow> 'e store \<Rightarrow> ref \<Rightarrow> (TypeMeta \<times> ZookeeperCluster) option option" where
  "read_cluster_at X \<equiv> read_ref in_ClusterCell (read_ZookeeperCluster X)"

abbreviation read_status_at :: "'e store \<Rightarrow> ref \<Rightarrow> ZookeeperClusterStatus option option" where
  "read_status_at \<equiv> read_ref in_StatusCell read_ZookeeperClusterStatus"

interpretation status_pointer: deep_copier ZookeeperClusterStatus_DeepCopy read_status_at
  unfolding ZookeeperClusterStatus_DeepCopy_def
  by (rule deep_copier_ref [OF ZookeeperClusterStatus.deep_copier_axioms]) simp

lemma DeepCopyObject_eq: "ZookeeperCluster_DeepCopyObject X = ZookeeperCluster_DeepCopy X"
proof
  show "ZookeeperCluster_DeepCopyObject X r = ZookeeperCluster_DeepCopy X r" for r
    by (rule state_ext) (auto simp: ZookeeperCluster_DeepCopyObject_def split: prod.split option.split)
qed

lemma cluster_object_copier:
  assumes "lawful_foreign X"
  shows "deep_copier (ZookeeperCluster_DeepCopyObject X) (read_cluster_at X)"
  unfolding DeepCopyObject_eq ZookeeperCluster_DeepCopy_def
  by (rule deep_copier_ref [OF ZookeeperCluster_copier [OF assms]]) simp

section \<open>A concrete store\<close>

text \<open>Foreign structs as plain values, and a store that holds one cluster with labels and a condition.\<close>

datatype plain =
    PlainObjectMeta ObjectMeta
  | PlainRaw raw
  | PlainAffinity Affinity
  | PlainResources ResourceRequirements
  | PlainEnv EnvVar
  | PlainSecurity PodSecurityContext
  | PlainClaim PersistentVolumeClaimSpec
  | PlainContainer Container
  | PlainVolume Volume
  | PlainMount VolumeMount

definition plain_struct :: "(plain \<Rightarrow> 'v option) \<Rightarrow> (plain, 'v) foreign" where
  "plain_struct get_val = (copy_flat, \<lambda>h e. get_val e)"

definition plain_foreign :: "plain Foreign" where
  "plain_foreign =
     \<lparr>FObjectMeta = plain_struct (\<lambda>e. case e of PlainObjectMeta x \<Rightarrow> Some x | _ \<Rightarrow> None),
      FListMeta = plain_struct (\<lambda>e. case e of PlainRaw x \<Rightarrow> Some x | _ \<Rightarrow> None),
      FAffinity = plain_struct (\<lambda>e. case e of PlainAffinity x \<Rightarrow> Some x | _ \<Rightarrow> None),
      FTopologySpreadConstraint = plain_struct (\<lambda>e. case e of PlainRaw x \<Rightarrow> Some x | _ \<Rightarrow> None),
      FResourceRequirements = plain_struct (\<lambda>e. case e of PlainResources x \<Rightarrow> Some x | _ \<Rightarrow> None),
      FToleration = plain_struct (\<lambda>e. case e of PlainRaw x \<Rightarrow> Some x | _ \<Rightarrow> None),
      FEnvVar = plain_struct (\<lambda>e. case e of PlainEnv x \<Rightarrow> Some x | _ \<Rightarrow> None),
      FPodSecurityContext = plain_struct (\<lambda>e. case e of PlainSecurity x \<Rightarrow> Some x | _ \<Rightarrow> None),
      FPersistentVolumeClaimSpec = plain_struct (\<lambda>e. case e of PlainClaim x \<Rightarrow> Some x | _ \<Rightarrow> None),
      FEmptyDirVolumeSource = plain_struct (\<lambda>e. case e of PlainRaw x \<Rightarrow> Some x | _ \<Rightarrow> None),
      FContainer = plain_struct (\<lambda>e. case e of PlainContainer x \<Rightarrow> Some x | _ \<Rightarrow> None),
      FVolume = plain_struct (\<lambda>e. case e of PlainVolume x \<Rightarrow> Some x | _ \<Rightarrow> None),
      FVolumeMount = plain_struct (\<lambda>e. case e of PlainMount x \<Rightarrow> Some x | _ \<Rightarrow> None)\<rparr>"

lemma plain_copies_deeply: "copies_deeply (plain_struct g)"
  by (simp add: copies_deeply_def plain_struct_def) (unfold_locales, simp_all add: copy_flat_def)

lemma plain_lawful: "lawful_foreign plain_foreign"
  by (simp add: lawful_foreign_def plain_foreign_def plain_copies_deeply)

definition stored_spec :: "plain GoZookeeperClusterSpec" where
  "stored_spec =
     \<lparr>gs_Image = \<lparr>Repository = [], Tag = ''0.2.15'', PullPolicy = []\<rparr>, gs_Labels = Some 0, gs_Replicas = 3, gs_Ports = None,
      gs_Pod = \<lparr>gp_Labels = None, gp_NodeSelector = None, gp_Affinity = None, gp_TopologySpreadConstraints = None,
        gp_Resources = PlainResources no_resources, gp_Tolerations = None, gp_Env = None, gp_Annotations = Some 0,
        gp_SecurityContext = None, gp_TerminationGracePeriodSeconds = 30, gp_ServiceAccountName = [], gp_ImagePullSecrets = None\<rparr>,
      gs_AdminServerService = \<lparr>ga_Annotations = None, ga_External = False\<rparr>, gs_ClientService = \<lparr>gc_Annotations = None\<rparr>,
      gs_TriggerRollingRestart = False, gs_HeadlessService = \<lparr>gh_Annotations = None\<rparr>, gs_StorageType = [],
      gs_Persistence = None, gs_Ephemeral = Some 2,
      gs_Conf = \<lparr>gz_Plain = Conf bare_spec, gz_AdditionalConfig = None\<rparr>, gs_DomainName = [], gs_KubernetesClusterDomain = [],
      gs_Containers = None, gs_InitContainers = None, gs_Volumes = None, gs_VolumeMounts = None, gs_Probes = None,
      gs_MaxUnavailableReplicas = 1\<rparr>"

definition stored_cluster :: "plain GoZookeeperCluster" where
  "stored_cluster =
     \<lparr>gk_TypeMeta = \<lparr>Kind = ''ZookeeperCluster'', APIVersion = ''v1beta1''\<rparr>, gk_ObjectMeta = PlainObjectMeta empty_meta,
      gk_Spec = stored_spec,
      gk_Status = \<lparr>gt_Members = \<lparr>gm_Ready = None, gm_Unready = None\<rparr>, gt_Replicas = 3, gt_ReadyReplicas = 3,
        gt_InternalClientEndpoint = [], gt_ExternalClientEndpoint = [], gt_MetaRootCreated = True,
        gt_CurrentVersion = [], gt_TargetVersion = [], gt_Conditions = Some 1\<rparr>\<rparr>"

definition sample_store :: "plain store" where
  "sample_store =
     [MapCell [(''app'', ''zk'')], ConditionsCell [newClusterCondition ClusterConditionPodsReady ConditionTrue [] []],
      EphemeralCell \<lparr>ge_EmptyDirVolumeSource = PlainRaw ''tmpfs''\<rparr>, ClusterCell stored_cluster]"

section \<open>A copy shares nothing with its original\<close>

text \<open>C28. The generated deep copy of a cluster reads the same as its original, leaves the original as it is,
  and shares no cell with it: overwriting any cell that existed before the copy does not show in the copy,
  and overwriting any newer cell does not show in the original. This covers every map, slice and pointer of
  the specification and the status, and is why the other theories may treat a copied object as a value.\<close>

theorem cluster_copy_shares_nothing:
  assumes "lawful_foreign X" and "read_cluster_at X h r = Some v"
    and "run_state (ZookeeperCluster_DeepCopyObject X r) h = (r1, h1)"
  shows "read_cluster_at X h1 r1 = Some v \<and> read_cluster_at X h1 r = Some v \<and>
    (a < length h \<longrightarrow> read_cluster_at X (h1[a := c]) r1 = Some v) \<and>
    (length h \<le> a \<longrightarrow> read_cluster_at X (h1[a := c]) r = Some v)"
proof -
  note dc = cluster_object_copier [OF assms(1)]
  show ?thesis
    using deep_copier.copy_reads_same(1,2) [OF dc assms(2,3)] deep_copier.copy_isolated [OF dc assms(2,3)]
      deep_copier.original_isolated [OF dc assms(2,3)]
    by simp
qed

lemma sample_store_reads: "read_cluster_at plain_foreign sample_store (Some 3) \<noteq> None"
  by code_simp

theorem cluster_copy_shares_nothing_witness:
  "\<exists>r1 h1. run_state (ZookeeperCluster_DeepCopyObject plain_foreign (Some 3)) sample_store = (r1, h1) \<and>
     read_cluster_at plain_foreign (h1[0 := MapCell []]) r1 = read_cluster_at plain_foreign sample_store (Some 3) \<and>
     read_cluster_at plain_foreign (h1[0 := MapCell []]) (Some 3) \<noteq> read_cluster_at plain_foreign sample_store (Some 3)"
proof -
  obtain r1 h1 where c: "run_state (ZookeeperCluster_DeepCopyObject plain_foreign (Some 3)) sample_store = (r1, h1)"
    by (metis surj_pair)
  obtain v where v: "read_cluster_at plain_foreign sample_store (Some 3) = Some v" using sample_store_reads by blast
  have "(let h1 = snd (run_state (ZookeeperCluster_DeepCopyObject plain_foreign (Some 3)) sample_store)
     in read_cluster_at plain_foreign (h1[0 := MapCell []]) (Some 3) \<noteq> read_cluster_at plain_foreign sample_store (Some 3))"
    by code_simp
  moreover have "read_cluster_at plain_foreign (h1[0 := MapCell []]) r1 = Some v"
    using cluster_copy_shares_nothing [OF plain_lawful v c, of 0 "MapCell []"] by (simp add: sample_store_def)
  ultimately show ?thesis using c v by auto
qed

text \<open>
  The use in \<open>clearUpgradeStatus\<close>: the status is copied before \<open>Client.Update\<close> overwrites the cluster in
  memory; whatever the update stores in the cells of the old object, the copy is still the cleared status.
\<close>

lemma status_copy_survives_update:
  assumes "read_status_at h r = Some v"
  shows "\<exists>k r1. run_state (ZookeeperClusterStatus_DeepCopy r) h = (r1, h @ k) \<and>
    (\<forall>g. length g = length h \<longrightarrow> read_status_at (g @ k) r1 = Some v)"
  by (rule status_pointer.copies [OF assms])

end
