(* ===== verification/Spec2Isabelle.thy ===== *)
theory Spec2Isabelle
  imports Coherence E2eUtil Exporter Startup DeepCopy
begin

text \<open>
  A verification library for the ZooKeeper operator (Go). The operator watches \<open>ZookeeperCluster\<close>
  objects in a Kubernetes API server and drives the config map, the StatefulSet, the services, the
  disruption budget, the volume claims and the metadata nodes of each cluster to what the object asks
  for. Everything happens in \<open>Reconcile\<close> (\<open>controllers/zookeepercluster_controller.go\<close>): read the
  cluster, default its specification (\<open>api/v1beta1/zookeepercluster_types.go\<close>), then run eight handlers
  that generate objects (\<open>pkg/zk/generators.go\<close>), copy them over the stored ones
  (\<open>pkg/zk/synchronizers.go\<close>), talk to ZooKeeper (\<open>pkg/zk/zookeeper_client.go\<close>) and keep the progress in
  the conditions of the status (\<open>api/v1beta1/status.go\<close>).

  \<^bold>\<open>How the code is modelled.\<close> Structs are records with the fields of the source, pointers that may be
  nil are options, Go's \<open>int32\<close> and \<open>int\<close> are 32- and 64-bit words, strings are lists of characters, maps
  are association lists whose order stands for one iteration order. A method that changes its receiver
  returns the new value; a \<open>withDefaults\<close> method also returns its flag. A handler takes the world of the
  environment and the in-memory cluster and returns both with an error or \<open>None\<close>. A panic of the source
  is the error value \<open>GoPanic\<close>, or \<open>None\<close> of a generator. Two aliases of the source are visible and kept:
  the label map a generated StatefulSet shares with the cluster, and the StatefulSet mutated through
  its pointer. Assumed invisible are the other shared pointers (the replica counter of a generated
  StatefulSet): they hold the same values as long as the server returns what it was sent. Copying an
  object by its generated \<open>DeepCopy\<close> is copying a value; theory \<open>DeepCopy\<close> proves why, over a store of
  cells. Logging is left out. One reading of the clock stands for the separate calls of \<open>time.Now\<close> within one
  step (\<open>upgradeStatefulSet\<close> reads it once), and resource quantities are integers of base units, so that
  fractional ones are not representable. No definition needs fuel: every loop of the program runs over a
  list.

  \<^bold>\<open>What is a parameter.\<close> The Kubernetes client, the ZooKeeper client interface, \<open>SetControllerReference\<close>,
  the clock and the iteration order of maps are the record \<open>Env\<close> (theory \<open>Reconciler\<close>); the ZooKeeper
  library is \<open>ZkLib\<close>, the client of the leader check \<open>LeaderEnv\<close>, the process environment and the
  controller runtime \<open>StartEnv\<close>, the client of the tests \<open>TestEnv\<close>, the file system with the YAML library \<open>Disk\<close>, the deep copies of the
  Kubernetes structs \<open>Foreign\<close>. Each operation may do anything to the
  world and may fail, unless a theorem names a hypothesis: \<open>lawful_store\<close> (objects live under their
  keys), \<open>versioned_store\<close> (optimistic concurrency and validation), \<open>owner_keeps\<close>, \<open>fresh_owner\<close>, \<open>status_echo\<close>, \<open>lawful_ensemble\<close>, \<open>read_only\<close>, \<open>deletion_log\<close>, \<open>polls\<close>,
  \<open>lawful_disk\<close>, \<open>full_writes\<close>, \<open>lawful_foreign\<close>. The theory \<open>SampleWorld\<close> gives one concrete environment
  on which the hypotheses on \<open>Env\<close> are proved and the handlers run, \<open>checked_env\<close> a variant that refuses stale
  updates; \<open>mem_lib\<close>, \<open>mem_leader\<close>, \<open>log_leader\<close>, \<open>mem_disk\<close>, \<open>mem_start\<close> and \<open>plain_foreign\<close> do the same for the other parameters.

  \<^bold>\<open>The theories.\<close>
  \<^item> \<open>GoPrelude\<close>: words, errors, Go maps, the defaulting combinator; locales \<open>defaulter\<close>, \<open>exact_defaulter\<close>,
    \<open>keyed_store\<close>. \<open>GoStrings\<close>: the used parts of \<open>strconv\<close> and \<open>strings\<close>, with \<open>Atoi\<close> and \<open>Itoa\<close> inverse.
    \<open>GoTime\<close>: the calendar and the RFC 3339 and RFC 850 formats, with the RFC 3339 round trip.
  \<^item> \<open>ClusterStatus\<close>: \<open>status.go\<close>; conditions as a map, an interpretation of \<open>keyed_store\<close>.
  \<^item> \<open>ApiTypes\<close>, \<open>Defaults\<close>: the specification, all \<open>withDefaults\<close> methods and accessors; for each type
    what defaulting leaves alone, reports and achieves, as interpretations of the defaulter locales.
    \<open>SampleCluster\<close>: a concrete cluster and the theorems on \<open>WithDefaults\<close>.
  \<^item> \<open>Utils\<close>: \<open>finalizer_utils.go\<close>, \<open>zookeeper_util.go\<close>, \<open>test_utils.go\<close>.
  \<^item> \<open>Generators\<close>, \<open>ConfigText\<close>: \<open>generators.go\<close>; the generated files as their readers see them.
  \<^item> \<open>Synchronizers\<close>: \<open>synchronizers.go\<close>; locale \<open>synchroniser\<close>.
  \<^item> \<open>Reconciler\<close>, \<open>EnsureObject\<close>: environment and simple handlers; locale \<open>ensured\<close> proves convergence
    and framing once for the four handlers of one shape, its extension \<open>versioned\<close> their success under
    optimistic concurrency.
  \<^item> \<open>StatefulSets\<close>: \<open>reconcileStatefulSet\<close> with resource versions, scaling, creation and upgrade.
    \<open>UpgradeMachine\<close>: the upgrade as an abstract state machine, the simulation by \<open>upgradeStatefulSet\<close>,
    the invariant of reachable states, recovery and the progress deadline. \<open>UpgradeProgress\<close>: passes of it
    in sequence; a stalled upgrade fails after ten minutes and not before.
  \<^item> \<open>Finalization\<close>: finalizers and volume claims; which claims a clean-up asks to delete.
  \<^item> \<open>ClusterReconcile\<close>, \<open>ReconcileLoop\<close>: \<open>reconcileClusterStatus\<close> and \<open>Reconcile\<close>.
  \<^item> \<open>ZkClient\<close>: \<open>zookeeper_client.go\<close> and what its \<open>CreateNode\<close> means for the status handler.
  \<^item> \<open>Leader\<close>: \<open>leader.go\<close>; what the check before the election deletes. \<open>Startup\<close>: \<open>main.go\<close> and \<open>SetupWithManager\<close>; the watched namespaces, and that
    nothing is managed without leadership.
  \<^item> \<open>GoPath\<close>, \<open>Exporter\<close>: \<open>filepath.Join\<close>; \<open>pkg/yamlexporter\<close>, the \<open>yaml\<close> functions of the controller and
    \<open>cmd/exporter\<close>, with the buffered writer and its deferred calls; which files an export writes.
  \<^item> \<open>GoHeap\<close>, \<open>DeepCopy\<close>: a store with references, locale \<open>deep_copier\<close> for what a deep copy promises and
    its composition along pairs, pointers, slices and structs; all functions of
    \<open>zz_generated.deepcopy.go\<close>.
  \<^item> \<open>E2eUtil\<close>: the helpers of the end-to-end tests (\<open>pkg/test/e2e/e2eutil\<close>), whose wait for an upgrade reads
    from the stored status what the upgrade machine did.
  \<^item> \<open>Coherence\<close> and this theory: what several components rely on together.

  \<^bold>\<open>Not modelled.\<close> The registration of the API group and its types (\<open>groupversion_info.go\<close>, the \<open>init\<close>
  functions) only fills a scheme; flags are taken as parsed; \<open>version.go\<close> and the version messages are
  only printed. The tests themselves are left out. Backslash escapes
  in the configuration files are outside the reader of \<open>ConfigText\<close>. Printed errors of the libraries are
  abstracted to one text.
\<close>

section \<open>Properties that span components\<close>

text \<open>C17. Defaulting protects the generator: once \<open>WithDefaults\<close> reports no change, which is when \<open>Reconcile\<close>
  starts its handlers, generating the StatefulSet never dereferences a nil pointer (of the probes, of
  the storage section), and the result asks for exactly the wanted number of replicas behind the
  headless service.\<close>

theorem defaulted_cluster_generates:
  assumes "\<not> snd (WithDefaults z)"
  shows "\<exists>s. MakeStatefulSet (fst (WithDefaults z)) = Some s \<and> SsReplicas (SsSpec s) = Some (Replicas (Spec z)) \<and>
    SsServiceName (SsSpec s) = MetaName (SvcMeta (MakeHeadlessService z))"
proof -
  have c: "Spec_complete (Spec z)" using assms by (simp add: WithDefaults_eq)
  have z: "fst (WithDefaults z) = z\<lparr>Spec := normal_storage (Spec z)\<rparr>"
    using Spec_keep [OF c] by (simp add: WithDefaults_eq)
  obtain p where "SpecProbes (Spec z) = Some p" "Probes_complete p" "storage_complete (Spec z)"
    using c by (auto simp: Spec_complete_def)
  then have "MakeStatefulSet (fst (WithDefaults z)) \<noteq> None"
    by (intro MakeStatefulSet_complete [of _ p]) (simp_all add: z normal_storage_keeps)
  then obtain s where s: "MakeStatefulSet (fst (WithDefaults z)) = Some s" by blast
  moreover have "Replicas (normal_storage (Spec z)) = Replicas (Spec z)" by (simp add: normal_storage_def)
  ultimately show ?thesis
    using MakeStatefulSet_parts(3,4) [OF s]
    by (simp add: z headlessSvcName_def GetName_def MakeHeadlessService_def makeService_def Let_def)
qed

theorem defaulted_cluster_generates_witness:
  "\<exists>s. MakeStatefulSet sample_cluster = Some s \<and> SsReplicas (SsSpec s) = Some 3"
  using defaulted_cluster_generates [of sample_cluster] by (auto simp: sample_quiet)

text \<open>C16. The generated objects find each other, whatever labels the user adds: the pods of the StatefulSet
  match its own selector and those of the three services and the disruption budget, and its volume
  claims match the selector by which the operator lists claims to delete. User labels cannot override
  the labels \<open>app\<close> and \<open>uid\<close> the selectors use.\<close>

theorem generated_labels_are_selected:
  assumes "MakeStatefulSet z = Some s"
  shows "list_all (\<lambda>sel. selects sel (MetaLabels (TplMeta (SsTemplate (SsSpec s)))))
      [SsSelector (SsSpec s), SvcSelector (SvcSpec (MakeClientService z)), SvcSelector (SvcSpec (MakeHeadlessService z)),
       SvcSelector (SvcSpec (MakeAdminServerService z)), PdbSelector (MakePodDisruptionBudget z)] \<and>
    list_all (\<lambda>c. selects (pvc_selector z) (MetaLabels (PvcMeta c))) (SsVolumeClaimTemplates (SsSpec s))"
proof -
  obtain vs where "data_storage z = Some (vs, SsVolumeClaimTemplates (SsSpec s))"
    using MakeStatefulSet_parts(5) [OF assms] by blast
  then have "list_all (\<lambda>c. selects (pvc_selector z) (MetaLabels (PvcMeta c))) (SsVolumeClaimTemplates (SsSpec s))"
    by (simp add: list_all_iff claim_labels)
  then show ?thesis
    using template_labels [OF assms] MakeStatefulSet_parts(2) [OF assms] by (simp add: selects_def service_selectors)
qed

theorem generated_labels_are_selected_witness:
  "let z = sample_cluster\<lparr>Spec := (Spec sample_cluster)\<lparr>Labels := Some [(''app'', ''mine''), (''uid'', ''x'')]\<rparr>\<rparr>
   in \<exists>s. MakeStatefulSet z = Some s \<and> SsVolumeClaimTemplates (SsSpec s) \<noteq> [] \<and>
        list_all (\<lambda>c. selects (pvc_selector z) (MetaLabels (PvcMeta c))) (SsVolumeClaimTemplates (SsSpec s))"
proof -
  let ?z = "sample_cluster\<lparr>Spec := (Spec sample_cluster)\<lparr>Labels := Some [(''app'', ''mine''), (''uid'', ''x'')]\<rparr>\<rparr>"
  have "MakeStatefulSet ?z \<noteq> None \<and> SsVolumeClaimTemplates (SsSpec (the (MakeStatefulSet ?z))) \<noteq> []" by code_simp
  then obtain s where s: "MakeStatefulSet ?z = Some s" "SsVolumeClaimTemplates (SsSpec s) \<noteq> []" by auto
  with generated_labels_are_selected [OF s(1)] show ?thesis by (auto simp: Let_def)
qed

text \<open>C35. Every mount the operator adds to the ZooKeeper container is backed: \<open>conf\<close> by a volume on the
  cluster's config map, \<open>data\<close> by exactly one of an extra volume (ephemeral storage) or a claim template.\<close>

theorem mounts_are_backed:
  assumes "MakeStatefulSet z = Some s" and "ps = TplSpec (SsTemplate (SsSpec s))"
  shows "\<exists>c vs. last (PsContainers ps) = c \<and> map MountName (ContainerMounts c) = map MountName (SpecVolumeMounts (Spec z)) @ [''data'', ''conf''] \<and>
    PsVolumes ps = SpecVolumes (Spec z) @ vs @ [\<lparr>VolumeName = ''conf'', VolumeSrc = ConfigMapVolume (MetaName (CmMeta (MakeConfigMap visit z)))\<rparr>] \<and>
    map VolumeName vs @ map (\<lambda>c. MetaName (PvcMeta c)) (SsVolumeClaimTemplates (SsSpec s)) = [''data'']"
proof -
  obtain vs where vs: "data_storage z = Some (vs, SsVolumeClaimTemplates (SsSpec s))" "makeZkPodSpec z vs = Some ps"
    using MakeStatefulSet_parts(5) [OF assms(1)] assms(2) by blast
  from pod_volumes [OF vs(2)] data_storage_names [OF vs(1)] show ?thesis
    by (intro exI [of _ "last (PsContainers ps)"] exI [of _ vs]) (auto simp: MakeConfigMap_def)
qed

theorem mounts_are_backed_witness:
  "\<exists>s (vs :: Volume list). MakeStatefulSet sample_cluster = Some s \<and>
     map VolumeName vs @ map (\<lambda>c. MetaName (PvcMeta c)) (SsVolumeClaimTemplates (SsSpec s)) = [''data'']"
proof -
  obtain vs :: "Volume list" where "map VolumeName vs @ map (\<lambda>c. MetaName (PvcMeta c))
      (SsVolumeClaimTemplates (SsSpec (the (MakeStatefulSet sample_cluster)))) = [''data'']"
    using mounts_are_backed [OF sample_generates refl, of "[]"] by blast
  then show ?thesis using sample_generates by blast
qed

text \<open>C36. The operator connects to the service it creates: when one port is named \<open>client\<close>, the address
  \<open>GetZkServiceUri\<close> gives to the ZooKeeper client is made of the name, the namespace and the port of the
  generated client service.\<close>

theorem service_uri_names_client_service:
  assumes "ports_of (SpecPorts (Spec z)) = ps @ p # qs" and "PortName p = ''client''"
    and "\<not> has_port ''client'' ps" and "\<not> has_port ''client'' qs"
  shows "\<exists>port. SvcPorts (SvcSpec (MakeClientService z)) = [port] \<and> GetZkServiceUri z =
    MetaName (SvcMeta (MakeClientService z)) @ ''.'' @ MetaNamespace (SvcMeta (MakeClientService z)) @ ''.svc.'' @
    GetKubernetesClusterDomain z @ '':'' @ Itoa32 (SvcPortNumber port)"
  using client_port_once [OF assms]
  by (simp add: GetZkServiceUri_def MakeClientService_def makeService_def Let_def Itoa32_def GetNamespace_def case_prod_beta)

theorem service_uri_names_client_service_witness:
  "GetZkServiceUri sample_cluster = ''zk-client.default.svc.cluster.local:2181''"
proof -
  have p: "ports_of (SpecPorts (Spec sample_cluster)) = [] @ mk_port ''client'' 2181 # tl default_ports" by code_simp
  have d: "MetaName (SvcMeta (MakeClientService sample_cluster)) = ''zk-client''"
    "MetaNamespace (SvcMeta (MakeClientService sample_cluster)) = ''default''"
    "GetKubernetesClusterDomain sample_cluster = ''cluster.local''"
    "map (\<lambda>p. Itoa32 (SvcPortNumber p)) (SvcPorts (SvcSpec (MakeClientService sample_cluster))) = [''2181'']"
    by code_simp+
  from service_uri_names_client_service [OF p] d show ?thesis
    by (auto simp: mk_port_def default_ports_def)
qed

end
